(* ===== verification/Prelude.thy ===== *)
theory Prelude
  imports Complex_Main "HOL-Library.Sublist" "HOL-Library.Code_Target_Nat"
begin

text \<open>
  Shared ground of the development: the type synonyms of the Go types the model uses, the
  functions of Go's \<open>strings\<close> package that the gateway calls, the lookup functions on association
  lists that stand for Go maps which are ranged over, and the collections of lemmas (\<open>go_strings\<close>,
  \<open>go_maps\<close>) the components add to their simplifier calls.

  A Go string is a sequence of bytes, here a \<^typ>\<open>string\<close> (a list of \<^typ>\<open>char\<close>, each a byte).
  Case folding and white space are those of the ASCII range; bytes above 127 are left alone.
  A \<open>time.Time\<close> is the number of nanoseconds since the Unix epoch, a \<open>time.Duration\<close> a number of
  nanoseconds, both of type \<^typ>\<open>int\<close>; the saturation of \<open>Time.Sub\<close> at 64 bits is written out.
\<close>

named_theorems go_strings "facts about the functions of the strings package"
named_theorems go_maps "facts about association lists that stand for Go maps"

type_synonym go_time = int
type_synonym go_duration = int

section \<open>Byte classes\<close>

definition byte_of :: "char \<Rightarrow> nat" where
  "byte_of c = of_char c"

definition isDigit :: "char \<Rightarrow> bool" where
  "isDigit c \<longleftrightarrow> 48 \<le> byte_of c \<and> byte_of c \<le> 57"

definition digitVal :: "char \<Rightarrow> nat" where
  "digitVal c = byte_of c - 48"

definition isSpace :: "char \<Rightarrow> bool" where
  "isSpace c \<longleftrightarrow> byte_of c = 32 \<or> (9 \<le> byte_of c \<and> byte_of c \<le> 13)"

definition lowerChar :: "char \<Rightarrow> char" where
  "lowerChar c = (if 65 \<le> byte_of c \<and> byte_of c \<le> 90 then char_of (byte_of c + 32) else c)"

definition upperChar :: "char \<Rightarrow> char" where
  "upperChar c = (if 97 \<le> byte_of c \<and> byte_of c \<le> 122 then char_of (byte_of c - 32) else c)"

lemma byte_of_less [simp]: "byte_of c < 256"
  by (simp add: byte_of_def)

lemma byte_of_inject [simp]: "byte_of c = byte_of d \<longleftrightarrow> c = d"
  by (simp add: byte_of_def)

lemma byte_of_char_of [simp]: "n < 256 \<Longrightarrow> byte_of (char_of n) = n"
  by (simp add: byte_of_def)

lemma char_of_byte_of [simp]: "char_of (byte_of c) = c"
  by (simp add: byte_of_def)

lemma byte_of_lowerChar:
  "byte_of (lowerChar c) = (if 65 \<le> byte_of c \<and> byte_of c \<le> 90 then byte_of c + 32 else byte_of c)"
  by (simp add: lowerChar_def)

lemma byte_of_upperChar:
  "byte_of (upperChar c) = (if 97 \<le> byte_of c \<and> byte_of c \<le> 122 then byte_of c - 32 else byte_of c)"
proof -
  have "byte_of c - 32 < 256" using byte_of_less [of c] by linarith
  then show ?thesis by (auto simp: upperChar_def)
qed

lemma lowerChar_idem [simp]: "lowerChar (lowerChar c) = lowerChar c"
  by (auto simp: lowerChar_def)

lemma digitVal_le: "isDigit c \<Longrightarrow> digitVal c \<le> 9"
  by (auto simp: isDigit_def digitVal_def)

section \<open>The strings package\<close>

definition hasPrefix :: "string \<Rightarrow> string \<Rightarrow> bool" where
  "hasPrefix s p = prefix p s"

definition hasSuffix :: "string \<Rightarrow> string \<Rightarrow> bool" where
  "hasSuffix s p = suffix p s"

definition trimPrefix :: "string \<Rightarrow> string \<Rightarrow> string" where
  "trimPrefix s p = (if hasPrefix s p then drop (length p) s else s)"

definition trimSuffix :: "string \<Rightarrow> string \<Rightarrow> string" where
  "trimSuffix s p = (if hasSuffix s p then take (length s - length p) s else s)"

definition toLower :: "string \<Rightarrow> string" where
  "toLower s = map lowerChar s"

definition equalFold :: "string \<Rightarrow> string \<Rightarrow> bool" where
  "equalFold s t \<longleftrightarrow> toLower s = toLower t"

text \<open>\<open>strings.IndexByte\<close> and \<open>strings.Index\<close>; \<open>None\<close> is the result -1.\<close>

fun indexByte :: "string \<Rightarrow> char \<Rightarrow> nat option" where
  "indexByte [] c = None"
| "indexByte (x # xs) c = (if x = c then Some 0 else map_option Suc (indexByte xs c))"

fun indexStr :: "string \<Rightarrow> string \<Rightarrow> nat option" where
  "indexStr [] p = (if p = [] then Some 0 else None)"
| "indexStr (x # xs) p =
     (if hasPrefix (x # xs) p then Some 0 else map_option Suc (indexStr xs p))"

definition lastIndexByte :: "string \<Rightarrow> char \<Rightarrow> nat option" where
  "lastIndexByte s c = map_option (\<lambda>i. length s - Suc i) (indexByte (rev s) c)"

definition containsStr :: "string \<Rightarrow> string \<Rightarrow> bool" where
  "containsStr s p \<longleftrightarrow> indexStr s p \<noteq> None"

text \<open>\<open>strings.Split\<close> with a separator of one byte, and \<open>strings.SplitN(s, sep, 2)\<close>.\<close>

fun splitByte :: "string \<Rightarrow> char \<Rightarrow> string list" where
  "splitByte [] c = [[]]"
| "splitByte (x # xs) c =
     (if x = c then [] # splitByte xs c
      else (case splitByte xs c of
              [] \<Rightarrow> [[x]]
            | w # ws \<Rightarrow> (x # w) # ws))"

definition splitN2 :: "string \<Rightarrow> char \<Rightarrow> string list" where
  "splitN2 s c = (case indexByte s c of
      None \<Rightarrow> [s]
    | Some i \<Rightarrow> [take i s, drop (Suc i) s])"

definition trimSpace :: "string \<Rightarrow> string" where
  "trimSpace s = rev (dropWhile isSpace (rev (dropWhile isSpace s)))"

definition trimRightByte :: "string \<Rightarrow> char \<Rightarrow> string" where
  "trimRightByte s c = rev (dropWhile (\<lambda>x. x = c) (rev s))"

fun joinWith :: "string \<Rightarrow> string list \<Rightarrow> string" where
  "joinWith sep [] = []"
| "joinWith sep [x] = x"
| "joinWith sep (x # y # ys) = x @ sep @ joinWith sep (y # ys)"

lemma append_middle_eq: "p @ s = a @ i @ s \<longleftrightarrow> p = a @ i"
  by (metis append.assoc append_same_eq)

lemma hasPrefix_append [simp, go_strings]: "hasPrefix (p @ s) p"
  by (simp add: hasPrefix_def)

lemma hasPrefix_iff [go_strings]: "hasPrefix s p \<longleftrightarrow> (\<exists>r. s = p @ r)"
  by (auto simp: hasPrefix_def prefix_def)

lemma hasSuffix_iff [go_strings]: "hasSuffix s p \<longleftrightarrow> (\<exists>r. s = r @ p)"
  by (auto simp: hasSuffix_def suffix_def)

lemma trimPrefix_append [simp, go_strings]: "trimPrefix (p @ s) p = s"
  by (simp add: trimPrefix_def)

lemma trimSuffix_append [simp, go_strings]: "trimSuffix (s @ p) p = s"
  by (simp add: trimSuffix_def hasSuffix_def suffix_def)

lemma toLower_idem [simp, go_strings]: "toLower (toLower s) = toLower s"
  by (simp add: toLower_def)

lemma toLower_append [simp, go_strings]: "toLower (s @ t) = toLower s @ toLower t"
  by (simp add: toLower_def)

lemma length_toLower [simp, go_strings]: "length (toLower s) = length s"
  by (simp add: toLower_def)

lemma equalFold_refl [simp, go_strings]: "equalFold s s"
  by (simp add: equalFold_def)

lemma indexByte_None_iff [go_strings]: "indexByte s c = None \<longleftrightarrow> c \<notin> set s"
  by (induction s) auto

lemma indexByte_SomeD:
  "indexByte s c = Some i \<Longrightarrow> i < length s \<and> s ! i = c \<and> c \<notin> set (take i s)"
  by (induction s arbitrary: i) (auto split: if_splits)

lemma indexByte_append_notin [go_strings]:
  "c \<notin> set s \<Longrightarrow> indexByte (s @ c # t) c = Some (length s)"
  by (induction s) auto

lemma indexStr_SomeD:
  "indexStr s p = Some i \<Longrightarrow> i \<le> length s \<and> hasPrefix (drop i s) p"
  by (induction s arbitrary: i) (auto simp: hasPrefix_def split: if_splits)

lemma containsStr_single [go_strings]: "containsStr s [c] \<longleftrightarrow> c \<in> set s"
  by (induction s) (auto simp: containsStr_def hasPrefix_def)

lemma splitByte_not_Nil [simp, go_strings]: "splitByte s c \<noteq> []"
  by (induction s) (auto split: list.splits)

lemma splitByte_notin [go_strings]: "c \<notin> set s \<Longrightarrow> splitByte s c = [s]"
  by (induction s) auto

lemma splitByte_append [go_strings]:
  "c \<notin> set s \<Longrightarrow> splitByte (s @ c # t) c = s # splitByte t c"
  by (induction s) auto

lemma splitByte_elem_notin: "w \<in> set (splitByte s c) \<Longrightarrow> c \<notin> set w"
proof (induction s arbitrary: w)
  case Nil
  then show ?case by simp
next
  case (Cons x xs)
  obtain v vs where v: "splitByte xs c = v # vs"
    by (cases "splitByte xs c") auto
  with Cons.IH have "c \<notin> set v" and "\<And>w. w \<in> set vs \<Longrightarrow> c \<notin> set w" by auto
  with Cons.prems v show ?case by (auto split: if_splits)
qed

text \<open>
  Splitting at a byte distributes over appending a piece that itself starts with the byte: what
  stands to the right of a separator is split on its own.
\<close>

lemma splitByte_append_sep [go_strings]:
  "splitByte (s @ c # t) c = splitByte s c @ splitByte t c"
proof (induction s)
  case Nil
  then show ?case by simp
next
  case (Cons x xs)
  obtain v vs where "splitByte xs c = v # vs"
    by (cases "splitByte xs c") auto
  with Cons.IH show ?case by auto
qed

lemma splitN2_notin [go_strings]: "c \<notin> set s \<Longrightarrow> splitN2 s c = [s]"
  by (simp add: splitN2_def indexByte_None_iff[THEN iffD2])

lemma splitN2_append [go_strings]: "c \<notin> set s \<Longrightarrow> splitN2 (s @ c # t) c = [s, t]"
  by (simp add: splitN2_def indexByte_append_notin)

section \<open>Maps that are ranged over: association lists with distinct keys\<close>

text \<open>
  A Go map that the code only looks up and updates is a partial function. One that is ranged over
  is an association list with distinct keys, in the order the range visits it; that order is not
  specified by Go, and the lemmas do not depend on it unless they say so.
\<close>

type_synonym ('k, 'v) gomap = "('k \<times> 'v) list"

fun map_put :: "'k \<Rightarrow> 'v \<Rightarrow> ('k, 'v) gomap \<Rightarrow> ('k, 'v) gomap" where
  "map_put k v [] = [(k, v)]"
| "map_put k v ((k', v') # m) =
     (if k' = k then (k, v) # m else (k', v') # map_put k v m)"

definition map_del :: "'k \<Rightarrow> ('k, 'v) gomap \<Rightarrow> ('k, 'v) gomap" where
  "map_del k m = filter (\<lambda>(k', v'). k' \<noteq> k) m"

definition map_ok :: "('k, 'v) gomap \<Rightarrow> bool" where
  "map_ok m \<longleftrightarrow> distinct (map fst m)"

lemma map_of_map_put [simp, go_maps]: "map_of (map_put k v m) = (map_of m)(k \<mapsto> v)"
  by (induction k v m rule: map_put.induct) auto

lemma map_of_map_del [simp, go_maps]: "map_of (map_del k m) = (map_of m)(k := None)"
  by (rule ext, induction m) (auto simp: map_del_def)

lemma map_put_fst: "map fst (map_put k v m) =
    (if k \<in> fst ` set m then map fst m else map fst m @ [k])"
  by (induction k v m rule: map_put.induct) auto

lemma map_ok_empty [simp, intro]: "map_ok []"
  by (simp add: map_ok_def)

lemma map_ok_put [simp, intro]: "map_ok m \<Longrightarrow> map_ok (map_put k v m)"
  by (auto simp: map_ok_def map_put_fst)

lemma map_ok_filter [simp, intro]: "map_ok m \<Longrightarrow> map_ok (filter P m)"
  by (auto simp: map_ok_def distinct_map intro: inj_on_subset)

lemma map_ok_del [simp, intro]: "map_ok m \<Longrightarrow> map_ok (map_del k m)"
  by (simp add: map_del_def)

lemma map_ok_lookup: "map_ok m \<Longrightarrow> (k, v) \<in> set m \<longleftrightarrow> map_of m k = Some v"
  by (auto simp: map_ok_def dest: map_of_SomeD)

lemma map_of_filter_ok:
  "map_ok m \<Longrightarrow> map_of (filter (\<lambda>(k, v). P k v) m) k =
     (case map_of m k of None \<Rightarrow> None | Some v \<Rightarrow> if P k v then Some v else None)"
proof (induction m)
  case Nil
  then show ?case by simp
next
  case (Cons a m)
  obtain k' v' where a: "a = (k', v')" by (cases a)
  from Cons.prems have ok: "map_ok m" and notin: "k' \<notin> fst ` set m"
    by (auto simp: map_ok_def a)
  from notin have "map_of m k' = None" by (simp add: map_of_eq_None_iff)
  with Cons.IH[OF ok] show ?case by (auto simp: a split: option.splits)
qed

section \<open>Time\<close>

definition max_duration :: int where "max_duration = 2 ^ 63 - 1"
definition min_duration :: int where "min_duration = - (2 ^ 63)"

text \<open>\<open>t.Sub(u)\<close>: the difference, saturated at the ends of the 64-bit range.\<close>

definition time_sub :: "go_time \<Rightarrow> go_time \<Rightarrow> go_duration" where
  "time_sub t u = max min_duration (min max_duration (t - u))"

definition nanos :: "int \<Rightarrow> go_duration" where
  "nanos secs = secs * 1000000000"

lemma time_sub_le_iff:
  "\<lbrakk>0 \<le> d; d < max_duration\<rbrakk> \<Longrightarrow> time_sub t u \<le> d \<longleftrightarrow> t - u \<le> d"
  by (auto simp: time_sub_def max_duration_def min_duration_def)

end
