(* ===== verification/Go_Net.thy ===== *)
theory Go_Net
  imports Prelude "HOL-Library.Word"
begin

text \<open>
  The functions of Go's \<open>net\<close> package the gateway relies on: \<open>ParseIP\<close>, \<open>ParseCIDR\<close>,
  \<open>IPNet.Contains\<close>, \<open>IP.Equal\<close> and \<open>SplitHostPort\<close>, with the parsers they share.

  An \<open>ip\<close> is an address in the form \<open>To4\<close> gives: an IPv4 address and the same address written as
  an IPv4-mapped IPv6 address are one value, which is how \<open>Contains\<close> and \<open>Equal\<close> treat them.
  An address with a zone is refused, as \<open>ParseIP\<close> and \<open>ParseCIDR\<close> refuse it.
\<close>

unbundle bit_operations_syntax

datatype ip = IP4 "32 word" | IP6 "128 word"

datatype ipnet = Net4 "32 word" nat | Net6 "128 word" nat

section \<open>Parsing addresses\<close>

definition isHexDigit :: "char \<Rightarrow> bool" where
  "isHexDigit c \<longleftrightarrow> isDigit c \<or> (97 \<le> byte_of c \<and> byte_of c \<le> 102)
     \<or> (65 \<le> byte_of c \<and> byte_of c \<le> 70)"

definition hexVal :: "char \<Rightarrow> nat" where
  "hexVal c = (if isDigit c then byte_of c - 48
               else if 97 \<le> byte_of c then byte_of c - 87 else byte_of c - 55)"

definition hexNum :: "string \<Rightarrow> nat" where
  "hexNum s = foldl (\<lambda>a c. 16 * a + hexVal c) 0 s"

text \<open>
  The scan of the four fields of a dotted address: \<open>v\<close> is the value of the octet being read,
  \<open>p\<close> the number of octets finished, \<open>d\<close> the number of digits of the octet so far. A dot is
  refused at the start, at the end and after another dot, which is when \<open>d\<close> is 0 or nothing follows.
\<close>

fun parseIPv4Fields :: "string \<Rightarrow> nat \<Rightarrow> nat \<Rightarrow> nat \<Rightarrow> nat list \<Rightarrow> nat list option" where
  "parseIPv4Fields [] v p d fs = (if p < 3 then None else Some (fs @ [v]))"
| "parseIPv4Fields (c # cs) v p d fs =
     (if isDigit c then
        (if d = 1 \<and> v = 0 then None
         else if v * 10 + digitVal c > 255 then None
         else parseIPv4Fields cs (v * 10 + digitVal c) p (Suc d) fs)
      else if c = CHR ''.'' then
        (if d = 0 \<or> cs = [] then None
         else if p = 3 then None
         else parseIPv4Fields cs 0 (Suc p) 0 (fs @ [v]))
      else None)"

definition parseIPv4 :: "string \<Rightarrow> nat option" where
  "parseIPv4 s = (case parseIPv4Fields s 0 0 0 [] of
      Some [a, b, c, d] \<Rightarrow> Some (((a * 256 + b) * 256 + c) * 256 + d)
    | _ \<Rightarrow> None)"

text \<open>
  The loop of the IPv6 parser reads one 16-bit group per round, at most eight. The result is the
  unread rest, the groups, and the number of groups before the ellipsis, if there was one.
\<close>

fun parseIPv6Groups ::
  "nat \<Rightarrow> string \<Rightarrow> nat list \<Rightarrow> nat option \<Rightarrow> (string \<times> nat list \<times> nat option) option" where
  "parseIPv6Groups 0 s gs e = Some (s, gs, e)"
| "parseIPv6Groups (Suc n) s gs e =
     (let ds = takeWhile isHexDigit s; r = dropWhile isHexDigit s in
      if ds = [] \<or> length ds > 4 then None
      else if r \<noteq> [] \<and> hd r = CHR ''.'' then
        (if e = None \<and> length gs \<noteq> 6 then None
         else if length gs + 2 > 8 then None
         else (case parseIPv4 s of
                 None \<Rightarrow> None
               | Some v \<Rightarrow> Some ([], gs @ [v div 65536, v mod 65536], e)))
      else (let gs' = gs @ [hexNum ds] in
        case r of
          [] \<Rightarrow> Some ([], gs', e)
        | c # r' \<Rightarrow>
            if c \<noteq> CHR '':'' then None
            else (case r' of
                [] \<Rightarrow> None
              | c2 # r2 \<Rightarrow>
                  if c2 = CHR '':'' then
                    (if e \<noteq> None then None
                     else if r2 = [] then Some ([], gs', Some (length gs'))
                     else parseIPv6Groups n r2 gs' (Some (length gs')))
                  else parseIPv6Groups n r' gs' e)))"

definition parseIPv6 :: "string \<Rightarrow> nat list option" where
  "parseIPv6 s =
     (let lead = hasPrefix s ''::''; t = (if lead then drop 2 s else s) in
      if lead \<and> t = [] then Some (replicate 8 0)
      else (case parseIPv6Groups 8 t [] (if lead then Some 0 else None) of
          None \<Rightarrow> None
        | Some (rest, gs, e) \<Rightarrow>
            if rest \<noteq> [] then None
            else if length gs < 8 then
              (case e of None \<Rightarrow> None
               | Some k \<Rightarrow> Some (take k gs @ replicate (8 - length gs) 0 @ drop k gs))
            else if e \<noteq> None then None else Some gs))"

text \<open>An address before \<open>To4\<close>: the 32-bit or the 128-bit number and the length of its bits.\<close>

datatype addr = A4 nat | A6 nat

definition groupsVal :: "nat list \<Rightarrow> nat" where
  "groupsVal gs = foldl (\<lambda>a g. 65536 * a + g) 0 gs"

definition parseAddr :: "string \<Rightarrow> addr option" where
  "parseAddr s =
     (if CHR ''%'' \<in> set s then None
      else (case find (\<lambda>c. c = CHR ''.'' \<or> c = CHR '':'') s of
          None \<Rightarrow> None
        | Some c \<Rightarrow>
            if c = CHR ''.'' then map_option A4 (parseIPv4 s)
            else map_option (\<lambda>gs. A6 (groupsVal gs)) (parseIPv6 s)))"

text \<open>The IPv4-mapped addresses are those whose upper 96 bits are \<open>0:0:0:0:0:ffff\<close>.\<close>

definition isMapped :: "nat \<Rightarrow> bool" where
  "isMapped v \<longleftrightarrow> v div 2 ^ 32 = 65535"

definition to4 :: "addr \<Rightarrow> ip" where
  "to4 a = (case a of
      A4 v \<Rightarrow> IP4 (of_nat v)
    | A6 v \<Rightarrow> if isMapped v then IP4 (of_nat (v mod 2 ^ 32)) else IP6 (of_nat v))"

definition ParseIP :: "string \<Rightarrow> ip option" where
  "ParseIP s = map_option to4 (parseAddr s)"

section \<open>Networks\<close>

definition hiMask :: "nat \<Rightarrow> 'a::len word" where
  "hiMask k = NOT (mask (LENGTH('a) - k))"

text \<open>\<open>dtoi\<close> accepts a non-empty run of digits whose value stays below \<open>0xFFFFFF\<close>.\<close>

definition decVal :: "string \<Rightarrow> nat" where
  "decVal s = foldl (\<lambda>a c. 10 * a + digitVal c) 0 s"

definition dtoi :: "string \<Rightarrow> nat option" where
  "dtoi s = (if s \<noteq> [] \<and> list_all isDigit s \<and> decVal s < 16777215 then Some (decVal s) else None)"

definition ParseCIDR :: "string \<Rightarrow> ipnet option" where
  "ParseCIDR s = (case splitN2 s (CHR ''/'') of
      [a, m] \<Rightarrow>
        (case (parseAddr a, dtoi m) of
           (Some (A4 v), Some n) \<Rightarrow>
             if n > 32 then None else Some (Net4 (of_nat v AND hiMask n) n)
         | (Some (A6 v), Some n) \<Rightarrow>
             if n > 128 then None
             else if isMapped v \<and> 96 \<le> n
             then Some (Net4 (of_nat (v mod 2 ^ 32) AND hiMask (n - 96)) (n - 96))
             else Some (Net6 (of_nat v AND hiMask n) n)
         | _ \<Rightarrow> None)
    | _ \<Rightarrow> None)"

fun netContains :: "ipnet \<Rightarrow> ip \<Rightarrow> bool" where
  "netContains (Net4 w k) (IP4 x) \<longleftrightarrow> x AND hiMask k = w AND hiMask k"
| "netContains (Net6 w k) (IP6 x) \<longleftrightarrow> x AND hiMask k = w AND hiMask k"
| "netContains _ _ \<longleftrightarrow> False"

text \<open>Membership in a network is agreement of the leading bits.\<close>

lemma and_not_mask_eq_iff:
  fixes a b :: "'a::len word"
  shows "a AND NOT (mask n) = b AND NOT (mask n) \<longleftrightarrow> drop_bit n a = drop_bit n b"
proof
  assume "a AND NOT (mask n) = b AND NOT (mask n)"
  then have "drop_bit n (a AND NOT (mask n)) = drop_bit n (b AND NOT (mask n))" by simp
  then show "drop_bit n a = drop_bit n b"
    by (auto simp: bit_eq_iff bit_simps dest: bit_imp_le_length)
next
  assume eq: "drop_bit n a = drop_bit n b"
  have "x AND NOT (mask n) = push_bit n (drop_bit n x)" for x :: "'a word"
    by (rule bit_eqI) (auto simp: bit_simps not_le)
  with eq show "a AND NOT (mask n) = b AND NOT (mask n)" by simp
qed

lemma drop_bit_eq_iff_div:
  fixes a b :: "'a::len word"
  shows "drop_bit n a = drop_bit n b \<longleftrightarrow> unat a div 2 ^ n = unat b div 2 ^ n"
  by (simp add: word_unat_eq_iff unat_drop_bit_eq drop_bit_eq_div [where 'a = nat])

lemma netContains4_iff:
  "netContains (Net4 w k) (IP4 x) \<longleftrightarrow> unat x div 2 ^ (32 - k) = unat w div 2 ^ (32 - k)"
  by (simp add: hiMask_def and_not_mask_eq_iff drop_bit_eq_iff_div)

lemma netContains6_iff:
  "netContains (Net6 w k) (IP6 x) \<longleftrightarrow> unat x div 2 ^ (128 - k) = unat w div 2 ^ (128 - k)"
  by (simp add: hiMask_def and_not_mask_eq_iff drop_bit_eq_iff_div)

section \<open>Host and port\<close>

definition SplitHostPort :: "string \<Rightarrow> (string \<times> string) option" where
  "SplitHostPort hp = (case lastIndexByte hp (CHR '':'') of
      None \<Rightarrow> None
    | Some i \<Rightarrow>
        if hp ! 0 = CHR ''['' then
          (case indexByte hp (CHR '']'') of
             None \<Rightarrow> None
           | Some e \<Rightarrow>
               if e + 1 \<noteq> i then None
               else if CHR ''['' \<in> set (drop 1 hp) \<or> CHR '']'' \<in> set (drop (e + 1) hp) then None
               else Some (drop 1 (take e hp), drop (Suc i) hp))
        else if CHR '':'' \<in> set (take i hp) \<or> CHR ''['' \<in> set hp \<or> CHR '']'' \<in> set hp then None
        else Some (take i hp, drop (Suc i) hp))"

lemma lastIndexByte_append [go_strings]:
  "c \<notin> set t \<Longrightarrow> lastIndexByte (s @ c # t) c = Some (length s)"
  by (simp add: lastIndexByte_def indexByte_append_notin)

lemma SplitHostPort_simple:
  assumes "h \<noteq> []" and "set h \<inter> {CHR '':'', CHR ''['', CHR '']''} = {}"
    and "set p \<inter> {CHR '':'', CHR ''['', CHR '']''} = {}"
  shows "SplitHostPort (h @ CHR '':'' # p) = Some (h, p)"
proof -
  from assms(1,2) have "h ! 0 \<noteq> CHR ''[''"
    by (cases h) auto
  with assms show ?thesis
    by (auto simp: SplitHostPort_def lastIndexByte_append nth_append)
qed

end
