(* ===== verification/Go_Json.thy ===== *)
theory Go_Json
  imports Go_Net
begin

text \<open>
  The part of \<open>encoding/json\<close> the gateway relies on: the grammar of JSON texts, and the rules by
  which \<open>Unmarshal\<close> fills a struct (keys compared without case, a later duplicate overwrites an
  earlier one, \<open>null\<close> leaves a field alone, any mismatch of types is an error).

  An array or object carries its source text, which is what a \<open>json.RawMessage\<close> of it holds. The
  decoder refuses values nested more than 10000 deep; its replacement of invalid UTF-8 in strings is
  not modelled.
\<close>

datatype json =
    JNull
  | JBool bool
  | JNum string
  | JStr string
  | JArr string "json list"
  | JObj string "(string \<times> json) list"

fun json_raw :: "json \<Rightarrow> string" where
  "json_raw JNull = ''null''"
| "json_raw (JBool b) = (if b then ''true'' else ''false'')"
| "json_raw (JNum l) = l"
| "json_raw (JStr s) = s"
| "json_raw (JArr r _) = r"
| "json_raw (JObj r _) = r"

section \<open>Grammar\<close>

definition isJsonSpace :: "char \<Rightarrow> bool" where
  "isJsonSpace c \<longleftrightarrow> byte_of c \<in> {9, 10, 13, 32}"

abbreviation skipws :: "string \<Rightarrow> string" where
  "skipws s \<equiv> dropWhile isJsonSpace s"

text \<open>\<open>utf8.EncodeRune\<close>, for the code points a \<open>\u\<close> escape can name.\<close>

definition utf8_encode :: "nat \<Rightarrow> string" where
  "utf8_encode r = map char_of
     (if r < 128 then [r]
      else if r < 2048 then [192 + r div 64, 128 + r mod 64]
      else if r < 65536 then [224 + r div 4096, 128 + r div 64 mod 64, 128 + r mod 64]
      else [240 + r div 262144, 128 + r div 4096 mod 64, 128 + r div 64 mod 64, 128 + r mod 64])"

definition getu4 :: "string \<Rightarrow> nat option" where
  "getu4 s = (if length s \<ge> 4 \<and> list_all isHexDigit (take 4 s)
              then Some (hexNum (take 4 s)) else None)"

definition simpleEscape :: "char \<Rightarrow> char option" where
  "simpleEscape e = map_of
     [(char_of (34::nat), char_of (34::nat)), (char_of (92::nat), char_of (92::nat)),
      (CHR ''/'', CHR ''/''), (CHR ''b'', char_of (8::nat)), (CHR ''f'', char_of (12::nat)),
      (CHR ''n'', char_of (10::nat)), (CHR ''r'', char_of (13::nat)), (CHR ''t'', char_of (9::nat))] e"

text \<open>
  The text of a string after its opening quote: the decoded bytes and what follows the closing
  quote. A surrogate that has no partner becomes the replacement character.
\<close>

fun jstring :: "nat \<Rightarrow> string \<Rightarrow> (string \<times> string) option" where
  "jstring 0 s = None"
| "jstring (Suc n) s = (case s of
     [] \<Rightarrow> None
   | c # cs \<Rightarrow>
     if byte_of c = 34 then Some ([], cs)
      else if byte_of c < 32 then None
      else if byte_of c = 92 then
        (case cs of
           [] \<Rightarrow> None
         | e # r \<Rightarrow>
             if e = CHR ''u'' then
               (case getu4 r of
                  None \<Rightarrow> None
                | Some u \<Rightarrow>
                    if 55296 \<le> u \<and> u < 57344 then
                      (case (if u < 56320 \<and> hasPrefix (drop 4 r) [char_of (92::nat), CHR ''u'']
                             then getu4 (drop 6 r) else None) of
                         Some l \<Rightarrow>
                           if 56320 \<le> l \<and> l < 57344
                           then map_option (apfst ((@) (utf8_encode
                                  (65536 + (u - 55296) * 1024 + (l - 56320)))))
                                  (jstring n (drop 10 r))
                           else map_option (apfst ((@) (utf8_encode 65533))) (jstring n (drop 4 r))
                       | None \<Rightarrow>
                           map_option (apfst ((@) (utf8_encode 65533))) (jstring n (drop 4 r)))
                    else map_option (apfst ((@) (utf8_encode u))) (jstring n (drop 4 r)))
             else (case simpleEscape e of
                     None \<Rightarrow> None
                   | Some d \<Rightarrow> map_option (apfst (Cons d)) (jstring n r)))
      else map_option (apfst (Cons c)) (jstring n cs))"

text \<open>A number literal and what follows it.\<close>

definition jnumber :: "string \<Rightarrow> (string \<times> string) option" where
  "jnumber s =
     (let s1 = (if hasPrefix s ''-'' then drop 1 s else s);
          ds = takeWhile isDigit s1;
          i = (if ds \<noteq> [] \<and> hd ds = CHR ''0'' then take 1 ds else ds);
          s2 = drop (length i) s1;
          fr = (if hasPrefix s2 ''.'' then takeWhile isDigit (drop 1 s2) else []);
          s3 = (if hasPrefix s2 ''.'' then drop (Suc (length fr)) s2 else s2);
          isE = hasPrefix s3 ''e'' \<or> hasPrefix s3 ''E'';
          s4 = (if isE then drop 1 s3 else s3);
          s5 = (if isE \<and> (hasPrefix s4 ''+'' \<or> hasPrefix s4 ''-'') then drop 1 s4 else s4);
          ex = (if isE then takeWhile isDigit s5 else []);
          rest = (if isE then drop (length ex) s5 else s3)
      in if i = [] \<or> (hasPrefix s2 ''.'' \<and> fr = []) \<or> (isE \<and> ex = []) then None
         else Some (take (length s - length rest) s, rest))"

text \<open>
  Values, the elements of an array after \<open>[\<close>, and the members of an object after \<open>{\<close>, with fuel.
  Every second call consumes a byte, so twice the length of the text is enough.
\<close>

fun jval :: "nat \<Rightarrow> string \<Rightarrow> (json \<times> string) option"
  and jelems :: "nat \<Rightarrow> string \<Rightarrow> (json list \<times> string) option"
  and jmembers :: "nat \<Rightarrow> string \<Rightarrow> ((string \<times> json) list \<times> string) option" where
  "jval 0 s = None"
| "jval (Suc n) s =
     (case skipws s of
        [] \<Rightarrow> None
      | c # r \<Rightarrow>
          if c = CHR ''{'' then
            (if hasPrefix (skipws r) ''}''
             then Some (JObj (take (length (c # r) - length (drop 1 (skipws r))) (c # r)) [],
                        drop 1 (skipws r))
             else (case jmembers n r of
                 None \<Rightarrow> None
               | Some (ms, t) \<Rightarrow> Some (JObj (take (length (c # r) - length t) (c # r)) ms, t)))
          else if c = CHR ''['' then
            (if hasPrefix (skipws r) '']''
             then Some (JArr (take (length (c # r) - length (drop 1 (skipws r))) (c # r)) [],
                        drop 1 (skipws r))
             else (case jelems n r of
                 None \<Rightarrow> None
               | Some (vs, t) \<Rightarrow> Some (JArr (take (length (c # r) - length t) (c # r)) vs, t)))
          else if byte_of c = 34 then
            map_option (apfst JStr) (jstring (Suc (length r)) r)
          else if hasPrefix (c # r) ''null'' then Some (JNull, drop 4 (c # r))
          else if hasPrefix (c # r) ''true'' then Some (JBool True, drop 4 (c # r))
          else if hasPrefix (c # r) ''false'' then Some (JBool False, drop 5 (c # r))
          else map_option (apfst JNum) (jnumber (c # r)))"
| "jelems 0 s = None"
| "jelems (Suc n) s =
     (case jval n s of
        None \<Rightarrow> None
      | Some (v, t) \<Rightarrow>
          (case skipws t of
             [] \<Rightarrow> None
           | c # r \<Rightarrow>
               if c = CHR '','' then map_option (apfst (Cons v)) (jelems n r)
               else if c = CHR '']'' then Some ([v], r) else None))"
| "jmembers 0 s = None"
| "jmembers (Suc n) s =
     (case skipws s of
        [] \<Rightarrow> None
      | q # k \<Rightarrow>
          if byte_of q \<noteq> 34 then None
          else (case jstring (Suc (length k)) k of
              None \<Rightarrow> None
            | Some (key, t1) \<Rightarrow>
                (case skipws t1 of
                   [] \<Rightarrow> None
                 | c1 # r1 \<Rightarrow>
                     if c1 \<noteq> CHR '':'' then None
                     else (case jval n r1 of
                         None \<Rightarrow> None
                       | Some (v, t) \<Rightarrow>
                           (case skipws t of
                              [] \<Rightarrow> None
                            | c # r \<Rightarrow>
                                if c = CHR '','' then map_option (apfst (Cons (key, v))) (jmembers n r)
                                else if c = CHR ''}'' then Some ([(key, v)], r) else None)))))"

fun jsonDepth :: "json \<Rightarrow> nat" where
  "jsonDepth (JArr _ vs) = Suc (foldr max (map jsonDepth vs) 0)"
| "jsonDepth (JObj _ ms) = Suc (foldr max (map (\<lambda>m. jsonDepth (snd m)) ms) 0)"
| "jsonDepth _ = 0"

definition json_parse :: "string \<Rightarrow> json option" where
  "json_parse s = (case jval (2 * length s + 2) s of
      Some (v, r) \<Rightarrow> if skipws r = [] \<and> jsonDepth v \<le> 10000 then Some v else None
    | None \<Rightarrow> None)"

section \<open>Unmarshalling into structs\<close>

text \<open>
  Keys are compared by \<open>foldName\<close>. The fields of the structs have ASCII names; besides the case of
  letters, the long s (bytes C5 BF) folds to s and the Kelvin sign (bytes E2 84 AA) to k.
\<close>

fun foldName :: "string \<Rightarrow> string" where
  "foldName (a # b # c # r) =
     (if byte_of a = 226 \<and> byte_of b = 132 \<and> byte_of c = 170 then CHR ''k'' # foldName r
      else if byte_of a = 197 \<and> byte_of b = 191 then CHR ''s'' # foldName (c # r)
      else lowerChar a # foldName (b # c # r))"
| "foldName [a, b] =
     (if byte_of a = 197 \<and> byte_of b = 191 then ''s'' else [lowerChar a, lowerChar b])"
| "foldName s = map lowerChar s"

text \<open>
  Unmarshalling into a struct accepts an object, and \<open>null\<close>, which leaves the struct as it is. The
  values given to a field are those of all members whose key folds to the field's name, in order.
\<close>

fun structFields :: "json \<Rightarrow> (string \<times> json) list option" where
  "structFields (JObj _ ms) = Some ms"
| "structFields JNull = Some []"
| "structFields _ = None"

definition fieldVals :: "string \<Rightarrow> (string \<times> json) list \<Rightarrow> json list" where
  "fieldVals name ms = map snd (filter (\<lambda>(k, v). foldName k = foldName name) ms)"

fun setString :: "string \<Rightarrow> json list \<Rightarrow> string option" where
  "setString old [] = Some old"
| "setString old (JStr s # vs) = setString s vs"
| "setString old (JNull # vs) = setString old vs"
| "setString old (_ # vs) = None"

fun setBool :: "bool \<Rightarrow> json list \<Rightarrow> bool option" where
  "setBool old [] = Some old"
| "setBool old (JBool b # vs) = setBool b vs"
| "setBool old (JNull # vs) = setBool old vs"
| "setBool old (_ # vs) = None"

text \<open>
  The value of a number literal, and whether \<open>strconv.ParseFloat\<close> accepts it: the value must round
  to a finite 64-bit float. Decoding into an \<open>interface{}\<close> converts every number in the value.
\<close>

definition numVal :: "string \<Rightarrow> rat" where
  "numVal l =
     (let neg = hasPrefix l ''-''; u = toLower (if neg then drop 1 l else l);
          me = splitN2 u (CHR ''e'');
          fr = splitN2 (hd me) (CHR ''.'');
          frac = (if length fr = 2 then fr ! 1 else []);
          m = of_nat (decVal (hd fr @ frac)) / 10 ^ length frac;
          e = (if length me = 2 then me ! 1 else ''0'');
          v = (if hasPrefix e ''-'' then m / 10 ^ decVal (drop 1 e)
               else m * 10 ^ decVal (trimPrefix e ''+''))
      in if neg then - v else v)"

definition numFinite :: "string \<Rightarrow> bool" where
  "numFinite l \<longleftrightarrow> \<bar>numVal l\<bar> < 2 ^ 1024 - 2 ^ 970"

fun ifaceOK :: "json \<Rightarrow> bool" where
  "ifaceOK (JNum l) = numFinite l"
| "ifaceOK (JArr _ vs) = list_all ifaceOK vs"
| "ifaceOK (JObj _ ms) = list_all (\<lambda>m. ifaceOK (snd m)) ms"
| "ifaceOK _ = True"

text \<open>\<open>strconv.ParseInt\<close> on a number literal, for a field of type \<open>int\<close>.\<close>

definition litInt :: "string \<Rightarrow> int option" where
  "litInt l =
     (let neg = hasPrefix l ''-''; d = (if neg then drop 1 l else l);
          v = (if neg then - int (decVal d) else int (decVal d))
      in if list_all isDigit d \<and> - (2 ^ 63) \<le> v \<and> v < 2 ^ 63 then Some v else None)"

fun setInt :: "int \<Rightarrow> json list \<Rightarrow> int option" where
  "setInt old [] = Some old"
| "setInt old (JNum l # vs) = (case litInt l of None \<Rightarrow> None | Some i \<Rightarrow> setInt i vs)"
| "setInt old (JNull # vs) = setInt old vs"
| "setInt old (_ # vs) = None"

text \<open>A field of type \<open>json.RawMessage\<close> or \<open>interface{}\<close> takes any value; the last one stays.\<close>

definition setRaw :: "json list \<Rightarrow> json option" where
  "setRaw vs = (if vs = [] then None else Some (last vs))"

definition stringField :: "string \<Rightarrow> json \<Rightarrow> string option" where
  "stringField name v = (case structFields v of
      None \<Rightarrow> None
    | Some ms \<Rightarrow> setString [] (fieldVals name ms))"

definition rawField :: "string \<Rightarrow> json \<Rightarrow> json option" where
  "rawField name v = (case structFields v of
      None \<Rightarrow> None
    | Some ms \<Rightarrow> setRaw (fieldVals name ms))"

end
