(* ===== verification/I18n.thy ===== *)
theory I18n
  imports Go_Json "HOL-Library.Char_ord" "HOL-Library.List_Lexorder"
begin

text \<open>
  Translations (\<open>internal/i18n/i18n.go\<close>): the bundle of embedded locale files, the choice of a
  language from an \<open>Accept-Language\<close> header, and the lookup of a key with its two fallbacks.

  The embedded file system is an argument of \<open>NewBundle\<close>: the entries of the directory with what
  reading each gives. \<open>strconv.ParseFloat\<close>, which reads the quality of a language, is an argument
  of the language choice; the comparison of qualities is on rational numbers.
\<close>

record lang_bundle =
  trans_tables :: "(string, (string, string) gomap) gomap"
  defaultLang :: string

record localizer =
  lc_lang :: string
  lc_bundle :: lang_bundle

record dir_entry =
  de_name :: string
  de_dir :: bool
  de_data :: "string option"

text \<open>\<open>json.Unmarshal\<close> into a \<open>map[string]string\<close>: every member must be a string or null.\<close>

fun toStringMap :: "(string \<times> json) list \<Rightarrow> (string, string) gomap \<Rightarrow> (string, string) gomap option" where
  "toStringMap [] m = Some m"
| "toStringMap ((k, JStr s) # r) m = toStringMap r (map_put k s m)"
| "toStringMap ((k, JNull) # r) m = toStringMap r (map_put k [] m)"
| "toStringMap (_ # r) m = None"

definition unmarshalStringMap :: "string \<Rightarrow> (string, string) gomap option" where
  "unmarshalStringMap data = (case json_parse data of
      None \<Rightarrow> None
    | Some v \<Rightarrow> (case structFields v of None \<Rightarrow> None | Some ms \<Rightarrow> toStringMap ms []))"

text \<open>The errors of \<open>NewBundle\<close>, with the language each is about.\<close>

datatype bundle_error = ReadDirFailed | ReadLocaleFailed string | ParseLocaleFailed string
  | DefaultNotFound string

fun loadEntries ::
  "dir_entry list \<Rightarrow> (string, (string, string) gomap) gomap
     \<Rightarrow> bundle_error + (string, (string, string) gomap) gomap" where
  "loadEntries [] tr = Inr tr"
| "loadEntries (e # es) tr =
     (if de_dir e \<or> \<not> hasSuffix (de_name e) ''.json'' then loadEntries es tr
      else (let lang = trimSuffix (de_name e) ''.json'' in
        (case de_data e of
           None \<Rightarrow> Inl (ReadLocaleFailed lang)
         | Some d \<Rightarrow> (case unmarshalStringMap d of
               None \<Rightarrow> Inl (ParseLocaleFailed lang)
             | Some ms \<Rightarrow> loadEntries es (map_put lang ms tr)))))"

definition NewBundle :: "dir_entry list option \<Rightarrow> string \<Rightarrow> bundle_error + lang_bundle" where
  "NewBundle dir dflt = (case dir of
      None \<Rightarrow> Inl ReadDirFailed
    | Some es \<Rightarrow> (case loadEntries es [] of
        Inl e \<Rightarrow> Inl e
      | Inr tr \<Rightarrow>
          if map_of tr dflt = None then Inl (DefaultNotFound dflt)
          else Inr \<lparr>trans_tables = tr, defaultLang = dflt\<rparr>))"

section \<open>Choice of the language\<close>

record lang_q =
  lq_lang :: string
  lq_q :: rat

text \<open>One element of the header: \<open>None\<close> when it is blank, else the tag with its quality.\<close>

definition parseLangPart :: "(string \<Rightarrow> rat option) \<Rightarrow> string \<Rightarrow> lang_q option" where
  "parseLangPart parseFloat part =
     (let p = trimSpace part in
      if p = [] then None
      else (let fields = splitN2 p (CHR '';'');
                tag = trimSpace (hd fields);
                q = (if length fields = 2 then
                       (let qPart = trimSpace (fields ! 1) in
                        if hasPrefix qPart ''q='' then
                          (case parseFloat (drop 2 qPart) of Some x \<Rightarrow> x | None \<Rightarrow> 1)
                        else 1)
                     else 1)
            in Some \<lparr>lq_lang = tag, lq_q = q\<rparr>))"

fun pickLang :: "lang_bundle \<Rightarrow> lang_q list \<Rightarrow> string option" where
  "pickLang b [] = None"
| "pickLang b (c # cs) =
     (if map_of (trans_tables b) (lq_lang c) \<noteq> None then Some (lq_lang c)
      else (let base = hd (splitN2 (lq_lang c) (CHR ''-'')) in
        if map_of (trans_tables b) base \<noteq> None then Some base else pickLang b cs))"

text \<open>\<open>sort.SliceStable\<close> on the qualities, descending, is a stable sort by the negated quality.\<close>

definition matchLanguage :: "(string \<Rightarrow> rat option) \<Rightarrow> lang_bundle \<Rightarrow> string \<Rightarrow> string" where
  "matchLanguage parseFloat b acceptLanguage =
     (if acceptLanguage = [] then defaultLang b
      else (let cands = List.map_filter (parseLangPart parseFloat) (splitByte acceptLanguage (CHR '',''));
                sorted = sort_key (\<lambda>c. - lq_q c) cands
            in (case pickLang b sorted of Some l \<Rightarrow> l | None \<Rightarrow> defaultLang b)))"

definition NewLocalizer :: "(string \<Rightarrow> rat option) \<Rightarrow> lang_bundle \<Rightarrow> string \<Rightarrow> localizer" where
  "NewLocalizer parseFloat b acceptLanguage =
     \<lparr>lc_lang = matchLanguage parseFloat b acceptLanguage, lc_bundle = b\<rparr>"

definition loc_T :: "localizer \<Rightarrow> string \<Rightarrow> string" where
  "loc_T l key =
     (let b = lc_bundle l;
          look = (\<lambda>lang. case map_of (trans_tables b) lang of
                    None \<Rightarrow> None | Some ms \<Rightarrow> map_of ms key)
      in (case look (lc_lang l) of
            Some v \<Rightarrow> v
          | None \<Rightarrow>
              if lc_lang l \<noteq> defaultLang b
              then (case look (defaultLang b) of Some v \<Rightarrow> v | None \<Rightarrow> key)
              else key))"

definition bundle_ok :: "lang_bundle \<Rightarrow> bool" where
  "bundle_ok b \<longleftrightarrow> map_ok (trans_tables b) \<and> map_of (trans_tables b) (defaultLang b) \<noteq> None"

lemma loadEntries_ok: "loadEntries es tr = Inr tr' \<Longrightarrow> map_ok tr \<Longrightarrow> map_ok tr'"
  by (induction es tr rule: loadEntries.induct)
    (auto simp: Let_def split: if_splits option.splits)

lemma NewBundle_ok: "NewBundle dir dflt = Inr b \<Longrightarrow> bundle_ok b \<and> defaultLang b = dflt"
  by (auto simp: NewBundle_def bundle_ok_def split: option.splits sum.splits if_splits
      dest!: loadEntries_ok)

lemma pickLang_loaded: "pickLang b cs = Some l \<Longrightarrow> map_of (trans_tables b) l \<noteq> None"
  by (induction b cs rule: pickLang.induct) (auto simp: Let_def split: if_splits)

lemma matchLanguage_loaded:
  "bundle_ok b \<Longrightarrow> map_of (trans_tables b) (matchLanguage pf b al) \<noteq> None"
  by (auto simp: matchLanguage_def bundle_ok_def Let_def dest: pickLang_loaded split: option.splits)

section \<open>The keys (keys.go)\<close>

definition toolDescKeys :: "string list" where
  "toolDescKeys = [
    ''tool.list_agents.desc'', ''tool.health_check.desc'', ''tool.get_blocked_requests.desc'',
     ''tool.get_agent_card.desc'', ''tool.get_aggregated_card.desc'', ''tool.get_rate_limit_status.desc'',
     ''tool.update_rate_limit.desc'', ''tool.register_agent.desc'', ''tool.deregister_agent.desc'',
     ''tool.send_test_message.desc'', ''tool.list_policies.desc'', ''tool.evaluate_policy.desc'',
     ''tool.list_pending_changes.desc'', ''tool.approve_card_change.desc'', ''tool.reject_card_change.desc'']"

definition paramDescKeys :: "string list" where
  "paramDescKeys = [
    ''param.since.desc'', ''param.limit.desc'', ''param.agent_name.desc'', ''param.per_minute.desc'',
     ''param.name.desc'', ''param.url.desc'', ''param.default.desc'', ''param.text.desc'',
     ''param.agent.desc'', ''param.method.desc'', ''param.user.desc'', ''param.ip.desc'',
     ''param.agent_name_card.desc'']"

definition resourceKeys :: "string list" where
  "resourceKeys = [
    ''res.config.name'', ''res.config.desc'', ''res.metrics.name'', ''res.metrics.desc'',
     ''res.agent_detail.name'', ''res.agent_detail.desc'', ''res.security.name'', ''res.security.desc'']"

definition mcpErrorKeys :: "string list" where
  "mcpErrorKeys = [
    ''err.method_not_allowed'', ''err.unauthorized_invalid_token'', ''err.parse_error'',
     ''err.session_required'', ''err.session_not_found'', ''err.invalid_params'', ''err.method_not_found'',
     ''err.unknown_tool'', ''err.internal_error'', ''err.write_token_not_configured'',
     ''err.write_token_required'', ''err.agent_name_required'', ''err.name_required'', ''err.url_required'',
     ''err.text_required'', ''err.per_minute_positive'', ''err.invalid_since_timestamp'',
     ''err.parsing_arguments'', ''err.unknown_resource_uri'', ''err.agent_name_required_in_uri'']"

definition sentinelErrorKeys :: "string list" where
  "sentinelErrorKeys = [
    ''sentinel.auth_required.msg'', ''sentinel.auth_required.hint'', ''sentinel.auth_invalid.msg'',
     ''sentinel.auth_invalid.hint'', ''sentinel.forbidden.msg'', ''sentinel.forbidden.hint'',
     ''sentinel.rate_limited.msg'', ''sentinel.rate_limited.hint'', ''sentinel.agent_unavailable.msg'',
     ''sentinel.agent_unavailable.hint'', ''sentinel.stream_limit.msg'', ''sentinel.stream_limit.hint'',
     ''sentinel.replay.msg'', ''sentinel.replay.hint'', ''sentinel.ssrf.msg'', ''sentinel.ssrf.hint'',
     ''sentinel.invalid_request.msg'', ''sentinel.invalid_request.hint'', ''sentinel.no_route.msg'',
     ''sentinel.no_route.hint'', ''sentinel.global_limit.msg'', ''sentinel.global_limit.hint'']"

definition healthKeys :: "string list" where
  "healthKeys = [
    ''health.ok'', ''health.ready'', ''health.not_ready'']"

definition auditValueKeys :: "string list" where
  "auditValueKeys = [
    ''audit.allowed'', ''audit.blocked'']"

text \<open>The languages with a table, sorted by the bytes of their codes.\<close>

definition Languages :: "lang_bundle \<Rightarrow> string list" where
  "Languages b = sort (map fst (trans_tables b))"

definition Lang :: "localizer \<Rightarrow> string" where
  "Lang l = lc_lang l"

lemma keys_distinct: "distinct (toolDescKeys @ paramDescKeys @ resourceKeys @ mcpErrorKeys @ sentinelErrorKeys
    @ healthKeys @ auditValueKeys)"
  by code_simp

lemma Languages_sorted: "sorted (Languages b) \<and> set (Languages b) = fst ` set (trans_tables b)"
  by (simp add: Languages_def)

end
