(* ===== verification/Sentinel_Errors.thy ===== *)
theory Sentinel_Errors
  imports I18n
begin

text \<open>
  The errors of the gateway (\<open>internal/errors\<close>): the predefined values with their HTTP status,
  their localized copies, their text, and their form as a JSON-RPC error. A request id of any JSON
  value (\<open>interface{}\<close>) is a \<^typ>\<open>json option\<close>, \<open>None\<close> for a nil one.
\<close>

record sentinel_error =
  se_code :: int
  se_message :: string
  se_hint :: string
  se_docs :: string
  se_msgKey :: string
  se_hintKey :: string

definition Localize :: "sentinel_error \<Rightarrow> localizer option \<Rightarrow> sentinel_error" where
  "Localize e l = (case l of
      None \<Rightarrow> e
    | Some loc \<Rightarrow> \<lparr>se_code = se_code e, se_message = loc_T loc (se_msgKey e),
                    se_hint = loc_T loc (se_hintKey e), se_docs = se_docs e,
                    se_msgKey = se_msgKey e, se_hintKey = se_hintKey e\<rparr>)"

fun natDigits :: "nat \<Rightarrow> nat list" where
  "natDigits n = (if n < 10 then [n] else natDigits (n div 10) @ [n mod 10])"

declare natDigits.simps [simp del]

definition showNat :: "nat \<Rightarrow> string" where
  "showNat n = map (\<lambda>d. char_of (48 + d)) (natDigits n)"

definition showInt :: "int \<Rightarrow> string" where
  "showInt i = (if i < 0 then CHR ''-'' # showNat (nat (- i)) else showNat (nat i))"

definition errorString :: "sentinel_error \<Rightarrow> string" where
  "errorString e = (if se_hint e \<noteq> []
     then ''['' @ showInt (se_code e) @ ''] '' @ se_message e @ '' (hint: '' @ se_hint e @ '')''
     else ''['' @ showInt (se_code e) @ ''] '' @ se_message e)"

definition predefined :: "int \<Rightarrow> string \<Rightarrow> string \<Rightarrow> string \<Rightarrow> string \<Rightarrow> sentinel_error" where
  "predefined code msg hint docs key = \<lparr>se_code = code, se_message = msg, se_hint = hint,
     se_docs = ''https://a2a-sentinel.dev/docs/'' @ docs,
     se_msgKey = ''sentinel.'' @ key @ ''.msg'', se_hintKey = ''sentinel.'' @ key @ ''.hint''\<rparr>"

definition ErrAuthRequired :: sentinel_error where
  "ErrAuthRequired = predefined 401 ''Authentication required''
     (''Set Authorization header: '' @ [char_of (39::nat)] @ ''Bearer <token>'' @ [char_of (39::nat)])
     ''auth'' ''auth_required''"

definition ErrAuthInvalid :: sentinel_error where
  "ErrAuthInvalid = predefined 401 ''Invalid authentication token''
     ''Check token expiry and issuer'' ''auth'' ''auth_invalid''"

definition ErrForbidden :: sentinel_error where
  "ErrForbidden = predefined 403 ''Access denied''
     ''Check agent permissions and scope configuration'' ''security'' ''forbidden''"

definition ErrRateLimited :: sentinel_error where
  "ErrRateLimited = predefined 429 ''Rate limit exceeded''
     ''Wait before retrying. Configure security.rate_limit in sentinel.yaml''
     ''rate-limit'' ''rate_limited''"

definition ErrAgentUnavailable :: sentinel_error where
  "ErrAgentUnavailable = predefined 503 ''Target agent unavailable''
     ''Check agent health with GET /readyz'' ''agents'' ''agent_unavailable''"

definition ErrStreamLimitExceeded :: sentinel_error where
  "ErrStreamLimitExceeded = predefined 429 ''Too many concurrent streams''
     ''Max streams per agent reached. Configure agents[].max_streams'' ''streaming'' ''stream_limit''"

definition ErrReplayDetected :: sentinel_error where
  "ErrReplayDetected = predefined 429 ''Replay attack detected''
     ''Request ID already seen within replay window. Use unique IDs for each request.''
     ''replay-protection'' ''replay''"

definition ErrSSRFBlocked :: sentinel_error where
  "ErrSSRFBlocked = predefined 403 ''Push notification URL blocked''
     ''URL resolves to private network. Use public URLs or configure security.push.allowed_domains''
     ''ssrf'' ''ssrf''"

definition ErrInvalidRequest :: sentinel_error where
  "ErrInvalidRequest = predefined 400 ''Invalid request format''
     ''Check A2A protocol specification for correct message format'' ''protocol'' ''invalid_request''"

definition ErrNoRoute :: sentinel_error where
  "ErrNoRoute = predefined 404 ''No matching agent found''
     ''Check routing path or set a default agent'' ''routing'' ''no_route''"

definition ErrGlobalLimitReached :: sentinel_error where
  "ErrGlobalLimitReached = predefined 503 ''Gateway capacity reached''
     ''Gateway is at maximum connections. Try again shortly'' ''limits'' ''global_limit''"

lemmas predefined_errors = ErrAuthRequired_def ErrAuthInvalid_def ErrForbidden_def
  ErrRateLimited_def ErrAgentUnavailable_def ErrStreamLimitExceeded_def ErrReplayDetected_def
  ErrSSRFBlocked_def ErrInvalidRequest_def ErrNoRoute_def ErrGlobalLimitReached_def predefined_def

text \<open>The value an error literal of the middlewares has: no translation keys.\<close>

definition plainError :: "int \<Rightarrow> string \<Rightarrow> string \<Rightarrow> string \<Rightarrow> sentinel_error" where
  "plainError code msg hint docs = \<lparr>se_code = code, se_message = msg, se_hint = hint,
     se_docs = docs, se_msgKey = [], se_hintKey = []\<rparr>"

section \<open>JSON-RPC form\<close>

record jsonrpc_error_obj =
  jeo_code :: int
  jeo_message :: string
  jeo_data :: "sentinel_error option"

record jsonrpc_error =
  je_jsonrpc :: string
  je_id :: "json option"
  je_error :: jsonrpc_error_obj

definition httpToJSONRPCCode :: "int \<Rightarrow> int" where
  "httpToJSONRPCCode c =
     (if c \<in> {400, 401, 403, 429} then - 32600
      else if c = 404 then - 32601
      else if c \<in> {502, 503} then - 32603
      else - 32603)"

definition ToJSONRPCError :: "sentinel_error \<Rightarrow> json option \<Rightarrow> jsonrpc_error" where
  "ToJSONRPCError e rid = \<lparr>je_jsonrpc = ''2.0'', je_id = rid,
     je_error = \<lparr>jeo_code = httpToJSONRPCCode (se_code e), jeo_message = se_message e,
                  jeo_data = Some e\<rparr>\<rparr>"

lemma Localize_code [simp]: "se_code (Localize e l) = se_code e"
  by (simp add: Localize_def split: option.splits)

lemma Localize_docs [simp]: "se_docs (Localize e l) = se_docs e"
  by (simp add: Localize_def split: option.splits)

lemma predefined_codes [simp]:
  "se_code ErrAuthRequired = 401" "se_code ErrAuthInvalid = 401" "se_code ErrForbidden = 403"
  "se_code ErrRateLimited = 429" "se_code ErrAgentUnavailable = 503"
  "se_code ErrStreamLimitExceeded = 429" "se_code ErrReplayDetected = 429"
  "se_code ErrSSRFBlocked = 403" "se_code ErrInvalidRequest = 400" "se_code ErrNoRoute = 404"
  "se_code ErrGlobalLimitReached = 503"
  by (simp_all add: predefined_errors)

lemma natDigits_ne: "natDigits n \<noteq> []"
  by (subst natDigits.simps) simp

lemma predefined_keys:
  "\<forall>e\<in>{ErrAuthRequired, ErrAuthInvalid, ErrForbidden, ErrRateLimited, ErrAgentUnavailable, ErrStreamLimitExceeded,
       ErrReplayDetected, ErrSSRFBlocked, ErrInvalidRequest, ErrNoRoute, ErrGlobalLimitReached}.
     se_msgKey e \<in> set sentinelErrorKeys \<and> se_hintKey e \<in> set sentinelErrorKeys"
  by code_simp

end
