(* ===== verification/Http_Model.thy ===== *)
theory Http_Model
  imports Sentinel_Errors
begin

text \<open>
  HTTP as the gateway sees it: headers of \<open>net/http\<close>, requests with the values the pipeline stores
  in their context (\<open>internal/ctxkeys/keys.go\<close>), responses, and handlers.

  A handler takes the request, the headers already set on the response writer and the state of the
  components, and returns the response with the state after it. Writing an error is
  \<open>WriteHTTPError\<close> of \<open>internal/errors/http.go\<close>.
\<close>

section \<open>Headers\<close>

type_synonym header = "(string, string list) gomap"

definition isTokenByte :: "char \<Rightarrow> bool" where
  "isTokenByte c \<longleftrightarrow> isDigit c \<or> (65 \<le> byte_of c \<and> byte_of c \<le> 90)
     \<or> (97 \<le> byte_of c \<and> byte_of c \<le> 122)
     \<or> byte_of c \<in> {33, 35, 36, 37, 38, 39, 42, 43, 45, 46, 94, 95, 96, 124, 126}"

fun canonWalk :: "bool \<Rightarrow> string \<Rightarrow> string" where
  "canonWalk up [] = []"
| "canonWalk up (c # cs) =
     (if up then upperChar c else lowerChar c) # canonWalk (c = CHR ''-'') cs"

definition canonicalKey :: "string \<Rightarrow> string" where
  "canonicalKey k = (if list_all isTokenByte k then canonWalk True k else k)"

definition header_get :: "header \<Rightarrow> string \<Rightarrow> string" where
  "header_get h k = (case map_of h (canonicalKey k) of Some (v # vs) \<Rightarrow> v | _ \<Rightarrow> [])"

definition header_set :: "header \<Rightarrow> string \<Rightarrow> string \<Rightarrow> header" where
  "header_set h k v = map_put (canonicalKey k) [v] h"

definition header_add :: "header \<Rightarrow> string \<Rightarrow> string \<Rightarrow> header" where
  "header_add h k v = map_put (canonicalKey k)
     ((case map_of h (canonicalKey k) of None \<Rightarrow> [] | Some vs \<Rightarrow> vs) @ [v]) h"

definition header_del :: "header \<Rightarrow> string \<Rightarrow> header" where
  "header_del h k = map_del (canonicalKey k) h"

lemma header_get_set: "header_get (header_set h k v) k' =
    (if canonicalKey k' = canonicalKey k then v else header_get h k')"
  by (simp add: header_get_def header_set_def)

lemma header_ok_ops [simp, intro]:
  "map_ok h \<Longrightarrow> map_ok (header_set h k v)" "map_ok h \<Longrightarrow> map_ok (header_add h k v)"
  "map_ok h \<Longrightarrow> map_ok (header_del h k)"
  by (auto simp: header_set_def header_add_def header_del_def)

lemma lowerChar_token [simp]: "isTokenByte (lowerChar c) = isTokenByte c"
proof (cases "65 \<le> byte_of c \<and> byte_of c \<le> 90")
  case True
  then show ?thesis by (simp add: isTokenByte_def byte_of_lowerChar)
qed (auto simp: lowerChar_def)

lemma upperChar_token [simp]: "isTokenByte (upperChar c) = isTokenByte c"
proof (cases "97 \<le> byte_of c \<and> byte_of c \<le> 122")
  case True
  then have "65 \<le> byte_of (upperChar c) \<and> byte_of (upperChar c) \<le> 90"
    by (auto simp: byte_of_upperChar)
  with True show ?thesis by (simp add: isTokenByte_def)
qed (auto simp: upperChar_def)

lemma case_convert [simp]:
  "lowerChar (upperChar c) = lowerChar c" "upperChar (lowerChar c) = upperChar c"
  "upperChar (upperChar c) = upperChar c"
  by (auto simp: lowerChar_def upperChar_def)

lemma case_dash [simp]:
  "lowerChar c = CHR ''-'' \<longleftrightarrow> c = CHR ''-''" "upperChar c = CHR ''-'' \<longleftrightarrow> c = CHR ''-''"
proof -
  have b: "byte_of (CHR ''-'') = 45" by (simp add: byte_of_def)
  show "lowerChar c = CHR ''-'' \<longleftrightarrow> c = CHR ''-''"
    by (auto simp: lowerChar_def b simp flip: byte_of_inject)
  show "upperChar c = CHR ''-'' \<longleftrightarrow> c = CHR ''-''"
    by (auto simp: upperChar_def b simp flip: byte_of_inject)
qed

lemma canonWalk_token: "list_all isTokenByte (canonWalk up k) = list_all isTokenByte k"
  by (induction up k rule: canonWalk.induct) auto

lemma canonWalk_idem: "canonWalk up (canonWalk up k) = canonWalk up k"
  by (induction up k rule: canonWalk.induct) auto

lemma canonicalKey_idem [simp]: "canonicalKey (canonicalKey k) = canonicalKey k"
  by (simp add: canonicalKey_def canonWalk_token canonWalk_idem)

lemma toLower_canonWalk: "toLower (canonWalk up k) = toLower k"
  by (induction up k rule: canonWalk.induct) (auto simp: toLower_def)

lemma toLower_canonicalKey [simp]: "toLower (canonicalKey k) = toLower k"
  by (simp add: canonicalKey_def toLower_canonWalk)

section \<open>The values stored in a request's context\<close>

record auth_info =
  ai_mode :: string
  ai_subject :: string
  ai_scheme :: string
  ai_verified :: bool

record audit_entry =
  au_traceID :: string
  au_spanID :: string
  au_method :: string
  au_protocol :: string
  au_targetAgent :: string
  au_authScheme :: string
  au_authSubject :: string
  au_status :: string
  au_blockReason :: string
  au_startTime :: go_time
  au_streamEvents :: int
  au_streamDuration :: go_duration

record route_result =
  rr_agentName :: string
  rr_agentURL :: string
  rr_matchedSkill :: string
  rr_isStreaming :: bool

record request_meta =
  rm_protocol :: string
  rm_method :: string
  rm_binding :: string

text \<open>
  A context is a chain of \<open>WithValue\<close> layers; \<open>Value\<close> finds the innermost layer of a key, so each
  setter replaces what its getter returns and touches no other key.
\<close>

record context_vals =
  cx_auth :: "auth_info option"
  cx_audit :: "audit_entry option"
  cx_route :: "route_result option"
  cx_meta :: "request_meta option"
  cx_body :: "string option"
  cx_localizer :: "localizer option"

definition emptyContext :: context_vals where
  "emptyContext = \<lparr>cx_auth = None, cx_audit = None, cx_route = None, cx_meta = None,
     cx_body = None, cx_localizer = None\<rparr>"

definition WithAuthInfo :: "context_vals \<Rightarrow> auth_info \<Rightarrow> context_vals" where
  "WithAuthInfo c i = c\<lparr>cx_auth := Some i\<rparr>"

definition AuthInfoFrom :: "context_vals \<Rightarrow> auth_info option" where
  "AuthInfoFrom c = cx_auth c"

definition WithAuditEntry :: "context_vals \<Rightarrow> audit_entry \<Rightarrow> context_vals" where
  "WithAuditEntry c e = c\<lparr>cx_audit := Some e\<rparr>"

definition AuditEntryFrom :: "context_vals \<Rightarrow> audit_entry option" where
  "AuditEntryFrom c = cx_audit c"

definition WithRouteResult :: "context_vals \<Rightarrow> route_result \<Rightarrow> context_vals" where
  "WithRouteResult c r = c\<lparr>cx_route := Some r\<rparr>"

definition RouteResultFrom :: "context_vals \<Rightarrow> route_result option" where
  "RouteResultFrom c = cx_route c"

definition WithRequestMeta :: "context_vals \<Rightarrow> request_meta \<Rightarrow> context_vals" where
  "WithRequestMeta c m = c\<lparr>cx_meta := Some m\<rparr>"

definition RequestMetaFrom :: "context_vals \<Rightarrow> request_meta option" where
  "RequestMetaFrom c = cx_meta c"

definition WithInspectedBody :: "context_vals \<Rightarrow> string \<Rightarrow> context_vals" where
  "WithInspectedBody c b = c\<lparr>cx_body := Some b\<rparr>"

definition InspectedBodyFrom :: "context_vals \<Rightarrow> string option" where
  "InspectedBodyFrom c = cx_body c"

definition WithLocalizer :: "context_vals \<Rightarrow> localizer \<Rightarrow> context_vals" where
  "WithLocalizer c l = c\<lparr>cx_localizer := Some l\<rparr>"

definition LocalizerFrom :: "context_vals \<Rightarrow> localizer option" where
  "LocalizerFrom c = cx_localizer c"

lemmas ctx_getters = AuthInfoFrom_def AuditEntryFrom_def RouteResultFrom_def RequestMetaFrom_def
  InspectedBodyFrom_def LocalizerFrom_def
lemmas ctx_setters = WithAuthInfo_def WithAuditEntry_def WithRouteResult_def WithRequestMeta_def
  WithInspectedBody_def WithLocalizer_def

section \<open>Requests, responses, handlers\<close>

text \<open>
  The body of a request is a stream: the bytes still unread, or a read error after some bytes.
  \<open>None\<close> is a nil body.
\<close>

record stream =
  st_bytes :: string
  st_fails :: bool

record request =
  rq_method :: string
  rq_path :: string
  rq_query :: string
  rq_headers :: header
  rq_body :: "stream option"
  rq_remoteAddr :: string
  rq_tls :: bool
  rq_ctx :: context_vals

text \<open>
  The values handlers encode as JSON: \<open>JoText\<close> is the string with the JSON text of a value, \<open>JoTime\<close> a
  time, and \<open>JoRaw\<close> a value of the request given back. \<open>PJson\<close> stands for the text \<open>json.Encoder\<close> writes.
\<close>

datatype jout =
    JoNull
  | JoBool bool
  | JoInt int
  | JoStr string
  | JoArr "jout list"
  | JoObj "(string \<times> jout) list"
  | JoText jout
  | JoTime go_time
  | JoRaw json

datatype payload =
    PEmpty
  | PJson jout
  | PError sentinel_error
  | PRpcError jsonrpc_error
  | PText string

record response =
  rs_status :: int
  rs_header :: header
  rs_payload :: payload

type_synonym 's handler = "request \<Rightarrow> header \<Rightarrow> 's \<Rightarrow> response \<times> 's"

definition WriteHTTPError :: "header \<Rightarrow> sentinel_error \<Rightarrow> response" where
  "WriteHTTPError w e = \<lparr>rs_status = se_code e,
     rs_header = header_set w ''Content-Type'' ''application/json'', rs_payload = PError e\<rparr>"

definition hdr :: "request \<Rightarrow> string \<Rightarrow> string" where
  "hdr r k = header_get (rq_headers r) k"

lemma WriteHTTPError_sel [simp]:
  "rs_status (WriteHTTPError w e) = se_code e" "rs_payload (WriteHTTPError w e) = PError e"
  by (simp_all add: WriteHTTPError_def)

end
