(* ===== verification/Go_Url.thy ===== *)
theory Go_Url
  imports Go_Net
begin

text \<open>
  \<open>url.Parse\<close> and \<open>URL.Hostname\<close> of Go's \<open>net/url\<close>, as far as the gateway reads their result:
  the scheme, the host with its port, the decoded path and the raw query, and whether the parse
  fails.
\<close>

datatype escape_mode = EncodePath | EncodeHost | EncodeZone | EncodeUserPassword | EncodeFragment

definition isAlnum :: "char \<Rightarrow> bool" where
  "isAlnum c \<longleftrightarrow> isDigit c \<or> (65 \<le> byte_of c \<and> byte_of c \<le> 90)
     \<or> (97 \<le> byte_of c \<and> byte_of c \<le> 122)"

text \<open>The bytes a host may hold unescaped: unreserved ones, sub-delimiters and \<open>:[]<>\<close> with the quote.\<close>

definition hostEscape :: "char \<Rightarrow> bool" where
  "hostEscape c \<longleftrightarrow> \<not> (isAlnum c
     \<or> c \<in> set ''!$&()*+,;=:[]<>-_.~'' \<or> byte_of c = 39 \<or> byte_of c = 34)"

fun unescape :: "escape_mode \<Rightarrow> string \<Rightarrow> string option" where
  "unescape m [] = Some []"
| "unescape m (c # cs) =
     (if c = CHR ''%'' then
        (case cs of
           a # b # r \<Rightarrow>
             if \<not> isHexDigit a \<or> \<not> isHexDigit b then None
             else if m = EncodeHost \<and> hexVal a < 8 \<and> \<not> (a = CHR ''2'' \<and> b = CHR ''5'') then None
             else if m = EncodeZone \<and> \<not> (a = CHR ''2'' \<and> b = CHR ''5'')
                \<and> 16 * hexVal a + hexVal b \<noteq> 32 \<and> hostEscape (char_of (16 * hexVal a + hexVal b))
             then None
             else map_option ((#) (char_of (16 * hexVal a + hexVal b))) (unescape m r)
         | _ \<Rightarrow> None)
      else if (m = EncodeHost \<or> m = EncodeZone) \<and> byte_of c < 128 \<and> hostEscape c then None
      else map_option ((#) c) (unescape m cs))"

definition validOptionalPort :: "string \<Rightarrow> bool" where
  "validOptionalPort p \<longleftrightarrow> p = [] \<or> (hd p = CHR '':'' \<and> list_all isDigit (tl p))"

definition cutByte :: "string \<Rightarrow> char \<Rightarrow> string \<times> string" where
  "cutByte s c = (case indexByte s c of None \<Rightarrow> (s, []) | Some i \<Rightarrow> (take i s, drop (Suc i) s))"

text \<open>\<open>None\<close> is the error of a missing scheme; \<open>Some ([], s)\<close> means no scheme.\<close>

fun schemeLen :: "string \<Rightarrow> nat \<Rightarrow> nat option" where
  "schemeLen [] i = Some 0"
| "schemeLen (c # cs) i =
     (if (65 \<le> byte_of c \<and> byte_of c \<le> 90) \<or> (97 \<le> byte_of c \<and> byte_of c \<le> 122)
      then schemeLen cs (Suc i)
      else if isDigit c \<or> c \<in> set ''+-.'' then (if i = 0 then Some 0 else schemeLen cs (Suc i))
      else if c = CHR '':'' then (if i = 0 then None else Some i)
      else Some 0)"

definition getScheme :: "string \<Rightarrow> (string \<times> string) option" where
  "getScheme s = (case schemeLen s 0 of
      None \<Rightarrow> None
    | Some n \<Rightarrow> if n = 0 then Some ([], s) else Some (take n s, drop (Suc n) s))"

definition parseHost :: "string \<Rightarrow> string option" where
  "parseHost h =
     (if hasPrefix h ''['' then
        (case lastIndexByte h (CHR '']'') of
           None \<Rightarrow> None
         | Some i \<Rightarrow>
             if \<not> validOptionalPort (drop (Suc i) h) then None
             else (case indexStr (take i h) ''%25'' of
                 None \<Rightarrow> unescape EncodeHost h
               | Some z \<Rightarrow>
                   (case (unescape EncodeHost (take z h), unescape EncodeZone (drop z (take i h)),
                          unescape EncodeHost (drop i h)) of
                      (Some a, Some b, Some c) \<Rightarrow> Some (a @ b @ c)
                    | _ \<Rightarrow> None)))
      else (case lastIndexByte h (CHR '':'') of
          None \<Rightarrow> unescape EncodeHost h
        | Some i \<Rightarrow> if validOptionalPort (drop i h) then unescape EncodeHost h else None))"

definition validUserinfo :: "string \<Rightarrow> bool" where
  "validUserinfo s \<longleftrightarrow> list_all (\<lambda>c. isAlnum c
     \<or> c \<in> set ''-._:~!$&()*+,;=%@'' \<or> byte_of c = 39) s"

definition parseAuthority :: "string \<Rightarrow> string option" where
  "parseAuthority a = (case lastIndexByte a (CHR ''@'') of
      None \<Rightarrow> parseHost a
    | Some i \<Rightarrow>
        (case parseHost (drop (Suc i) a) of
           None \<Rightarrow> None
         | Some h \<Rightarrow>
             (let ui = take i a; (u, p) = cutByte ui (CHR '':'') in
              if \<not> validUserinfo ui \<or> unescape EncodeUserPassword u = None
                 \<or> unescape EncodeUserPassword p = None
              then None else Some h)))"

record url =
  url_scheme :: string
  url_host :: string
  url_path :: string
  url_rawQuery :: string

definition parseURL :: "string \<Rightarrow> url option" where
  "parseURL s =
     (if list_ex (\<lambda>c. byte_of c < 32 \<or> byte_of c = 127) s then None
      else if s = ''*'' then Some \<lparr>url_scheme = [], url_host = [], url_path = ''*'', url_rawQuery = []\<rparr>
      else (case getScheme s of
          None \<Rightarrow> None
        | Some (sch, rest0) \<Rightarrow>
            (let scheme = toLower sch; (rest, q) = cutByte rest0 (CHR ''?'');
                 rootless = \<not> hasPrefix rest ''/'' in
             if rootless \<and> scheme \<noteq> []
               then Some \<lparr>url_scheme = scheme, url_host = [], url_path = [], url_rawQuery = q\<rparr>
             else if rootless \<and> CHR '':'' \<in> set (fst (cutByte rest (CHR ''/''))) then None
             else if (scheme \<noteq> [] \<or> \<not> hasPrefix rest ''///'') \<and> hasPrefix rest ''//'' then
               (let r = drop 2 rest;
                    (auth, path) = (case indexByte r (CHR ''/'') of
                        None \<Rightarrow> (r, []) | Some i \<Rightarrow> (take i r, drop i r)) in
                case (parseAuthority auth, unescape EncodePath path) of
                  (Some h, Some p) \<Rightarrow>
                    Some \<lparr>url_scheme = scheme, url_host = h, url_path = p, url_rawQuery = q\<rparr>
                | _ \<Rightarrow> None)
             else (case unescape EncodePath rest of
                 None \<Rightarrow> None
               | Some p \<Rightarrow>
                   Some \<lparr>url_scheme = scheme, url_host = [], url_path = p, url_rawQuery = q\<rparr>))))"

definition urlParse :: "string \<Rightarrow> url option" where
  "urlParse s =
     (let (u, frag) = cutByte s (CHR ''#'') in
      case parseURL u of
        None \<Rightarrow> None
      | Some r \<Rightarrow> if unescape EncodeFragment frag = None then None else Some r)"

definition url_hostname :: "url \<Rightarrow> string" where
  "url_hostname u =
     (let h0 = url_host u;
          h = (case lastIndexByte h0 (CHR '':'') of
                 None \<Rightarrow> h0
               | Some i \<Rightarrow> if validOptionalPort (drop i h0) then take i h0 else h0) in
      if hasPrefix h ''['' \<and> hasSuffix h '']'' then take (length h - 2) (drop 1 h) else h)"

end
