(* ===== verification/Config.thy ===== *)
theory Config
  imports Http_Model Go_Url
begin

text \<open>
  The configuration of the gateway (\<open>internal/config\<close>): the structures of \<open>config.go\<close>, the defaults
  of \<open>defaults.go\<close> and the checks of \<open>validate.go\<close>, with \<open>Load\<close>.

  Go tells a nil slice from an empty one in \<open>reflect.DeepEqual\<close> and in \<open>== nil\<close>; the three slices
  for which the code can see the difference are a \<^typ>\<open>string list option\<close>, \<open>None\<close> for nil.
  A \<open>float64\<close> read from the file is a rational, an infinity or a NaN, with the comparisons of IEEE
  arithmetic. Reading and decoding the YAML file and \<open>os.Stat\<close> are parameters.
\<close>

section \<open>Slices that may be nil, and floats\<close>

type_synonym strings = "string list option"

definition elems :: "strings \<Rightarrow> string list" where
  "elems s = (case s of None \<Rightarrow> [] | Some xs \<Rightarrow> xs)"

datatype go_float = Fin rat | PosInf | NegInf | NaN

fun flt_less :: "go_float \<Rightarrow> go_float \<Rightarrow> bool" where
  "flt_less (Fin a) (Fin b) \<longleftrightarrow> a < b"
| "flt_less (Fin _) PosInf \<longleftrightarrow> True"
| "flt_less NegInf (Fin _) \<longleftrightarrow> True"
| "flt_less NegInf PosInf \<longleftrightarrow> True"
| "flt_less _ _ \<longleftrightarrow> False"

fun flt_eq :: "go_float \<Rightarrow> go_float \<Rightarrow> bool" where
  "flt_eq NaN _ \<longleftrightarrow> False"
| "flt_eq _ NaN \<longleftrightarrow> False"
| "flt_eq a b \<longleftrightarrow> a = b"

section \<open>The structures (config.go)\<close>

record tls_config =
  tls_certFile :: string
  tls_keyFile :: string

record listen_config =
  ln_host :: string
  ln_port :: int
  ln_grpcPort :: int
  ln_maxConnections :: int
  ln_globalRateLimit :: int
  ln_trustedProxies :: strings
  ln_tls :: tls_config

record mcp_config =
  mc_enabled :: bool
  mc_host :: string
  mc_port :: int
  mc_token :: string

record health_config =
  hc_livenessPath :: string
  hc_readinessPath :: string
  hc_readinessMode :: string

record health_check_config =
  hk_enabled :: bool
  hk_interval :: go_duration

record agent_config =
  ag_name :: string
  ag_url :: string
  ag_grpcURL :: string
  ag_cardPath :: string
  ag_pollInterval :: go_duration
  ag_timeout :: go_duration
  ag_maxStreams :: int
  ag_default :: bool
  ag_allowInsecure :: bool
  ag_healthCheck :: health_check_config
  ag_cardChangePolicy :: string

record routing_config =
  rt_mode :: string

record card_config =
  cc_mode :: string
  cc_gatewayJWKFile :: string

record time_range_config =
  trc_start :: string
  trc_end :: string
  trc_tz :: string

record policy_match_config =
  pmc_agents :: "string list"
  pmc_methods :: "string list"
  pmc_users :: "string list"
  pmc_ips :: "string list"
  pmc_headers :: "(string, string) gomap"
  pmc_timeRange :: "time_range_config option"

record policy_config =
  pc_name :: string
  pc_description :: string
  pc_match :: policy_match_config
  pc_action :: string
  pc_priority :: int

record card_signature_config =
  cs_require :: bool
  cs_trustedJWKSURLs :: strings
  cs_cacheTTL :: go_duration

record jwt_config =
  jw_issuer :: string
  jw_audience :: string
  jw_jwksURL :: string

record scheme_config =
  sc_type :: string
  sc_jwt :: jwt_config

record auth_config =
  au_mode :: string
  au_schemes :: "scheme_config list"
  au_allowUnauthenticated :: bool

record replay_config =
  rp_enabled :: bool
  rp_window :: go_duration
  rp_noncePolicy :: string
  rp_nonceSource :: string
  rp_clockSkew :: go_duration
  rp_store :: string
  rp_redisURL :: string
  rp_cleanupInterval :: go_duration

record ip_rate_config =
  ir_perIP :: int
  ir_burst :: int
  ir_cleanupInterval :: go_duration

record user_rate_config =
  ur_perUser :: int
  ur_burst :: int
  ur_cleanupInterval :: go_duration

record rate_limit_config =
  rl_enabled :: bool
  rl_ip :: ip_rate_config
  rl_user :: user_rate_config
  rl_perAgent :: int

record push_config =
  pu_blockPrivateNetworks :: bool
  pu_allowedDomains :: strings
  pu_requireHTTPS :: bool
  pu_requireChallenge :: bool
  pu_hmacSecret :: string
  pu_dnsFailPolicy :: string

record security_config =
  se_cardSignature :: card_signature_config
  se_auth :: auth_config
  se_replay :: replay_config
  se_rateLimit :: rate_limit_config
  se_push :: push_config
  se_policies :: "policy_config list"

record body_inspection_config =
  bi_maxSize :: int
  bi_skipStreaming :: bool

record audit_config =
  ac_samplingRate :: go_float
  ac_errorSamplingRate :: go_float
  ac_maxBodyLogSize :: int

record logging_config =
  lg_level :: string
  lg_format :: string
  lg_output :: string
  lg_audit :: audit_config

record shutdown_config =
  sd_timeout :: go_duration
  sd_drainTimeout :: go_duration

record reload_config =
  re_enabled :: bool
  re_watchFile :: bool
  re_debounce :: go_duration

record config =
  cf_listen :: listen_config
  cf_externalURL :: string
  cf_mcp :: mcp_config
  cf_health :: health_config
  cf_agents :: "agent_config list"
  cf_routing :: routing_config
  cf_card :: card_config
  cf_security :: security_config
  cf_bodyInspection :: body_inspection_config
  cf_logging :: logging_config
  cf_shutdown :: shutdown_config
  cf_agentgatewayVersion :: string
  cf_reload :: reload_config
  cf_locale :: string

end
