(* ===== verification/Config_Check.thy ===== *)
theory Config_Check
  imports Config
begin

text \<open>
  The defaults (\<open>internal/config/defaults.go\<close>), the checks (\<open>validate.go\<close>) and \<open>Load\<close>
  (\<open>config.go\<close>). \<open>Validate\<close> collects every error; the model gives the list of errors in the
  order the code appends them, as values rather than rendered messages, and the empty list is the
  nil error.
\<close>

section \<open>Defaults\<close>

text \<open>The value a field has after \<open>if x == zero { x = d }\<close>.\<close>

definition dflt :: "'a \<Rightarrow> 'a \<Rightarrow> 'a \<Rightarrow> 'a" where
  "dflt z d x = (if x = z then d else x)"

lemma dflt_idem [simp]: "dflt z d (dflt z d x) = dflt z d x"
  by (simp add: dflt_def)

lemma dflt_neq [simp]: "d \<noteq> z \<Longrightarrow> dflt z d x \<noteq> z"
  by (simp add: dflt_def)

definition applySecurityCardSignatureDefaults :: "card_signature_config \<Rightarrow> card_signature_config" where
  "applySecurityCardSignatureDefaults c = c\<lparr>cs_cacheTTL := dflt 0 (nanos 3600) (cs_cacheTTL c)\<rparr>"

definition applyReplayDefaults :: "replay_config \<Rightarrow> replay_config" where
  "applyReplayDefaults r = r\<lparr>
     rp_window := dflt 0 (nanos 300) (rp_window r),
     rp_noncePolicy := dflt [] ''warn'' (rp_noncePolicy r),
     rp_nonceSource := dflt [] ''auto'' (rp_nonceSource r),
     rp_clockSkew := dflt 0 (nanos 5) (rp_clockSkew r),
     rp_store := dflt [] ''memory'' (rp_store r),
     rp_cleanupInterval := dflt 0 (nanos 60) (rp_cleanupInterval r)\<rparr>"

definition applyRateLimitDefaults :: "rate_limit_config \<Rightarrow> rate_limit_config" where
  "applyRateLimitDefaults c = c\<lparr>
     rl_ip := (rl_ip c)\<lparr>ir_perIP := dflt 0 200 (ir_perIP (rl_ip c)),
                        ir_burst := dflt 0 50 (ir_burst (rl_ip c)),
                        ir_cleanupInterval := dflt 0 (nanos 300) (ir_cleanupInterval (rl_ip c))\<rparr>,
     rl_user := (rl_user c)\<lparr>ur_perUser := dflt 0 100 (ur_perUser (rl_user c)),
                            ur_burst := dflt 0 20 (ur_burst (rl_user c)),
                            ur_cleanupInterval := dflt 0 (nanos 300) (ur_cleanupInterval (rl_user c))\<rparr>,
     rl_perAgent := dflt 0 500 (rl_perAgent c)\<rparr>"

definition applyPushDefaults :: "push_config \<Rightarrow> push_config" where
  "applyPushDefaults p =
     (let p1 = (if \<not> pu_blockPrivateNetworks p \<and> \<not> pu_requireHTTPS p \<and> \<not> pu_requireChallenge p
                   \<and> length (elems (pu_allowedDomains p)) = 0 \<and> pu_hmacSecret p = []
                then p\<lparr>pu_blockPrivateNetworks := True, pu_requireHTTPS := True,
                       pu_requireChallenge := True\<rparr>
                else p) in
      p1\<lparr>pu_dnsFailPolicy := dflt [] ''block'' (pu_dnsFailPolicy p1)\<rparr>)"

definition dfltRate :: "go_float \<Rightarrow> go_float" where
  "dfltRate x = (if flt_eq x (Fin 0) then Fin 1 else x)"

definition applyAuditDefaults :: "audit_config \<Rightarrow> audit_config" where
  "applyAuditDefaults a = a\<lparr>
     ac_samplingRate := dfltRate (ac_samplingRate a),
     ac_errorSamplingRate := dfltRate (ac_errorSamplingRate a),
     ac_maxBodyLogSize := dflt 0 1024 (ac_maxBodyLogSize a)\<rparr>"

definition defaultReloadDebounce :: go_duration where
  "defaultReloadDebounce = nanos 2"

definition applyReloadDefaults :: "reload_config \<Rightarrow> reload_config" where
  "applyReloadDefaults r =
     (let r1 = (if \<not> re_enabled r \<and> \<not> re_watchFile r \<and> re_debounce r = 0
                then r\<lparr>re_enabled := True, re_watchFile := True\<rparr> else r) in
      r1\<lparr>re_debounce := dflt 0 defaultReloadDebounce (re_debounce r1)\<rparr>)"

definition applyAgentDefaults :: "agent_config \<Rightarrow> agent_config" where
  "applyAgentDefaults a = a\<lparr>
     ag_cardPath := dflt [] ''/.well-known/agent.json'' (ag_cardPath a),
     ag_pollInterval := dflt 0 (nanos 60) (ag_pollInterval a),
     ag_timeout := dflt 0 (nanos 30) (ag_timeout a),
     ag_maxStreams := dflt 0 10 (ag_maxStreams a),
     ag_cardChangePolicy := dflt [] ''alert'' (ag_cardChangePolicy a),
     ag_healthCheck := (ag_healthCheck a)\<lparr>hk_interval := dflt 0 (nanos 30) (hk_interval (ag_healthCheck a))\<rparr>\<rparr>"

definition applyListenDefaults :: "listen_config \<Rightarrow> listen_config" where
  "applyListenDefaults l = l\<lparr>
     ln_host := dflt [] ''0.0.0.0'' (ln_host l),
     ln_port := dflt 0 8080 (ln_port l),
     ln_maxConnections := dflt 0 1000 (ln_maxConnections l),
     ln_globalRateLimit := dflt 0 5000 (ln_globalRateLimit l),
     ln_trustedProxies := dflt None (Some []) (ln_trustedProxies l)\<rparr>"

definition ApplyDefaults :: "config \<Rightarrow> config" where
  "ApplyDefaults c = c\<lparr>
     cf_listen := applyListenDefaults (cf_listen c),
     cf_mcp := (cf_mcp c)\<lparr>mc_host := dflt [] ''127.0.0.1'' (mc_host (cf_mcp c)),
                          mc_port := dflt 0 8081 (mc_port (cf_mcp c))\<rparr>,
     cf_health := (cf_health c)\<lparr>
        hc_livenessPath := dflt [] ''/healthz'' (hc_livenessPath (cf_health c)),
        hc_readinessPath := dflt [] ''/readyz'' (hc_readinessPath (cf_health c)),
        hc_readinessMode := dflt [] ''any_healthy'' (hc_readinessMode (cf_health c))\<rparr>,
     cf_routing := (cf_routing c)\<lparr>rt_mode := dflt [] ''path-prefix'' (rt_mode (cf_routing c))\<rparr>,
     cf_card := (cf_card c)\<lparr>cc_mode := dflt [] ''gateway'' (cc_mode (cf_card c))\<rparr>,
     cf_security := (let s = cf_security c in s\<lparr>
        se_cardSignature := applySecurityCardSignatureDefaults (se_cardSignature s),
        se_auth := (se_auth s)\<lparr>au_mode := dflt [] ''passthrough-strict'' (au_mode (se_auth s))\<rparr>,
        se_replay := applyReplayDefaults (se_replay s),
        se_rateLimit := applyRateLimitDefaults (se_rateLimit s),
        se_push := applyPushDefaults (se_push s)\<rparr>),
     cf_bodyInspection := (cf_bodyInspection c)\<lparr>
        bi_maxSize := dflt 0 1048576 (bi_maxSize (cf_bodyInspection c))\<rparr>,
     cf_logging := (let l = cf_logging c in l\<lparr>
        lg_level := dflt [] ''info'' (lg_level l),
        lg_format := dflt [] ''json'' (lg_format l),
        lg_output := dflt [] ''stdout'' (lg_output l),
        lg_audit := applyAuditDefaults (lg_audit l)\<rparr>),
     cf_shutdown := (cf_shutdown c)\<lparr>
        sd_timeout := dflt 0 (nanos 30) (sd_timeout (cf_shutdown c)),
        sd_drainTimeout := dflt 0 (nanos 15) (sd_drainTimeout (cf_shutdown c))\<rparr>,
     cf_agentgatewayVersion := dflt [] ''latest'' (cf_agentgatewayVersion c),
     cf_reload := applyReloadDefaults (cf_reload c),
     cf_locale := dflt [] ''en'' (cf_locale c),
     cf_agents := map applyAgentDefaults (cf_agents c)\<rparr>"

section \<open>Validation\<close>

definition isValidAuthMode :: "string \<Rightarrow> bool" where
  "isValidAuthMode m \<longleftrightarrow> m \<in> {''passthrough'', ''passthrough-strict'', ''terminate''}"

definition isValidRoutingMode :: "string \<Rightarrow> bool" where
  "isValidRoutingMode m \<longleftrightarrow> m \<in> {''path-prefix'', ''single''}"

definition isValidReadinessMode :: "string \<Rightarrow> bool" where
  "isValidReadinessMode m \<longleftrightarrow> m \<in> {''any_healthy'', ''default_healthy'', ''all_healthy''}"

definition isValidCardMode :: "string \<Rightarrow> bool" where
  "isValidCardMode m \<longleftrightarrow> m \<in> {''gateway'', ''passthrough''}"

definition isValidCardChangePolicy :: "string \<Rightarrow> bool" where
  "isValidCardChangePolicy p \<longleftrightarrow> p \<in> {''auto'', ''alert'', ''approve''}"

definition isValidNoncePolicy :: "string \<Rightarrow> bool" where
  "isValidNoncePolicy p \<longleftrightarrow> p \<in> {''warn'', ''require''}"

definition isValidNonceSource :: "string \<Rightarrow> bool" where
  "isValidNonceSource s \<longleftrightarrow> s \<in> {''auto'', ''header'', ''jsonrpc-id''}"

definition isValidDNSFailPolicy :: "string \<Rightarrow> bool" where
  "isValidDNSFailPolicy p \<longleftrightarrow> p \<in> {''block'', ''allow''}"

datatype config_error =
    NoAgents
  | AgentNameRequired nat
  | AgentURLRequired nat
  | PollIntervalNegative nat
  | TimeoutNegative nat
  | BadGRPCURL nat string
  | BadCardChangePolicy nat string
  | ManyDefaults nat
  | ListenPortRange int
  | MCPPortRange int
  | GRPCPortRange int
  | GRPCPortClash int
  | MaxConnectionsRange int
  | GlobalRateLimitRange int
  | BadAuthMode string
  | BadRoutingMode string
  | BadReadinessMode string
  | BadCardMode string
  | BadNoncePolicy string
  | BadNonceSource string
  | BadDNSFailPolicy string
  | TLSCertFile string
  | TLSKeyFile string
  | SamplingRateRange go_float
  | ErrorSamplingRateRange go_float

abbreviation err_if :: "bool \<Rightarrow> config_error \<Rightarrow> config_error list" where
  "err_if b e \<equiv> (if b then [e] else [])"

definition validateAgent :: "nat \<Rightarrow> agent_config \<Rightarrow> config_error list" where
  "validateAgent i a =
     err_if (ag_name a = []) (AgentNameRequired i)
     @ err_if (ag_url a = []) (AgentURLRequired i)
     @ err_if (ag_pollInterval a < 0) (PollIntervalNegative i)
     @ err_if (ag_timeout a < 0) (TimeoutNegative i)
     @ err_if (ag_grpcURL a \<noteq> [] \<and>
         (case urlParse (ag_grpcURL a) of None \<Rightarrow> True | Some u \<Rightarrow> url_host u = []))
         (BadGRPCURL i (ag_grpcURL a))
     @ err_if (\<not> isValidCardChangePolicy (ag_cardChangePolicy a))
         (BadCardChangePolicy i (ag_cardChangePolicy a))"

fun validateAgents :: "nat \<Rightarrow> agent_config list \<Rightarrow> config_error list" where
  "validateAgents i [] = []"
| "validateAgents i (a # as) = validateAgent i a @ validateAgents (Suc i) as"

definition defaultCount :: "agent_config list \<Rightarrow> nat" where
  "defaultCount as = length (filter ag_default as)"

definition rateOutOfRange :: "go_float \<Rightarrow> bool" where
  "rateOutOfRange x \<longleftrightarrow> flt_less x (Fin 0) \<or> flt_less (Fin 1) x"

definition Validate :: "(string \<Rightarrow> bool) \<Rightarrow> config \<Rightarrow> config_error list" where
  "Validate statOK c =
     (let l = cf_listen c; s = cf_security c; a = lg_audit (cf_logging c);
          n = defaultCount (cf_agents c) in
      err_if (length (cf_agents c) = 0) NoAgents
      @ validateAgents 0 (cf_agents c)
      @ err_if (n > 1) (ManyDefaults n)
      @ err_if (ln_port l < 1 \<or> ln_port l > 65535) (ListenPortRange (ln_port l))
      @ err_if (mc_port (cf_mcp c) < 1 \<or> mc_port (cf_mcp c) > 65535) (MCPPortRange (mc_port (cf_mcp c)))
      @ err_if (ln_grpcPort l \<noteq> 0 \<and> (ln_grpcPort l < 1 \<or> ln_grpcPort l > 65535))
          (GRPCPortRange (ln_grpcPort l))
      @ err_if (ln_grpcPort l \<noteq> 0 \<and> ln_grpcPort l = ln_port l) (GRPCPortClash (ln_grpcPort l))
      @ err_if (ln_maxConnections l < 1) (MaxConnectionsRange (ln_maxConnections l))
      @ err_if (ln_globalRateLimit l < 1) (GlobalRateLimitRange (ln_globalRateLimit l))
      @ err_if (\<not> isValidAuthMode (au_mode (se_auth s))) (BadAuthMode (au_mode (se_auth s)))
      @ err_if (\<not> isValidRoutingMode (rt_mode (cf_routing c))) (BadRoutingMode (rt_mode (cf_routing c)))
      @ err_if (\<not> isValidReadinessMode (hc_readinessMode (cf_health c)))
          (BadReadinessMode (hc_readinessMode (cf_health c)))
      @ err_if (\<not> isValidCardMode (cc_mode (cf_card c))) (BadCardMode (cc_mode (cf_card c)))
      @ err_if (\<not> isValidNoncePolicy (rp_noncePolicy (se_replay s)))
          (BadNoncePolicy (rp_noncePolicy (se_replay s)))
      @ err_if (\<not> isValidNonceSource (rp_nonceSource (se_replay s)))
          (BadNonceSource (rp_nonceSource (se_replay s)))
      @ err_if (\<not> isValidDNSFailPolicy (pu_dnsFailPolicy (se_push s)))
          (BadDNSFailPolicy (pu_dnsFailPolicy (se_push s)))
      @ err_if (tls_certFile (ln_tls l) \<noteq> [] \<and> \<not> statOK (tls_certFile (ln_tls l)))
          (TLSCertFile (tls_certFile (ln_tls l)))
      @ err_if (tls_keyFile (ln_tls l) \<noteq> [] \<and> \<not> statOK (tls_keyFile (ln_tls l)))
          (TLSKeyFile (tls_keyFile (ln_tls l)))
      @ err_if (rateOutOfRange (ac_samplingRate a)) (SamplingRateRange (ac_samplingRate a))
      @ err_if (rateOutOfRange (ac_errorSamplingRate a))
          (ErrorSamplingRateRange (ac_errorSamplingRate a)))"

datatype load_error = ReadFailed | YAMLFailed | Invalid "config_error list"

definition Load ::
  "(string \<Rightarrow> string option) \<Rightarrow> (string \<Rightarrow> config option) \<Rightarrow> (string \<Rightarrow> bool) \<Rightarrow> string
     \<Rightarrow> load_error + config" where
  "Load readFile unmarshal statOK path = (case readFile path of
      None \<Rightarrow> Inl ReadFailed
    | Some data \<Rightarrow>
        (case unmarshal data of
           None \<Rightarrow> Inl YAMLFailed
         | Some cfg \<Rightarrow>
             (let c = ApplyDefaults cfg; errs = Validate statOK c in
              if length errs > 0 then Inl (Invalid errs) else Inr c)))"

section \<open>What the checks establish\<close>

lemma validateAgents_Nil_iff:
  "validateAgents i as = [] \<longleftrightarrow> (\<forall>j < length as. validateAgent (i + j) (as ! j) = [])"
proof (induction as arbitrary: i)
  case Nil
  then show ?case by simp
next
  case (Cons a as)
  show ?case by (auto simp: Cons.IH less_Suc_eq_0_disj)
qed

text \<open>The conditions on an agent, without its index.\<close>

definition agent_wf :: "agent_config \<Rightarrow> bool" where
  "agent_wf a \<longleftrightarrow> ag_name a \<noteq> [] \<and> ag_url a \<noteq> [] \<and> 0 \<le> ag_pollInterval a \<and> 0 \<le> ag_timeout a
     \<and> (ag_grpcURL a = [] \<or> (\<exists>u. urlParse (ag_grpcURL a) = Some u \<and> url_host u \<noteq> []))
     \<and> ag_cardChangePolicy a \<in> {''auto'', ''alert'', ''approve''}"

lemma validateAgent_Nil_iff: "validateAgent i a = [] \<longleftrightarrow> agent_wf a"
  by (auto simp: validateAgent_def agent_wf_def isValidCardChangePolicy_def split: option.splits)

lemma validateAgents_wf: "validateAgents i as = [] \<longleftrightarrow> (\<forall>a \<in> set as. agent_wf a)"
  by (auto simp: validateAgents_Nil_iff validateAgent_Nil_iff all_set_conv_all_nth)

text \<open>A rate lies between 0 and 1, or is not a number at all: the comparisons of the code let that pass.\<close>

definition rate_wf :: "go_float \<Rightarrow> bool" where
  "rate_wf x = (case x of Fin q \<Rightarrow> 0 \<le> q \<and> q \<le> 1 | NaN \<Rightarrow> True | PosInf \<Rightarrow> False | NegInf \<Rightarrow> False)"

lemma rateOutOfRange_iff: "rateOutOfRange x \<longleftrightarrow> \<not> rate_wf x"
  by (cases x) (auto simp: rateOutOfRange_def rate_wf_def)

text \<open>What the documentation asks of a configuration; the helpers of \<open>Validate\<close> do not occur in it.\<close>

definition config_wf :: "(string \<Rightarrow> bool) \<Rightarrow> config \<Rightarrow> bool" where
  "config_wf statOK c \<longleftrightarrow>
     cf_agents c \<noteq> [] \<and> (\<forall>a \<in> set (cf_agents c). agent_wf a)
     \<and> length (filter ag_default (cf_agents c)) \<le> 1
     \<and> ln_port (cf_listen c) \<in> {1..65535} \<and> mc_port (cf_mcp c) \<in> {1..65535}
     \<and> (ln_grpcPort (cf_listen c) = 0 \<or>
         (ln_grpcPort (cf_listen c) \<in> {1..65535} \<and> ln_grpcPort (cf_listen c) \<noteq> ln_port (cf_listen c)))
     \<and> 1 \<le> ln_maxConnections (cf_listen c) \<and> 1 \<le> ln_globalRateLimit (cf_listen c)
     \<and> au_mode (se_auth (cf_security c)) \<in> {''passthrough'', ''passthrough-strict'', ''terminate''}
     \<and> rt_mode (cf_routing c) \<in> {''path-prefix'', ''single''}
     \<and> hc_readinessMode (cf_health c) \<in> {''any_healthy'', ''default_healthy'', ''all_healthy''}
     \<and> cc_mode (cf_card c) \<in> {''gateway'', ''passthrough''}
     \<and> rp_noncePolicy (se_replay (cf_security c)) \<in> {''warn'', ''require''}
     \<and> rp_nonceSource (se_replay (cf_security c)) \<in> {''auto'', ''header'', ''jsonrpc-id''}
     \<and> pu_dnsFailPolicy (se_push (cf_security c)) \<in> {''block'', ''allow''}
     \<and> (\<forall>f \<in> {tls_certFile (ln_tls (cf_listen c)), tls_keyFile (ln_tls (cf_listen c))}.
          f = [] \<or> statOK f)
     \<and> rate_wf (ac_samplingRate (lg_audit (cf_logging c)))
     \<and> rate_wf (ac_errorSamplingRate (lg_audit (cf_logging c)))"


lemmas valid_mode_defs = isValidAuthMode_def isValidRoutingMode_def isValidReadinessMode_def isValidCardMode_def
  isValidCardChangePolicy_def isValidNoncePolicy_def isValidNonceSource_def isValidDNSFailPolicy_def

lemma err_if_Nil [simp]: "(err_if b e = []) = (\<not> b)"
  by simp

lemma Validate_Nil_iff: "Validate statOK c = [] \<longleftrightarrow> config_wf statOK c"
  unfolding Validate_def config_wf_def Let_def append_is_Nil_conv validateAgents_wf err_if_Nil
    defaultCount_def rateOutOfRange_iff valid_mode_defs[symmetric]
  by (simp only: not_less not_le length_0_conv atLeastAtMost_iff ball_simps de_Morgan_disj
      de_Morgan_conj not_not insert_iff empty_iff) auto






lemma Load_ok:
  assumes "Load rf um st p = Inr c"
  obtains c0 where "c = ApplyDefaults c0" and "config_wf st c"
  using assms by (auto simp: Load_def Let_def Validate_Nil_iff[symmetric] split: option.splits if_splits)

section \<open>What the defaults establish\<close>

lemma dfltRate_idem [simp]: "dfltRate (dfltRate x) = dfltRate x"
  by (cases x) (auto simp: dfltRate_def)

lemma applyPushDefaults_idem: "applyPushDefaults (applyPushDefaults p) = applyPushDefaults p"
  by (simp add: applyPushDefaults_def Let_def)

lemma applyReloadDefaults_idem: "applyReloadDefaults (applyReloadDefaults r) = applyReloadDefaults r"
  by (simp add: applyReloadDefaults_def Let_def defaultReloadDebounce_def nanos_def dflt_def)

lemma applyAgentDefaults_idem: "applyAgentDefaults (applyAgentDefaults a) = applyAgentDefaults a"
  by (simp add: applyAgentDefaults_def)

lemma component_defaults_idem:
  "applyReplayDefaults (applyReplayDefaults r) = applyReplayDefaults r"
  "applyRateLimitDefaults (applyRateLimitDefaults l) = applyRateLimitDefaults l"
  "applyAuditDefaults (applyAuditDefaults a) = applyAuditDefaults a"
  "applyListenDefaults (applyListenDefaults n) = applyListenDefaults n"
  "applySecurityCardSignatureDefaults (applySecurityCardSignatureDefaults s) =
     applySecurityCardSignatureDefaults s"
  by (simp_all add: applyReplayDefaults_def applyRateLimitDefaults_def applyAuditDefaults_def
      applyListenDefaults_def applySecurityCardSignatureDefaults_def)

lemmas defaults_idem = applyPushDefaults_idem applyReloadDefaults_idem applyAgentDefaults_idem
  component_defaults_idem

lemma ApplyDefaults_fix: "ApplyDefaults (ApplyDefaults c) = ApplyDefaults c"
  by (simp add: ApplyDefaults_def Let_def defaults_idem)

section \<open>Properties\<close>

text \<open>C25: A configuration that \<open>Load\<close> returns has its defaults filled in, loading fills in nothing more,
  and it is well formed: at least one agent, each with a name, a URL, non-negative intervals and a known
  change policy, at most one default agent, ports in range, positive limits, and every mode one the
  gateway knows.\<close>

theorem load_establishes_wf:
  assumes "Load readFile unmarshal statOK path = Inr c"
  shows "config_wf statOK c \<and> ApplyDefaults c = c"
proof -
  from assms obtain c0 where "c = ApplyDefaults c0" "config_wf statOK c" by (rule Load_ok)
  then show ?thesis by (simp add: ApplyDefaults_fix)
qed

definition zeroConfig :: "agent_config list \<Rightarrow> config" where
  "zeroConfig as = \<lparr>cf_listen = \<lparr>ln_host = [], ln_port = 0, ln_grpcPort = 0, ln_maxConnections = 0,
       ln_globalRateLimit = 0, ln_trustedProxies = None, ln_tls = \<lparr>tls_certFile = [], tls_keyFile = []\<rparr>\<rparr>,
     cf_externalURL = [], cf_mcp = \<lparr>mc_enabled = False, mc_host = [], mc_port = 0, mc_token = []\<rparr>,
     cf_health = \<lparr>hc_livenessPath = [], hc_readinessPath = [], hc_readinessMode = []\<rparr>,
     cf_agents = as, cf_routing = \<lparr>rt_mode = []\<rparr>, cf_card = \<lparr>cc_mode = [], cc_gatewayJWKFile = []\<rparr>,
     cf_security = \<lparr>se_cardSignature = \<lparr>cs_require = False, cs_trustedJWKSURLs = None, cs_cacheTTL = 0\<rparr>,
       se_auth = \<lparr>au_mode = [], au_schemes = [], au_allowUnauthenticated = False\<rparr>,
       se_replay = \<lparr>rp_enabled = False, rp_window = 0, rp_noncePolicy = [], rp_nonceSource = [],
         rp_clockSkew = 0, rp_store = [], rp_redisURL = [], rp_cleanupInterval = 0\<rparr>,
       se_rateLimit = \<lparr>rl_enabled = False, rl_ip = \<lparr>ir_perIP = 0, ir_burst = 0, ir_cleanupInterval = 0\<rparr>,
         rl_user = \<lparr>ur_perUser = 0, ur_burst = 0, ur_cleanupInterval = 0\<rparr>, rl_perAgent = 0\<rparr>,
       se_push = \<lparr>pu_blockPrivateNetworks = False, pu_allowedDomains = None, pu_requireHTTPS = False,
         pu_requireChallenge = False, pu_hmacSecret = [], pu_dnsFailPolicy = []\<rparr>,
       se_policies = []\<rparr>,
     cf_bodyInspection = \<lparr>bi_maxSize = 0, bi_skipStreaming = False\<rparr>,
     cf_logging = \<lparr>lg_level = [], lg_format = [], lg_output = [],
       lg_audit = \<lparr>ac_samplingRate = Fin 0, ac_errorSamplingRate = Fin 0, ac_maxBodyLogSize = 0\<rparr>\<rparr>,
     cf_shutdown = \<lparr>sd_timeout = 0, sd_drainTimeout = 0\<rparr>, cf_agentgatewayVersion = [],
     cf_reload = \<lparr>re_enabled = False, re_watchFile = False, re_debounce = 0\<rparr>, cf_locale = []\<rparr>"

definition zeroAgent :: "string \<Rightarrow> string \<Rightarrow> agent_config" where
  "zeroAgent name u = \<lparr>ag_name = name, ag_url = u, ag_grpcURL = [], ag_cardPath = [],
     ag_pollInterval = 0, ag_timeout = 0, ag_maxStreams = 0, ag_default = False, ag_allowInsecure = False,
     ag_healthCheck = \<lparr>hk_enabled = False, hk_interval = 0\<rparr>, ag_cardChangePolicy = []\<rparr>"

text \<open>The smallest configuration file: one agent with a name and a URL.\<close>

definition smallConfig :: config where
  "smallConfig = zeroConfig [zeroAgent ''echo'' ''http://localhost:9000'']"

lemma smallConfig_valid: "Validate (\<lambda>_. False) (ApplyDefaults smallConfig) = []"
  by code_simp

lemma smallConfig_loads: "Load (\<lambda>_. Some []) (\<lambda>_. Some smallConfig) (\<lambda>_. False) ''sentinel.yaml''
    = Inr (ApplyDefaults smallConfig)"
  by (simp add: Load_def smallConfig_valid)

theorem load_establishes_wf_witness: "config_wf (\<lambda>_. False) (ApplyDefaults smallConfig)"
  using load_establishes_wf[OF smallConfig_loads] by simp


text \<open>Push checks cannot all be switched off: a \<open>security.push\<close> block that sets the three switches to
  false and names neither domains nor a secret is overridden by the defaults, which switch them on, as
  they do for the block of the development profile.\<close>

theorem push_all_off_overridden:
  assumes "\<not> pu_blockPrivateNetworks p" "\<not> pu_requireHTTPS p" "\<not> pu_requireChallenge p"
    and "elems (pu_allowedDomains p) = []" "pu_hmacSecret p = []"
  shows "pu_blockPrivateNetworks (applyPushDefaults p) \<and> pu_requireHTTPS (applyPushDefaults p)
    \<and> pu_requireChallenge (applyPushDefaults p)"
  using assms by (simp add: applyPushDefaults_def Let_def)

theorem push_all_off_overridden_witness:
  "pu_blockPrivateNetworks (applyPushDefaults \<lparr>pu_blockPrivateNetworks = False, pu_allowedDomains = Some [],
     pu_requireHTTPS = False, pu_requireChallenge = False, pu_hmacSecret = [], pu_dnsFailPolicy = ''block''\<rparr>)"
  using push_all_off_overridden[of "\<lparr>pu_blockPrivateNetworks = False, pu_allowedDomains = Some [],
     pu_requireHTTPS = False, pu_requireChallenge = False, pu_hmacSecret = [], pu_dnsFailPolicy = ''block''\<rparr>"]
  by (simp add: elems_def)

end
