(* ===== verification/Config_Reload.thy ===== *)
theory Config_Reload
  imports Config_Check
begin

text \<open>
  Hot reload: the comparison of two configurations (\<open>internal/config/diff.go\<close>) and the reloader
  (\<open>reload.go\<close>) with its event loop. The order in which \<open>Diff\<close> lists changes of agents is that of
  ranging over a Go map; the model lists them in the order of the list, and the lemmas speak of
  whether there is a change, not of its position.

  The event loop is a function of the stream of events the \<open>select\<close> picks; the state keeps
  whether a debounce timer is running. Reading and validating the file at each reload is a
  parameter (\<open>Load\<close> on the path), as are the subscribers.
\<close>

section \<open>Values and changes\<close>

datatype cfg_value =
    VStr string
  | VInt int
  | VBool bool
  | VDur go_duration
  | VFloat go_float
  | VStrs strings
  | VAgent agent_config
  | VNil

record change =
  ch_field :: string
  ch_old :: cfg_value
  ch_new :: cfg_value
  ch_reloadable :: bool

definition deepEqual :: "cfg_value \<Rightarrow> cfg_value \<Rightarrow> bool" where
  "deepEqual a b = (case (a, b) of (VFloat x, VFloat y) \<Rightarrow> flt_eq x y | _ \<Rightarrow> a = b)"

definition diffField :: "string \<Rightarrow> cfg_value \<Rightarrow> cfg_value \<Rightarrow> bool \<Rightarrow> change list" where
  "diffField field old new r =
     (if \<not> deepEqual old new
      then [\<lparr>ch_field = field, ch_old = old, ch_new = new, ch_reloadable = r\<rparr>] else [])"

definition diffStringSlice :: "string \<Rightarrow> strings \<Rightarrow> strings \<Rightarrow> bool \<Rightarrow> change list" where
  "diffStringSlice field old new r =
     (if old \<noteq> new
      then [\<lparr>ch_field = field, ch_old = VStrs old, ch_new = VStrs new, ch_reloadable = r\<rparr>] else [])"

section \<open>Agents\<close>

definition agentMap :: "agent_config list \<Rightarrow> (string, agent_config) gomap" where
  "agentMap as = fold (\<lambda>a. map_put (ag_name a) a) as []"

definition agentField :: "string \<Rightarrow> string \<Rightarrow> string" where
  "agentField name sub = ''agents['' @ name @ '']'' @ sub"

definition diffAgent :: "string \<Rightarrow> agent_config \<Rightarrow> agent_config \<Rightarrow> change list" where
  "diffAgent name a b =
     diffField (agentField name ''.url'') (VStr (ag_url a)) (VStr (ag_url b)) True
     @ diffField (agentField name ''.timeout'') (VDur (ag_timeout a)) (VDur (ag_timeout b)) True
     @ diffField (agentField name ''.max_streams'') (VInt (ag_maxStreams a)) (VInt (ag_maxStreams b)) True
     @ diffField (agentField name ''.default'') (VBool (ag_default a)) (VBool (ag_default b)) True
     @ diffField (agentField name ''.card_change_policy'')
         (VStr (ag_cardChangePolicy a)) (VStr (ag_cardChangePolicy b)) True
     @ diffField (agentField name ''.poll_interval'')
         (VDur (ag_pollInterval a)) (VDur (ag_pollInterval b)) True"

definition diffAgents :: "agent_config list \<Rightarrow> agent_config list \<Rightarrow> change list" where
  "diffAgents olds news =
     (let oldMap = agentMap olds; newMap = agentMap news in
      concat (map (\<lambda>(name, a). case map_of newMap name of
          None \<Rightarrow> [\<lparr>ch_field = agentField name [], ch_old = VAgent a, ch_new = VNil, ch_reloadable = True\<rparr>]
        | Some _ \<Rightarrow> []) oldMap)
      @ concat (map (\<lambda>(name, b). case map_of oldMap name of
          None \<Rightarrow> [\<lparr>ch_field = agentField name [], ch_old = VNil, ch_new = VAgent b, ch_reloadable = True\<rparr>]
        | Some _ \<Rightarrow> []) newMap)
      @ concat (map (\<lambda>(name, a). case map_of newMap name of
          None \<Rightarrow> [] | Some b \<Rightarrow> diffAgent name a b) oldMap))"

section \<open>The comparison\<close>

definition diffListen :: "listen_config \<Rightarrow> listen_config \<Rightarrow> change list" where
  "diffListen a b =
     diffField ''listen.host'' (VStr (ln_host a)) (VStr (ln_host b)) False
     @ diffField ''listen.port'' (VInt (ln_port a)) (VInt (ln_port b)) False
     @ diffField ''listen.grpc_port'' (VInt (ln_grpcPort a)) (VInt (ln_grpcPort b)) False
     @ diffField ''listen.max_connections'' (VInt (ln_maxConnections a)) (VInt (ln_maxConnections b)) False
     @ diffField ''listen.global_rate_limit'' (VInt (ln_globalRateLimit a)) (VInt (ln_globalRateLimit b)) False
     @ diffField ''listen.tls.cert_file'' (VStr (tls_certFile (ln_tls a))) (VStr (tls_certFile (ln_tls b))) False
     @ diffField ''listen.tls.key_file'' (VStr (tls_keyFile (ln_tls a))) (VStr (tls_keyFile (ln_tls b))) False
     @ diffStringSlice ''listen.trusted_proxies'' (ln_trustedProxies a) (ln_trustedProxies b) False"

definition diffRateLimit :: "rate_limit_config \<Rightarrow> rate_limit_config \<Rightarrow> change list" where
  "diffRateLimit a b =
     diffField ''security.rate_limit.enabled'' (VBool (rl_enabled a)) (VBool (rl_enabled b)) True
     @ diffField ''security.rate_limit.ip.per_ip'' (VInt (ir_perIP (rl_ip a))) (VInt (ir_perIP (rl_ip b))) True
     @ diffField ''security.rate_limit.ip.burst'' (VInt (ir_burst (rl_ip a))) (VInt (ir_burst (rl_ip b))) True
     @ diffField ''security.rate_limit.ip.cleanup_interval''
         (VDur (ir_cleanupInterval (rl_ip a))) (VDur (ir_cleanupInterval (rl_ip b))) True
     @ diffField ''security.rate_limit.user.per_user'' (VInt (ur_perUser (rl_user a))) (VInt (ur_perUser (rl_user b))) True
     @ diffField ''security.rate_limit.user.burst'' (VInt (ur_burst (rl_user a))) (VInt (ur_burst (rl_user b))) True
     @ diffField ''security.rate_limit.user.cleanup_interval''
         (VDur (ur_cleanupInterval (rl_user a))) (VDur (ur_cleanupInterval (rl_user b))) True
     @ diffField ''security.rate_limit.per_agent'' (VInt (rl_perAgent a)) (VInt (rl_perAgent b)) True"

definition diffSecurityRest :: "security_config \<Rightarrow> security_config \<Rightarrow> change list" where
  "diffSecurityRest s t =
     (let c = se_cardSignature s; d = se_cardSignature t; r = se_replay s; q = se_replay t;
          p = se_push s; u = se_push t in
      diffField ''security.card_signature.require'' (VBool (cs_require c)) (VBool (cs_require d)) True
      @ diffStringSlice ''security.card_signature.trusted_jwks_urls'' (cs_trustedJWKSURLs c) (cs_trustedJWKSURLs d) True
      @ diffField ''security.card_signature.cache_ttl'' (VDur (cs_cacheTTL c)) (VDur (cs_cacheTTL d)) True
      @ diffField ''security.replay.enabled'' (VBool (rp_enabled r)) (VBool (rp_enabled q)) True
      @ diffField ''security.replay.window'' (VDur (rp_window r)) (VDur (rp_window q)) True
      @ diffField ''security.replay.nonce_policy'' (VStr (rp_noncePolicy r)) (VStr (rp_noncePolicy q)) True
      @ diffField ''security.replay.nonce_source'' (VStr (rp_nonceSource r)) (VStr (rp_nonceSource q)) True
      @ diffField ''security.replay.clock_skew'' (VDur (rp_clockSkew r)) (VDur (rp_clockSkew q)) True
      @ diffField ''security.push.block_private_networks''
          (VBool (pu_blockPrivateNetworks p)) (VBool (pu_blockPrivateNetworks u)) True
      @ diffField ''security.push.require_https'' (VBool (pu_requireHTTPS p)) (VBool (pu_requireHTTPS u)) True
      @ diffField ''security.push.require_challenge''
          (VBool (pu_requireChallenge p)) (VBool (pu_requireChallenge u)) True
      @ diffStringSlice ''security.push.allowed_domains'' (pu_allowedDomains p) (pu_allowedDomains u) True
      @ diffField ''security.push.dns_fail_policy'' (VStr (pu_dnsFailPolicy p)) (VStr (pu_dnsFailPolicy u)) True)"

definition diffLogging :: "logging_config \<Rightarrow> logging_config \<Rightarrow> change list" where
  "diffLogging a b =
     diffField ''logging.level'' (VStr (lg_level a)) (VStr (lg_level b)) True
     @ diffField ''logging.format'' (VStr (lg_format a)) (VStr (lg_format b)) True
     @ diffField ''logging.audit.sampling_rate''
         (VFloat (ac_samplingRate (lg_audit a))) (VFloat (ac_samplingRate (lg_audit b))) True
     @ diffField ''logging.audit.error_sampling_rate''
         (VFloat (ac_errorSamplingRate (lg_audit a))) (VFloat (ac_errorSamplingRate (lg_audit b))) True
     @ diffField ''logging.audit.max_body_log_size''
         (VInt (ac_maxBodyLogSize (lg_audit a))) (VInt (ac_maxBodyLogSize (lg_audit b))) True"

definition Diff :: "config \<Rightarrow> config \<Rightarrow> change list" where
  "Diff old new =
     (let a = cf_security old; b = cf_security new in
      diffListen (cf_listen old) (cf_listen new)
      @ diffField ''external_url'' (VStr (cf_externalURL old)) (VStr (cf_externalURL new)) False
      @ diffField ''mcp.enabled'' (VBool (mc_enabled (cf_mcp old))) (VBool (mc_enabled (cf_mcp new))) False
      @ diffField ''mcp.host'' (VStr (mc_host (cf_mcp old))) (VStr (mc_host (cf_mcp new))) False
      @ diffField ''mcp.port'' (VInt (mc_port (cf_mcp old))) (VInt (mc_port (cf_mcp new))) False
      @ diffAgents (cf_agents old) (cf_agents new)
      @ diffField ''security.auth.mode'' (VStr (au_mode (se_auth a))) (VStr (au_mode (se_auth b))) True
      @ diffField ''security.auth.allow_unauthenticated''
          (VBool (au_allowUnauthenticated (se_auth a))) (VBool (au_allowUnauthenticated (se_auth b))) True
      @ diffRateLimit (se_rateLimit a) (se_rateLimit b)
      @ diffSecurityRest a b
      @ diffLogging (cf_logging old) (cf_logging new)
      @ diffField ''routing.mode'' (VStr (rt_mode (cf_routing old))) (VStr (rt_mode (cf_routing new))) False
      @ diffField ''card.mode'' (VStr (cc_mode (cf_card old))) (VStr (cc_mode (cf_card new))) False
      @ diffField ''health.readiness_mode''
          (VStr (hc_readinessMode (cf_health old))) (VStr (hc_readinessMode (cf_health new))) False
      @ diffField ''body_inspection.max_size''
          (VInt (bi_maxSize (cf_bodyInspection old))) (VInt (bi_maxSize (cf_bodyInspection new))) False
      @ diffField ''shutdown.timeout''
          (VDur (sd_timeout (cf_shutdown old))) (VDur (sd_timeout (cf_shutdown new))) False
      @ diffField ''shutdown.drain_timeout''
          (VDur (sd_drainTimeout (cf_shutdown old))) (VDur (sd_drainTimeout (cf_shutdown new))) False)"

section \<open>When there is no change\<close>

lemma diffField_Nil [simp]: "diffField f a b r = [] \<longleftrightarrow> deepEqual a b"
  by (simp add: diffField_def)

lemma diffStringSlice_Nil [simp]: "diffStringSlice f a b r = [] \<longleftrightarrow> a = b"
  by (simp add: diffStringSlice_def)

lemma deepEqual_simps [simp]:
  "deepEqual (VStr a) (VStr b) \<longleftrightarrow> a = b" "deepEqual (VInt i) (VInt j) \<longleftrightarrow> i = j"
  "deepEqual (VBool p) (VBool q) \<longleftrightarrow> p = q" "deepEqual (VDur d) (VDur e) \<longleftrightarrow> d = e"
  "deepEqual (VFloat x) (VFloat y) \<longleftrightarrow> flt_eq x y"
  by (simp_all add: deepEqual_def)

lemma flt_eq_iff: "flt_eq a b \<longleftrightarrow> a = b \<and> a \<noteq> NaN"
  by (cases a; cases b) auto

text \<open>The settings of an agent that the comparison looks at.\<close>

definition agent_key :: "agent_config \<Rightarrow> string \<times> go_duration \<times> int \<times> bool \<times> string \<times> go_duration" where
  "agent_key a = (ag_url a, ag_timeout a, ag_maxStreams a, ag_default a, ag_cardChangePolicy a,
     ag_pollInterval a)"

lemma diffAgent_Nil [simp]: "diffAgent n a b = [] \<longleftrightarrow> agent_key a = agent_key b"
  by (auto simp: diffAgent_def agent_key_def)

lemma agentMap_ok: "map_ok (agentMap as)"
proof -
  have "map_ok m \<Longrightarrow> map_ok (fold (\<lambda>a. map_put (ag_name a) a) as m)" for m :: "(string, agent_config) gomap"
    by (induction as arbitrary: m) auto
  then show ?thesis by (simp add: agentMap_def)
qed

definition agents_view :: "agent_config list \<Rightarrow> string
    \<Rightarrow> (string \<times> go_duration \<times> int \<times> bool \<times> string \<times> go_duration) option" where
  "agents_view as n = map_option agent_key (map_of (agentMap as) n)"

lemma map_views_eq:
  "(\<forall>k a. m k = Some a \<longrightarrow> n k \<noteq> None) \<and> (\<forall>k b. n k = Some b \<longrightarrow> m k \<noteq> None)
     \<and> (\<forall>k a b. m k = Some a \<longrightarrow> n k = Some b \<longrightarrow> f a = f b)
   \<longleftrightarrow> (\<lambda>k. map_option f (m k)) = (\<lambda>k. map_option f (n k))" (is "?L \<longleftrightarrow> ?R")
proof -
  have "?R \<longleftrightarrow> (\<forall>k. map_option f (m k) = map_option f (n k))" by (simp add: fun_eq_iff)
  also have "\<dots> \<longleftrightarrow> (\<forall>k. (\<forall>a. m k = Some a \<longrightarrow> n k \<noteq> None) \<and> (\<forall>b. n k = Some b \<longrightarrow> m k \<noteq> None)
     \<and> (\<forall>a b. m k = Some a \<longrightarrow> n k = Some b \<longrightarrow> f a = f b))"
  proof (intro iff_allI)
    fix k show "map_option f (m k) = map_option f (n k) \<longleftrightarrow> (\<forall>a. m k = Some a \<longrightarrow> n k \<noteq> None)
      \<and> (\<forall>b. n k = Some b \<longrightarrow> m k \<noteq> None) \<and> (\<forall>a b. m k = Some a \<longrightarrow> n k = Some b \<longrightarrow> f a = f b)"
      by (cases "m k"; cases "n k") auto
  qed
  finally show ?thesis by blast
qed

lemma concat_map_Nil: "concat (map f xs) = [] \<longleftrightarrow> (\<forall>x \<in> set xs. f x = [])"
  by auto

lemma case_option_Nil:
  "(case x of None \<Rightarrow> [c] | Some y \<Rightarrow> []) = [] \<longleftrightarrow> x \<noteq> None"
  "(case x of None \<Rightarrow> [] | Some y \<Rightarrow> g y) = [] \<longleftrightarrow> (\<forall>y. x = Some y \<longrightarrow> g y = [])"
  by (auto split: option.splits)

lemma diffAgents_Nil: "diffAgents olds news = [] \<longleftrightarrow> agents_view olds = agents_view news"
proof -
  let ?o = "agentMap olds" and ?n = "agentMap news"
  have in_set: "(\<forall>x \<in> set (agentMap as). P x) \<longleftrightarrow> (\<forall>k v. map_of (agentMap as) k = Some v \<longrightarrow> P (k, v))"
    for as P using map_ok_lookup[OF agentMap_ok[of as]] by (metis surj_pair)
  have "diffAgents olds news = [] \<longleftrightarrow>
     (\<forall>k a. map_of ?o k = Some a \<longrightarrow> map_of ?n k \<noteq> None)
     \<and> (\<forall>k b. map_of ?n k = Some b \<longrightarrow> map_of ?o k \<noteq> None)
     \<and> (\<forall>k a b. map_of ?o k = Some a \<longrightarrow> map_of ?n k = Some b \<longrightarrow> agent_key a = agent_key b)"
    unfolding diffAgents_def Let_def append_is_Nil_conv concat_map_Nil in_set prod.case
      case_option_Nil diffAgent_Nil by blast
  then show ?thesis unfolding map_views_eq by (simp add: agents_view_def fun_eq_iff)
qed

text \<open>Everything the comparison looks at, as one value.\<close>

definition covered where
  "covered c = (let s = cf_security c; p = se_push s; r = se_replay s; l = cf_logging c in
     ((cf_listen c, cf_externalURL c, mc_enabled (cf_mcp c), mc_host (cf_mcp c), mc_port (cf_mcp c)),
      agents_view (cf_agents c),
      (au_mode (se_auth s), au_allowUnauthenticated (se_auth s), se_rateLimit s, se_cardSignature s),
      (rp_enabled r, rp_window r, rp_noncePolicy r, rp_nonceSource r, rp_clockSkew r),
      (pu_blockPrivateNetworks p, pu_requireHTTPS p, pu_requireChallenge p, pu_allowedDomains p,
       pu_dnsFailPolicy p),
      (lg_level l, lg_format l, lg_audit l),
      (rt_mode (cf_routing c), cc_mode (cf_card c), hc_readinessMode (cf_health c),
       bi_maxSize (cf_bodyInspection c), cf_shutdown c)))"

definition rates_comparable :: "config \<Rightarrow> bool" where
  "rates_comparable c \<longleftrightarrow> ac_samplingRate (lg_audit (cf_logging c)) \<noteq> NaN
     \<and> ac_errorSamplingRate (lg_audit (cf_logging c)) \<noteq> NaN"

lemma diffListen_Nil: "diffListen a b = [] \<longleftrightarrow> a = b"
  by (cases a; cases b) (auto simp: diffListen_def tls_config.equality)

lemma diffRateLimit_Nil: "diffRateLimit a b = [] \<longleftrightarrow> a = b"
  by (auto simp: diffRateLimit_def intro!: rate_limit_config.equality ip_rate_config.equality
      user_rate_config.equality)

lemma diffLogging_Nil: "diffLogging a b = [] \<longleftrightarrow>
    (lg_level a, lg_format a, lg_audit a) = (lg_level b, lg_format b, lg_audit b)
    \<and> ac_samplingRate (lg_audit a) \<noteq> NaN \<and> ac_errorSamplingRate (lg_audit a) \<noteq> NaN"
  by (auto simp: diffLogging_def flt_eq_iff intro!: audit_config.equality)

lemma diffSecurityRest_Nil: "diffSecurityRest s t = [] \<longleftrightarrow>
    se_cardSignature s = se_cardSignature t
    \<and> (rp_enabled (se_replay s), rp_window (se_replay s), rp_noncePolicy (se_replay s),
       rp_nonceSource (se_replay s), rp_clockSkew (se_replay s))
      = (rp_enabled (se_replay t), rp_window (se_replay t), rp_noncePolicy (se_replay t),
       rp_nonceSource (se_replay t), rp_clockSkew (se_replay t))
    \<and> (pu_blockPrivateNetworks (se_push s), pu_requireHTTPS (se_push s),
       pu_requireChallenge (se_push s), pu_allowedDomains (se_push s), pu_dnsFailPolicy (se_push s))
      = (pu_blockPrivateNetworks (se_push t), pu_requireHTTPS (se_push t),
       pu_requireChallenge (se_push t), pu_allowedDomains (se_push t), pu_dnsFailPolicy (se_push t))"
  by (auto simp: diffSecurityRest_def Let_def intro!: card_signature_config.equality)

lemma shutdown_eq_iff: "(a :: shutdown_config) = b \<longleftrightarrow>
    sd_timeout a = sd_timeout b \<and> sd_drainTimeout a = sd_drainTimeout b"
  by auto

lemma Diff_Nil_iff: "Diff a b = [] \<longleftrightarrow> covered a = covered b \<and> rates_comparable a"
  unfolding Diff_def Let_def append_is_Nil_conv diffListen_Nil diffRateLimit_Nil diffLogging_Nil
    diffSecurityRest_Nil diffAgents_Nil diffField_Nil deepEqual_simps covered_def rates_comparable_def
    prod.inject shutdown_eq_iff
  by blast

section \<open>The reloader (reload.go)\<close>

text \<open>
  A subscriber's \<open>OnConfigReload\<close> takes the new configuration and the state of the process and
  returns whether it succeeded, with the state after it.
\<close>

type_synonym 's subscriber = "config \<Rightarrow> 's \<Rightarrow> bool \<times> 's"

record 's reloader =
  rd_current :: config
  rd_subscribers :: "'s subscriber list"
  rd_debounce :: go_duration
  rd_watchFile :: bool

definition NewConfigReloader :: "config \<Rightarrow> 's reloader" where
  "NewConfigReloader cfg = \<lparr>rd_current = cfg, rd_subscribers = [],
     rd_debounce = re_debounce (cf_reload cfg), rd_watchFile = re_watchFile (cf_reload cfg)\<rparr>"

definition Register :: "'s subscriber \<Rightarrow> 's reloader \<Rightarrow> 's reloader" where
  "Register sub r = r\<lparr>rd_subscribers := rd_subscribers r @ [sub]\<rparr>"

definition notifyAll :: "'s subscriber list \<Rightarrow> config \<Rightarrow> 's \<Rightarrow> 's" where
  "notifyAll subs cfg s = fold (\<lambda>sub st. snd (sub cfg st)) subs s"

definition Reload ::
  "load_error + config \<Rightarrow> 's reloader \<Rightarrow> 's \<Rightarrow> load_error option \<times> 's reloader \<times> 's" where
  "Reload loaded r s = (case loaded of
      Inl e \<Rightarrow> (Some e, r, s)
    | Inr newCfg \<Rightarrow>
        (let changes = Diff (rd_current r) newCfg in
         if length changes = 0 then (None, r, s)
         else (None, r\<lparr>rd_current := newCfg\<rparr>, notifyAll (rd_subscribers r) newCfg s)))"

lemma Reload_error: "Reload (Inl e) r s = (Some e, r, s)"
  by (simp add: Reload_def)

lemma Reload_static: "Reload l r s = (e, r', s') \<Longrightarrow> r' = r\<lparr>rd_current := rd_current r'\<rparr>"
  by (auto simp: Reload_def Let_def split: sum.splits if_splits)

section \<open>The event loop\<close>

text \<open>
  The loop state: the reloader, the state the subscribers share, the time the debounce timer fires
  (\<open>None\<close> when \<open>debounceCh\<close> is nil), whether the loop has returned, and how many reloads it ran.
  Each event carries what the loop needs of the outside: the result of \<open>Load\<close> when it reloads, the
  time when it arms the timer.
\<close>

record 's reload_loop =
  lp_reloader :: "'s reloader"
  lp_state :: 's
  lp_timer :: "go_time option"
  lp_done :: bool
  lp_reloads :: nat

datatype reload_event =
    CtxDone
  | Sighup "load_error + config"
  | FileEvent bool go_time
  | WatcherClosed
  | WatcherError
  | DebounceFires go_time "load_error + config"

definition loopReload :: "load_error + config \<Rightarrow> 's reload_loop \<Rightarrow> 's reload_loop" where
  "loopReload l p = (case Reload l (lp_reloader p) (lp_state p) of
      (_, r, s) \<Rightarrow> p\<lparr>lp_reloader := r, lp_state := s, lp_reloads := Suc (lp_reloads p)\<rparr>)"

text \<open>One round of the \<open>select\<close>; the timer's channel delivers only when it is armed and due.\<close>

inductive run_step :: "'s reload_loop \<Rightarrow> reload_event \<Rightarrow> 's reload_loop \<Rightarrow> bool" where
  ctx_done: "\<not> lp_done p \<Longrightarrow> run_step p CtxDone (p\<lparr>lp_timer := None, lp_done := True\<rparr>)"
| sighup: "\<not> lp_done p \<Longrightarrow> run_step p (Sighup l) (loopReload l p)"
| file_event: "\<not> lp_done p \<Longrightarrow> run_step p (FileEvent relevant now)
     (if relevant then p\<lparr>lp_timer := Some (now + rd_debounce (lp_reloader p))\<rparr> else p)"
| watcher_closed: "\<not> lp_done p \<Longrightarrow> run_step p WatcherClosed (p\<lparr>lp_done := True\<rparr>)"
| watcher_error: "\<not> lp_done p \<Longrightarrow> run_step p WatcherError p"
| debounce: "\<lbrakk>\<not> lp_done p; lp_timer p = Some d; d \<le> now\<rbrakk> \<Longrightarrow>
     run_step p (DebounceFires now l) (loopReload l (p\<lparr>lp_timer := None\<rparr>))"

inductive_cases run_stepE: "run_step p e p'"

inductive run_steps :: "'s reload_loop \<Rightarrow> reload_event list \<Rightarrow> 's reload_loop \<Rightarrow> bool" where
  run_nil: "run_steps p [] p"
| run_cons: "\<lbrakk>run_step p e q; run_steps q es r\<rbrakk> \<Longrightarrow> run_steps p (e # es) r"

fun triggers :: "reload_event \<Rightarrow> nat" where
  "triggers (Sighup l) = 1"
| "triggers (FileEvent relevant t) = (if relevant then 1 else 0)"
| "triggers _ = 0"

definition armed :: "'s reload_loop \<Rightarrow> nat" where
  "armed p = (if lp_timer p = None then 0 else 1)"

lemma loopReload_sel [simp]:
  "lp_timer (loopReload l p) = lp_timer p" "lp_done (loopReload l p) = lp_done p"
  "lp_reloads (loopReload l p) = Suc (lp_reloads p)"
  by (simp_all add: loopReload_def split: prod.splits)

text \<open>The reload count never exceeds the triggers: each arming of the timer pays for one reload.\<close>

lemma run_step_budget:
  "run_step p e q \<Longrightarrow> lp_reloads q + armed q \<le> lp_reloads p + armed p + triggers e"
  by (erule run_stepE) (auto simp: armed_def)

lemma run_steps_budget:
  "run_steps p es q \<Longrightarrow> lp_reloads q + armed q \<le> lp_reloads p + armed p + sum_list (map triggers es)"
proof (induction rule: run_steps.induct)
  case (run_cons p e q es r)
  then show ?case using run_step_budget[OF run_cons.hyps(1)] by simp
qed simp

text \<open>A burst of file events only moves the deadline.\<close>

lemma run_steps_burst:
  assumes "run_steps p (map (\<lambda>t. FileEvent True t) ts) q"
  shows "q = (if ts = [] then p else p\<lparr>lp_timer := Some (last ts + rd_debounce (lp_reloader p))\<rparr>)"
  using assms
proof (induction ts arbitrary: p)
  case Nil
  then show ?case by (auto elim: run_steps.cases)
next
  case (Cons t ts)
  from Cons.prems obtain m where s: "run_step p (FileEvent True t) m"
    and r: "run_steps m (map (\<lambda>t. FileEvent True t) ts) q"
    by (cases rule: run_steps.cases) auto
  from s have m: "m = p\<lparr>lp_timer := Some (t + rd_debounce (lp_reloader p))\<rparr>"
    by (auto elim: run_stepE)
  show ?case using Cons.IH[OF r] by (simp add: m)
qed

section \<open>Properties\<close>

text \<open>C23: A reload leaves the running configuration alone when the file does not load, with the error
  reported, or when it agrees with the running one in all compared settings; otherwise the whole new
  configuration becomes current, settings that need a restart included, and every subscriber is given
  it once, in the order of registration, whether or not another fails.\<close>

theorem reload_outcome:
  "(\<exists>e. loaded = Inl e \<and> Reload loaded r s = (Some e, r, s))
   \<or> (\<exists>c. loaded = Inr c \<and> covered (rd_current r) = covered c \<and> rates_comparable (rd_current r)
        \<and> Reload loaded r s = (None, r, s))
   \<or> (\<exists>c. loaded = Inr c \<and> \<not> (covered (rd_current r) = covered c \<and> rates_comparable (rd_current r))
        \<and> Reload loaded r s = (None, r\<lparr>rd_current := c\<rparr>,
            fold (\<lambda>sub st. snd (sub c st)) (rd_subscribers r) s))"
proof (cases loaded)
  case (Inl e)
  then show ?thesis by (simp add: Reload_def)
next
  case (Inr c)
  then show ?thesis
    by (cases "Diff (rd_current r) c = []")
      (auto simp: Reload_def Let_def notifyAll_def Diff_Nil_iff[symmetric])
qed

text \<open>A reload after a change of the access policies alone does nothing: policies are not among the
  compared settings, so the change is not noticed and no subscriber hears of it.\<close>

theorem policy_change_not_reloaded:
  assumes "rates_comparable (rd_current r)"
  shows "Reload (Inr ((rd_current r)\<lparr>cf_security := (cf_security (rd_current r))\<lparr>se_policies := ps\<rparr>\<rparr>)) r s
    = (None, r, s)"
proof -
  have "Diff (rd_current r) ((rd_current r)\<lparr>cf_security := (cf_security (rd_current r))\<lparr>se_policies := ps\<rparr>\<rparr>) = []"
    using assms by (simp add: Diff_Nil_iff covered_def Let_def)
  then show ?thesis by (simp add: Reload_def)
qed

theorem policy_change_not_reloaded_witness:
  "Reload (Inr (smallConfig\<lparr>cf_security := (cf_security smallConfig)\<lparr>se_policies := [\<lparr>pc_name = ''no-send'',
       pc_description = [], pc_match = \<lparr>pmc_agents = [], pmc_methods = [], pmc_users = [], pmc_ips = [],
         pmc_headers = [], pmc_timeRange = None\<rparr>, pc_action = ''deny'', pc_priority = 9\<rparr>]\<rparr>\<rparr>))
     (Register (\<lambda>c n. (True, Suc n)) (NewConfigReloader smallConfig)) 0
   = (None, Register (\<lambda>c n. (True, Suc n)) (NewConfigReloader smallConfig), 0)"
  using policy_change_not_reloaded[of "Register (\<lambda>c n. (True, Suc n)) (NewConfigReloader smallConfig)"
      "[\<lparr>pc_name = ''no-send'', pc_description = [], pc_match = \<lparr>pmc_agents = [], pmc_methods = [],
         pmc_users = [], pmc_ips = [], pmc_headers = [], pmc_timeRange = None\<rparr>, pc_action = ''deny'',
         pc_priority = 9\<rparr>]" 0]
  by (simp add: Register_def NewConfigReloader_def rates_comparable_def smallConfig_def zeroConfig_def)

text \<open>C24: File events are debounced: along any run of the event loop from its start the number of reloads
  is at most the number of signals and relevant file events, and a burst of file events only moves the
  one deadline to the last event plus the debounce time.\<close>

theorem reloads_debounced:
  assumes "run_steps p es q" and "lp_timer p = None"
  shows "lp_reloads q \<le> lp_reloads p + sum_list (map triggers es)
    \<and> (\<forall>ts. es = map (\<lambda>t. FileEvent True t) ts \<longrightarrow> lp_reloads q = lp_reloads p \<and>
          (ts \<noteq> [] \<longrightarrow> lp_timer q = Some (last ts + rd_debounce (lp_reloader p))))"
  using run_steps_budget[OF assms(1)] assms run_steps_burst[of p _ q] by (fastforce simp: armed_def)

definition idleLoop :: "unit reload_loop" where
  "idleLoop = \<lparr>lp_reloader = NewConfigReloader smallConfig, lp_state = (), lp_timer = None,
     lp_done = False, lp_reloads = 0\<rparr>"

theorem reloads_debounced_witness:
  "\<exists>q. run_steps idleLoop [FileEvent True 5] q \<and> lp_reloads q \<le> 1"
proof -
  have "run_step idleLoop (FileEvent True 5)
      (if True then idleLoop\<lparr>lp_timer := Some (5 + rd_debounce (lp_reloader idleLoop))\<rparr> else idleLoop)"
    by (rule file_event) (simp add: idleLoop_def)
  then have r: "run_steps idleLoop [FileEvent True 5]
      (idleLoop\<lparr>lp_timer := Some (5 + rd_debounce (lp_reloader idleLoop))\<rparr>)"
    by (auto intro: run_steps.intros)
  with reloads_debounced[OF r] show ?thesis by (intro exI conjI) (auto simp: idleLoop_def)
qed

end
