(* ===== verification/Go_Time.thy ===== *)
theory Go_Time
  imports Prelude
begin

text \<open>
  The parsers of Go's \<open>time\<close> package the gateway calls: \<open>getnum\<close>, the layout \<open>15:04\<close>, and
  \<open>time.RFC3339\<close>. A time is its number of nanoseconds since the Unix epoch.
\<close>

text \<open>\<open>getnum\<close>: two digits, or one when \<open>fixed\<close> is false.\<close>

definition getnum :: "string \<Rightarrow> bool \<Rightarrow> (nat \<times> string) option" where
  "getnum s fixed = (case s of
      [] \<Rightarrow> None
    | a # r \<Rightarrow>
        if \<not> isDigit a then None
        else (case r of
            b # r' \<Rightarrow>
              if isDigit b then Some (10 * digitVal a + digitVal b, r')
              else if fixed then None else Some (digitVal a, r)
          | [] \<Rightarrow> if fixed then None else Some (digitVal a, r)))"

text \<open>\<open>time.Parse("15:04", s)\<close>, in minutes: an hour of one or two digits, a minute of two.\<close>

definition parseHHMM :: "string \<Rightarrow> nat option" where
  "parseHHMM s = (case getnum s False of
      None \<Rightarrow> None
    | Some (h, r) \<Rightarrow>
        if 24 \<le> h \<or> \<not> hasPrefix r '':'' then None
        else (case getnum (drop 1 r) True of
            None \<Rightarrow> None
          | Some (m, rest) \<Rightarrow> if 60 \<le> m \<or> rest \<noteq> [] then None else Some (60 * h + m)))"

lemma parseHHMM_less: "parseHHMM s = Some m \<Longrightarrow> m < 1440"
  by (auto simp: parseHHMM_def split: option.splits if_splits)

section \<open>RFC 3339\<close>

definition isLeap :: "nat \<Rightarrow> bool" where
  "isLeap y \<longleftrightarrow> y mod 4 = 0 \<and> (y mod 100 \<noteq> 0 \<or> y mod 400 = 0)"

definition daysIn :: "nat \<Rightarrow> nat \<Rightarrow> nat" where
  "daysIn m y = (if m = 2 then (if isLeap y then 29 else 28)
                 else if m \<in> {4, 6, 9, 11} then 30 else 31)"

text \<open>Days from 1970-01-01 to the given date of the Gregorian calendar.\<close>

definition daysFromEpoch :: "nat \<Rightarrow> nat \<Rightarrow> nat \<Rightarrow> int" where
  "daysFromEpoch y m d =
     (let p = int y - 1 in
      365 * p + p div 4 - p div 100 + p div 400
        + int (sum_list (map (\<lambda>k. daysIn k y) [1..<m])) + int d - 1 - 719162)"

definition decNum :: "string \<Rightarrow> int" where
  "decNum s = foldl (\<lambda>a c. 10 * a + int (digitVal c)) 0 s"

fun expectByte :: "char \<Rightarrow> string \<Rightarrow> string option" where
  "expectByte c [] = None"
| "expectByte c (x # xs) = (if x = c then Some xs else None)"

text \<open>A fraction after the seconds: nine digits count, further ones are skipped.\<close>

definition parseFraction :: "string \<Rightarrow> int \<times> string" where
  "parseFraction s = (case s of
      c # d # r \<Rightarrow>
        if (c = CHR ''.'' \<or> c = CHR '','') \<and> isDigit d then
          (let ds = takeWhile isDigit (d # r); nine = take 9 ds in
           (decNum nine * 10 ^ (9 - length nine), dropWhile isDigit (d # r)))
        else (0, s)
    | _ \<Rightarrow> (0, s))"

text \<open>The zone: \<open>Z\<close>, or a sign, hours and minutes; the offset in seconds.\<close>

definition parseZone :: "string \<Rightarrow> (int \<times> string) option" where
  "parseZone s =
     (if hasPrefix s ''Z'' then Some (0, drop 1 s)
      else if length s < 6 \<or> s ! 3 \<noteq> CHR '':'' then None
      else (case (getnum (take 2 (drop 1 s)) True, getnum (take 2 (drop 4 s)) True) of
          (Some (hr, _), Some (mm, _)) \<Rightarrow>
            if hr > 24 \<or> mm > 60 then None
            else if s ! 0 = CHR ''+'' then Some (int (60 * (60 * hr + mm)), drop 6 s)
            else if s ! 0 = CHR ''-'' then Some (- int (60 * (60 * hr + mm)), drop 6 s)
            else None
        | _ \<Rightarrow> None))"

definition parseRFC3339 :: "string \<Rightarrow> go_time option" where
  "parseRFC3339 s =
     (if length s < 4 \<or> \<not> list_all isDigit (take 4 s) then None
      else
        (let year = nat (decNum (take 4 s)) in
         Option.bind (expectByte (CHR ''-'') (drop 4 s)) (\<lambda>s1.
         Option.bind (getnum s1 True) (\<lambda>(month, s2).
         if month = 0 \<or> 12 < month then None else
         Option.bind (expectByte (CHR ''-'') s2) (\<lambda>s3.
         Option.bind (getnum s3 True) (\<lambda>(day, s4).
         Option.bind (expectByte (CHR ''T'') s4) (\<lambda>s5.
         Option.bind (getnum s5 False) (\<lambda>(hour, s6).
         if 24 \<le> hour then None else
         Option.bind (expectByte (CHR '':'') s6) (\<lambda>s7.
         Option.bind (getnum s7 True) (\<lambda>(mn, s8).
         if 60 \<le> mn then None else
         Option.bind (expectByte (CHR '':'') s8) (\<lambda>s9.
         Option.bind (getnum s9 True) (\<lambda>(sec, s10).
         if 60 \<le> sec then None else
         (let (nsec, s11) = parseFraction s10 in
         Option.bind (parseZone s11) (\<lambda>(offset, s12).
         if s12 \<noteq> [] then None
         else if day < 1 \<or> daysIn month year < day then None
         else Some ((daysFromEpoch year month day * 86400
                      + int (60 * (60 * hour + mn) + sec) - offset) * 1000000000 + nsec)))))))))))))))"

end
