(* ===== verification/Mcp_Tools.thy ===== *)
theory Mcp_Tools
  imports Http_Model Go_Time Config
begin

text \<open>
  The tools of the MCP management server (\<open>internal/mcpserver/tools.go\<close>, \<open>bridge.go\<close> and the tool and
  resource lists of \<open>server.go\<close>): the interface to the gateway as a record of operations on a state
  \<open>'b\<close>, the arguments of each tool, and the dispatch with its gate for the tools that write.

  The texts of the errors of \<open>encoding/json\<close> and \<open>time\<close> and the clock are the record \<open>mcp_env\<close>.
\<close>

section \<open>The interface (bridge.go)\<close>

record 'b bridge =
  bg_ListAgents :: "'b \<Rightarrow> jout"
  bg_HealthCheck :: "go_time \<Rightarrow> 'b \<Rightarrow> jout"
  bg_GetBlockedRequests :: "go_time \<Rightarrow> int \<Rightarrow> 'b \<Rightarrow> jout"
  bg_GetAgentCard :: "string \<Rightarrow> 'b \<Rightarrow> string + jout"
  bg_GetAggregatedCard :: "'b \<Rightarrow> string + jout"
  bg_GetRateLimitStatus :: "'b \<Rightarrow> jout"
  bg_UpdateRateLimit :: "string \<Rightarrow> int \<Rightarrow> 'b \<Rightarrow> (string + int) \<times> 'b"
  bg_RegisterAgent :: "string \<Rightarrow> string \<Rightarrow> bool \<Rightarrow> 'b \<Rightarrow> string option \<times> 'b"
  bg_DeregisterAgent :: "string \<Rightarrow> 'b \<Rightarrow> string option \<times> 'b"
  bg_SendTestMessage :: "string \<Rightarrow> string \<Rightarrow> 'b \<Rightarrow> (string + jout) \<times> 'b"
  bg_ListPendingChanges :: "'b \<Rightarrow> jout"
  bg_ApproveCardChange :: "string \<Rightarrow> 'b \<Rightarrow> string option \<times> 'b"
  bg_RejectCardChange :: "string \<Rightarrow> 'b \<Rightarrow> string option \<times> 'b"
  bg_ListPolicies :: "'b \<Rightarrow> jout"
  bg_EvaluatePolicy :: "string \<Rightarrow> string \<Rightarrow> string \<Rightarrow> string \<Rightarrow> 'b \<Rightarrow> jout"
  bg_GetConfig :: "'b \<Rightarrow> jout"
  bg_GetMetrics :: "go_time \<Rightarrow> 'b \<Rightarrow> jout"
  bg_GetSecurityReport :: "'b \<Rightarrow> jout"

record mcp_env =
  me_now :: go_time
  me_jsonError :: "json option \<Rightarrow> string"
  me_timeError :: "string \<Rightarrow> string"

section \<open>Formatting\<close>

text \<open>
  \<open>Tf\<close> with one string argument: the verbs \<open>%s\<close> and \<open>%v\<close> give the argument; every other verb is treated as
  the bad verb \<open>fmt\<close> reports, which the locale files do not use. \<open>None\<close>: the argument is used up.
\<close>

fun sprintf1 :: "string \<Rightarrow> string option \<Rightarrow> string" where
  "sprintf1 [] None = []"
| "sprintf1 [] (Some a) = ''%!(EXTRA string='' @ a @ '')''"
| "sprintf1 [c] arg = (if c = CHR ''%'' then ''%!(NOVERB)'' else [c]) @ sprintf1 [] arg"
| "sprintf1 (c # v # r) arg =
     (if c \<noteq> CHR ''%'' then c # sprintf1 (v # r) arg
      else if v = CHR ''%'' then CHR ''%'' # sprintf1 r arg
      else (case arg of
          None \<Rightarrow> ''%!'' @ [v] @ ''(MISSING)'' @ sprintf1 r None
        | Some a \<Rightarrow> (if v = CHR ''s'' \<or> v = CHR ''v'' then a else ''%!'' @ [v] @ ''(string='' @ a @ '')'') @ sprintf1 r None))"

definition loc_Tf :: "localizer \<Rightarrow> string \<Rightarrow> string \<Rightarrow> string" where
  "loc_Tf l key arg = sprintf1 (loc_T l key) (Some arg)"

section \<open>Arguments\<close>

text \<open>The members of the arguments; an absent block is an error, or empty for \<open>optFields\<close>.\<close>

definition argFields :: "json option \<Rightarrow> (string \<times> json) list option" where
  "argFields raw = (case raw of None \<Rightarrow> None | Some v \<Rightarrow> structFields v)"

definition optFields :: "json option \<Rightarrow> (string \<times> json) list option" where
  "optFields raw = (case raw of None \<Rightarrow> Some [] | Some v \<Rightarrow> structFields v)"

definition strArg :: "string \<Rightarrow> (string \<times> json) list \<Rightarrow> string option" where
  "strArg k ms = setString [] (fieldVals k ms)"

text \<open>A pointer to an int: null resets it.\<close>

fun setIntPtr :: "int option \<Rightarrow> json list \<Rightarrow> int option option" where
  "setIntPtr old [] = Some old"
| "setIntPtr old (JNum l # vs) = (case litInt l of None \<Rightarrow> None | Some i \<Rightarrow> setIntPtr (Some i) vs)"
| "setIntPtr old (JNull # vs) = setIntPtr None vs"
| "setIntPtr old (_ # vs) = None"

definition textResult :: "jout \<Rightarrow> string + jout" where
  "textResult v = Inr (JoObj [(''content'', JoArr [JoObj [(''type'', JoStr ''text''), (''text'', JoText v)]])])"

definition parseErr :: "mcp_env \<Rightarrow> json option \<Rightarrow> string + 'a" where
  "parseErr env raw = Inl (''parsing arguments: '' @ me_jsonError env raw)"

definition required :: "string \<Rightarrow> string + 'a" where
  "required k = Inl (k @ '' is required'')"

section \<open>Read tools\<close>

definition toolListAgents :: "('b, 'x) bridge_scheme \<Rightarrow> 'b \<Rightarrow> string + jout" where
  "toolListAgents bg b = textResult (bg_ListAgents bg b)"

definition toolHealthCheck :: "mcp_env \<Rightarrow> ('b, 'x) bridge_scheme \<Rightarrow> 'b \<Rightarrow> string + jout" where
  "toolHealthCheck env bg b = textResult (bg_HealthCheck bg (me_now env) b)"

definition defaultBlockedLimit :: int where "defaultBlockedLimit = 100"
definition defaultBlockedWindow :: go_duration where "defaultBlockedWindow = nanos 3600"

definition toolGetBlockedRequests :: "mcp_env \<Rightarrow> ('b, 'x) bridge_scheme \<Rightarrow> json option \<Rightarrow> 'b \<Rightarrow> string + jout" where
  "toolGetBlockedRequests env bg raw b = (case optFields raw of
      None \<Rightarrow> parseErr env raw
    | Some ms \<Rightarrow> (case (strArg ''since'' ms, setIntPtr None (fieldVals ''limit'' ms)) of
        (Some since, Some limit) \<Rightarrow>
          (let n = (case limit of None \<Rightarrow> defaultBlockedLimit | Some i \<Rightarrow> i) in
           if since = [] then textResult (bg_GetBlockedRequests bg (me_now env - defaultBlockedWindow) n b)
           else (case parseRFC3339 since of
               None \<Rightarrow> Inl (me_timeError env since)
             | Some t \<Rightarrow> textResult (bg_GetBlockedRequests bg t n b)))
      | _ \<Rightarrow> parseErr env raw))"

definition toolGetAgentCard :: "mcp_env \<Rightarrow> ('b, 'x) bridge_scheme \<Rightarrow> json option \<Rightarrow> 'b \<Rightarrow> string + jout" where
  "toolGetAgentCard env bg raw b = (case Option.bind (optFields raw) (strArg ''agent_name'') of
      None \<Rightarrow> parseErr env raw
    | Some name \<Rightarrow>
        if name = [] then required ''agent_name''
        else (case bg_GetAgentCard bg name b of Inl e \<Rightarrow> Inl e | Inr c \<Rightarrow> textResult c))"

definition toolGetAggregatedCard :: "('b, 'x) bridge_scheme \<Rightarrow> 'b \<Rightarrow> string + jout" where
  "toolGetAggregatedCard bg b = (case bg_GetAggregatedCard bg b of Inl e \<Rightarrow> Inl e | Inr c \<Rightarrow> textResult c)"

definition toolGetRateLimitStatus :: "('b, 'x) bridge_scheme \<Rightarrow> 'b \<Rightarrow> string + jout" where
  "toolGetRateLimitStatus bg b = textResult (bg_GetRateLimitStatus bg b)"

definition toolListPolicies :: "('b, 'x) bridge_scheme \<Rightarrow> 'b \<Rightarrow> string + jout" where
  "toolListPolicies bg b = textResult (bg_ListPolicies bg b)"

definition toolEvaluatePolicy :: "mcp_env \<Rightarrow> ('b, 'x) bridge_scheme \<Rightarrow> json option \<Rightarrow> 'b \<Rightarrow> string + jout" where
  "toolEvaluatePolicy env bg raw b = (case optFields raw of
      None \<Rightarrow> parseErr env raw
    | Some ms \<Rightarrow> (case (strArg ''agent'' ms, strArg ''method'' ms, strArg ''user'' ms, strArg ''ip'' ms) of
        (Some agent, Some method, Some user, Some ip) \<Rightarrow> textResult (bg_EvaluatePolicy bg agent method user ip b)
      | _ \<Rightarrow> parseErr env raw))"

definition toolListPendingChanges :: "('b, 'x) bridge_scheme \<Rightarrow> 'b \<Rightarrow> string + jout" where
  "toolListPendingChanges bg b = textResult (bg_ListPendingChanges bg b)"

section \<open>Write tools\<close>

definition toolUpdateRateLimit ::
  "mcp_env \<Rightarrow> ('b, 'x) bridge_scheme \<Rightarrow> json option \<Rightarrow> 'b \<Rightarrow> (string + jout) \<times> 'b" where
  "toolUpdateRateLimit env bg raw b = (case argFields raw of
      None \<Rightarrow> (parseErr env raw, b)
    | Some ms \<Rightarrow> (case (strArg ''agent_name'' ms, setInt 0 (fieldVals ''per_minute'' ms)) of
        (Some name, Some n) \<Rightarrow>
          if name = [] then (required ''agent_name'', b)
          else if n \<le> 0 then (Inl ''per_minute must be positive'', b)
          else (case bg_UpdateRateLimit bg name n b of
              (Inl e, b') \<Rightarrow> (Inl e, b')
            | (Inr previous, b') \<Rightarrow> (textResult (JoObj [(''previous'', JoInt previous), (''updated'', JoInt n)]), b'))
      | _ \<Rightarrow> (parseErr env raw, b)))"

text \<open>The result of an operation that only can fail.\<close>

definition doneResult :: "string \<Rightarrow> string option \<times> 'b \<Rightarrow> (string + jout) \<times> 'b" where
  "doneResult k r = (case r of
      (Some e, b) \<Rightarrow> (Inl e, b)
    | (None, b) \<Rightarrow> (textResult (JoObj [(k, JoBool True)]), b))"

definition toolRegisterAgent ::
  "mcp_env \<Rightarrow> ('b, 'x) bridge_scheme \<Rightarrow> json option \<Rightarrow> 'b \<Rightarrow> (string + jout) \<times> 'b" where
  "toolRegisterAgent env bg raw b = (case argFields raw of
      None \<Rightarrow> (parseErr env raw, b)
    | Some ms \<Rightarrow> (case (strArg ''name'' ms, strArg ''url'' ms, setBool False (fieldVals ''default'' ms)) of
        (Some name, Some url, Some d) \<Rightarrow>
          if name = [] then (required ''name'', b)
          else if url = [] then (required ''url'', b)
          else doneResult ''registered'' (bg_RegisterAgent bg name url d b)
      | _ \<Rightarrow> (parseErr env raw, b)))"

definition toolDeregisterAgent ::
  "mcp_env \<Rightarrow> ('b, 'x) bridge_scheme \<Rightarrow> json option \<Rightarrow> 'b \<Rightarrow> (string + jout) \<times> 'b" where
  "toolDeregisterAgent env bg raw b = (case Option.bind (argFields raw) (strArg ''name'') of
      None \<Rightarrow> (parseErr env raw, b)
    | Some name \<Rightarrow>
        if name = [] then (required ''name'', b) else doneResult ''removed'' (bg_DeregisterAgent bg name b))"

definition toolSendTestMessage ::
  "mcp_env \<Rightarrow> ('b, 'x) bridge_scheme \<Rightarrow> json option \<Rightarrow> 'b \<Rightarrow> (string + jout) \<times> 'b" where
  "toolSendTestMessage env bg raw b = (case argFields raw of
      None \<Rightarrow> (parseErr env raw, b)
    | Some ms \<Rightarrow> (case (strArg ''agent_name'' ms, strArg ''text'' ms) of
        (Some name, Some text) \<Rightarrow>
          if name = [] then (required ''agent_name'', b)
          else if text = [] then (required ''text'', b)
          else (case bg_SendTestMessage bg name text b of
              (Inl e, b') \<Rightarrow> (Inl e, b') | (Inr v, b') \<Rightarrow> (textResult v, b'))
      | _ \<Rightarrow> (parseErr env raw, b)))"

definition toolApproveCardChange ::
  "mcp_env \<Rightarrow> ('b, 'x) bridge_scheme \<Rightarrow> json option \<Rightarrow> 'b \<Rightarrow> (string + jout) \<times> 'b" where
  "toolApproveCardChange env bg raw b = (case Option.bind (argFields raw) (strArg ''agent_name'') of
      None \<Rightarrow> (parseErr env raw, b)
    | Some name \<Rightarrow>
        if name = [] then (required ''agent_name'', b) else doneResult ''approved'' (bg_ApproveCardChange bg name b))"

definition toolRejectCardChange ::
  "mcp_env \<Rightarrow> ('b, 'x) bridge_scheme \<Rightarrow> json option \<Rightarrow> 'b \<Rightarrow> (string + jout) \<times> 'b" where
  "toolRejectCardChange env bg raw b = (case Option.bind (argFields raw) (strArg ''agent_name'') of
      None \<Rightarrow> (parseErr env raw, b)
    | Some name \<Rightarrow>
        if name = [] then (required ''agent_name'', b) else doneResult ''rejected'' (bg_RejectCardChange bg name b))"

section \<open>Calling a tool\<close>

definition writeToolNames :: "string list" where
  "writeToolNames = [''update_rate_limit'', ''register_agent'', ''deregister_agent'', ''send_test_message'',
     ''approve_card_change'', ''reject_card_change'']"

definition isWriteTool :: "string \<Rightarrow> bool" where
  "isWriteTool name \<longleftrightarrow> name \<in> set writeToolNames"

text \<open>The switch on the name; \<open>None\<close> is the default case.\<close>

definition runTool ::
  "mcp_env \<Rightarrow> ('b, 'x) bridge_scheme \<Rightarrow> string \<Rightarrow> json option \<Rightarrow> 'b \<Rightarrow> ((string + jout) \<times> 'b) option" where
  "runTool env bg name raw b =
     (if name = ''list_agents'' then Some (toolListAgents bg b, b)
      else if name = ''health_check'' then Some (toolHealthCheck env bg b, b)
      else if name = ''get_blocked_requests'' then Some (toolGetBlockedRequests env bg raw b, b)
      else if name = ''get_agent_card'' then Some (toolGetAgentCard env bg raw b, b)
      else if name = ''get_aggregated_card'' then Some (toolGetAggregatedCard bg b, b)
      else if name = ''get_rate_limit_status'' then Some (toolGetRateLimitStatus bg b, b)
      else if name = ''update_rate_limit'' then Some (toolUpdateRateLimit env bg raw b)
      else if name = ''register_agent'' then Some (toolRegisterAgent env bg raw b)
      else if name = ''deregister_agent'' then Some (toolDeregisterAgent env bg raw b)
      else if name = ''send_test_message'' then Some (toolSendTestMessage env bg raw b)
      else if name = ''list_policies'' then Some (toolListPolicies bg b, b)
      else if name = ''evaluate_policy'' then Some (toolEvaluatePolicy env bg raw b, b)
      else if name = ''list_pending_changes'' then Some (toolListPendingChanges bg b, b)
      else if name = ''approve_card_change'' then Some (toolApproveCardChange env bg raw b)
      else if name = ''reject_card_change'' then Some (toolRejectCardChange env bg raw b)
      else None)"

datatype rpc_result = RpcResult jout | RpcError int string

definition handleToolsCall ::
  "mcp_env \<Rightarrow> ('b, 'x) bridge_scheme \<Rightarrow> string \<Rightarrow> bool \<Rightarrow> localizer \<Rightarrow> json option \<Rightarrow> 'b \<Rightarrow> rpc_result \<times> 'b" where
  "handleToolsCall env bg token authenticated l params b =
     (let bad = (RpcError (- 32602) (loc_Tf l ''err.invalid_params'' (me_jsonError env params)), b) in
      case argFields params of
        None \<Rightarrow> bad
      | Some ms \<Rightarrow> (case strArg ''name'' ms of
          None \<Rightarrow> bad
        | Some name \<Rightarrow>
            if isWriteTool name \<and> token = [] then (RpcError (- 32001) (loc_T l ''err.write_token_not_configured''), b)
            else if isWriteTool name \<and> \<not> authenticated then (RpcError (- 32001) (loc_T l ''err.write_token_required''), b)
            else (case runTool env bg name (setRaw (fieldVals ''arguments'' ms)) b of
                None \<Rightarrow> (RpcError (- 32602) (loc_Tf l ''err.unknown_tool'' name), b)
              | Some (Inl e, b') \<Rightarrow> (RpcError (- 32603) (loc_Tf l ''err.internal_error'' e), b')
              | Some (Inr v, b') \<Rightarrow> (RpcResult v, b'))))"

section \<open>The lists (server.go)\<close>

definition param :: "localizer \<Rightarrow> string \<times> string \<times> string \<Rightarrow> string \<times> jout" where
  "param l p = (case p of (name, ty, key) \<Rightarrow>
     (name, JoObj [(''type'', JoStr ty), (''description'', JoStr (loc_T l key))]))"

definition tool :: "localizer \<Rightarrow> string \<Rightarrow> (string \<times> string \<times> string) list \<Rightarrow> string list \<Rightarrow> string \<times> jout" where
  "tool l name ps req = (name, JoObj [(''name'', JoStr name),
     (''description'', JoStr (loc_T l (''tool.'' @ name @ ''.desc''))),
     (''inputSchema'', JoObj ([(''type'', JoStr ''object''), (''properties'', JoObj (map (param l) ps))]
        @ (if req = [] then [] else [(''required'', JoArr (map JoStr req))])))])"

definition toolsList :: "localizer \<Rightarrow> (string \<times> jout) list" where
  "toolsList l =
    [tool l ''list_agents'' [] [],
     tool l ''health_check'' [] [],
     tool l ''get_blocked_requests''
       [(''since'', ''string'', ''param.since.desc''), (''limit'', ''integer'', ''param.limit.desc'')] [],
     tool l ''get_agent_card'' [(''agent_name'', ''string'', ''param.agent_name_card.desc'')] [''agent_name''],
     tool l ''get_aggregated_card'' [] [],
     tool l ''get_rate_limit_status'' [] [],
     tool l ''update_rate_limit''
       [(''agent_name'', ''string'', ''param.agent_name.desc''), (''per_minute'', ''integer'', ''param.per_minute.desc'')]
       [''agent_name'', ''per_minute''],
     tool l ''register_agent''
       [(''name'', ''string'', ''param.name.desc''), (''url'', ''string'', ''param.url.desc''),
        (''default'', ''boolean'', ''param.default.desc'')] [''name'', ''url''],
     tool l ''deregister_agent'' [(''name'', ''string'', ''param.name.desc'')] [''name''],
     tool l ''send_test_message''
       [(''agent_name'', ''string'', ''param.agent_name.desc''), (''text'', ''string'', ''param.text.desc'')]
       [''agent_name'', ''text''],
     tool l ''list_policies'' [] [],
     tool l ''evaluate_policy''
       [(''agent'', ''string'', ''param.agent.desc''), (''method'', ''string'', ''param.method.desc''),
        (''user'', ''string'', ''param.user.desc''), (''ip'', ''string'', ''param.ip.desc'')] [],
     tool l ''list_pending_changes'' [] [],
     tool l ''approve_card_change'' [(''agent_name'', ''string'', ''param.agent_name_card.desc'')] [''agent_name''],
     tool l ''reject_card_change'' [(''agent_name'', ''string'', ''param.agent_name_card.desc'')] [''agent_name'']]"

definition handleToolsList :: "string \<Rightarrow> bool \<Rightarrow> localizer \<Rightarrow> rpc_result" where
  "handleToolsList token authenticated l =
     (let ts = (if authenticated \<or> token = [] then toolsList l
                else filter (\<lambda>(name, d). \<not> isWriteTool name) (toolsList l)) in
      RpcResult (JoObj [(''tools'', JoArr (map snd ts))]))"

definition resource :: "localizer \<Rightarrow> string \<Rightarrow> string \<Rightarrow> jout" where
  "resource l uri key = JoObj [(''uri'', JoStr uri), (''name'', JoStr (loc_T l (key @ ''.name''))),
     (''description'', JoStr (loc_T l (key @ ''.desc''))), (''mimeType'', JoStr ''application/json'')]"

definition resourcesList :: "localizer \<Rightarrow> jout list" where
  "resourcesList l = [resource l ''sentinel://config'' ''res.config'', resource l ''sentinel://metrics'' ''res.metrics'',
     resource l ''sentinel://agents/{name}'' ''res.agent_detail'', resource l ''sentinel://security/report'' ''res.security'']"

definition handleResourcesList :: "localizer \<Rightarrow> rpc_result" where
  "handleResourcesList l = RpcResult (JoObj [(''resources'', JoArr (resourcesList l))])"

definition handleResourcesRead ::
  "mcp_env \<Rightarrow> ('b, 'x) bridge_scheme \<Rightarrow> localizer \<Rightarrow> json option \<Rightarrow> 'b \<Rightarrow> rpc_result" where
  "handleResourcesRead env bg l params b =
     (case Option.bind (argFields params) (strArg ''uri'') of
        None \<Rightarrow> RpcError (- 32602) (loc_Tf l ''err.invalid_params'' (me_jsonError env params))
      | Some uri \<Rightarrow>
          (let found = (\<lambda>v. RpcResult (JoObj [(''contents'', JoArr [JoObj [(''uri'', JoStr uri),
                 (''mimeType'', JoStr ''application/json''), (''text'', JoText v)]])])) in
           if uri = ''sentinel://config'' then found (bg_GetConfig bg b)
           else if uri = ''sentinel://metrics'' then found (bg_GetMetrics bg (me_now env) b)
           else if uri = ''sentinel://security/report'' then found (bg_GetSecurityReport bg b)
           else if hasPrefix uri ''sentinel://agents/'' then
             (let name = trimPrefix uri ''sentinel://agents/'' in
              if name = [] \<or> name = ''{name}'' then RpcError (- 32602) (loc_T l ''err.agent_name_required_in_uri'')
              else (case bg_GetAgentCard bg name b of
                  Inl e \<Rightarrow> RpcError (- 32603) (loc_Tf l ''err.internal_error'' e)
                | Inr c \<Rightarrow> found c))
           else RpcError (- 32602) (loc_Tf l ''err.unknown_resource_uri'' uri)))"

section \<open>The lists and the dispatch agree\<close>

lemma toolsList_names: "map fst (toolsList l) = [''list_agents'', ''health_check'', ''get_blocked_requests'',
    ''get_agent_card'', ''get_aggregated_card'', ''get_rate_limit_status'', ''update_rate_limit'', ''register_agent'',
    ''deregister_agent'', ''send_test_message'', ''list_policies'', ''evaluate_policy'', ''list_pending_changes'',
    ''approve_card_change'', ''reject_card_change'']"
  by (simp add: toolsList_def tool_def)

lemma runTool_known: "(\<exists>x. runTool env bg name raw b = Some x) \<longleftrightarrow> name \<in> set (map fst (toolsList l))"
  unfolding toolsList_names by (simp add: runTool_def)

text \<open>The tools listed are exactly those that can be called, each once; without the token the list has
  exactly those of them that are not gated, and calling a gated one fails with code -32001.\<close>

theorem tools_listed_are_callable:
  "(runTool env bg name raw b \<noteq> None \<longleftrightarrow> name \<in> set (map fst (toolsList l)))
   \<and> distinct (map fst (toolsList l))
   \<and> (let ts = filter (\<lambda>t. \<not> (token \<noteq> [] \<and> \<not> authenticated \<and> isWriteTool (fst t))) (toolsList l) in
        handleToolsList token authenticated l = RpcResult (JoObj [(''tools'', JoArr (map snd ts))]))
   \<and> (isWriteTool name \<and> \<not> (token \<noteq> [] \<and> authenticated)
        \<and> Option.bind (argFields params) (strArg ''name'') = Some name
      \<longrightarrow> (\<exists>msg. handleToolsCall env bg token authenticated l params b = (RpcError (- 32001) msg, b)))"
proof -
  have "distinct (map fst (toolsList l))" unfolding toolsList_names by simp
  moreover have "handleToolsList token authenticated l = RpcResult (JoObj [(''tools'', JoArr (map snd
      (filter (\<lambda>t. \<not> (token \<noteq> [] \<and> \<not> authenticated \<and> isWriteTool (fst t))) (toolsList l))))])"
  proof (cases "authenticated \<or> token = []")
    case True
    then have "filter (\<lambda>t. \<not> (token \<noteq> [] \<and> \<not> authenticated \<and> isWriteTool (fst t))) (toolsList l) = toolsList l"
      by auto
    with True show ?thesis by (simp add: handleToolsList_def Let_def)
  next
    case False
    then show ?thesis by (simp add: handleToolsList_def Let_def split_def)
  qed
  moreover have "\<exists>msg. handleToolsCall env bg token authenticated l params b = (RpcError (- 32001) msg, b)"
    if "isWriteTool name" "\<not> (token \<noteq> [] \<and> authenticated)"
      "Option.bind (argFields params) (strArg ''name'') = Some name"
    using that by (cases "argFields params") (auto simp: handleToolsCall_def)
  ultimately show ?thesis using runTool_known[of env bg name raw b l] by (simp add: Let_def)
qed

theorem tools_listed_are_callable_witness:
  "\<forall>env (bg :: ('a, 'c) bridge_scheme) l b. \<exists>msg. handleToolsCall env bg ''s3cret'' False l (Some (JObj [] [(''name'', JStr ''register_agent'')])) b
     = (RpcError (- 32001) msg, b)"
proof (intro allI)
  fix env and bg :: "('a, 'c) bridge_scheme" and l and b :: 'a
  show "\<exists>msg. handleToolsCall env bg ''s3cret'' False l (Some (JObj [] [(''name'', JStr ''register_agent'')])) b
     = (RpcError (- 32001) msg, b)"
    using tools_listed_are_callable[of env bg "''register_agent''" None b l "''s3cret''" False
        "Some (JObj [] [(''name'', JStr ''register_agent'')])"]
    by (simp add: isWriteTool_def writeToolNames_def argFields_def strArg_def fieldVals_def)
qed

text \<open>Every tool has a key for its description, and every key of \<open>keys.go\<close> for one belongs to a tool.\<close>

lemma tool_keys: "map (\<lambda>n. ''tool.'' @ n @ ''.desc'') (map fst (toolsList l)) = toolDescKeys"
  unfolding toolsList_names toolDescKeys_def by simp

end
