(* ===== verification/Mcp_Server.thy ===== *)
theory Mcp_Server
  imports Mcp_Tools
begin

text \<open>
  The MCP management endpoint (\<open>handleRPC\<close> and \<open>dispatch\<close> of \<open>internal/mcpserver/server.go\<close>): the three
  outcomes of authentication, the sessions, and the dispatch of a JSON-RPC request, over any bridge. The
  contract of a bridge is the locale \<open>bridge_contract\<close>; it is discharged for the gateway's own bridge in
  \<open>Mcp_Bridge\<close>. \<open>Start\<close> and \<open>Shutdown\<close> are in \<open>Lifecycle\<close>.
\<close>

section \<open>State and requests\<close>

record mcp_config_in =
  mi_host :: string
  mi_port :: int
  mi_token :: string

record mcp_server =
  mx_addr :: string
  mx_token :: string
  mx_bundle :: lang_bundle

definition NewServer :: "mcp_config_in \<Rightarrow> lang_bundle \<Rightarrow> mcp_server" where
  "NewServer c b = \<lparr>mx_addr = mi_host c @ '':'' @ showInt (mi_port c), mx_token = mi_token c, mx_bundle = b\<rparr>"

text \<open>The keys of the map of sessions, and the state behind the bridge.\<close>

record 'b mcp_state =
  ms_sessions :: "string list"
  ms_bridge :: 'b

record rpc_request =
  jq_jsonrpc :: string
  jq_id :: "json option"
  jq_method :: string
  jq_params :: "json option"

text \<open>
  \<open>json.NewDecoder(body).Decode\<close> reads the first value. An object ends with its brace; the decoder looks one
  byte past any other value, so a read error there is an error of the decoding.
\<close>

definition decodeFirst :: "stream option \<Rightarrow> json option" where
  "decodeFirst body = (case body of
      None \<Rightarrow> None
    | Some st \<Rightarrow> (case jval (2 * length (st_bytes st) + 2) (st_bytes st) of
        None \<Rightarrow> None
      | Some (v, r) \<Rightarrow>
          if jsonDepth v > 10000 \<or> (jsonDepth v = 0 \<and> r = [] \<and> st_fails st) then None else Some v))"

definition requestOf :: "json \<Rightarrow> rpc_request option" where
  "requestOf v = (case structFields v of
      None \<Rightarrow> None
    | Some ms \<Rightarrow> (case (strArg ''jsonrpc'' ms, strArg ''method'' ms) of
        (Some ver, Some meth) \<Rightarrow>
          if list_all ifaceOK (fieldVals ''id'' ms) then
            Some \<lparr>jq_jsonrpc = ver, jq_id = (case setRaw (fieldVals ''id'' ms) of Some JNull \<Rightarrow> None | i \<Rightarrow> i),
              jq_method = meth, jq_params = setRaw (fieldVals ''params'' ms)\<rparr>
          else None
      | _ \<Rightarrow> None))"

definition isNotification :: "rpc_request \<Rightarrow> bool" where
  "isNotification q \<longleftrightarrow> jq_id q = None"

text \<open>\<open>hex.EncodeToString\<close> of the 16 random bytes.\<close>

definition hexDigit :: "nat \<Rightarrow> char" where
  "hexDigit n = (if n < 10 then char_of (48 + n) else char_of (87 + n))"

definition generateSessionID :: "string \<Rightarrow> string" where
  "generateSessionID bs = concat (map (\<lambda>b. [hexDigit (byte_of b div 16), hexDigit (byte_of b mod 16)]) bs)"

text \<open>
  \<open>strings.EqualFold\<close>, as \<open>foldName\<close> folds: exact when one of the strings is ASCII, as a token in a header is.
\<close>

definition foldEqual :: "string \<Rightarrow> string \<Rightarrow> bool" where
  "foldEqual s t \<longleftrightarrow> foldName s = foldName t"

section \<open>Answers\<close>

definition httpError :: "header \<Rightarrow> string \<Rightarrow> int \<Rightarrow> response" where
  "httpError w msg code = \<lparr>rs_status = code,
     rs_header = header_set (header_set w ''Content-Type'' ''text/plain; charset=utf-8'')
        ''X-Content-Type-Options'' ''nosniff'',
     rs_payload = PText (msg @ [CHR 0x0A])\<rparr>"

definition rpcResponse :: "json option \<Rightarrow> rpc_result \<Rightarrow> jout" where
  "rpcResponse ident res = JoObj ([(''jsonrpc'', JoStr ''2.0''),
      (''id'', case ident of None \<Rightarrow> JoNull | Some v \<Rightarrow> JoRaw v)]
    @ (case res of
         RpcResult v \<Rightarrow> [(''result'', v)]
       | RpcError c m \<Rightarrow> [(''error'', JoObj [(''code'', JoInt c), (''message'', JoStr m)])]))"

definition rpcAnswer :: "int \<Rightarrow> header \<Rightarrow> json option \<Rightarrow> rpc_result \<Rightarrow> response" where
  "rpcAnswer code w ident res = \<lparr>rs_status = code,
     rs_header = header_set w ''Content-Type'' ''application/json'', rs_payload = PJson (rpcResponse ident res)\<rparr>"

definition handleInitialize :: rpc_result where
  "handleInitialize = RpcResult (JoObj [(''protocolVersion'', JoStr ''2025-11-25''),
     (''serverInfo'', JoObj [(''name'', JoStr ''a2a-sentinel''), (''version'', JoStr ''0.2.0'')]),
     (''capabilities'', JoObj [(''tools'', JoObj []), (''resources'', JoObj [])])])"

definition dispatch ::
  "mcp_env \<Rightarrow> ('b, 'x) bridge_scheme \<Rightarrow> string \<Rightarrow> rpc_request \<Rightarrow> bool \<Rightarrow> localizer \<Rightarrow> 'b \<Rightarrow> rpc_result \<times> 'b" where
  "dispatch env bg token q authenticated l b =
     (if jq_method q = ''initialize'' then (handleInitialize, b)
      else if jq_method q = ''tools/list'' then (handleToolsList token authenticated l, b)
      else if jq_method q = ''tools/call'' then handleToolsCall env bg token authenticated l (jq_params q) b
      else if jq_method q = ''resources/list'' then (handleResourcesList l, b)
      else if jq_method q = ''resources/read'' then (handleResourcesRead env bg l (jq_params q) b, b)
      else (RpcError (- 32601) (loc_Tf l ''err.method_not_found'' (jq_method q)), b))"

fun isResult :: "rpc_result \<Rightarrow> bool" where
  "isResult (RpcResult v) = True"
| "isResult (RpcError c m) = False"

section \<open>The endpoint\<close>

datatype caller = Anonymous | Authenticated | Rejected

definition callerOf :: "string \<Rightarrow> request \<Rightarrow> caller" where
  "callerOf token r =
     (let h = hdr r ''Authorization'' in
      if token = [] \<or> h = [] then Anonymous
      else if foldEqual (trimSpace h) (''Bearer '' @ token) then Authenticated
      else Rejected)"

datatype session_check = SessionOK | SessionRequired | SessionUnknown

definition sessionCheck :: "string list \<Rightarrow> rpc_request \<Rightarrow> request \<Rightarrow> session_check" where
  "sessionCheck sessions q r =
     (let sid = hdr r ''Mcp-Session-Id'' in
      if jq_method q = ''initialize'' then SessionOK
      else if sid = [] then (if sessions = [] then SessionOK else SessionRequired)
      else if sid \<in> set sessions then SessionOK else SessionUnknown)"

text \<open>\<open>rnd\<close> are the bytes \<open>crypto/rand\<close> gives when a session is started.\<close>

definition handleRPC ::
  "(string \<Rightarrow> rat option) \<Rightarrow> mcp_env \<Rightarrow> ('b, 'x) bridge_scheme \<Rightarrow> mcp_server \<Rightarrow> string \<Rightarrow> request \<Rightarrow> header
     \<Rightarrow> 'b mcp_state \<Rightarrow> response \<times> 'b mcp_state" where
  "handleRPC parseFloat env bg srv rnd r w s =
     (let l = NewLocalizer parseFloat (mx_bundle srv) (hdr r ''Accept-Language'');
          who = callerOf (mx_token srv) r in
      if rq_method r \<noteq> ''POST'' then (httpError w (loc_T l ''err.method_not_allowed'') 405, s)
      else if who = Rejected then
        (rpcAnswer 401 w None (RpcError (- 32001) (loc_T l ''err.unauthorized_invalid_token'')), s)
      else (case Option.bind (decodeFirst (rq_body r)) requestOf of
          None \<Rightarrow> (rpcAnswer 400 w None (RpcError (- 32700) (loc_T l ''err.parse_error'')), s)
        | Some q \<Rightarrow>
            (case sessionCheck (ms_sessions s) q r of
               SessionRequired \<Rightarrow> (httpError w (loc_T l ''err.session_required'') 400, s)
             | SessionUnknown \<Rightarrow> (httpError w (loc_T l ''err.session_not_found'') 404, s)
             | SessionOK \<Rightarrow>
                 if isNotification q then (\<lparr>rs_status = 202, rs_header = w, rs_payload = PEmpty\<rparr>, s)
                 else (let (resp, b) = dispatch env bg (mx_token srv) q (who = Authenticated) l (ms_bridge s);
                           sid = generateSessionID rnd;
                           started = (jq_method q = ''initialize'' \<and> isResult resp) in
                       if started then
                         (rpcAnswer 200 (header_set w ''Mcp-Session-Id'' sid) (jq_id q) resp,
                          \<lparr>ms_sessions = List.insert sid (ms_sessions s), ms_bridge = b\<rparr>)
                       else (rpcAnswer 200 w (jq_id q) resp, s\<lparr>ms_bridge := b\<rparr>)))))"

section \<open>The contract of a bridge\<close>

text \<open>\<open>effect b b'\<close>: the changes the write operations may make.\<close>

locale bridge_contract =
  fixes bg :: "'b bridge" and effect :: "'b \<Rightarrow> 'b \<Rightarrow> bool"
  assumes rate_effect: "bg_UpdateRateLimit bg n k b = (x, b') \<Longrightarrow> b' = b \<or> effect b b'"
    and register_effect: "bg_RegisterAgent bg n u d b = (y, b') \<Longrightarrow> b' = b \<or> effect b b'"
    and deregister_effect: "bg_DeregisterAgent bg n b = (y, b') \<Longrightarrow> b' = b \<or> effect b b'"
    and test_effect: "bg_SendTestMessage bg n t b = (z, b') \<Longrightarrow> b' = b \<or> effect b b'"
    and approve_effect: "bg_ApproveCardChange bg n b = (y, b') \<Longrightarrow> b' = b \<or> effect b b'"
    and reject_effect: "bg_RejectCardChange bg n b = (y, b') \<Longrightarrow> b' = b \<or> effect b b'"
begin

lemma update_tool: "toolUpdateRateLimit env bg raw b = (x, b') \<Longrightarrow> b' = b \<or> effect b b'"
  using rate_effect by (fastforce simp: toolUpdateRateLimit_def split: option.splits if_splits prod.splits sum.splits)

lemma register_tool: "toolRegisterAgent env bg raw b = (x, b') \<Longrightarrow> b' = b \<or> effect b b'"
  using register_effect
  by (fastforce simp: toolRegisterAgent_def doneResult_def split: option.splits if_splits prod.splits)

lemma deregister_tool: "toolDeregisterAgent env bg raw b = (x, b') \<Longrightarrow> b' = b \<or> effect b b'"
  using deregister_effect
  by (fastforce simp: toolDeregisterAgent_def doneResult_def split: option.splits if_splits prod.splits)

lemma test_tool: "toolSendTestMessage env bg raw b = (x, b') \<Longrightarrow> b' = b \<or> effect b b'"
  using test_effect by (fastforce simp: toolSendTestMessage_def split: option.splits if_splits prod.splits sum.splits)

lemma approve_tool: "toolApproveCardChange env bg raw b = (x, b') \<Longrightarrow> b' = b \<or> effect b b'"
  using approve_effect
  by (fastforce simp: toolApproveCardChange_def doneResult_def split: option.splits if_splits prod.splits)

lemma reject_tool: "toolRejectCardChange env bg raw b = (x, b') \<Longrightarrow> b' = b \<or> effect b b'"
  using reject_effect
  by (fastforce simp: toolRejectCardChange_def doneResult_def split: option.splits if_splits prod.splits)

lemma runTool_effect:
  assumes "runTool env bg name raw b = Some (x, b')"
  shows "b' = b \<or> isWriteTool name \<and> effect b b'"
proof (cases "isWriteTool name")
  case True
  then have "name = ''update_rate_limit'' \<or> name = ''register_agent'' \<or> name = ''deregister_agent''
      \<or> name = ''send_test_message'' \<or> name = ''approve_card_change'' \<or> name = ''reject_card_change''"
    by (simp add: isWriteTool_def writeToolNames_def)
  then have "b' = b \<or> effect b b'"
    by (elim disjE) (use assms update_tool register_tool deregister_tool test_tool approve_tool reject_tool
        in \<open>simp_all add: runTool_def\<close>)
  with True show ?thesis by blast
next
  case False
  then have "b' = b"
    using assms by (simp add: runTool_def isWriteTool_def writeToolNames_def split: if_splits)
  then show ?thesis ..
qed

lemma call_effect:
  assumes "handleToolsCall env bg token auth l params b = (x, b')"
  shows "b' = b \<or> token \<noteq> [] \<and> auth \<and> effect b b'"
  using assms runTool_effect
  by (fastforce simp: handleToolsCall_def Let_def split: option.splits if_splits prod.splits sum.splits)

lemma dispatch_effect:
  assumes "dispatch env bg token q auth l b = (x, b')"
  shows "b' = b \<or> token \<noteq> [] \<and> auth \<and> jq_method q = ''tools/call'' \<and> effect b b'"
  using assms call_effect by (auto simp: dispatch_def split: if_splits)

lemma rpc_effect:
  assumes "handleRPC pf env bg srv rnd r w s = (rs, s')"
  shows "ms_bridge s' = ms_bridge s \<or> mx_token srv \<noteq> [] \<and> callerOf (mx_token srv) r = Authenticated
     \<and> rq_method r = ''POST'' \<and> effect (ms_bridge s) (ms_bridge s')"
  using assms dispatch_effect
  by (fastforce simp: handleRPC_def Let_def split: if_splits option.splits session_check.splits prod.splits)

end

section \<open>The branches of the endpoint\<close>

lemma rpc_rejected:
  assumes "rq_method r \<noteq> ''POST'' \<or> callerOf (mx_token srv) r = Rejected"
    and "handleRPC pf env bg srv rnd r w s = (rs, s')"
  shows "rs_status rs \<in> {401, 405} \<and> s' = s"
proof (cases "rq_method r = ''POST''")
  case True
  with assms show ?thesis by (simp add: handleRPC_def Let_def rpcAnswer_def) auto
next
  case False
  with assms(2) show ?thesis by (simp add: handleRPC_def Let_def httpError_def) auto
qed

lemma rpc_no_session:
  assumes "rq_method r = ''POST''" and "callerOf (mx_token srv) r \<noteq> Rejected"
    and "Option.bind (decodeFirst (rq_body r)) requestOf = Some q" and "sessionCheck (ms_sessions s) q r \<noteq> SessionOK"
    and "handleRPC pf env bg srv rnd r w s = (rs, s')"
  shows "rs_status rs \<in> {400, 404} \<and> s' = s"
  using assms by (cases "sessionCheck (ms_sessions s) q r")
    (simp_all add: handleRPC_def Let_def httpError_def, auto)

lemma rpc_dispatched:
  assumes "rq_method r = ''POST''" and "callerOf (mx_token srv) r \<noteq> Rejected"
    and "Option.bind (decodeFirst (rq_body r)) requestOf = Some q" and "sessionCheck (ms_sessions s) q r = SessionOK"
    and "handleRPC pf env bg srv rnd r w s = (rs, s')"
  shows "ms_sessions s' = ms_sessions s
    \<or> jq_method q = ''initialize'' \<and> ms_sessions s' = List.insert (generateSessionID rnd) (ms_sessions s)
      \<and> (\<exists>res. rs = rpcAnswer 200 (header_set w ''Mcp-Session-Id'' (generateSessionID rnd)) (jq_id q) res)"
proof -
  obtain res b where "dispatch env bg (mx_token srv) q (callerOf (mx_token srv) r = Authenticated)
    (NewLocalizer pf (mx_bundle srv) (hdr r ''Accept-Language'')) (ms_bridge s) = (res, b)" by force
  with assms show ?thesis
    by (cases "isNotification q"; cases "jq_method q = ''initialize'' \<and> isResult res")
      (simp_all add: handleRPC_def Let_def, auto)
qed

lemma sessionCheck_refuses: "ss \<noteq> [] \<Longrightarrow> jq_method q \<noteq> ''initialize'' \<Longrightarrow> hdr r ''Mcp-Session-Id'' \<notin> set ss
    \<Longrightarrow> sessionCheck ss q r \<noteq> SessionOK"
  by (simp add: sessionCheck_def Let_def)

lemma session_header: "header_get (rs_header (rpcAnswer c (header_set w ''Mcp-Session-Id'' sid) i res)) ''Mcp-Session-Id'' = sid"
proof -
  have "canonicalKey ''Mcp-Session-Id'' \<noteq> canonicalKey ''Content-Type''" by code_simp
  then show ?thesis by (simp add: rpcAnswer_def header_get_set)
qed

end
