(* ===== verification/Client_IP.thy ===== *)
theory Client_IP
  imports Config
begin

text \<open>
  The client address behind trusted proxies (\<open>internal/security/clientip.go\<close>). The loop from the
  right end of \<open>X-Forwarded-For\<close> is a walk over the reversed list. The lemmas say what a client
  that writes its own left part of the header can and cannot change.
\<close>

definition stripPort :: "string \<Rightarrow> string" where
  "stripPort addr = (case SplitHostPort addr of None \<Rightarrow> addr | Some (host, _) \<Rightarrow> host)"

definition singleNet :: "ip \<Rightarrow> ipnet" where
  "singleNet a = (case a of IP4 w \<Rightarrow> Net4 w 32 | IP6 w \<Rightarrow> Net6 w 128)"

fun parseCIDRs :: "string list \<Rightarrow> ipnet list" where
  "parseCIDRs [] = []"
| "parseCIDRs (c # cs) = (case ParseCIDR c of
      Some n \<Rightarrow> n # parseCIDRs cs
    | None \<Rightarrow> (case ParseIP c of
        Some a \<Rightarrow> singleNet a # parseCIDRs cs
      | None \<Rightarrow> parseCIDRs cs))"

fun isIPTrusted :: "ip \<Rightarrow> ipnet list \<Rightarrow> bool" where
  "isIPTrusted a [] = False"
| "isIPTrusted a (n # ns) = (if netContains n a then True else isIPTrusted a ns)"

definition xffParts :: "string \<Rightarrow> string list" where
  "xffParts xff = filter (\<lambda>t. t \<noteq> []) (map trimSpace (splitByte xff (CHR '','')))"

fun firstUntrusted :: "ipnet list \<Rightarrow> string list \<Rightarrow> string option" where
  "firstUntrusted nets [] = None"
| "firstUntrusted nets (s # ss) = (case ParseIP s of
      None \<Rightarrow> firstUntrusted nets ss
    | Some a \<Rightarrow> if \<not> isIPTrusted a nets then Some s else firstUntrusted nets ss)"

definition TrustedClientIP :: "string \<Rightarrow> string \<Rightarrow> string list \<Rightarrow> string" where
  "TrustedClientIP remoteAddr xForwardedFor trustedProxies =
     (let remoteIP = stripPort remoteAddr in
      if length trustedProxies = 0 then remoteIP
      else (let trustedNets = parseCIDRs trustedProxies in
        if xForwardedFor = [] then remoteIP
        else (case firstUntrusted trustedNets (rev (xffParts xForwardedFor)) of
            Some s \<Rightarrow> s
          | None \<Rightarrow> remoteIP)))"

section \<open>Lemmas\<close>

lemma isIPTrusted_iff: "isIPTrusted a ns \<longleftrightarrow> (\<exists>n \<in> set ns. netContains n a)"
  by (induction ns) auto

lemma netContains_single: "netContains (singleNet a) b \<longleftrightarrow> a = b"
proof (cases a)
  case (IP4 w)
  show ?thesis
    by (cases b) (auto simp: singleNet_def IP4 netContains4_iff word_unat_eq_iff
        simp del: netContains.simps(1))
next
  case (IP6 w)
  show ?thesis
    by (cases b) (auto simp: singleNet_def IP6 netContains6_iff word_unat_eq_iff
        simp del: netContains.simps(2))
qed

lemma firstUntrusted_None:
  "firstUntrusted ns ss = None \<longleftrightarrow> (\<forall>s \<in> set ss. \<forall>a. ParseIP s = Some a \<longrightarrow> isIPTrusted a ns)"
  by (induction ss) (auto split: option.splits)

lemma firstUntrusted_append:
  "firstUntrusted ns (xs @ ys) = (case firstUntrusted ns xs of
     None \<Rightarrow> firstUntrusted ns ys | Some s \<Rightarrow> Some s)"
  by (induction xs) (auto split: option.splits)

lemma firstUntrusted_Some:
  "firstUntrusted ns ss = Some s \<longleftrightarrow> (\<exists>us vs a. ss = us @ s # vs \<and> ParseIP s = Some a
     \<and> \<not> isIPTrusted a ns \<and> (\<forall>u \<in> set us. \<forall>b. ParseIP u = Some b \<longrightarrow> isIPTrusted b ns))"
  (is "?L ss \<longleftrightarrow> ?R ss")
proof
  show "?R ss" if "?L ss" using that
  proof (induction ss)
    case (Cons t ss)
    show ?case
    proof (cases "firstUntrusted ns [t]")
      case None
      with Cons.prems have "?L ss" by (auto split: option.splits if_splits)
      with Cons.IH obtain us vs a where "ss = us @ s # vs" "ParseIP s = Some a"
        "\<not> isIPTrusted a ns" "\<forall>u \<in> set us. \<forall>b. ParseIP u = Some b \<longrightarrow> isIPTrusted b ns" by blast
      with None show ?thesis
        by (intro exI[of _ "t # us"] exI[of _ vs] exI[of _ a]) (auto split: option.splits if_splits)
    next
      case (Some u)
      with Cons.prems show ?thesis
        by (intro exI[of _ "[]"] exI[of _ ss]) (auto split: option.splits if_splits)
    qed
  qed simp
  show "?L ss" if "?R ss"
    using that by (auto simp: firstUntrusted_append firstUntrusted_None[THEN iffD2])
qed

lemma xffParts_append: "xffParts (s @ CHR '','' # t) = xffParts s @ xffParts t"
  by (simp add: xffParts_def splitByte_append_sep)

text \<open>
  Whatever stands to the left of an address the walk stops at plays no part: a client cannot
  change the result by the entries it wrote before the ones the proxies appended.
\<close>

lemma TrustedClientIP_suffix:
  assumes "firstUntrusted (parseCIDRs tp) (rev (xffParts t)) = Some a" and "tp \<noteq> []"
  shows "TrustedClientIP ra (s @ CHR '','' # t) tp = a"
  using assms by (simp add: TrustedClientIP_def xffParts_append firstUntrusted_append)

lemma TrustedClientIP_no_proxies: "TrustedClientIP ra xff [] = stripPort ra"
  by (simp add: TrustedClientIP_def)

lemma TrustedClientIP_cases:
  "TrustedClientIP ra xff tp = stripPort ra
   \<or> (TrustedClientIP ra xff tp \<in> set (xffParts xff)
      \<and> (\<exists>a. ParseIP (TrustedClientIP ra xff tp) = Some a \<and> \<not> isIPTrusted a (parseCIDRs tp)))"
proof (cases "tp = [] \<or> xff = []")
  case True
  then have "TrustedClientIP ra xff tp = stripPort ra" by (auto simp: TrustedClientIP_def Let_def)
  then show ?thesis ..
next
  case False
  show ?thesis
  proof (cases "firstUntrusted (parseCIDRs tp) (rev (xffParts xff))")
    case None
    with False show ?thesis by (simp add: TrustedClientIP_def)
  next
    case (Some s)
    with False have "TrustedClientIP ra xff tp = s" by (simp add: TrustedClientIP_def)
    moreover from Some obtain us vs a where "rev (xffParts xff) = us @ s # vs"
      and "ParseIP s = Some a" and "\<not> isIPTrusted a (parseCIDRs tp)"
      unfolding firstUntrusted_Some by blast
    moreover from this(1) have "s \<in> set (xffParts xff)"
      by (metis in_set_conv_decomp set_rev)
    ultimately show ?thesis by blast
  qed
qed

section \<open>Properties\<close>

text \<open>C10: Behind trusted proxies the client address is decided by the rightmost entry of
  \<open>X-Forwarded-For\<close> that is an address outside the trusted networks; no entry a client writes to the
  left of it changes the result. \<open>docs/ARCHITECTURE.md\<close> has the rightmost entry decide, trusted or not.\<close>

theorem client_ip_not_spoofable:
  assumes "tp \<noteq> []" and "ParseIP a = Some x" and "\<not> isIPTrusted x (parseCIDRs tp)"
    and "xffParts trail = a # ps"
    and "\<And>p y. \<lbrakk>p \<in> set ps; ParseIP p = Some y\<rbrakk> \<Longrightarrow> isIPTrusted y (parseCIDRs tp)"
  shows "TrustedClientIP ra (forged @ CHR '','' # trail) tp = a"
proof (rule TrustedClientIP_suffix)
  show "firstUntrusted (parseCIDRs tp) (rev (xffParts trail)) = Some a"
    unfolding assms(4) firstUntrusted_Some
    by (intro exI[of _ "rev ps"] exI[of _ "[]"] exI[of _ x]) (use assms in auto)
qed (fact assms(1))

theorem client_ip_not_spoofable_witness:
  "TrustedClientIP ''10.0.0.1:5000'' ''8.8.8.8, 203.0.113.7, 10.0.0.2'' [''10.0.0.0/8''] = ''203.0.113.7''"
proof -
  have "TrustedClientIP ''10.0.0.1:5000'' (''8.8.8.8'' @ CHR '','' # '' 203.0.113.7, 10.0.0.2'') [''10.0.0.0/8'']
      = ''203.0.113.7''"
  proof (rule client_ip_not_spoofable)
    show "ParseIP ''203.0.113.7'' = Some (IP4 0xCB007107)" by code_simp
    show "\<not> isIPTrusted (IP4 0xCB007107) (parseCIDRs [''10.0.0.0/8''])" by code_simp
    show "xffParts '' 203.0.113.7, 10.0.0.2'' = ''203.0.113.7'' # [''10.0.0.2'']" by code_simp
    have "ParseIP ''10.0.0.2'' = Some (IP4 0x0A000002)" "isIPTrusted (IP4 0x0A000002) (parseCIDRs [''10.0.0.0/8''])"
      by code_simp+
    then show "p \<in> set [''10.0.0.2''] \<Longrightarrow> ParseIP p = Some y \<Longrightarrow> isIPTrusted y (parseCIDRs [''10.0.0.0/8''])"
      for p y by simp
  qed simp
  then show ?thesis by simp
qed

end
