(* ===== verification/Protocol.thy ===== *)
theory Protocol
  imports Http_Model
begin

text \<open>
  Protocol detection (\<open>internal/protocol\<close>): reading a body and putting it back, the JSON-RPC
  envelope, the REST patterns of A2A, and the order in which \<open>Detect\<close> tries the bindings.
\<close>

section \<open>Body inspection (bodyinspect.go)\<close>

text \<open>
  A read that fails before \<open>maxSize + 1\<close> bytes are there leaves a consumed body behind. Otherwise
  the request gets back a body with the bytes it had.
\<close>

definition InspectAndRewind :: "request \<Rightarrow> nat \<Rightarrow> (unit + string) \<times> request" where
  "InspectAndRewind r maxSize = (case rq_body r of
      None \<Rightarrow> (Inr [], r)
    | Some b \<Rightarrow>
        (let peeked = take (Suc maxSize) (st_bytes b);
             rest = drop (Suc maxSize) (st_bytes b) in
         if st_fails b \<and> length (st_bytes b) \<le> maxSize
         then (Inl (), r\<lparr>rq_body := Some \<lparr>st_bytes = [], st_fails = True\<rparr>\<rparr>)
         else if length peeked > maxSize
         then (Inr (take maxSize peeked),
               r\<lparr>rq_body := Some \<lparr>st_bytes = peeked @ rest, st_fails = st_fails b\<rparr>\<rparr>)
         else (Inr peeked, r\<lparr>rq_body := Some \<lparr>st_bytes = peeked, st_fails = False\<rparr>\<rparr>)))"

lemma InspectAndRewind_ok:
  assumes "InspectAndRewind r n = (Inr body, r')"
  shows "r' = r" and "length body \<le> n"
    and "body = (case rq_body r of None \<Rightarrow> [] | Some b \<Rightarrow> take n (st_bytes b))"
  using assms
  by (auto simp: InspectAndRewind_def Let_def min_def split: option.splits if_splits)

lemma InspectAndRewind_ctx:
  "InspectAndRewind r n = (res, r') \<Longrightarrow> r' = r\<lparr>rq_body := rq_body r'\<rparr>"
  by (auto simp: InspectAndRewind_def Let_def split: option.splits if_splits)

section \<open>The JSON-RPC envelope (jsonrpc.go)\<close>

datatype parse_error = BadJSON | NotVersion2 string | MissingMethod

definition ParseJSONRPCMethod :: "string \<Rightarrow> parse_error + (string \<times> json option)" where
  "ParseJSONRPCMethod body = (case json_parse body of
      None \<Rightarrow> Inl BadJSON
    | Some v \<Rightarrow>
        (case structFields v of
           None \<Rightarrow> Inl BadJSON
         | Some ms \<Rightarrow>
             (case (setString [] (fieldVals ''jsonrpc'' ms), setString [] (fieldVals ''method'' ms)) of
                (Some ver, Some meth) \<Rightarrow>
                  if \<not> list_all ifaceOK (fieldVals ''id'' ms) then Inl BadJSON
                  else if ver \<noteq> ''2.0'' then Inl (NotVersion2 ver)
                  else if meth = [] then Inl MissingMethod
                  else Inr (meth, (case setRaw (fieldVals ''id'' ms) of
                                     Some JNull \<Rightarrow> None | i \<Rightarrow> i))
              | _ \<Rightarrow> Inl BadJSON)))"

lemma ParseJSONRPCMethod_method: "ParseJSONRPCMethod b = Inr (m, i) \<Longrightarrow> m \<noteq> []"
  by (auto simp: ParseJSONRPCMethod_def split: option.splits if_splits)

section \<open>REST patterns (rest.go)\<close>

definition extractTaskID :: "string \<Rightarrow> string" where
  "extractTaskID path =
     (let rest = drop (length ''/tasks/'') path in
      case indexStr rest '':'' of
        None \<Rightarrow> []
      | Some i \<Rightarrow> if i \<le> 0 then [] else take i rest)"

definition extractTaskIDBeforeSegment :: "string \<Rightarrow> string \<Rightarrow> string" where
  "extractTaskIDBeforeSegment path segment =
     (let p = trimSuffix path segment in
      if \<not> hasPrefix p ''/tasks/'' then []
      else (let i = drop (length ''/tasks/'') p in
        if i = [] \<or> containsStr i ''/'' then [] else i))"

definition matchRESTPost :: "string \<Rightarrow> string" where
  "matchRESTPost path =
     (if path = ''/message:send'' then ''message/send''
      else if path = ''/message:stream'' then ''message/stream''
      else if hasPrefix path ''/tasks/'' \<and> hasSuffix path '':cancel'' \<and> extractTaskID path \<noteq> []
        then ''tasks/cancel''
      else if hasPrefix path ''/tasks/'' \<and> hasSuffix path ''/pushNotifications''
          \<and> extractTaskIDBeforeSegment path ''/pushNotifications'' \<noteq> []
        then ''tasks/pushNotificationConfig/set''
      else [])"

definition matchRESTGet :: "string \<Rightarrow> string" where
  "matchRESTGet path =
     (if path = ''/tasks'' then ''tasks/list''
      else if hasPrefix path ''/tasks/'' \<and> hasSuffix path '':subscribe'' \<and> extractTaskID path \<noteq> []
        then ''tasks/subscribe''
      else if hasPrefix path ''/tasks/'' \<and> hasSuffix path ''/pushNotifications''
          \<and> extractTaskIDBeforeSegment path ''/pushNotifications'' \<noteq> []
        then ''tasks/pushNotificationConfig/get''
      else if hasPrefix path ''/tasks/''
          \<and> (let rest = drop (length ''/tasks/'') path in
               rest \<noteq> [] \<and> \<not> containsStr rest ''/'' \<and> \<not> containsStr rest '':'')
        then ''tasks/get''
      else [])"

definition matchRESTDelete :: "string \<Rightarrow> string" where
  "matchRESTDelete path =
     (if hasPrefix path ''/tasks/'' \<and> hasSuffix path ''/pushNotifications''
          \<and> extractTaskIDBeforeSegment path ''/pushNotifications'' \<noteq> []
        then ''tasks/pushNotificationConfig/delete''
      else [])"

definition MatchRESTPattern :: "string \<Rightarrow> string \<Rightarrow> string" where
  "MatchRESTPattern method path =
     (if method = ''POST'' then matchRESTPost path
      else if method = ''GET'' then matchRESTGet path
      else if method = ''DELETE'' then matchRESTDelete path
      else [])"

section \<open>Detection (detector.go)\<close>

datatype protocol_type =
  ProtocolJSONRPC | ProtocolREST | ProtocolAgentCard | ProtocolGRPC | ProtocolUnknown

fun protocolString :: "protocol_type \<Rightarrow> string" where
  "protocolString ProtocolJSONRPC = ''jsonrpc''"
| "protocolString ProtocolREST = ''rest''"
| "protocolString ProtocolAgentCard = ''agentcard''"
| "protocolString ProtocolGRPC = ''grpc''"
| "protocolString ProtocolUnknown = ''unknown''"

record detect_result =
  dr_protocol :: protocol_type
  dr_method :: string
  dr_binding :: string

abbreviation detected :: "protocol_type \<Rightarrow> string \<Rightarrow> string \<Rightarrow> detect_result" where
  "detected p m b \<equiv> \<lparr>dr_protocol = p, dr_method = m, dr_binding = b\<rparr>"

definition maxBodyInspectSize :: nat where
  "maxBodyInspectSize = 64 * 1024"

definition detectREST :: "request \<Rightarrow> detect_result" where
  "detectREST r =
     (let m = MatchRESTPattern (rq_method r) (rq_path r) in
      if m \<noteq> [] then detected ProtocolREST m ''rest'' else detected ProtocolUnknown [] [])"

text \<open>The result, and the request with the body the detection leaves behind.\<close>

definition Detect :: "request \<Rightarrow> (unit + detect_result) \<times> request" where
  "Detect r =
     (if rq_method r = ''GET'' \<and> rq_path r = ''/.well-known/agent.json''
        then (Inr (detected ProtocolAgentCard [] []), r)
      else if rq_method r = ''GET'' \<and> rq_path r = ''/agent/authenticatedExtendedCard''
        then (Inr (detected ProtocolREST ''agent/authenticatedExtendedCard'' ''rest''), r)
      else if hasPrefix (hdr r ''Content-Type'') ''application/grpc''
        then (Inr (detected ProtocolGRPC [] ''grpc''), r)
      else if rq_method r = ''POST'' then
        (case InspectAndRewind r maxBodyInspectSize of
           (Inl e, r') \<Rightarrow> (Inl e, r')
         | (Inr body, r') \<Rightarrow>
             (case (if length body > 0 then ParseJSONRPCMethod body else Inl BadJSON) of
                Inr (m, i) \<Rightarrow>
                  if m \<noteq> [] then (Inr (detected ProtocolJSONRPC m ''jsonrpc''), r')
                  else (Inr (detectREST r'), r')
              | Inl _ \<Rightarrow> (Inr (detectREST r'), r')))
      else (Inr (detectREST r), r))"

lemma Detect_keeps_request: "Detect r = (Inr d, r') \<Longrightarrow> r' = r"
  by (auto simp: Detect_def dest: InspectAndRewind_ok(1) split: if_splits prod.splits sum.splits)

lemma hasPrefix_tasks_suffix:
  "hasPrefix path ''/tasks/'' \<Longrightarrow> hasSuffix path ''/pushNotifications'' \<Longrightarrow>
   (extractTaskIDBeforeSegment path ''/pushNotifications'' \<noteq> []) =
   (\<exists>i. i \<noteq> [] \<and> CHR ''/'' \<notin> set i \<and> path = ''/tasks/'' @ i @ ''/pushNotifications'')"
proof -
  assume "hasPrefix path ''/tasks/''" and suf: "hasSuffix path ''/pushNotifications''"
  then obtain p where p: "path = p @ ''/pushNotifications''"
    by (auto simp: hasSuffix_iff)
  have trim: "trimSuffix path ''/pushNotifications'' = p" unfolding p by (rule trimSuffix_append)
  have "(extractTaskIDBeforeSegment path ''/pushNotifications'' \<noteq> []) \<longleftrightarrow>
      hasPrefix p ''/tasks/'' \<and> drop 7 p \<noteq> [] \<and> CHR ''/'' \<notin> set (drop 7 p)"
    by (auto simp: extractTaskIDBeforeSegment_def trim Let_def containsStr_single eval_nat_numeral)
  also have "\<dots> \<longleftrightarrow> (\<exists>i. i \<noteq> [] \<and> CHR ''/'' \<notin> set i \<and> p = ''/tasks/'' @ i)"
    by (auto simp: hasPrefix_iff)
  also have "\<dots> \<longleftrightarrow> (\<exists>i. i \<noteq> [] \<and> CHR ''/'' \<notin> set i \<and> path = ''/tasks/'' @ i @ ''/pushNotifications'')"
    unfolding p append_middle_eq ..
  finally show ?thesis .
qed

section \<open>Properties\<close>

text \<open>Detection does not disturb the request: when it succeeds, the request goes on with the body it
  had, and a request whose body is a JSON-RPC envelope of at most 64 KiB is classified as JSON-RPC with
  its method, before any REST pattern is tried.\<close>

theorem detect_jsonrpc:
  assumes "rq_method r = ''POST''" and "\<not> hasPrefix (hdr r ''Content-Type'') ''application/grpc''"
    and "rq_body r = Some \<lparr>st_bytes = body, st_fails = False\<rparr>" and "length body \<le> maxBodyInspectSize"
    and "ParseJSONRPCMethod body = Inr (m, i)"
  shows "Detect r = (Inr (detected ProtocolJSONRPC m ''jsonrpc''), r)"
proof -
  have ins: "InspectAndRewind r maxBodyInspectSize = (Inr body, r)"
    using assms(3,4) by (cases r) (auto simp: InspectAndRewind_def Let_def)
  have "body \<noteq> []"
    using assms(5) by (auto simp: ParseJSONRPCMethod_def json_parse_def)
  with assms ins ParseJSONRPCMethod_method[OF assms(5)] show ?thesis by (simp add: Detect_def)
qed

definition rpcBody :: string where
  "rpcBody = map (\<lambda>c. if c = CHR ''`'' then char_of (34 :: nat) else c)
     ''{`jsonrpc`:`2.0`,`method`:`message/send`}''"

definition rpcRequest :: request where
  "rpcRequest = \<lparr>rq_method = ''POST'', rq_path = ''/'', rq_query = [], rq_headers = [],
     rq_body = Some \<lparr>st_bytes = rpcBody, st_fails = False\<rparr>, rq_remoteAddr = ''10.1.2.3:80'',
     rq_tls = False, rq_ctx = emptyContext\<rparr>"

theorem detect_jsonrpc_witness:
  "Detect rpcRequest = (Inr (detected ProtocolJSONRPC ''message/send'' ''jsonrpc''), rpcRequest)"
proof (rule detect_jsonrpc)
  show "ParseJSONRPCMethod rpcBody = Inr (''message/send'', None)" by code_simp
  show "length rpcBody \<le> maxBodyInspectSize" by code_simp
  show "\<not> hasPrefix (hdr rpcRequest ''Content-Type'') ''application/grpc''" by code_simp
qed (simp_all add: rpcRequest_def)

end
