(* ===== verification/Middleware.thy ===== *)
theory Middleware
  imports Client_IP Protocol
begin

text \<open>
  What the security middlewares have in common (\<open>Middleware\<close> in \<open>internal/security/pipeline.go\<close>).
  Every \<open>Process\<close> either writes one error and returns or calls \<open>next.ServeHTTP\<close> once, with the
  response headers it may have set, a request that differs at most in its context, and its own
  state updated. A middleware is therefore modelled by the decision it takes, a \<open>verdict\<close>, and
  \<open>wrapped\<close> turns the decision into the handler. What it reads of the clock is an argument.
\<close>

datatype verdict = Block sentinel_error | Pass request header

type_synonym 's decision = "request \<Rightarrow> header \<Rightarrow> 's \<Rightarrow> verdict \<times> 's"

definition wrapped :: "'s decision \<Rightarrow> 's handler \<Rightarrow> 's handler" where
  "wrapped decide next = (\<lambda>r w s. case decide r w s of
      (Block e, s') \<Rightarrow> (WriteHTTPError w e, s')
    | (Pass r' w', s') \<Rightarrow> next r' w' s')"

text \<open>
  The request a middleware hands on is the one it got, but for the context and, after a read error,
  for a body of which nothing can be read any more.
\<close>

definition body_kept :: "stream option \<Rightarrow> stream option \<Rightarrow> bool" where
  "body_kept b b' \<longleftrightarrow> b' = b
     \<or> ((\<exists>x. b = Some x \<and> st_fails x) \<and> b' = Some \<lparr>st_bytes = [], st_fails = True\<rparr>)"

definition same_request :: "request \<Rightarrow> request \<Rightarrow> bool" where
  "same_request r r' \<longleftrightarrow> r' = r\<lparr>rq_ctx := rq_ctx r', rq_body := rq_body r'\<rparr>
     \<and> body_kept (rq_body r) (rq_body r')"

lemma body_kept_refl [simp, intro]: "body_kept b b"
  by (simp add: body_kept_def)

lemma body_kept_trans: "body_kept a b \<Longrightarrow> body_kept b c \<Longrightarrow> body_kept a c"
  by (auto simp: body_kept_def)

lemma same_request_iff: "same_request r r' \<longleftrightarrow>
    rq_method r' = rq_method r \<and> rq_path r' = rq_path r \<and> rq_query r' = rq_query r
    \<and> rq_headers r' = rq_headers r \<and> rq_remoteAddr r' = rq_remoteAddr r \<and> rq_tls r' = rq_tls r
    \<and> body_kept (rq_body r) (rq_body r')"
  by (cases r; cases r') (auto simp: same_request_def)

lemma same_request_refl [simp, intro]: "same_request r r"
  by (simp add: same_request_def)

lemma same_request_ctx [simp, intro]: "same_request r (r\<lparr>rq_ctx := c\<rparr>)"
  by (simp add: same_request_def)

lemma same_request_trans: "same_request r s \<Longrightarrow> same_request s t \<Longrightarrow> same_request r t"
  by (auto simp: same_request_iff intro: body_kept_trans)

lemma same_request_sel:
  assumes "same_request r r'"
  shows "rq_method r' = rq_method r" "rq_path r' = rq_path r" "rq_headers r' = rq_headers r"
    "rq_remoteAddr r' = rq_remoteAddr r" "rq_query r' = rq_query r" "hdr r' k = hdr r k"
  using assms by (auto simp: same_request_iff hdr_def)

lemma InspectAndRewind_same: "InspectAndRewind r n = (res, r') \<Longrightarrow> same_request r r'"
  by (auto simp: InspectAndRewind_def same_request_iff body_kept_def Let_def
      split: option.splits if_splits)

text \<open>
  The contract of a middleware: an invariant of its state that every decision keeps, the request
  handed on as above, and errors with a 4xx or 5xx status. The lemmas in the
  locale are the ones the pipeline uses for each of its stages.
\<close>

locale middleware =
  fixes decide :: "'s decision" and inv :: "'s \<Rightarrow> bool"
  assumes decide_inv: "inv s \<Longrightarrow> inv (snd (decide r w s))"
    and decide_request: "fst (decide r w s) = Pass r' w' \<Longrightarrow> same_request r r'"
    and decide_error: "fst (decide r w s) = Block e \<Longrightarrow> 400 \<le> se_code e \<and> se_code e < 600"
begin

lemma wrapped_cases:
  obtains (blocked) e s' where "wrapped decide next r w s = (WriteHTTPError w e, s')"
      "400 \<le> se_code e" "se_code e < 600" "inv s \<Longrightarrow> inv s'" "s' = snd (decide r w s)"
  | (passed) r' w' s' where "wrapped decide next r w s = next r' w' s'"
      "same_request r r'" "inv s \<Longrightarrow> inv s'" "decide r w s = (Pass r' w', s')"
proof (cases "decide r w s")
  case (Pair v s')
  show ?thesis
  proof (cases v)
    case (Block e)
    with Pair decide_error[of r w s e] decide_inv[of s r w] show ?thesis
      by (intro blocked[of e s']) (auto simp: wrapped_def)
  next
    case (Pass r' w')
    with Pair decide_request[of r w s r' w'] decide_inv[of s r w] show ?thesis
      by (intro passed[of r' w' s']) (auto simp: wrapped_def)
  qed
qed

text \<open>An invariant the next handler keeps is kept by the wrapped one.\<close>

lemma wrapped_inv:
  assumes "\<And>r' w' s'. inv s' \<Longrightarrow> inv (snd (next r' w' s'))" and "inv s"
  shows "inv (snd (wrapped decide next r w s))"
  by (rule wrapped_cases[of "next" r w s]) (use assms in auto)

end

end
