(* ===== verification/Auth.thy ===== *)
theory Auth
  imports Middleware
begin

text \<open>
  Authentication (\<open>internal/security/auth.go\<close>).

  \<open>jwk.Fetch\<close> and \<open>jwt.Parse\<close> come from \<open>lestrrat-go/jwx\<close>, which is not in the repository:
  \<open>fetch url\<close> is the key set or \<open>None\<close> on an error, \<open>parse token opts\<close> the subject of the token or
  \<open>None\<close> when parsing or validation fails. The options the code passes are a record, so that what is
  asked of the library can be stated. \<open>base64.RawURLEncoding\<close> is modelled.
\<close>

section \<open>Unpadded URL base64\<close>

definition b64Val :: "char \<Rightarrow> nat option" where
  "b64Val c = (let n = byte_of c in
     if 65 \<le> n \<and> n \<le> 90 then Some (n - 65)
     else if 97 \<le> n \<and> n \<le> 122 then Some (n - 71)
     else if 48 \<le> n \<and> n \<le> 57 then Some (n + 4)
     else if n = 45 then Some 62
     else if n = 95 then Some 63
     else None)"

fun b64Bytes :: "nat list \<Rightarrow> string option" where
  "b64Bytes [] = Some []"
| "b64Bytes [a] = None"
| "b64Bytes [a, b] = Some [char_of ((64 * a + b) div 16)]"
| "b64Bytes [a, b, c] =
     (let v = (64 * a + b) * 64 + c in Some [char_of (v div 1024), char_of (v div 4 mod 256)])"
| "b64Bytes (a # b # c # d # r) =
     (let v = ((64 * a + b) * 64 + c) * 64 + d in
      map_option (\<lambda>t. char_of (v div 65536) # char_of (v div 256 mod 256) # char_of (v mod 256) # t)
        (b64Bytes r))"

definition rawURLDecode :: "string \<Rightarrow> string option" where
  "rawURLDecode s =
     (let t = filter (\<lambda>c. byte_of c \<noteq> 10 \<and> byte_of c \<noteq> 13) s in
      if list_all (\<lambda>c. b64Val c \<noteq> None) t then b64Bytes (map (\<lambda>c. the (b64Val c)) t) else None)"

section \<open>Headers and tokens\<close>

definition parseAuthHeader :: "string \<Rightarrow> string \<times> string" where
  "parseAuthHeader h = (case splitN2 h (CHR '' '') of
      [a, b] \<Rightarrow> (toLower a, b)
    | _ \<Rightarrow> ([], h))"

definition quoteByte :: char where "quoteByte = char_of (34 :: nat)"

definition extractJSONField :: "string \<Rightarrow> string \<Rightarrow> string" where
  "extractJSONField js field =
     (let key = quoteByte # field @ [quoteByte] in
      case indexStr js key of
        None \<Rightarrow> []
      | Some idx \<Rightarrow>
          (let rest = drop (idx + length key) js in
           case indexStr rest '':'' of
             None \<Rightarrow> []
           | Some colon \<Rightarrow>
               (let rest2 = trimSpace (drop (colon + 1) rest) in
                if length rest2 = 0 \<or> hd rest2 \<noteq> quoteByte then []
                else (let rest3 = tl rest2 in
                  case indexStr rest3 [quoteByte] of None \<Rightarrow> [] | Some e \<Rightarrow> take e rest3))))"

definition opaqueSubject :: "string \<Rightarrow> string" where
  "opaqueSubject token = (if length token > 16 then take 16 token @ ''...'' else token)"

definition extractSubjectFromToken :: "string \<Rightarrow> string" where
  "extractSubjectFromToken token =
     (if token = [] then []
      else (case splitByte token (CHR ''.'') of
          [a, b, c] \<Rightarrow>
            (case rawURLDecode b of
               None \<Rightarrow> opaqueSubject token
             | Some payload \<Rightarrow>
                 (let sub = extractJSONField payload ''sub'' in
                  if sub \<noteq> [] then sub else opaqueSubject token))
        | _ \<Rightarrow> opaqueSubject token))"

section \<open>The middleware\<close>

record auth_middleware =
  am_mode :: string
  am_allowUnauthenticated :: bool
  am_issuer :: string
  am_audience :: string
  am_jwksURL :: string

record auth_pipeline_config =
  apc_mode :: string
  apc_allowUnauthenticated :: bool
  apc_issuer :: string
  apc_audience :: string
  apc_jwksURL :: string

definition NewAuthMiddleware :: "auth_pipeline_config \<Rightarrow> auth_middleware" where
  "NewAuthMiddleware c = \<lparr>am_mode = apc_mode c, am_allowUnauthenticated = apc_allowUnauthenticated c,
     am_issuer = apc_issuer c, am_audience = apc_audience c, am_jwksURL = apc_jwksURL c\<rparr>"

record 'k jwt_options =
  jo_validate :: bool
  jo_issuer :: "string option"
  jo_audience :: "string option"
  jo_keySet :: "'k option"
  jo_verify :: bool

type_synonym 'k jwks_fetch = "string \<Rightarrow> 'k option"
type_synonym 'k jwt_parse = "string \<Rightarrow> 'k jwt_options \<Rightarrow> string option"

definition authInfo :: "string \<Rightarrow> string \<Rightarrow> string \<Rightarrow> bool \<Rightarrow> auth_info" where
  "authInfo mode subject scheme verified =
     \<lparr>ai_mode = mode, ai_subject = subject, ai_scheme = scheme, ai_verified = verified\<rparr>"

definition processPassthrough :: auth_info where
  "processPassthrough = authInfo ''passthrough'' [] [] False"

definition processPassthroughStrict :: "auth_middleware \<Rightarrow> request \<Rightarrow> sentinel_error + auth_info" where
  "processPassthroughStrict a r =
     (let h = hdr r ''Authorization'' in
      if h = [] then
        (if \<not> am_allowUnauthenticated a then Inl ErrAuthRequired
         else Inr (authInfo ''passthrough-strict'' [] [] False))
      else (let (scheme, token) = parseAuthHeader h;
                subject = extractSubjectFromToken token;
                subject' = (if subject \<noteq> [] then ''unverified:'' @ subject else subject) in
            Inr (authInfo ''passthrough-strict'' subject' scheme False)))"

definition jwtOptions :: "auth_middleware \<Rightarrow> 'k option \<Rightarrow> 'k jwt_options" where
  "jwtOptions a ks = \<lparr>jo_validate = True,
     jo_issuer = (if am_issuer a \<noteq> [] then Some (am_issuer a) else None),
     jo_audience = (if am_audience a \<noteq> [] then Some (am_audience a) else None),
     jo_keySet = ks, jo_verify = (am_jwksURL a \<noteq> [])\<rparr>"

definition processTerminate ::
  "'k jwks_fetch \<Rightarrow> 'k jwt_parse \<Rightarrow> auth_middleware \<Rightarrow> request \<Rightarrow> sentinel_error + auth_info" where
  "processTerminate fetch parse a r =
     (let h = hdr r ''Authorization'' in
      if h = [] then
        (if \<not> am_allowUnauthenticated a then Inl ErrAuthRequired
         else Inr (authInfo ''terminate'' [] [] False))
      else (let (scheme, token) = parseAuthHeader h in
        if \<not> equalFold scheme ''bearer'' then Inl ErrAuthInvalid
        else (let parseWith = (\<lambda>ks. case parse token (jwtOptions a ks) of
                  None \<Rightarrow> Inl ErrAuthInvalid
                | Some subject \<Rightarrow> Inr (authInfo ''terminate'' subject scheme True)) in
          if am_jwksURL a \<noteq> []
          then (case fetch (am_jwksURL a) of
              None \<Rightarrow> Inl ErrAuthInvalid
            | Some keySet \<Rightarrow> parseWith (Some keySet))
          else parseWith None)))"

definition authenticate ::
  "'k jwks_fetch \<Rightarrow> 'k jwt_parse \<Rightarrow> auth_middleware \<Rightarrow> request \<Rightarrow> sentinel_error + auth_info" where
  "authenticate fetch parse a r =
     (if am_mode a = ''passthrough'' then Inr processPassthrough
      else if am_mode a = ''passthrough-strict'' then processPassthroughStrict a r
      else if am_mode a = ''terminate'' then processTerminate fetch parse a r
      else processPassthroughStrict a r)"

definition authDecide :: "'k jwks_fetch \<Rightarrow> 'k jwt_parse \<Rightarrow> auth_middleware decision" where
  "authDecide fetch parse r w a = (case authenticate fetch parse a r of
      Inl e \<Rightarrow> (Block e, a)
    | Inr info \<Rightarrow> (Pass (r\<lparr>rq_ctx := WithAuthInfo (rq_ctx r) info\<rparr>) w, a))"

section \<open>Lemmas\<close>

lemma opaqueSubject_len: "length (opaqueSubject t) \<le> 19"
  by (simp add: opaqueSubject_def)

lemma parseAuthHeader_scheme: "CHR '' '' \<notin> set s \<Longrightarrow> parseAuthHeader (s @ '' '' @ t) = (toLower s, t)"
  by (simp add: parseAuthHeader_def splitN2_append)

lemma processPassthroughStrict_ok:
  assumes "processPassthroughStrict a r = Inr i"
  shows "\<not> ai_verified i" "ai_mode i = ''passthrough-strict''"
    "ai_subject i = [] \<or> hasPrefix (ai_subject i) ''unverified:''"
    "hdr r ''Authorization'' \<noteq> [] \<or> am_allowUnauthenticated a"
  using assms by (auto simp: processPassthroughStrict_def authInfo_def Let_def hasPrefix_def
      split: if_splits prod.splits)

text \<open>A subject is marked verified only by a successful parse of the bearer token with the options.\<close>

lemma processTerminate_ok:
  assumes "processTerminate fetch parse a r = Inr i"
  shows "(ai_verified i \<and> (\<exists>token ks. equalFold (fst (parseAuthHeader (hdr r ''Authorization''))) ''bearer''
            \<and> token = snd (parseAuthHeader (hdr r ''Authorization''))
            \<and> parse token (jwtOptions a ks) = Some (ai_subject i)
            \<and> (am_jwksURL a \<noteq> [] \<longrightarrow> ks \<noteq> None \<and> fetch (am_jwksURL a) = ks)))
    \<or> (\<not> ai_verified i \<and> ai_subject i = [] \<and> hdr r ''Authorization'' = [] \<and> am_allowUnauthenticated a)"
proof (cases "hdr r ''Authorization'' = []")
  case True
  with assms show ?thesis by (auto simp: processTerminate_def authInfo_def split: if_splits)
next
  case False
  obtain scheme token where p: "parseAuthHeader (hdr r ''Authorization'') = (scheme, token)"
    by (cases "parseAuthHeader (hdr r ''Authorization'')") auto
  from assms False show ?thesis
    by (auto simp: processTerminate_def p Let_def authInfo_def split: if_splits option.splits)
qed

lemma authenticate_error:
  "authenticate fetch parse a r = Inl e \<Longrightarrow> e = ErrAuthRequired \<or> e = ErrAuthInvalid"
  by (auto simp: authenticate_def processPassthroughStrict_def processTerminate_def Let_def
      split: if_splits prod.splits option.splits)


lemma authenticate_verified:
  assumes "authenticate fetch parse a r = Inr i" and "ai_verified i"
  shows "am_mode a = ''terminate'' \<and> hdr r ''Authorization'' \<noteq> []"
proof -
  from assms have mode: "am_mode a = ''terminate''"
    by (auto simp: authenticate_def processPassthrough_def authInfo_def
        dest: processPassthroughStrict_ok(1) split: if_splits)
  then have "authenticate fetch parse a r = processTerminate fetch parse a r"
    by (simp add: authenticate_def)
  with assms mode show ?thesis
    by (auto simp: processTerminate_def authInfo_def split: if_splits)
qed

interpretation authmw: middleware "authDecide fetch parse" "\<lambda>a. a = a0"
  by unfold_locales
    (auto simp: authDecide_def dest!: authenticate_error split: sum.splits)

lemma authDecide_pass: "authDecide fetch parse r w a = (Pass r' w', a') \<Longrightarrow>
    w' = w \<and> (\<exists>i. authenticate fetch parse a r = Inr i \<and> AuthInfoFrom (rq_ctx r') = Some i
      \<and> RouteResultFrom (rq_ctx r') = RouteResultFrom (rq_ctx r)
      \<and> RequestMetaFrom (rq_ctx r') = RequestMetaFrom (rq_ctx r)
      \<and> AuditEntryFrom (rq_ctx r') = AuditEntryFrom (rq_ctx r))"
  by (auto simp: authDecide_def ctx_getters ctx_setters split: sum.splits)

section \<open>Properties\<close>

text \<open>C4: A request whose subject is marked verified was authenticated in \<open>terminate\<close> mode, by a bearer
  token that the JWT library accepted with validation on, the configured issuer and audience, and,
  when a key set URL is configured, under the key set fetched from it.\<close>

theorem verified_means_validated:
  assumes "authenticate fetch parse a r = Inr i" and "ai_verified i"
  shows "am_mode a = ''terminate'' \<and> (\<exists>token opts.
      parseAuthHeader (hdr r ''Authorization'') = (ai_scheme i, token) \<and> equalFold (ai_scheme i) ''bearer''
      \<and> parse token opts = Some (ai_subject i) \<and> jo_validate opts
      \<and> (am_issuer a \<noteq> [] \<longrightarrow> jo_issuer opts = Some (am_issuer a))
      \<and> (am_audience a \<noteq> [] \<longrightarrow> jo_audience opts = Some (am_audience a))
      \<and> (am_jwksURL a \<noteq> [] \<longrightarrow> jo_verify opts \<and> jo_keySet opts = fetch (am_jwksURL a) \<and> jo_keySet opts \<noteq> None))"
proof -
  from authenticate_verified[OF assms] have mode: "am_mode a = ''terminate''"
    and h: "hdr r ''Authorization'' \<noteq> []" by auto
  obtain scheme token where p: "parseAuthHeader (hdr r ''Authorization'') = (scheme, token)"
    by (cases "parseAuthHeader (hdr r ''Authorization'')") auto
  from assms(1) mode have "processTerminate fetch parse a r = Inr i" by (simp add: authenticate_def)
  with h p obtain ks where "equalFold scheme ''bearer''" "parse token (jwtOptions a ks) = Some (ai_subject i)"
    "ai_scheme i = scheme" "am_jwksURL a \<noteq> [] \<longrightarrow> ks \<noteq> None \<and> fetch (am_jwksURL a) = ks"
    by (auto simp: processTerminate_def Let_def authInfo_def split: if_splits option.splits)
  with mode p show ?thesis
    by (intro conjI exI[of _ token] exI[of _ "jwtOptions a ks"]) (auto simp: jwtOptions_def)
qed

definition bearerRequest :: request where
  "bearerRequest = \<lparr>rq_method = ''POST'', rq_path = ''/'', rq_query = [],
     rq_headers = [(''Authorization'', [''Bearer tok''])], rq_body = None,
     rq_remoteAddr = ''10.1.2.3:80'', rq_tls = False, rq_ctx = emptyContext\<rparr>"

definition terminateMiddleware :: auth_middleware where
  "terminateMiddleware = \<lparr>am_mode = ''terminate'', am_allowUnauthenticated = False,
     am_issuer = ''iss'', am_audience = [], am_jwksURL = ''https://keys''\<rparr>"

lemma bearer_authenticated:
  "authenticate (\<lambda>_. Some ()) (\<lambda>t _. if t = ''tok'' then Some ''alice'' else None) terminateMiddleware bearerRequest
   = Inr (authInfo ''terminate'' ''alice'' ''bearer'' True)"
  by code_simp

theorem verified_means_validated_witness:
  "am_mode terminateMiddleware = ''terminate''
   \<and> (\<exists>opts :: unit jwt_options. jo_validate opts \<and> jo_issuer opts = Some ''iss''
      \<and> jo_keySet opts = Some ())"
  using verified_means_validated[OF bearer_authenticated]
  by (auto simp: authInfo_def terminateMiddleware_def)



text \<open>In \<open>passthrough-strict\<close> mode no subject is ever marked verified and every subject carries the
  prefix \<open>unverified:\<close>; an opaque token appears in it with at most its first 16 bytes.\<close>

theorem passthrough_strict_unverified:
  assumes "processPassthroughStrict a r = Inr i"
  shows "\<not> ai_verified i \<and> (ai_subject i = [] \<or> (\<exists>sub. ai_subject i = ''unverified:'' @ sub
     \<and> (sub = opaqueSubject (snd (parseAuthHeader (hdr r ''Authorization'')))
        \<or> (\<exists>h p g payload. splitByte (snd (parseAuthHeader (hdr r ''Authorization''))) (CHR ''.'') = [h, p, g]
             \<and> rawURLDecode p = Some payload \<and> sub = extractJSONField payload ''sub''))))"
proof -
  have sub: "extractSubjectFromToken t = [] \<or> extractSubjectFromToken t = opaqueSubject t
      \<or> (\<exists>h p g payload. splitByte t (CHR ''.'') = [h, p, g] \<and> rawURLDecode p = Some payload
           \<and> extractSubjectFromToken t = extractJSONField payload ''sub'')" for t
    by (auto simp: extractSubjectFromToken_def Let_def split: list.splits option.splits if_splits)
  show ?thesis
    using assms processPassthroughStrict_ok(1)[OF assms] sub[of "snd (parseAuthHeader (hdr r ''Authorization''))"]
    by (auto simp: processPassthroughStrict_def authInfo_def Let_def split: if_splits prod.splits)
qed

theorem passthrough_strict_unverified_witness:
  "\<not> ai_verified (authInfo ''passthrough-strict'' ''unverified:tok'' ''bearer'' False)"
proof -
  have "processPassthroughStrict terminateMiddleware bearerRequest
      = Inr (authInfo ''passthrough-strict'' ''unverified:tok'' ''bearer'' False)" by code_simp
  from passthrough_strict_unverified[OF this] show ?thesis by simp
qed

end
