(* ===== verification/Rate_Limit.thy ===== *)
theory Rate_Limit
  imports Middleware
begin

text \<open>
  Rate limiting: \<open>global.go\<close>, \<open>ratelimit_ip.go\<close> and \<open>ratelimit_user.go\<close> of \<open>internal/security\<close>.

  The token bucket is \<open>golang.org/x/time/rate\<close>, which is not in the repository: a bucket is of a type
  \<open>'l\<close>, \<open>newLim q b\<close> is \<open>NewLimiter\<close> at \<open>q\<close> requests per second with burst \<open>b\<close>, and \<open>allow b t\<close> is
  \<open>Allow\<close> at the clock reading \<open>t\<close>, with the bucket after it. Nothing is assumed of them.

  The two keyed limiters keep a \<open>sync.Map\<close> from keys to buckets with the time of their last use.
  The locale \<open>keyed_limiter\<close> is what a keyed limiter promises; both are instances of it. The last
  section is the interleaving of concurrent \<open>getLimiter\<close> calls.
\<close>

type_synonym 'l bucket_maker = "rat \<Rightarrow> int \<Rightarrow> 'l"
type_synonym 'l bucket_allow = "'l \<Rightarrow> go_time \<Rightarrow> bool \<times> 'l"

section \<open>The global limiter (global.go)\<close>

definition NewGlobalRateLimiter :: "'l bucket_maker \<Rightarrow> int \<Rightarrow> 'l" where
  "NewGlobalRateLimiter newLim rpm =
     (let perSecond = of_int rpm / 60;
          b = (if rpm < 0 then - ((- rpm) div 60) else rpm div 60);
          burst = (if b < 1 then 1 else b) in
      newLim perSecond burst)"

definition globalDecide :: "'l bucket_allow \<Rightarrow> go_time \<Rightarrow> 'l decision" where
  "globalDecide allow now r w bk =
     (case allow bk now of
        (ok, bk') \<Rightarrow> (if \<not> ok then Block ErrGlobalLimitReached else Pass r w, bk'))"

section \<open>Entries\<close>

record 'l limiter_entry =
  en_limiter :: 'l
  en_lastSeen :: go_time

type_synonym 'l entries = "string \<Rightarrow> 'l limiter_entry option"

text \<open>
  \<open>getLimiter\<close> on the map: the bucket of the key, fresh when there is none, with the entry's
  \<open>lastSeen\<close> set to the reading \<open>now\<close>. \<open>Allow\<close> then updates the bucket the entry points to.
\<close>

definition touchEntry :: "'l \<Rightarrow> string \<Rightarrow> go_time \<Rightarrow> 'l entries \<Rightarrow> 'l \<times> 'l entries" where
  "touchEntry fresh k now m = (case m k of
      Some entry \<Rightarrow> (en_limiter entry, m(k \<mapsto> entry\<lparr>en_lastSeen := now\<rparr>))
    | None \<Rightarrow> (fresh, m(k \<mapsto> \<lparr>en_limiter = fresh, en_lastSeen = now\<rparr>)))"

definition storeBucket :: "string \<Rightarrow> 'l \<Rightarrow> 'l entries \<Rightarrow> 'l entries" where
  "storeBucket k bk m = m(k := map_option (\<lambda>e. e\<lparr>en_limiter := bk\<rparr>) (m k))"

definition dropStale :: "go_time \<Rightarrow> 'l entries \<Rightarrow> 'l entries" where
  "dropStale cutoff m = (\<lambda>k. case m k of
      None \<Rightarrow> None | Some e \<Rightarrow> if en_lastSeen e < cutoff then None else Some e)"

section \<open>The limiter by client address (ratelimit\_ip.go)\<close>

record 'l ip_limiter =
  il_limiters :: "'l entries"
  il_perIP :: int
  il_burst :: int
  il_cleanupInterval :: go_duration
  il_trustedProxies :: "string list"

definition NewIPRateLimiter ::
  "int \<Rightarrow> int \<Rightarrow> go_duration \<Rightarrow> string list \<Rightarrow> 'l ip_limiter" where
  "NewIPRateLimiter perIP burst cleanupInterval trusted =
     \<lparr>il_limiters = (\<lambda>_. None), il_perIP = perIP, il_burst = burst,
      il_cleanupInterval = cleanupInterval, il_trustedProxies = trusted\<rparr>"

definition ipGetLimiter :: "'l bucket_maker \<Rightarrow> string \<Rightarrow> go_time \<Rightarrow> 'l ip_limiter \<Rightarrow> 'l \<times> 'l ip_limiter" where
  "ipGetLimiter newLim ip now rl =
     (case touchEntry (newLim (of_int (il_perIP rl) / 60) (il_burst rl)) ip now (il_limiters rl) of
        (bk, m) \<Rightarrow> (bk, rl\<lparr>il_limiters := m\<rparr>))"

definition ipTake ::
  "'l bucket_maker \<Rightarrow> 'l bucket_allow \<Rightarrow> string \<Rightarrow> go_time \<Rightarrow> go_time \<Rightarrow> 'l ip_limiter
     \<Rightarrow> bool \<times> 'l ip_limiter" where
  "ipTake newLim allow ip now ta rl =
     (case ipGetLimiter newLim ip now rl of
        (bk, rl1) \<Rightarrow> (case allow bk ta of
            (ok, bk') \<Rightarrow> (ok, rl1\<lparr>il_limiters := storeBucket ip bk' (il_limiters rl1)\<rparr>)))"

definition ipDecide ::
  "'l bucket_maker \<Rightarrow> 'l bucket_allow \<Rightarrow> go_time \<Rightarrow> go_time \<Rightarrow> 'l ip_limiter decision" where
  "ipDecide newLim allow now ta r w rl =
     (let ip = TrustedClientIP (rq_remoteAddr r) (hdr r ''X-Forwarded-For'') (il_trustedProxies rl) in
      case ipTake newLim allow ip now ta rl of
        (ok, rl') \<Rightarrow> (if \<not> ok then Block ErrRateLimited else Pass r w, rl'))"

definition ipCleanup :: "go_time \<Rightarrow> 'l ip_limiter \<Rightarrow> 'l ip_limiter" where
  "ipCleanup now rl =
     (let cutoff = now - il_cleanupInterval rl in rl\<lparr>il_limiters := dropStale cutoff (il_limiters rl)\<rparr>)"

section \<open>The limiter by user (ratelimit\_user.go)\<close>

record 'l user_limiter =
  ul_limiters :: "'l entries"
  ul_perUser :: int
  ul_burst :: int
  ul_cleanupInterval :: go_duration

definition NewUserRateLimiter :: "int \<Rightarrow> int \<Rightarrow> go_duration \<Rightarrow> 'l user_limiter" where
  "NewUserRateLimiter perUser burst cleanupInterval =
     \<lparr>ul_limiters = (\<lambda>_. None), ul_perUser = perUser, ul_burst = burst,
      ul_cleanupInterval = cleanupInterval\<rparr>"

definition userGetLimiter ::
  "'l bucket_maker \<Rightarrow> string \<Rightarrow> go_time \<Rightarrow> 'l user_limiter \<Rightarrow> 'l \<times> 'l user_limiter" where
  "userGetLimiter newLim subject now rl =
     (case touchEntry (newLim (of_int (ul_perUser rl) / 60) (ul_burst rl)) subject now (ul_limiters rl) of
        (bk, m) \<Rightarrow> (bk, rl\<lparr>ul_limiters := m\<rparr>))"

definition userTake ::
  "'l bucket_maker \<Rightarrow> 'l bucket_allow \<Rightarrow> string \<Rightarrow> go_time \<Rightarrow> go_time \<Rightarrow> 'l user_limiter
     \<Rightarrow> bool \<times> 'l user_limiter" where
  "userTake newLim allow subject now ta rl =
     (case userGetLimiter newLim subject now rl of
        (bk, rl1) \<Rightarrow> (case allow bk ta of
            (ok, bk') \<Rightarrow> (ok, rl1\<lparr>ul_limiters := storeBucket subject bk' (ul_limiters rl1)\<rparr>)))"

definition userDecide ::
  "'l bucket_maker \<Rightarrow> 'l bucket_allow \<Rightarrow> go_time \<Rightarrow> go_time \<Rightarrow> 'l user_limiter decision" where
  "userDecide newLim allow now ta r w rl =
     (case AuthInfoFrom (rq_ctx r) of
        None \<Rightarrow> (Pass r w, rl)
      | Some info \<Rightarrow>
          if ai_subject info = [] then (Pass r w, rl)
          else (case userTake newLim allow (ai_subject info) now ta rl of
              (ok, rl') \<Rightarrow> (if \<not> ok then Block ErrRateLimited else Pass r w, rl')))"

definition userCleanup :: "go_time \<Rightarrow> 'l user_limiter \<Rightarrow> 'l user_limiter" where
  "userCleanup now rl =
     (let cutoff = now - ul_cleanupInterval rl in rl\<lparr>ul_limiters := dropStale cutoff (ul_limiters rl)\<rparr>)"

section \<open>The contract of a keyed limiter\<close>

text \<open>
  \<open>ask k t a s\<close> asks the bucket of key \<open>k\<close> at the readings \<open>t\<close> (for \<open>lastSeen\<close>) and \<open>a\<close> (for the
  bucket). It uses that bucket and no other, and a fresh one when there is none.
\<close>

definition bucketOr :: "'l \<Rightarrow> 'l limiter_entry option \<Rightarrow> 'l" where
  "bucketOr fresh e = (case e of None \<Rightarrow> fresh | Some x \<Rightarrow> en_limiter x)"

locale keyed_limiter =
  fixes allow :: "'l bucket_allow"
    and fresh :: "'s \<Rightarrow> 'l"
    and entry :: "'s \<Rightarrow> 'l entries"
    and ask :: "string \<Rightarrow> go_time \<Rightarrow> go_time \<Rightarrow> 's \<Rightarrow> bool \<times> 's"
  assumes ask_fresh: "fresh (snd (ask k t a s)) = fresh s"
    and ask_answer: "fst (ask k t a s) = fst (allow (bucketOr (fresh s) (entry s k)) a)"
    and ask_entry: "entry (snd (ask k t a s)) = (entry s)(k \<mapsto>
          \<lparr>en_limiter = snd (allow (bucketOr (fresh s) (entry s k)) a), en_lastSeen = t\<rparr>)"
begin

text \<open>The answers of a sequence of requests, and those of the requests of one key.\<close>

fun answers :: "(string \<times> go_time \<times> go_time) list \<Rightarrow> 's \<Rightarrow> (string \<times> bool) list" where
  "answers [] s = []"
| "answers ((k, t, a) # qs) s = (k, fst (ask k t a s)) # answers qs (snd (ask k t a s))"

text \<open>Two states that agree on a key give that key the same answers, whatever the others ask.\<close>

lemma answers_isolated:
  assumes "entry s k = entry s' k" and "fresh s = fresh s'"
  shows "filter (\<lambda>x. fst x = k) (answers qs s) = answers (filter (\<lambda>q. fst q = k) qs) s'"
  using assms
proof (induction qs arbitrary: s s')
  case Nil
  then show ?case by simp
next
  case (Cons q qs)
  obtain j t a where q: "q = (j, t, a)" by (cases q) auto
  show ?case
  proof (cases "j = k")
    case True
    have "filter (\<lambda>x. fst x = k) (answers qs (snd (ask k t a s)))
        = answers (filter (\<lambda>q. fst q = k) qs) (snd (ask k t a s'))"
      by (rule Cons.IH) (simp_all add: ask_entry ask_fresh Cons.prems)
    then show ?thesis by (simp add: q True ask_answer Cons.prems)
  next
    case False
    have "filter (\<lambda>x. fst x = k) (answers qs (snd (ask j t a s)))
        = answers (filter (\<lambda>q. fst q = k) qs) s'"
      by (rule Cons.IH) (simp_all add: ask_entry ask_fresh Cons.prems False False[symmetric])
    then show ?thesis by (simp add: q False)
  qed
qed

end

text \<open>A keyed limiter with eviction: \<open>clean\<close> drops the entries last seen before the cutoff, only those.\<close>

locale cleaned_limiter = keyed_limiter allow fresh entry ask
  for allow :: "'l bucket_allow" and fresh :: "'s \<Rightarrow> 'l" and entry :: "'s \<Rightarrow> 'l entries"
    and ask :: "string \<Rightarrow> go_time \<Rightarrow> go_time \<Rightarrow> 's \<Rightarrow> bool \<times> 's" +
  fixes clean :: "go_time \<Rightarrow> 's \<Rightarrow> 's" and interval :: "'s \<Rightarrow> go_duration"
  assumes clean_entry: "entry (clean now s) = dropStale (now - interval s) (entry s)"
    and clean_fresh: "fresh (clean now s) = fresh s"
begin

text \<open>A key that was used within the interval before the cleanup is answered as without it.\<close>

lemma clean_keeps_recent:
  assumes "entry s k = Some e" and "now - interval s \<le> en_lastSeen e"
  shows "fst (ask k t a (clean now s)) = fst (ask k t a s)"
  using assms by (simp add: ask_answer clean_entry clean_fresh dropStale_def)

end

lemma touch_store:
  "storeBucket k bk (snd (touchEntry fresh k now m)) = m(k \<mapsto> \<lparr>en_limiter = bk, en_lastSeen = now\<rparr>)"
  "fst (touchEntry fresh k now m) = bucketOr fresh (m k)"
  by (auto simp: storeBucket_def touchEntry_def bucketOr_def fun_eq_iff split: option.splits)

definition ipFresh :: "'l bucket_maker \<Rightarrow> 'l ip_limiter \<Rightarrow> 'l" where
  "ipFresh newLim rl = newLim (of_int (il_perIP rl) / 60) (il_burst rl)"

definition userFresh :: "'l bucket_maker \<Rightarrow> 'l user_limiter \<Rightarrow> 'l" where
  "userFresh newLim rl = newLim (of_int (ul_perUser rl) / 60) (ul_burst rl)"

interpretation ipl: cleaned_limiter allow "ipFresh newLim" il_limiters "ipTake newLim allow"
    ipCleanup il_cleanupInterval
proof unfold_locales
  fix k t a rl now
  show "ipFresh newLim (snd (ipTake newLim allow k t a rl)) = ipFresh newLim rl"
    by (simp add: ipTake_def ipGetLimiter_def ipFresh_def split: prod.splits)
  show "fst (ipTake newLim allow k t a rl) = fst (allow (bucketOr (ipFresh newLim rl) (il_limiters rl k)) a)"
    by (simp add: ipTake_def ipGetLimiter_def ipFresh_def touch_store split_beta)
  show "il_limiters (snd (ipTake newLim allow k t a rl)) = (il_limiters rl)(k \<mapsto>
     \<lparr>en_limiter = snd (allow (bucketOr (ipFresh newLim rl) (il_limiters rl k)) a), en_lastSeen = t\<rparr>)"
    by (simp add: ipTake_def ipGetLimiter_def ipFresh_def touch_store split_beta)
  show "il_limiters (ipCleanup now rl) = dropStale (now - il_cleanupInterval rl) (il_limiters rl)"
    "ipFresh newLim (ipCleanup now rl) = ipFresh newLim rl"
    by (simp_all add: ipCleanup_def ipFresh_def Let_def)
qed

interpretation userl: cleaned_limiter allow "userFresh newLim" ul_limiters "userTake newLim allow"
    userCleanup ul_cleanupInterval
proof unfold_locales
  fix k t a rl now
  show "userFresh newLim (snd (userTake newLim allow k t a rl)) = userFresh newLim rl"
    by (simp add: userTake_def userGetLimiter_def userFresh_def split: prod.splits)
  show "fst (userTake newLim allow k t a rl) = fst (allow (bucketOr (userFresh newLim rl) (ul_limiters rl k)) a)"
    by (simp add: userTake_def userGetLimiter_def userFresh_def touch_store split_beta)
  show "ul_limiters (snd (userTake newLim allow k t a rl)) = (ul_limiters rl)(k \<mapsto>
     \<lparr>en_limiter = snd (allow (bucketOr (userFresh newLim rl) (ul_limiters rl k)) a), en_lastSeen = t\<rparr>)"
    by (simp add: userTake_def userGetLimiter_def userFresh_def touch_store split_beta)
  show "ul_limiters (userCleanup now rl) = dropStale (now - ul_cleanupInterval rl) (ul_limiters rl)"
    "userFresh newLim (userCleanup now rl) = userFresh newLim rl"
    by (simp_all add: userCleanup_def userFresh_def Let_def)
qed

interpretation globalmw: middleware "globalDecide allow now" "\<lambda>_. True"
  by unfold_locales (auto simp: globalDecide_def split: prod.splits if_splits)

interpretation ipmw: middleware "ipDecide newLim allow now ta"
    "\<lambda>rl. il_trustedProxies rl = tp \<and> il_perIP rl = p \<and> il_burst rl = b"
  by unfold_locales
    (auto simp: ipDecide_def ipTake_def ipGetLimiter_def Let_def split: prod.splits if_splits)

interpretation usermw: middleware "userDecide newLim allow now ta"
    "\<lambda>rl. ul_perUser rl = p \<and> ul_burst rl = b"
  by unfold_locales
    (auto simp: userDecide_def userTake_def userGetLimiter_def split: option.splits prod.splits if_splits)

section \<open>Concurrent lookups\<close>

text \<open>
  \<open>getLimiter\<close> is not one step: a goroutine that misses in \<open>Load\<close> builds a bucket and offers it
  with \<open>LoadOrStore\<close>. Buckets are pointers, here numbers; the store maps keys to them, and each
  goroutine has a program counter. There is no eviction in this relation.
\<close>

datatype lookup_pc = LookupStart | LookupMissed nat | LookupDone nat

record lookup_state =
  lk_store :: "string \<Rightarrow> nat option"
  lk_pc :: "nat \<Rightarrow> lookup_pc"
  lk_next :: nat

inductive lookup_step :: "(nat \<Rightarrow> string) \<Rightarrow> lookup_state \<Rightarrow> lookup_state \<Rightarrow> bool" for keyOf where
  load_hit: "\<lbrakk>lk_pc s g = LookupStart; lk_store s (keyOf g) = Some l\<rbrakk> \<Longrightarrow>
     lookup_step keyOf s (s\<lparr>lk_pc := (lk_pc s)(g := LookupDone l)\<rparr>)"
| load_miss: "\<lbrakk>lk_pc s g = LookupStart; lk_store s (keyOf g) = None\<rbrakk> \<Longrightarrow>
     lookup_step keyOf s (s\<lparr>lk_pc := (lk_pc s)(g := LookupMissed (lk_next s)), lk_next := Suc (lk_next s)\<rparr>)"
| store_loaded: "\<lbrakk>lk_pc s g = LookupMissed l; lk_store s (keyOf g) = Some l'\<rbrakk> \<Longrightarrow>
     lookup_step keyOf s (s\<lparr>lk_pc := (lk_pc s)(g := LookupDone l')\<rparr>)"
| store_new: "\<lbrakk>lk_pc s g = LookupMissed l; lk_store s (keyOf g) = None\<rbrakk> \<Longrightarrow>
     lookup_step keyOf s (s\<lparr>lk_store := (lk_store s)(keyOf g \<mapsto> l),
                            lk_pc := (lk_pc s)(g := LookupDone l)\<rparr>)"

definition lookup_init :: lookup_state where
  "lookup_init = \<lparr>lk_store = (\<lambda>_. None), lk_pc = (\<lambda>_. LookupStart), lk_next = 0\<rparr>"

inductive lookup_reach :: "(nat \<Rightarrow> string) \<Rightarrow> lookup_state \<Rightarrow> bool" for keyOf where
  reach_init: "lookup_reach keyOf lookup_init"
| reach_step: "\<lbrakk>lookup_reach keyOf s; lookup_step keyOf s t\<rbrakk> \<Longrightarrow> lookup_reach keyOf t"

lemma lookup_reach_done:
  "lookup_reach keyOf s \<Longrightarrow> lk_pc s g = LookupDone l \<Longrightarrow> lk_store s (keyOf g) = Some l"
proof (induction arbitrary: g l rule: lookup_reach.induct)
  case reach_init
  then show ?case by (simp add: lookup_init_def)
next
  case (reach_step s t)
  from reach_step.hyps(2) reach_step.IH reach_step.prems show ?case
    by cases (fastforce split: if_splits)+
qed

section \<open>Properties\<close>

text \<open>C21: The answers a client address gets from the limiter depend on the requests of that address
  alone: in any sequence of requests they are those of the subsequence with its key, on a limiter that
  knows nothing of the others.\<close>

theorem ip_limiter_isolated:
  assumes "il_limiters s k = il_limiters s' k" and "ipFresh newLim s = ipFresh newLim s'"
  shows "filter (\<lambda>x. fst x = k) (keyed_limiter.answers (ipTake newLim allow) qs s)
       = keyed_limiter.answers (ipTake newLim allow) (filter (\<lambda>q. fst q = k) qs) s'"
  using assms by (rule ipl.answers_isolated)

theorem ip_limiter_isolated_witness:
  "filter (\<lambda>x. fst x = ''a'') (keyed_limiter.answers (ipTake (\<lambda>q b. nat b) (\<lambda>l t. (0 < l, l - 1)))
       [(''a'', 0, 0), (''b'', 0, 0), (''a'', 1, 1)] (NewIPRateLimiter 60 1 0 []))
   = keyed_limiter.answers (ipTake (\<lambda>q b. nat b) (\<lambda>l t. (0 < l, l - 1)))
       (filter (\<lambda>q. fst q = ''a'') [(''a'', 0, 0), (''b'', 0, 0), (''a'', 1, 1)]) (NewIPRateLimiter 60 1 0 [])"
  by (rule ip_limiter_isolated) simp_all

text \<open>The periodic cleanup forgets no user that was seen within the cleanup interval: such a user's
  next request is answered as if the cleanup had not run.\<close>

theorem user_cleanup_keeps_recent:
  assumes "ul_limiters s k = Some e" and "now - ul_cleanupInterval s \<le> en_lastSeen e"
  shows "fst (userTake newLim allow k t a (userCleanup now s)) = fst (userTake newLim allow k t a s)"
  using assms by (rule userl.clean_keeps_recent)

theorem user_cleanup_keeps_recent_witness:
  "fst (userTake (\<lambda>q b. nat b) (\<lambda>l t. (0 < l, l - 1)) ''u'' 12 12
      (userCleanup 12 \<lparr>ul_limiters = [''u'' \<mapsto> \<lparr>en_limiter = 0, en_lastSeen = 10\<rparr>], ul_perUser = 60,
         ul_burst = 1, ul_cleanupInterval = 5\<rparr>)) = False"
proof -
  let ?s = "\<lparr>ul_limiters = [''u'' \<mapsto> \<lparr>en_limiter = 0::nat, en_lastSeen = 10\<rparr>], ul_perUser = 60,
         ul_burst = 1, ul_cleanupInterval = 5\<rparr>"
  have "fst (userTake (\<lambda>q b. nat b) (\<lambda>l t. (0 < l, l - 1)) ''u'' 12 12 (userCleanup 12 ?s))
      = fst (userTake (\<lambda>q b. nat b) (\<lambda>l t. (0 < l, l - 1)) ''u'' 12 12 ?s)"
    by (rule user_cleanup_keeps_recent[where e = "\<lparr>en_limiter = 0, en_lastSeen = 10\<rparr>"]) simp_all
  then show ?thesis by (simp add: userTake_def userGetLimiter_def touchEntry_def)
qed

text \<open>Concurrent lookups of one address share one bucket: in every interleaving of \<open>getLimiter\<close>
  calls, two goroutines that finished with the same key hold the same limiter.\<close>

theorem concurrent_lookups_share:
  assumes "lookup_reach keyOf s" and "lk_pc s g = LookupDone l" and "lk_pc s g' = LookupDone l'"
    and "keyOf g = keyOf g'"
  shows "l = l'"
  using lookup_reach_done[OF assms(1,2)] lookup_reach_done[OF assms(1,3)] assms(4) by simp

theorem concurrent_lookups_share_witness:
  "\<exists>s l l'. lookup_reach (\<lambda>_. ''k'') s \<and> lk_pc s 0 = LookupDone l \<and> lk_pc s 1 = LookupDone l' \<and> l = l'"
proof -
  let ?k = "\<lambda>_ :: nat. ''k''"
  let ?s1 = "lookup_init\<lparr>lk_pc := (lk_pc lookup_init)(0 := LookupMissed 0), lk_next := Suc 0\<rparr>"
  let ?s2 = "?s1\<lparr>lk_pc := (lk_pc ?s1)(1 := LookupMissed 1), lk_next := Suc (Suc 0)\<rparr>"
  let ?s3 = "?s2\<lparr>lk_store := (lk_store ?s2)(''k'' \<mapsto> 1), lk_pc := (lk_pc ?s2)(1 := LookupDone 1)\<rparr>"
  let ?s4 = "?s3\<lparr>lk_pc := (lk_pc ?s3)(0 := LookupDone 1)\<rparr>"
  have "lookup_step ?k lookup_init ?s1"
    using load_miss[of lookup_init 0 ?k] by (simp add: lookup_init_def)
  moreover have "lookup_step ?k ?s1 ?s2"
    using load_miss[of ?s1 1 ?k] by (simp add: lookup_init_def)
  moreover have "lookup_step ?k ?s2 ?s3"
    using store_new[of ?s2 1 1 ?k] by (simp add: lookup_init_def)
  moreover have "lookup_step ?k ?s3 ?s4"
    using store_loaded[of ?s3 0 0 ?k 1] by (simp add: lookup_init_def)
  ultimately have r: "lookup_reach ?k ?s4" by (meson reach_init reach_step)
  have "(1::nat) = 1"
    by (rule concurrent_lookups_share[OF r, of 0 1 1 1]) simp_all
  with r show ?thesis by (intro exI[of _ ?s4] exI[of _ 1]) simp
qed

end
