(* ===== verification/Policy.thy ===== *)
theory Policy
  imports Middleware Go_Time "HOL-Library.Multiset"
begin

text \<open>
  The ABAC policy engine: \<open>policy.go\<close>, \<open>policy_engine.go\<close> and \<open>policy_guard.go\<close> of
  \<open>internal/security\<close>.

  The rendered text of a decision's reason is kept as the data it is rendered from. The time zone
  database is a parameter: \<open>tz name\<close> is \<open>None\<close> when \<open>LoadLocation\<close> fails, else the offset from UTC
  in seconds at a time. \<open>sort.Slice\<close> promises a permutation ordered by the comparison and no more;
  \<open>sortPolicies\<close> is the outcome that keeps equal priorities in place (which is what the library does
  up to twelve elements), and the lemmas on evaluation hold for every outcome (\<open>sort_outcome\<close>).
\<close>

section \<open>Policies (policy.go)\<close>

record time_range =
  tr_start :: string
  tr_end :: string
  tr_tz :: string

record policy_match =
  pm_agents :: "string list"
  pm_methods :: "string list"
  pm_users :: "string list"
  pm_ips :: "string list"
  pm_headers :: "(string, string) gomap"
  pm_timeRange :: "time_range option"

record policy =
  po_name :: string
  po_description :: string
  po_match :: policy_match
  po_action :: string
  po_priority :: int

record policy_request =
  pq_agent :: string
  pq_method :: string
  pq_user :: string
  pq_ip :: string
  pq_headers :: header
  pq_time :: go_time

datatype policy_reason = MatchedReason string string | DefaultReason

record policy_decision =
  pd_action :: string
  pd_matchedPolicy :: string
  pd_reason :: policy_reason

section \<open>Matching (policy_engine.go)\<close>

definition matchStringList :: "string list \<Rightarrow> string \<Rightarrow> bool" where
  "matchStringList xs value =
     (if length xs = 0 then True else list_ex (\<lambda>item. item = value) xs)"

definition matchSingleIP :: "ip \<Rightarrow> string \<Rightarrow> bool" where
  "matchSingleIP parsedIP cidr =
     (if containsStr cidr ''/'' then
        (case ParseCIDR cidr of None \<Rightarrow> False | Some network \<Rightarrow> netContains network parsedIP)
      else (case ParseIP cidr of None \<Rightarrow> False | Some target \<Rightarrow> parsedIP = target))"

text \<open>The loop over the patterns: \<open>Some\<close> is a return from it, \<open>None\<close> its end.\<close>

definition isNegated :: "string \<Rightarrow> bool" where
  "isNegated pattern \<longleftrightarrow> hasPrefix pattern ''!''"

definition patternCIDR :: "string \<Rightarrow> string" where
  "patternCIDR pattern = (if isNegated pattern then drop 1 pattern else pattern)"

fun scanPatterns :: "string list \<Rightarrow> ip \<Rightarrow> bool option" where
  "scanPatterns [] a = None"
| "scanPatterns (p # ps) a =
     (let matched = matchSingleIP a (patternCIDR p) in
      if isNegated p \<and> matched then Some False
      else if \<not> isNegated p \<and> matched then Some True
      else scanPatterns ps a)"

definition requestIP :: "string \<Rightarrow> ip option" where
  "requestIP s = (case ParseIP s of
      Some a \<Rightarrow> Some a
    | None \<Rightarrow> (case SplitHostPort s of None \<Rightarrow> None | Some (host, _) \<Rightarrow> ParseIP host))"

definition matchIPs :: "string list \<Rightarrow> string \<Rightarrow> bool" where
  "matchIPs patterns s =
     (if length patterns = 0 then True
      else (case requestIP s of
          None \<Rightarrow> False
        | Some parsedIP \<Rightarrow>
            (case scanPatterns patterns parsedIP of
               Some b \<Rightarrow> b
             | None \<Rightarrow> list_all isNegated patterns)))"

definition matchHeaders :: "(string, string) gomap \<Rightarrow> header \<Rightarrow> bool" where
  "matchHeaders expected actual =
     (if length expected = 0 then True
      else list_all (\<lambda>(key, val). header_get actual key = val) expected)"

definition minuteOfDay :: "go_time \<Rightarrow> int \<Rightarrow> nat" where
  "minuteOfDay t offset = nat (((t div 1000000000 + offset) mod 86400) div 60)"

type_synonym tz_database = "string \<Rightarrow> (go_time \<Rightarrow> int) option"

definition zoneOffset :: "tz_database \<Rightarrow> string \<Rightarrow> go_time \<Rightarrow> int" where
  "zoneOffset tz name t =
     (if name \<noteq> [] then (case tz name of Some f \<Rightarrow> f t | None \<Rightarrow> 0) else 0)"

definition matchTimeRange :: "tz_database \<Rightarrow> time_range option \<Rightarrow> go_time \<Rightarrow> bool" where
  "matchTimeRange tz tr_opt t = (case tr_opt of
      None \<Rightarrow> True
    | Some tr \<Rightarrow>
        (case parseHHMM (tr_start tr) of
           None \<Rightarrow> True
         | Some start \<Rightarrow>
             (case parseHHMM (tr_end tr) of
                None \<Rightarrow> True
              | Some e \<Rightarrow>
                  (let now = minuteOfDay t (zoneOffset tz (tr_tz tr) t) in
                   if start \<le> e then start \<le> now \<and> now < e
                   else start \<le> now \<or> now < e))))"

definition matchPolicy :: "tz_database \<Rightarrow> policy \<Rightarrow> policy_request \<Rightarrow> bool" where
  "matchPolicy tz p q =
     (if \<not> matchStringList (pm_agents (po_match p)) (pq_agent q) then False
      else if \<not> matchStringList (pm_methods (po_match p)) (pq_method q) then False
      else if \<not> matchStringList (pm_users (po_match p)) (pq_user q) then False
      else if \<not> matchIPs (pm_ips (po_match p)) (pq_ip q) then False
      else if \<not> matchHeaders (pm_headers (po_match p)) (pq_headers q) then False
      else if \<not> matchTimeRange tz (pm_timeRange (po_match p)) (pq_time q) then False
      else True)"

section \<open>The engine\<close>

definition sort_outcome :: "policy list \<Rightarrow> policy list \<Rightarrow> bool" where
  "sort_outcome ps qs \<longleftrightarrow> mset qs = mset ps \<and> sorted_wrt (\<lambda>a b. po_priority a \<ge> po_priority b) qs"

definition sortPolicies :: "policy list \<Rightarrow> policy list" where
  "sortPolicies ps = sort_key (\<lambda>p. - po_priority p) ps"

record policy_engine =
  pe_policies :: "policy list"

definition NewPolicyEngine :: "policy list \<Rightarrow> policy_engine" where
  "NewPolicyEngine ps = \<lparr>pe_policies = sortPolicies ps\<rparr>"

definition defaultPolicyAction :: string where
  "defaultPolicyAction = ''allow''"

fun evaluatePolicies :: "tz_database \<Rightarrow> policy list \<Rightarrow> policy_request \<Rightarrow> policy_decision" where
  "evaluatePolicies tz [] q =
     \<lparr>pd_action = defaultPolicyAction, pd_matchedPolicy = [], pd_reason = DefaultReason\<rparr>"
| "evaluatePolicies tz (p # ps) q =
     (if matchPolicy tz p q
      then \<lparr>pd_action = po_action p, pd_matchedPolicy = po_name p,
            pd_reason = MatchedReason (po_name p) (po_description p)\<rparr>
      else evaluatePolicies tz ps q)"

definition Evaluate :: "tz_database \<Rightarrow> policy_engine \<Rightarrow> policy_request \<Rightarrow> policy_decision" where
  "Evaluate tz e q = evaluatePolicies tz (pe_policies e) q"

definition UpdatePolicies :: "policy list \<Rightarrow> policy_engine \<Rightarrow> policy_engine" where
  "UpdatePolicies ps e = e\<lparr>pe_policies := sortPolicies ps\<rparr>"

definition ListPolicies :: "policy_engine \<Rightarrow> policy list" where
  "ListPolicies e = pe_policies e"

definition convertPolicy :: "policy_config \<Rightarrow> policy" where
  "convertPolicy c = \<lparr>po_name = pc_name c, po_description = pc_description c,
     po_match = \<lparr>pm_agents = pmc_agents (pc_match c), pm_methods = pmc_methods (pc_match c),
                 pm_users = pmc_users (pc_match c), pm_ips = pmc_ips (pc_match c),
                 pm_headers = pmc_headers (pc_match c),
                 pm_timeRange = (case pmc_timeRange (pc_match c) of
                     None \<Rightarrow> None
                   | Some tr \<Rightarrow> Some \<lparr>tr_start = trc_start tr, tr_end = trc_end tr, tr_tz = trc_tz tr\<rparr>)\<rparr>,
     po_action = pc_action c, po_priority = pc_priority c\<rparr>"

definition ConvertPolicies :: "policy_config list \<Rightarrow> policy list" where
  "ConvertPolicies cfgs = map convertPolicy cfgs"

section \<open>The guard (policy_guard.go)\<close>

definition buildPolicyRequest :: "go_time \<Rightarrow> request \<Rightarrow> policy_request" where
  "buildPolicyRequest now r =
     \<lparr>pq_agent = (case RouteResultFrom (rq_ctx r) of Some route \<Rightarrow> rr_agentName route | None \<Rightarrow> rq_path r),
      pq_method = (case RequestMetaFrom (rq_ctx r) of Some m \<Rightarrow> rm_method m | None \<Rightarrow> []),
      pq_user = (case AuthInfoFrom (rq_ctx r) of Some a \<Rightarrow> ai_subject a | None \<Rightarrow> []),
      pq_ip = stripPort (rq_remoteAddr r),
      pq_headers = rq_headers r,
      pq_time = now\<rparr>"

definition policyDocsURL :: string where
  "policyDocsURL =
     ''https://github.com/raeseoklee/a2a-sentinel/blob/main/docs/SECURITY.md#policy-engine''"

definition apostrophe :: string where "apostrophe = [char_of (39 :: nat)]"

definition policyGuardDecide :: "tz_database \<Rightarrow> go_time \<Rightarrow> policy_engine decision" where
  "policyGuardDecide tz now r w e =
     (let d = Evaluate tz e (buildPolicyRequest now r) in
      if pd_action d = ''deny''
      then (Block (plainError 403 ''Request blocked by policy''
              (''Request blocked by policy '' @ apostrophe @ pd_matchedPolicy d @ apostrophe
                @ ''. Contact your administrator.'') policyDocsURL), e)
      else (Pass r w, e))"

section \<open>Lemmas: matching\<close>

lemma matchStringList_iff: "matchStringList xs v \<longleftrightarrow> xs = [] \<or> v \<in> set xs"
  by (auto simp: matchStringList_def list_ex_iff)

text \<open>The scan stops at the first pattern whose network holds the address, negated or not.\<close>

lemma scanPatterns_Some:
  "scanPatterns ps a = Some b \<longleftrightarrow> (\<exists>us p vs. ps = us @ p # vs \<and> matchSingleIP a (patternCIDR p)
     \<and> (\<forall>u \<in> set us. \<not> matchSingleIP a (patternCIDR u)) \<and> b = (\<not> isNegated p))"
  (is "?L ps \<longleftrightarrow> ?R ps")
proof
  show "?R ps" if "?L ps" using that
  proof (induction ps)
    case (Cons p ps)
    show ?case
    proof (cases "matchSingleIP a (patternCIDR p)")
      case True
      with Cons.prems show ?thesis
        by (intro exI[of _ "[]"] exI[of _ p] exI[of _ ps]) (auto simp: Let_def split: if_splits)
    next
      case False
      with Cons obtain us q vs where "ps = us @ q # vs" "matchSingleIP a (patternCIDR q)"
        "\<forall>u \<in> set us. \<not> matchSingleIP a (patternCIDR u)" "b = (\<not> isNegated q)" by auto
      with False show ?thesis by (intro exI[of _ "p # us"] exI[of _ q] exI[of _ vs]) auto
    qed
  qed simp
  have "?L (us @ p # vs)" if "matchSingleIP a (patternCIDR p)"
    "\<forall>u \<in> set us. \<not> matchSingleIP a (patternCIDR u)" "b = (\<not> isNegated p)" for us p vs
    using that by (induction us) (auto simp: Let_def)
  then show "?L ps" if "?R ps" using that by blast
qed

lemma scanPatterns_None:
  "scanPatterns ps a = None \<longleftrightarrow> (\<forall>p \<in> set ps. \<not> matchSingleIP a (patternCIDR p))"
  by (induction ps) (auto simp: Let_def)

lemma minuteOfDay_less [simp]: "minuteOfDay t d < 1440"
proof -
  have "(t div 1000000000 + d) mod 86400 \<le> 86399"
    using pos_mod_bound[of 86400 "t div 1000000000 + d"] by simp
  then have "((t div 1000000000 + d) mod 86400) div 60 \<le> 86399 div 60" by (rule zdiv_mono1) simp
  then show ?thesis by (simp add: minuteOfDay_def nat_less_iff)
qed

text \<open>
  The two branches of the range test, ordinary and overnight, are one test on the circle of the
  day: the minutes since the start are fewer than the length of the range.
\<close>

lemma range_circular:
  fixes now s e :: nat
  assumes "now < 1440" "s < 1440" "e < 1440"
  shows "(if s \<le> e then s \<le> now \<and> now < e else s \<le> now \<or> now < e)
     \<longleftrightarrow> (int now - int s) mod 1440 < (int e - int s) mod 1440"
proof -
  have *: "(int a - int b) mod 1440 = (if b \<le> a then int a - int b else int a - int b + 1440)"
    if "a < 1440" "b < 1440" for a b :: nat
  proof (cases "b \<le> a")
    case True
    with that show ?thesis by simp
  next
    case False
    have "(int a - int b) mod 1440 = (int a - int b + 1440) mod 1440" by simp
    also have "\<dots> = int a - int b + 1440" using False that by (intro mod_pos_pos_trivial) auto
    finally show ?thesis using False by simp
  qed
  show ?thesis unfolding *[OF assms(1,2)] *[OF assms(3,2)] using assms by auto
qed

lemma matchTimeRange_circular:
  assumes "parseHHMM (tr_start tr) = Some s" and "parseHHMM (tr_end tr) = Some e"
  shows "matchTimeRange tz (Some tr) t \<longleftrightarrow>
     (int (minuteOfDay t (zoneOffset tz (tr_tz tr) t)) - int s) mod 1440 < (int e - int s) mod 1440"
  using range_circular[OF minuteOfDay_less parseHHMM_less[OF assms(1)] parseHHMM_less[OF assms(2)]]
  by (simp add: matchTimeRange_def assms Let_def)

section \<open>Lemmas: evaluation\<close>

definition decisionOf :: "policy \<Rightarrow> policy_decision" where
  "decisionOf p = \<lparr>pd_action = po_action p, pd_matchedPolicy = po_name p,
     pd_reason = MatchedReason (po_name p) (po_description p)\<rparr>"

lemma evaluatePolicies_find: "evaluatePolicies tz ps q =
    (case find (\<lambda>p. matchPolicy tz p q) ps of
       Some p \<Rightarrow> decisionOf p
     | None \<Rightarrow> \<lparr>pd_action = ''allow'', pd_matchedPolicy = [], pd_reason = DefaultReason\<rparr>)"
  by (induction ps) (auto simp: decisionOf_def defaultPolicyAction_def)

lemma sorted_find_max:
  assumes "sorted_wrt (\<lambda>a b. po_priority a \<ge> po_priority b) ps" and "find P ps = Some p"
  shows "p \<in> set ps" "P p" "\<And>q. q \<in> set ps \<Longrightarrow> P q \<Longrightarrow> po_priority q \<le> po_priority p"
  using assms by (induction ps) (auto split: if_splits)

lemma sortPolicies_outcome: "sort_outcome ps (sortPolicies ps)"
proof -
  have "sorted_wrt (\<lambda>x y. - po_priority x \<le> - po_priority y) (sort_key (\<lambda>p. - po_priority p) ps)"
    using sorted_sort_key[of "\<lambda>p. - po_priority p" ps] by (simp add: sorted_map)
  then show ?thesis by (simp add: sort_outcome_def sortPolicies_def)
qed

text \<open>The first match of any sort outcome has the highest priority of all the matches.\<close>

lemma evaluate_outcome:
  assumes "sort_outcome ps qs"
  shows "(\<exists>p \<in> set ps. matchPolicy tz p q \<and> evaluatePolicies tz qs q = decisionOf p
            \<and> (\<forall>p' \<in> set ps. matchPolicy tz p' q \<longrightarrow> po_priority p' \<le> po_priority p))
    \<or> ((\<forall>p \<in> set ps. \<not> matchPolicy tz p q)
        \<and> evaluatePolicies tz qs q =
            \<lparr>pd_action = ''allow'', pd_matchedPolicy = [], pd_reason = DefaultReason\<rparr>)"
proof -
  have set: "set qs = set ps" and sorted: "sorted_wrt (\<lambda>a b. po_priority a \<ge> po_priority b) qs"
    using assms by (auto simp: sort_outcome_def dest: mset_eq_setD)
  show ?thesis
  proof (cases "find (\<lambda>p. matchPolicy tz p q) qs")
    case None
    then have "\<forall>p \<in> set ps. \<not> matchPolicy tz p q" by (auto simp: find_None_iff set)
    with None show ?thesis by (simp add: evaluatePolicies_find)
  next
    case (Some p)
    from sorted_find_max[OF sorted Some] show ?thesis
      by (auto simp: evaluatePolicies_find Some set)
  qed
qed

interpretation guard: middleware "policyGuardDecide tz now"
    "\<lambda>e. sorted_wrt (\<lambda>a b. po_priority a \<ge> po_priority b) (pe_policies e)"
  by unfold_locales (auto simp: policyGuardDecide_def plainError_def Let_def split: if_splits)

text \<open>
  A policy that names methods never matches a request whose context holds no \<open>RequestMeta\<close>, unless
  it names the empty method.
\<close>

lemma method_policy_no_meta:
  assumes "RequestMetaFrom (rq_ctx r) = None" and "pm_methods (po_match p) \<noteq> []"
    and "[] \<notin> set (pm_methods (po_match p))"
  shows "\<not> matchPolicy tz p (buildPolicyRequest now r)"
  using assms by (simp add: matchPolicy_def buildPolicyRequest_def matchStringList_iff)

lemma policyGuardDecide_block_iff:
  "(\<exists>err. fst (policyGuardDecide tz now r w e) = Block err)
     \<longleftrightarrow> pd_action (Evaluate tz e (buildPolicyRequest now r)) = ''deny''"
  by (simp add: policyGuardDecide_def Let_def)

lemma policyGuardDecide_state [simp]: "snd (policyGuardDecide tz now r w e) = e"
  by (simp add: policyGuardDecide_def Let_def)

lemma policyGuard_methods_pass:
  assumes "RequestMetaFrom (rq_ctx r) = None"
    and "\<And>p. \<lbrakk>p \<in> set (pe_policies e); po_action p = ''deny''\<rbrakk> \<Longrightarrow>
           pm_methods (po_match p) \<noteq> [] \<and> [] \<notin> set (pm_methods (po_match p))"
  shows "policyGuardDecide tz now r w e = (Pass r w, e)"
proof -
  have "pd_action (evaluatePolicies tz (pe_policies e) (buildPolicyRequest now r)) \<noteq> ''deny''"
  proof (cases "find (\<lambda>p. matchPolicy tz p (buildPolicyRequest now r)) (pe_policies e)")
    case None
    then show ?thesis by (simp add: evaluatePolicies_find)
  next
    case (Some p)
    then have "p \<in> set (pe_policies e)" "matchPolicy tz p (buildPolicyRequest now r)"
      by (auto simp: find_Some_iff)
    with assms method_policy_no_meta[OF assms(1), of p tz now] have "po_action p \<noteq> ''deny''" by blast
    with Some show ?thesis by (simp add: evaluatePolicies_find decisionOf_def)
  qed
  then show ?thesis by (simp add: policyGuardDecide_def Evaluate_def Let_def)
qed

section \<open>Properties\<close>

text \<open>C11: Whatever order \<open>sort.Slice\<close> leaves equal priorities in, the decision of the engine is that
  of a matching policy whose priority no other matching policy exceeds; when no policy matches, the
  request is allowed by default. The highest number decides, as the comments of the code say; the
  documents under \<open>docs\<close> say the lowest.\<close>

theorem evaluate_highest_priority:
  assumes "sort_outcome ps qs"
  shows "(\<exists>p \<in> set ps. matchPolicy tz p q \<and> evaluatePolicies tz qs q = decisionOf p
            \<and> (\<forall>p' \<in> set ps. matchPolicy tz p' q \<longrightarrow> po_priority p' \<le> po_priority p))
    \<or> ((\<forall>p \<in> set ps. \<not> matchPolicy tz p q) \<and> pd_action (evaluatePolicies tz qs q) = ''allow'')"
  using evaluate_outcome[OF assms, of tz q] by auto

definition samplePolicy :: "string \<Rightarrow> string \<Rightarrow> int \<Rightarrow> policy" where
  "samplePolicy name action prio = \<lparr>po_name = name, po_description = [],
     po_match = \<lparr>pm_agents = [], pm_methods = [], pm_users = [], pm_ips = [], pm_headers = [],
                 pm_timeRange = None\<rparr>, po_action = action, po_priority = prio\<rparr>"

definition sampleRequest :: policy_request where
  "sampleRequest = \<lparr>pq_agent = ''echo'', pq_method = ''message/send'', pq_user = ''alice'',
     pq_ip = ''10.1.2.3'', pq_headers = [], pq_time = 0\<rparr>"

lemma samplePolicy_matches [simp]: "matchPolicy tz (samplePolicy n a i) q"
  by (simp add: matchPolicy_def samplePolicy_def matchStringList_def matchIPs_def matchHeaders_def
      matchTimeRange_def)

lemma samplePolicy_sel [simp]: "po_priority (samplePolicy n a i) = i" "po_action (samplePolicy n a i) = a"
  by (simp_all add: samplePolicy_def)

theorem evaluate_highest_priority_witness:
  "sort_outcome [samplePolicy ''low'' ''allow'' 1, samplePolicy ''high'' ''deny'' 9]
      [samplePolicy ''high'' ''deny'' 9, samplePolicy ''low'' ''allow'' 1]
   \<and> pd_action (evaluatePolicies (\<lambda>_. None) [samplePolicy ''high'' ''deny'' 9, samplePolicy ''low'' ''allow'' 1]
        sampleRequest) = ''deny''"
proof
  show o: "sort_outcome [samplePolicy ''low'' ''allow'' 1, samplePolicy ''high'' ''deny'' 9]
      [samplePolicy ''high'' ''deny'' 9, samplePolicy ''low'' ''allow'' 1]"
    by (simp add: sort_outcome_def add_mset_commute)
  from evaluate_highest_priority[OF o, of "\<lambda>_. None" sampleRequest]
  show "pd_action (evaluatePolicies (\<lambda>_. None) [samplePolicy ''high'' ''deny'' 9, samplePolicy ''low'' ''allow'' 1]
      sampleRequest) = ''deny''"
    by (auto simp: decisionOf_def)
qed

text \<open>Equal priorities do no harm as long as the matching policies of the highest priority agree
  on the action: then every outcome of the sort decides alike.\<close>

theorem evaluate_tie_independent:
  assumes "sort_outcome ps qs" and "sort_outcome ps qs'"
    and "\<And>p p'. \<lbrakk>p \<in> set ps; p' \<in> set ps; matchPolicy tz p q; matchPolicy tz p' q;
                   po_priority p = po_priority p'\<rbrakk> \<Longrightarrow> po_action p = po_action p'"
  shows "pd_action (evaluatePolicies tz qs q) = pd_action (evaluatePolicies tz qs' q)"
  using evaluate_outcome[OF assms(1), of tz q] evaluate_outcome[OF assms(2), of tz q]
proof (elim disjE bexE conjE)
  fix p p' assume *: "p \<in> set ps" "matchPolicy tz p q" "evaluatePolicies tz qs q = decisionOf p"
    "\<forall>p'\<in>set ps. matchPolicy tz p' q \<longrightarrow> po_priority p' \<le> po_priority p"
    "p' \<in> set ps" "matchPolicy tz p' q" "evaluatePolicies tz qs' q = decisionOf p'"
    "\<forall>p\<in>set ps. matchPolicy tz p q \<longrightarrow> po_priority p \<le> po_priority p'"
  then have "po_priority p = po_priority p'" by (meson order_antisym)
  with * assms(3)[of p p'] show ?thesis by (simp add: decisionOf_def)
qed auto

theorem evaluate_tie_independent_witness:
  "pd_action (evaluatePolicies (\<lambda>_. None) [samplePolicy ''a'' ''deny'' 5, samplePolicy ''b'' ''deny'' 5] sampleRequest)
   = pd_action (evaluatePolicies (\<lambda>_. None) [samplePolicy ''b'' ''deny'' 5, samplePolicy ''a'' ''deny'' 5] sampleRequest)"
  by (rule evaluate_tie_independent[of "[samplePolicy ''a'' ''deny'' 5, samplePolicy ''b'' ''deny'' 5]"])
    (auto simp: sort_outcome_def add_mset_commute)

text \<open>For a readable request address and a list with at least one pattern, the first pattern whose
  network holds the address decides, a plain one for and a negated one against; when none holds it,
  the list matches exactly if all its patterns are negated.\<close>

theorem matchIPs_first_decides:
  assumes "requestIP s = Some a" and "ps \<noteq> []"
  shows "matchIPs ps s \<longleftrightarrow>
     (\<exists>us p vs. ps = us @ p # vs \<and> matchSingleIP a (patternCIDR p) \<and> \<not> isNegated p
        \<and> (\<forall>u \<in> set us. \<not> matchSingleIP a (patternCIDR u)))
     \<or> ((\<forall>p \<in> set ps. \<not> matchSingleIP a (patternCIDR p)) \<and> (\<forall>p \<in> set ps. isNegated p))"
proof (cases "scanPatterns ps a")
  case None
  then have "\<forall>p \<in> set ps. \<not> matchSingleIP a (patternCIDR p)" by (simp add: scanPatterns_None)
  with None assms show ?thesis by (auto simp: matchIPs_def list_all_iff)
next
  case (Some b)
  then obtain us p vs where p: "ps = us @ p # vs" "matchSingleIP a (patternCIDR p)"
    "\<forall>u \<in> set us. \<not> matchSingleIP a (patternCIDR u)" "b = (\<not> isNegated p)"
    by (auto simp: scanPatterns_Some)
  have "matchIPs ps s = b" using assms Some by (simp add: matchIPs_def)
  moreover have "b = True \<longleftrightarrow> (\<exists>us p vs. ps = us @ p # vs \<and> matchSingleIP a (patternCIDR p)
      \<and> \<not> isNegated p \<and> (\<forall>u \<in> set us. \<not> matchSingleIP a (patternCIDR u)))"
    using Some scanPatterns_Some[of ps a True] by auto
  ultimately show ?thesis using p by auto
qed

theorem matchIPs_first_decides_witness:
  "matchIPs [''10.0.0.0/8'', ''!10.1.2.3''] ''10.1.2.3:80''"
proof -
  have "requestIP ''10.1.2.3:80'' = Some (IP4 0x0A010203)" by code_simp
  note iff = matchIPs_first_decides[OF this, of "[''10.0.0.0/8'', ''!10.1.2.3'']"]
  have m: "matchSingleIP (IP4 0x0A010203) (patternCIDR ''10.0.0.0/8'')" "\<not> isNegated ''10.0.0.0/8''"
    by code_simp+
  show ?thesis
    unfolding iff[OF list.distinct(2)]
    by (intro disjI1 exI[of _ "[]"] exI[of _ "''10.0.0.0/8''"] exI[of _ "[''!10.1.2.3'']"] conjI m) simp_all
qed

text \<open>C28: A time range with readable ends holds a time exactly when, on the circle of the day in the
  range's zone, the minutes since the start are fewer than the length of the range; this covers the
  ranges within a day, those over midnight and the empty one.\<close>

theorem time_range_circular:
  assumes "parseHHMM (tr_start tr) = Some s" and "parseHHMM (tr_end tr) = Some e"
  shows "matchTimeRange tz (Some tr) t \<longleftrightarrow>
     (int (minuteOfDay t (zoneOffset tz (tr_tz tr) t)) - int s) mod 1440 < (int e - int s) mod 1440"
  using assms by (rule matchTimeRange_circular)

theorem time_range_circular_witness:
  "matchTimeRange (\<lambda>_. None) (Some \<lparr>tr_start = ''22:00'', tr_end = ''06:00'', tr_tz = []\<rparr>) (nanos (3600 * 23))"
proof -
  have "parseHHMM ''22:00'' = Some 1320" "parseHHMM ''06:00'' = Some 360" by code_simp+
  then show ?thesis
    by (subst time_range_circular[of _ 1320 360]) (simp_all add: minuteOfDay_def zoneOffset_def nanos_def)
qed

end
