(* ===== verification/Replay.thy ===== *)
theory Replay
  imports Middleware Go_Time
begin

text \<open>
  Replay detection (\<open>internal/security/replay.go\<close>): the in-memory nonce store, the middleware and
  the extraction of nonces.

  \<open>CheckAndStore\<close> reads the clock twice; both readings are arguments. The rendering of a \<open>float64\<close>
  by \<open>%g\<close> is the parameter \<open>fmtG\<close>, from the number's literal to its text. The interface
  \<open>NonceStore\<close> is the locale \<open>nonce_store\<close>; the last section is the interleaving of concurrent calls
  of the in-memory store, whose \<open>Load\<close> and \<open>Store\<close> are separate steps.
\<close>

section \<open>The in-memory store\<close>

record memory_nonce_store =
  ns_entries :: "string \<Rightarrow> go_time option"
  ns_window :: go_duration

definition NewMemoryNonceStore :: "go_duration \<Rightarrow> memory_nonce_store" where
  "NewMemoryNonceStore window = \<lparr>ns_entries = (\<lambda>_. None), ns_window = window\<rparr>"

definition CheckAndStore ::
  "go_time \<Rightarrow> go_time \<Rightarrow> string \<Rightarrow> go_time \<Rightarrow> memory_nonce_store \<Rightarrow> bool option \<times> memory_nonce_store" where
  "CheckAndStore now1 now2 nonce timestamp s =
     (let expiry = now1 + ns_window s;
          stored = (Some True, s\<lparr>ns_entries := (ns_entries s)(nonce \<mapsto> expiry)\<rparr>) in
      case ns_entries s nonce of
        Some existingExpiry \<Rightarrow> if now2 < existingExpiry then (Some False, s) else stored
      | None \<Rightarrow> stored)"

definition cleanupNonces :: "go_time \<Rightarrow> memory_nonce_store \<Rightarrow> memory_nonce_store" where
  "cleanupNonces now s = s\<lparr>ns_entries := (\<lambda>k. case ns_entries s k of
      None \<Rightarrow> None | Some expiry \<Rightarrow> if now > expiry then None else Some expiry)\<rparr>"

section \<open>Nonces and timestamps\<close>

definition extractNonce :: "(string \<Rightarrow> string) \<Rightarrow> string \<Rightarrow> string" where
  "extractNonce fmtG body = (case json_parse body of
      None \<Rightarrow> []
    | Some v \<Rightarrow>
        (case rawField ''id'' v of
           None \<Rightarrow> []
         | Some JNull \<Rightarrow> []
         | Some (JStr s) \<Rightarrow> ''s:'' @ s
         | Some (JNum l) \<Rightarrow> if numFinite l then ''n:'' @ fmtG l else ''r:'' @ json_raw (JNum l)
         | Some i \<Rightarrow> ''r:'' @ json_raw i))"

definition parseTimestamp :: "string \<Rightarrow> go_time option" where
  "parseTimestamp s = (case parseRFC3339 s of
      Some t \<Rightarrow> Some t
    | None \<Rightarrow>
        if length s = 10 \<and> list_all isDigit s then Some (nanos (decNum s)) else None)"

section \<open>The middleware\<close>

record replay_detector_config =
  rdc_enabled :: bool
  rdc_window :: go_duration
  rdc_noncePolicy :: string
  rdc_nonceSource :: string
  rdc_clockSkew :: go_duration
  rdc_cleanupInterval :: go_duration

record 'n replay_detector =
  rdt_store :: 'n
  rdt_policy :: string
  rdt_nonceSource :: string
  rdt_window :: go_duration
  rdt_clockSkew :: go_duration
  rdt_enabled :: bool

text \<open>The store of a disabled detector is nil in the code and is never used.\<close>

definition NewReplayDetector :: "replay_detector_config \<Rightarrow> memory_nonce_store replay_detector" where
  "NewReplayDetector c = \<lparr>rdt_store = NewMemoryNonceStore (rdc_window c),
     rdt_policy = rdc_noncePolicy c,
     rdt_nonceSource = (if rdc_nonceSource c = [] then ''auto'' else rdc_nonceSource c),
     rdt_window = rdc_window c, rdt_clockSkew = rdc_clockSkew c, rdt_enabled = rdc_enabled c\<rparr>"

type_synonym 'n nonce_check = "string \<Rightarrow> go_time \<Rightarrow> 'n \<Rightarrow> bool option \<times> 'n"

definition replayDocs :: string where
  "replayDocs = ''https://a2a-sentinel.dev/docs/replay-protection''"

abbreviation replayError :: "int \<Rightarrow> string \<Rightarrow> string \<Rightarrow> sentinel_error" where
  "replayError code msg hint \<equiv> plainError code msg hint replayDocs"

definition jsonContent :: "string \<Rightarrow> bool" where
  "jsonContent ct \<longleftrightarrow> ct = [] \<or> ct = ''application/json''
     \<or> ct = ''application/json; charset=utf-8'' \<or> ct = ''application/json;charset=utf-8''"

text \<open>The nonce from the body: \<open>None\<close> when the body cannot be read.\<close>

definition bodyNonce :: "(string \<Rightarrow> string) \<Rightarrow> request \<Rightarrow> string option \<times> request" where
  "bodyNonce fmtG r = (case InspectAndRewind r (1024 * 1024) of
      (Inl _, r') \<Rightarrow> (None, r')
    | (Inr body, r') \<Rightarrow> (Some (if length body > 0 then extractNonce fmtG body else []), r'))"

definition requestNonce :: "(string \<Rightarrow> string) \<Rightarrow> 'n replay_detector \<Rightarrow> request \<Rightarrow> string option \<times> request" where
  "requestNonce fmtG d r =
     (if rdt_nonceSource d = ''header'' then (Some (hdr r ''X-Sentinel-Nonce''), r)
      else if rdt_nonceSource d = ''jsonrpc-id'' then bodyNonce fmtG r
      else (let h = hdr r ''X-Sentinel-Nonce'' in
            if h = [] then bodyNonce fmtG r else (Some h, r)))"

text \<open>What the timestamp header says: absent, unreadable, too old, too far ahead, or acceptable.\<close>

datatype timestamp_check = TsAbsent | TsInvalid | TsTooOld | TsFuture | TsOk go_time

definition checkTimestamp :: "'n replay_detector \<Rightarrow> go_time \<Rightarrow> string \<Rightarrow> timestamp_check" where
  "checkTimestamp d now tsHeader =
     (if tsHeader = [] then TsAbsent
      else (case parseTimestamp tsHeader of
          None \<Rightarrow> TsInvalid
        | Some ts \<Rightarrow>
            if time_sub now ts > rdt_window d then TsTooOld
            else if time_sub ts now > rdt_clockSkew d then TsFuture
            else TsOk ts))"

definition replayDecide ::
  "'n nonce_check \<Rightarrow> (string \<Rightarrow> string) \<Rightarrow> go_time \<Rightarrow> 'n replay_detector decision" where
  "replayDecide check fmtG now r w d =
     (if \<not> rdt_enabled d then (Pass r w, d)
      else if rq_method r \<noteq> ''POST'' then (Pass r w, d)
      else if \<not> jsonContent (hdr r ''Content-Type'') then (Pass r w, d)
      else (case requestNonce fmtG d r of
        (None, r1) \<Rightarrow>
          if rdt_policy d = ''require''
          then (Block (replayError 400 ''Failed to read request body for replay detection''
                  ''Ensure request body is readable and within size limits.''), d)
          else (Pass r1 w, d)
      | (Some nonce, r1) \<Rightarrow>
          if nonce = [] then
            (if rdt_policy d = ''require''
             then (Block (replayError 400 ''Missing replay nonce''
                     ''Include X-Sentinel-Nonce header or a JSON-RPC id field.''), d)
             else (Pass r1 w, d))
          else (let reject = (\<lambda>msg hint. if rdt_policy d = ''require''
                    then (Block (replayError 429 msg hint), d) else (Pass r1 w, d));
                    store = (\<lambda>ts. case check nonce ts (rdt_store d) of
                        (None, n) \<Rightarrow> (Pass r1 w, d\<lparr>rdt_store := n\<rparr>)
                      | (Some isNew, n) \<Rightarrow>
                          if \<not> isNew \<and> rdt_policy d = ''require''
                          then (Block (replayError 429 ''Replay attack detected''
                            ''Request ID already seen within replay window. Use unique IDs for each request.''),
                            d\<lparr>rdt_store := n\<rparr>)
                          else (Pass r1 w, d\<lparr>rdt_store := n\<rparr>)) in
            case checkTimestamp d now (hdr r1 ''X-Sentinel-Timestamp'') of
              TsInvalid \<Rightarrow> reject ''Invalid replay timestamp''
                ''X-Sentinel-Timestamp must be RFC3339 or 10-digit Unix epoch.''
            | TsTooOld \<Rightarrow> reject ''Replay attack detected''
                ''Request timestamp is too old. Ensure clocks are synchronized.''
            | TsFuture \<Rightarrow> reject ''Replay attack detected''
                ''Request timestamp is in the future beyond allowed clock skew.''
            | TsAbsent \<Rightarrow> store now
            | TsOk ts \<Rightarrow> store ts)))"

section \<open>The contract of a nonce store\<close>

text \<open>
  \<open>live s n t\<close>: the store \<open>s\<close> holds nonce \<open>n\<close> as seen at time \<open>t\<close>. \<open>check t1 t2 n\<close> is
  \<open>CheckAndStore\<close> with its readings, \<open>evict t\<close> one round of the cleanup at time \<open>t\<close>.
\<close>

locale nonce_store =
  fixes live :: "'n \<Rightarrow> string \<Rightarrow> go_time \<Rightarrow> bool"
    and check :: "go_time \<Rightarrow> go_time \<Rightarrow> string \<Rightarrow> 'n \<Rightarrow> bool \<times> 'n"
    and evict :: "go_time \<Rightarrow> 'n \<Rightarrow> 'n"
    and win :: "'n \<Rightarrow> go_duration"
  assumes check_answer: "fst (check t1 t2 n s) \<longleftrightarrow> \<not> live s n t2"
    and check_live: "fst (check t1 t2 n s) \<Longrightarrow>
          live (snd (check t1 t2 n s)) m t \<longleftrightarrow> (if m = n then t < t1 + win s else live s m t)"
    and check_dup: "\<not> fst (check t1 t2 n s) \<Longrightarrow> snd (check t1 t2 n s) = s"
    and evict_live: "t \<le> t' \<Longrightarrow> live (evict t s) n t' \<longleftrightarrow> live s n t'"
    and win_check: "win (snd (check t1 t2 n s)) = win s"
    and win_evict: "win (evict t s) = win s"
begin

text \<open>The operations on the store in the order they happen, with the answers of the checks.\<close>

fun trace :: "(go_time \<times> go_time \<times> string option) list \<Rightarrow> 'n \<Rightarrow> 'n" where
  "trace [] s = s"
| "trace ((t1, t2, Some n) # ops) s = trace ops (snd (check t1 t2 n s))"
| "trace ((t1, t2, None) # ops) s = trace ops (evict t1 s)"

text \<open>The readings of the clock in the order of the operations, up to a last reading \<open>t\<close>.\<close>

fun ordered :: "go_time \<Rightarrow> (go_time \<times> go_time \<times> string option) list \<Rightarrow> go_time \<Rightarrow> bool" where
  "ordered lo [] t \<longleftrightarrow> lo \<le> t"
| "ordered lo ((t1, t2, x) # ops) t \<longleftrightarrow> lo \<le> t1 \<and> t1 \<le> t2 \<and> ordered t2 ops t"

lemma ordered_le: "ordered lo ops t \<Longrightarrow> lo \<le> t"
  by (induction lo ops t rule: ordered.induct) auto

text \<open>A nonce that is live until \<open>e\<close> stays live until \<open>e\<close> through any operations before \<open>e\<close>.\<close>

lemma trace_live:
  assumes "\<And>u. lo \<le> u \<Longrightarrow> u < e \<Longrightarrow> live s n u" and "ordered lo ops t" and "t < e"
  shows "live (trace ops s) n t"
  using assms(1,2)
proof (induction ops s arbitrary: lo rule: trace.induct)
  case (1 s)
  then show ?case using assms(3) by simp
next
  case (2 t1 t2 m ops s)
  from 2(3) have o: "lo \<le> t1" "t1 \<le> t2" "ordered t2 ops t" by auto
  from o(3) assms(3) have "t2 < e" using ordered_le by fastforce
  have "live (snd (check t1 t2 m s)) n u" if "t2 \<le> u" "u < e" for u
  proof (cases "fst (check t1 t2 m s)")
    case True
    from 2(2)[of t2] o \<open>t2 < e\<close> have "live s n t2" by simp
    with True check_answer[of t1 t2 m s] have "m \<noteq> n" by auto
    with True that 2(2)[of u] o show ?thesis by (simp add: check_live)
  next
    case False
    with that 2(2)[of u] o show ?thesis by (simp add: check_dup)
  qed
  from 2(1)[OF this o(3)] show ?case by simp
next
  case (3 t1 t2 ops s)
  from 3(3) have o: "lo \<le> t1" "t1 \<le> t2" "ordered t2 ops t" by auto
  have "live (evict t1 s) n u" if "t2 \<le> u" "u < e" for u
    using evict_live[of t1 u s n] that o 3(2)[of u] by simp
  from 3(1)[OF this o(3)] show ?case by simp
qed

text \<open>A nonce that was accepted is refused until its window has passed, whatever happens between.\<close>

lemma accepted_then_refused:
  assumes "fst (check t1 t2 n s)" and "ordered t2 ops u1" and "u1 \<le> u2" and "u2 < t1 + win s"
  shows "\<not> fst (check u1 u2 n (trace ops (snd (check t1 t2 n s))))"
proof -
  have "live (snd (check t1 t2 n s)) n u" if "t2 \<le> u" "u < t1 + win s" for u
    using assms(1) that by (simp add: check_live)
  moreover have "ordered t2 ops u2"
    using assms(2,3) by (induction t2 ops u1 rule: ordered.induct) auto
  ultimately have "live (trace ops (snd (check t1 t2 n s))) n u2"
    using assms(4) by (rule trace_live)
  then show ?thesis by (simp add: check_answer)
qed

text \<open>A nonce that is not live is accepted: the store gives no false alarm.\<close>

lemma fresh_accepted: "\<not> live s n t2 \<Longrightarrow> fst (check t1 t2 n s)"
  by (simp add: check_answer)

end

definition memLive :: "memory_nonce_store \<Rightarrow> string \<Rightarrow> go_time \<Rightarrow> bool" where
  "memLive s n t = (case ns_entries s n of None \<Rightarrow> False | Some e \<Rightarrow> t < e)"

text \<open>\<open>CheckAndStore\<close> without the error result, which the in-memory store never gives.\<close>

definition memCheck :: "go_time \<Rightarrow> go_time \<Rightarrow> string \<Rightarrow> memory_nonce_store \<Rightarrow> bool \<times> memory_nonce_store" where
  "memCheck t1 t2 n s = (case CheckAndStore t1 t2 n t1 s of (r, s') \<Rightarrow> (r = Some True, s'))"

lemma CheckAndStore_no_error: "fst (CheckAndStore t1 t2 n ts s) \<noteq> None"
  by (auto simp: CheckAndStore_def Let_def split: option.splits)

lemma CheckAndStore_timestamp: "CheckAndStore t1 t2 n ts s = CheckAndStore t1 t2 n ts' s"
  by (simp add: CheckAndStore_def)

lemma memCheck_CheckAndStore:
  "CheckAndStore t1 t2 n ts s = (Some (fst (memCheck t1 t2 n s)), snd (memCheck t1 t2 n s))"
  by (auto simp: memCheck_def CheckAndStore_def Let_def split: option.splits)

interpretation mem: nonce_store memLive memCheck cleanupNonces ns_window
proof unfold_locales
  fix t1 t2 t t' n m s
  show "fst (memCheck t1 t2 n s) \<longleftrightarrow> \<not> memLive s n t2"
    by (auto simp: memCheck_def CheckAndStore_def memLive_def Let_def split: option.splits)
  show "fst (memCheck t1 t2 n s) \<Longrightarrow> memLive (snd (memCheck t1 t2 n s)) m t
      \<longleftrightarrow> (if m = n then t < t1 + ns_window s else memLive s m t)"
    by (auto simp: memCheck_def CheckAndStore_def memLive_def Let_def split: option.splits if_splits)
  show "\<not> fst (memCheck t1 t2 n s) \<Longrightarrow> snd (memCheck t1 t2 n s) = s"
    by (auto simp: memCheck_def CheckAndStore_def Let_def split: option.splits if_splits)
  show "t \<le> t' \<Longrightarrow> memLive (cleanupNonces t s) n t' \<longleftrightarrow> memLive s n t'"
    by (auto simp: memLive_def cleanupNonces_def split: option.splits)
  show "ns_window (snd (memCheck t1 t2 n s)) = ns_window s"
    by (auto simp: memCheck_def CheckAndStore_def Let_def split: option.splits)
  show "ns_window (cleanupNonces t s) = ns_window s"
    by (simp add: cleanupNonces_def)
qed

section \<open>The decisions\<close>

lemma requestNonce_same: "requestNonce fmtG d r = (x, r') \<Longrightarrow> same_request r r'"
  by (auto simp: requestNonce_def bodyNonce_def Let_def
      split: if_splits prod.splits sum.splits dest: InspectAndRewind_same)

lemma replayDecide_request: "replayDecide check fmtG now r w d = (Pass r' w', d') \<Longrightarrow> same_request r r' \<and> w' = w"
  by (auto simp: replayDecide_def Let_def dest: requestNonce_same
      split: if_splits prod.splits option.splits timestamp_check.splits)

lemma replayDecide_error: "replayDecide check fmtG now r w d = (Block e, d') \<Longrightarrow>
    rdt_policy d = ''require'' \<and> rdt_enabled d \<and> rq_method r = ''POST'' \<and> se_code e \<in> {400, 429}"
  by (auto simp: replayDecide_def plainError_def Let_def
      split: if_splits prod.splits option.splits timestamp_check.splits)

lemma replayDecide_config: "replayDecide check fmtG now r w d = (v, d') \<Longrightarrow> d' = d\<lparr>rdt_store := rdt_store d'\<rparr>"
  by (auto simp: replayDecide_def Let_def
      split: if_splits prod.splits option.splits timestamp_check.splits)

interpretation replaymw: middleware "replayDecide check fmtG now"
    "\<lambda>d. rdt_policy d = p \<and> rdt_enabled d = en \<and> rdt_window d = wn \<and> rdt_clockSkew d = sk"
proof unfold_locales
  fix s r w r' w' e
  show "rdt_policy (snd (replayDecide check fmtG now r w s)) = p
      \<and> rdt_enabled (snd (replayDecide check fmtG now r w s)) = en
      \<and> rdt_window (snd (replayDecide check fmtG now r w s)) = wn
      \<and> rdt_clockSkew (snd (replayDecide check fmtG now r w s)) = sk"
    if "rdt_policy s = p \<and> rdt_enabled s = en \<and> rdt_window s = wn \<and> rdt_clockSkew s = sk"
    using replayDecide_config[of check fmtG now r w s] that
    by (cases "replayDecide check fmtG now r w s")
      (metis replay_detector.select_convs replay_detector.surjective replay_detector.update_convs(1) snd_conv)
  show "fst (replayDecide check fmtG now r w s) = Pass r' w' \<Longrightarrow> same_request r r'"
    by (cases "replayDecide check fmtG now r w s") (auto dest: replayDecide_request)
  show "fst (replayDecide check fmtG now r w s) = Block e \<Longrightarrow> 400 \<le> se_code e \<and> se_code e < 600"
    by (cases "replayDecide check fmtG now r w s") (auto dest!: replayDecide_error)
qed

text \<open>
  In require mode a JSON POST request passes only with a nonce the store took as new, and with a
  timestamp, if it has one, within the window behind and the skew ahead.
\<close>

lemma replay_require_pass:
  assumes "replayDecide check fmtG now r w d = (Pass r' w', d')"
    and "rdt_enabled d" "rdt_policy d = ''require''" "rq_method r = ''POST''"
    and "jsonContent (hdr r ''Content-Type'')"
    and no_err: "\<And>n ts s. fst (check n ts s) \<noteq> None"
  obtains nonce r1 ts where "requestNonce fmtG d r = (Some nonce, r1)" and "nonce \<noteq> []"
    and "fst (check nonce ts (rdt_store d)) = Some True"
    and "rdt_store d' = snd (check nonce ts (rdt_store d))"
    and "hdr r ''X-Sentinel-Timestamp'' = [] \<and> ts = now
      \<or> parseTimestamp (hdr r ''X-Sentinel-Timestamp'') = Some ts
        \<and> time_sub now ts \<le> rdt_window d \<and> time_sub ts now \<le> rdt_clockSkew d"
proof -
  obtain x r1 where n: "requestNonce fmtG d r = (x, r1)" by (cases "requestNonce fmtG d r") auto
  from assms(1-5) n obtain nonce where x: "x = Some nonce" "nonce \<noteq> []"
    by (auto simp: replayDecide_def Let_def split: if_splits option.splits)
  have h: "hdr r1 k = hdr r k" for k using requestNonce_same[OF n] by (simp add: same_request_sel)
  from assms(1-5) n x h obtain ts where
    ts: "checkTimestamp d now (hdr r ''X-Sentinel-Timestamp'') = TsAbsent \<and> ts = now
      \<or> checkTimestamp d now (hdr r ''X-Sentinel-Timestamp'') = TsOk ts"
    and c: "\<And>y s'. check nonce ts (rdt_store d) = (y, s') \<Longrightarrow> (y = None \<or> y = Some True) \<and> rdt_store d' = s'"
    by (auto simp: replayDecide_def Let_def split: if_splits option.splits prod.splits timestamp_check.splits)
  obtain y s' where ys: "check nonce ts (rdt_store d) = (y, s')" by force
  with c no_err[of nonce ts "rdt_store d"] have "y = Some True" "rdt_store d' = s'" by force+
  with ys ts n x show ?thesis
    by (intro that[of nonce r1 ts]) (auto simp: checkTimestamp_def split: if_splits option.splits)
qed

section \<open>Concurrent calls of the in-memory store\<close>

text \<open>
  A goroutine in \<open>CheckAndStore\<close> looks the nonce up in one step and stores it in another. The
  relation interleaves any number of calls for one nonce at a time when it is not in the store.
\<close>

datatype check_pc = CheckStart | CheckMissed | CheckDone bool

record check_state =
  ck_entry :: "go_time option"
  ck_pc :: "nat \<Rightarrow> check_pc"

inductive check_step :: "go_time \<Rightarrow> go_time \<Rightarrow> check_state \<Rightarrow> check_state \<Rightarrow> bool" for now expiry where
  load_replay: "\<lbrakk>ck_pc s g = CheckStart; ck_entry s = Some e; now < e\<rbrakk> \<Longrightarrow>
     check_step now expiry s (s\<lparr>ck_pc := (ck_pc s)(g := CheckDone False)\<rparr>)"
| load_fresh: "\<lbrakk>ck_pc s g = CheckStart; \<forall>e. ck_entry s = Some e \<longrightarrow> \<not> now < e\<rbrakk> \<Longrightarrow>
     check_step now expiry s (s\<lparr>ck_pc := (ck_pc s)(g := CheckMissed)\<rparr>)"
| store: "ck_pc s g = CheckMissed \<Longrightarrow>
     check_step now expiry s (s\<lparr>ck_entry := Some expiry, ck_pc := (ck_pc s)(g := CheckDone True)\<rparr>)"

definition check_init :: check_state where
  "check_init = \<lparr>ck_entry = None, ck_pc = (\<lambda>_. CheckStart)\<rparr>"

lemma check_race:
  "\<exists>s. (check_step now expiry)\<^sup>*\<^sup>* check_init s \<and> ck_pc s 0 = CheckDone True \<and> ck_pc s 1 = CheckDone True"
proof -
  let ?s1 = "check_init\<lparr>ck_pc := (ck_pc check_init)(0 := CheckMissed)\<rparr>"
  let ?s2 = "?s1\<lparr>ck_pc := (ck_pc ?s1)(1 := CheckMissed)\<rparr>"
  let ?s3 = "?s2\<lparr>ck_entry := Some expiry, ck_pc := (ck_pc ?s2)(0 := CheckDone True)\<rparr>"
  let ?s4 = "?s3\<lparr>ck_entry := Some expiry, ck_pc := (ck_pc ?s3)(1 := CheckDone True)\<rparr>"
  have "check_step now expiry check_init ?s1" by (rule load_fresh) (auto simp: check_init_def)
  moreover have "check_step now expiry ?s1 ?s2" by (rule load_fresh) (auto simp: check_init_def)
  moreover have "check_step now expiry ?s2 ?s3" by (rule store) simp
  moreover have "check_step now expiry ?s3 ?s4" by (rule store) simp
  ultimately have "(check_step now expiry)\<^sup>*\<^sup>* check_init ?s4"
    by (meson rtranclp.rtrancl_into_rtrancl rtranclp.rtrancl_refl)
  then show ?thesis by (intro exI[of _ ?s4]) simp
qed

section \<open>Properties\<close>

text \<open>C8: One after the other, the in-memory store never accepts a nonce twice within its window: between
  an acceptance and the end of the window every further check of it is refused, through any sequence
  of other checks and cleanup rounds with non-decreasing clock readings.\<close>

theorem nonce_refused_within_window:
  assumes "fst (CheckAndStore t1 t2 n ts s) = Some True"
    and "nonce_store.ordered t2 ops u1" and "u1 \<le> u2" and "u2 < t1 + ns_window s"
  shows "fst (CheckAndStore u1 u2 n ts'
     (nonce_store.trace memCheck cleanupNonces ops (snd (CheckAndStore t1 t2 n ts s)))) = Some False"
  using mem.accepted_then_refused[of t1 t2 n s ops u1 u2] assms
  by (simp add: memCheck_CheckAndStore)

theorem nonce_refused_within_window_witness:
  "fst (CheckAndStore 50 51 ''n'' 0 (nonce_store.trace memCheck cleanupNonces
     [(10, 10, Some ''m''), (20, 20, None)] (snd (CheckAndStore 1 2 ''n'' 0 (NewMemoryNonceStore 100))))) = Some False"
proof (rule nonce_refused_within_window)
  show "fst (CheckAndStore 1 2 ''n'' 0 (NewMemoryNonceStore 100)) = Some True"
    by (simp add: CheckAndStore_def NewMemoryNonceStore_def)
qed (simp_all add: NewMemoryNonceStore_def)

text \<open>C9: With the detector enabled in \<open>require\<close> mode, a JSON POST request passes only with a non-empty
  nonce that the store had not seen in its window, which is then stored, and with a timestamp header
  that is absent, or readable, at most the window old and at most the clock skew ahead.\<close>

theorem require_mode_pass:
  assumes "replayDecide (CheckAndStore now1 now2) fmtG now r w d = (Pass r' w', d')"
    and "rdt_enabled d" and "rdt_policy d = ''require''" and "rq_method r = ''POST''"
    and "jsonContent (hdr r ''Content-Type'')"
  shows "\<exists>nonce r1. requestNonce fmtG d r = (Some nonce, r1) \<and> nonce \<noteq> []
     \<and> \<not> memLive (rdt_store d) nonce now2
     \<and> ns_entries (rdt_store d') = (ns_entries (rdt_store d))(nonce \<mapsto> now1 + ns_window (rdt_store d))
     \<and> (hdr r ''X-Sentinel-Timestamp'' = [] \<or> (\<exists>ts. parseTimestamp (hdr r ''X-Sentinel-Timestamp'') = Some ts
          \<and> time_sub now ts \<le> rdt_window d \<and> time_sub ts now \<le> rdt_clockSkew d))"
proof -
  obtain nonce r1 ts where *: "requestNonce fmtG d r = (Some nonce, r1)" "nonce \<noteq> []"
    "fst (CheckAndStore now1 now2 nonce ts (rdt_store d)) = Some True"
    "rdt_store d' = snd (CheckAndStore now1 now2 nonce ts (rdt_store d))"
    "hdr r ''X-Sentinel-Timestamp'' = [] \<and> ts = now
      \<or> parseTimestamp (hdr r ''X-Sentinel-Timestamp'') = Some ts
        \<and> time_sub now ts \<le> rdt_window d \<and> time_sub ts now \<le> rdt_clockSkew d"
    by (rule replay_require_pass[OF assms CheckAndStore_no_error])
  from *(3,4) have "\<not> memLive (rdt_store d) nonce now2"
    "ns_entries (rdt_store d') = (ns_entries (rdt_store d))(nonce \<mapsto> now1 + ns_window (rdt_store d))"
    by (auto simp: CheckAndStore_def memLive_def Let_def split: option.splits if_splits)
  with * show ?thesis by blast
qed

definition requireDetector :: "memory_nonce_store replay_detector" where
  "requireDetector = \<lparr>rdt_store = NewMemoryNonceStore 100, rdt_policy = ''require'', rdt_nonceSource = ''auto'',
     rdt_window = 100, rdt_clockSkew = 5, rdt_enabled = True\<rparr>"

definition nonceRequest :: request where
  "nonceRequest = \<lparr>rq_method = ''POST'', rq_path = ''/'', rq_query = [],
     rq_headers = [(''X-Sentinel-Nonce'', [''n1''])], rq_body = None, rq_remoteAddr = ''10.1.2.3:80'',
     rq_tls = False, rq_ctx = emptyContext\<rparr>"

lemma nonceRequest_hdr [simp]: "hdr nonceRequest ''X-Sentinel-Nonce'' = ''n1''"
  "hdr nonceRequest ''X-Sentinel-Timestamp'' = []" "hdr nonceRequest ''Content-Type'' = []"
  by code_simp+

lemma nonceRequest_passes: "replayDecide (CheckAndStore 1 2) (\<lambda>l. l) 1 nonceRequest [] requireDetector
    = (Pass nonceRequest [], requireDetector\<lparr>rdt_store :=
         snd (CheckAndStore 1 2 ''n1'' 1 (rdt_store requireDetector))\<rparr>)"
  by (simp add: replayDecide_def requestNonce_def checkTimestamp_def jsonContent_def
      requireDetector_def CheckAndStore_def NewMemoryNonceStore_def Let_def)
    (simp add: nonceRequest_def)

theorem require_mode_pass_witness:
  "\<exists>nonce. nonce \<noteq> [] \<and> \<not> memLive (rdt_store requireDetector) nonce 2"
  using require_mode_pass[OF nonceRequest_passes]
  by (auto simp: requireDetector_def jsonContent_def nonceRequest_def[THEN arg_cong[of _ _ rq_method]])

text \<open>In any other mode than \<open>require\<close>, in particular in \<open>warn\<close>, the detector never blocks a request.\<close>

theorem warn_mode_never_blocks:
  assumes "rdt_policy d \<noteq> ''require''"
  shows "\<exists>r' d'. replayDecide check fmtG now r w d = (Pass r' w, d') \<and> same_request r r'"
proof (cases "replayDecide check fmtG now r w d")
  case (Pair v d')
  show ?thesis
  proof (cases v)
    case (Block e)
    with Pair assms show ?thesis by (auto dest: replayDecide_error)
  next
    case (Pass r' w')
    with Pair have "same_request r r' \<and> w' = w" by (auto dest: replayDecide_request)
    with Pair Pass show ?thesis by auto
  qed
qed

theorem warn_mode_never_blocks_witness:
  "\<exists>r' d'. replayDecide (CheckAndStore 1 2) (\<lambda>l. l) 1 nonceRequest [] (requireDetector\<lparr>rdt_policy := ''warn''\<rparr>)
     = (Pass r' [], d') \<and> same_request nonceRequest r'"
  by (rule warn_mode_never_blocks) simp

text \<open>C37: \<open>CheckAndStore\<close> is not atomic: from an empty store there is an interleaving of two concurrent
  checks of the same nonce in which both are told that it is new.\<close>

theorem concurrent_nonce_accepted_twice:
  "\<exists>s. (check_step now expiry)\<^sup>*\<^sup>* check_init s \<and> ck_pc s 0 = CheckDone True \<and> ck_pc s 1 = CheckDone True"
  by (rule check_race)

end
