(* ===== verification/Ssrf.thy ===== *)
theory Ssrf
  imports Middleware
begin

text \<open>
  The check of push notification URLs (\<open>internal/security/ssrf.go\<close>). \<open>net.LookupHost\<close> asks the
  resolver, which is outside: \<open>lookup\<close> gives the addresses of a name as text, or \<open>None\<close> when the
  lookup fails. The rendered error texts are values of \<open>push_error\<close>.
\<close>

section \<open>Private addresses\<close>

definition privateCIDRs :: "string list" where
  "privateCIDRs = [''127.0.0.0/8'', ''10.0.0.0/8'', ''172.16.0.0/12'', ''192.168.0.0/16'',
     ''169.254.0.0/16'', ''::1/128'', ''fe80::/10'', ''fd00::/8'']"

definition privateRanges :: "ipnet list" where
  "privateRanges = map (\<lambda>c. the (ParseCIDR c)) privateCIDRs"

definition isPrivateIP :: "ip \<Rightarrow> bool" where
  "isPrivateIP a = list_ex (\<lambda>n. netContains n a) privateRanges"

type_synonym resolver = "string \<Rightarrow> string list option"

definition privateName :: "string \<Rightarrow> bool" where
  "privateName hostname \<longleftrightarrow> toLower hostname = ''localhost'' \<or> hasSuffix (toLower hostname) ''.local''"

definition anyPrivate :: "string list \<Rightarrow> bool" where
  "anyPrivate ips = list_ex (\<lambda>s. case ParseIP s of None \<Rightarrow> False | Some a \<Rightarrow> isPrivateIP a) ips"

definition IsPrivateNetwork :: "resolver \<Rightarrow> string \<Rightarrow> bool" where
  "IsPrivateNetwork lookup host =
     (let hostname = stripPort host in
      if privateName hostname then True
      else (case ParseIP hostname of
          Some a \<Rightarrow> isPrivateIP a
        | None \<Rightarrow> (case lookup hostname of None \<Rightarrow> True | Some ips \<Rightarrow> anyPrivate ips)))"

section \<open>The checker\<close>

record ssrf_checker =
  sf_blockPrivate :: bool
  sf_allowedDomains :: "string list"
  sf_requireHTTPS :: bool
  sf_dnsFailPolicy :: string

definition NewSSRFChecker :: "push_config \<Rightarrow> ssrf_checker" where
  "NewSSRFChecker c = \<lparr>sf_blockPrivate = pu_blockPrivateNetworks c,
     sf_allowedDomains = elems (pu_allowedDomains c), sf_requireHTTPS = pu_requireHTTPS c,
     sf_dnsFailPolicy = (if pu_dnsFailPolicy c = [] then ''block'' else pu_dnsFailPolicy c)\<rparr>"

definition dnsWarningText :: string where
  "dnsWarningText = ''DNS resolution failed for push URL''"

definition isPrivateNetworkWithPolicy :: "resolver \<Rightarrow> ssrf_checker \<Rightarrow> string \<Rightarrow> bool \<times> string" where
  "isPrivateNetworkWithPolicy lookup s host =
     (let hostname = stripPort host in
      if privateName hostname then (True, [])
      else (case ParseIP hostname of
          Some a \<Rightarrow> (isPrivateIP a, [])
        | None \<Rightarrow>
            (case lookup hostname of
               None \<Rightarrow> if sf_dnsFailPolicy s = ''allow'' then (False, dnsWarningText) else (True, [])
             | Some ips \<Rightarrow> (anyPrivate ips, []))))"

definition isDomainAllowed :: "ssrf_checker \<Rightarrow> string \<Rightarrow> bool" where
  "isDomainAllowed s host =
     (let lower = toLower host in
      list_ex (\<lambda>domain. let d = toLower domain in lower = d \<or> hasSuffix lower (''.'' @ d))
        (sf_allowedDomains s))"

datatype push_error =
    InvalidPushURL
  | BadScheme string
  | NotHTTPS string
  | EmptyHost
  | DomainNotAllowed string
  | ResolvesPrivate string

definition ValidatePushURL :: "resolver \<Rightarrow> ssrf_checker \<Rightarrow> string \<Rightarrow> push_error + string" where
  "ValidatePushURL lookup s rawURL = (case urlParse rawURL of
      None \<Rightarrow> Inl InvalidPushURL
    | Some parsed \<Rightarrow>
        (let scheme = toLower (url_scheme parsed); host = url_hostname parsed in
         if scheme \<noteq> ''https'' \<and> scheme \<noteq> ''http'' then Inl (BadScheme scheme)
         else if sf_requireHTTPS s \<and> scheme \<noteq> ''https'' then Inl (NotHTTPS scheme)
         else if host = [] then Inl EmptyHost
         else if length (sf_allowedDomains s) > 0 \<and> \<not> isDomainAllowed s host
           then Inl (DomainNotAllowed host)
         else if sf_blockPrivate s then
           (let (isPrivate, dnsWarning) = isPrivateNetworkWithPolicy lookup s (url_host parsed) in
            if isPrivate then Inl (ResolvesPrivate host) else Inr dnsWarning)
         else Inr []))"

section \<open>Finding the URL in a request\<close>

text \<open>
  Decoding into nested structs: the members of every value a struct field is given, in order. A
  value that is neither an object nor null is an error of the whole decoding.
\<close>

fun nestedMembers :: "json list \<Rightarrow> (string \<times> json) list option" where
  "nestedMembers [] = Some []"
| "nestedMembers (v # vs) = (case (structFields v, nestedMembers vs) of
      (Some a, Some b) \<Rightarrow> Some (a @ b)
    | _ \<Rightarrow> None)"

definition pushURLOfSet :: "json \<Rightarrow> string option" where
  "pushURLOfSet v =
     Option.bind (structFields v) (\<lambda>top.
     Option.bind (nestedMembers (fieldVals ''params'' top)) (\<lambda>params.
     Option.bind (nestedMembers (fieldVals ''pushNotificationConfig'' params)) (\<lambda>cfg.
     setString [] (fieldVals ''url'' cfg))))"

text \<open>A pointer field: \<open>null\<close> makes it nil, an object fills the struct it points to.\<close>

fun setURLPointer :: "string option \<Rightarrow> json list \<Rightarrow> string option option" where
  "setURLPointer p [] = Some p"
| "setURLPointer p (JNull # vs) = setURLPointer None vs"
| "setURLPointer p (JObj _ ms # vs) =
     (case setString (case p of None \<Rightarrow> [] | Some u \<Rightarrow> u) (fieldVals ''url'' ms) of
        None \<Rightarrow> None
      | Some u \<Rightarrow> setURLPointer (Some u) vs)"
| "setURLPointer p (_ # vs) = None"

definition pushURLOfMessage :: "json \<Rightarrow> string option" where
  "pushURLOfMessage v =
     Option.bind (structFields v) (\<lambda>top.
     Option.bind (nestedMembers (fieldVals ''params'' top)) (\<lambda>params.
     Option.bind (nestedMembers (fieldVals ''configuration'' params)) (\<lambda>conf.
     Option.bind (setURLPointer None (fieldVals ''pushNotificationConfig'' conf)) (\<lambda>p.
     p))))"

definition extractPushURLFromJSONRPC :: "string \<Rightarrow> string \<Rightarrow> string" where
  "extractPushURLFromJSONRPC method body =
     (let decoded = (\<lambda>f. case Option.bind (json_parse body) f of None \<Rightarrow> [] | Some u \<Rightarrow> u) in
      if method = ''tasks/pushNotificationConfig/set'' then decoded pushURLOfSet
      else if method = ''message/send'' \<or> method = ''message/stream'' then decoded pushURLOfMessage
      else [])"

definition extractPushURLFromRESTBody :: "string \<Rightarrow> string" where
  "extractPushURLFromRESTBody body =
     (case Option.bind (json_parse body) (stringField ''url'') of None \<Rightarrow> [] | Some u \<Rightarrow> u)"

definition extractPushURL :: "request \<Rightarrow> string \<Rightarrow> string" where
  "extractPushURL r body = (case ParseJSONRPCMethod body of
      Inr (method, _) \<Rightarrow> extractPushURLFromJSONRPC method body
    | Inl _ \<Rightarrow>
        if MatchRESTPattern (rq_method r) (rq_path r) = ''tasks/pushNotificationConfig/set''
        then extractPushURLFromRESTBody body else [])"

section \<open>The middleware\<close>

definition ssrfDecide :: "resolver \<Rightarrow> ssrf_checker decision" where
  "ssrfDecide lookup r w s =
     (if rq_method r \<noteq> ''POST'' then (Pass r w, s)
      else (case InspectAndRewind r (64 * 1024) of
          (Inl _, r') \<Rightarrow> (Pass r' w, s)
        | (Inr body, r') \<Rightarrow>
            if length body = 0 then (Pass r' w, s)
            else (let pushURL = extractPushURL r' body in
              if pushURL = [] then (Pass r' w, s)
              else (case ValidatePushURL lookup s pushURL of
                  Inl e \<Rightarrow> (Block ErrSSRFBlocked, s)
                | Inr warning \<Rightarrow>
                    (Pass r' (if warning \<noteq> [] then header_set w ''X-Sentinel-Warning'' warning else w), s)))))"

section \<open>Lemmas\<close>

lemma privateRanges_eval: "privateRanges =
    [Net4 0x7F000000 8, Net4 0x0A000000 8, Net4 0xAC100000 12, Net4 0xC0A80000 16, Net4 0xA9FE0000 16,
     Net6 1 128, Net6 0xFE800000000000000000000000000000 10, Net6 0xFD000000000000000000000000000000 8]"
  by code_simp

text \<open>Which addresses the ranges hold, as numbers.\<close>

lemma isPrivateIP4_iff: "isPrivateIP (IP4 x) \<longleftrightarrow>
    unat x div 2 ^ 24 \<in> {127, 10} \<or> unat x div 2 ^ 20 = 172 * 16 + 1
    \<or> unat x div 2 ^ 16 \<in> {192 * 256 + 168, 169 * 256 + 254}"
  by (simp add: isPrivateIP_def privateRanges_eval netContains4_iff del: netContains.simps(1))

lemma isPrivateIP6_iff: "isPrivateIP (IP6 x) \<longleftrightarrow>
    x = 1 \<or> unat x div 2 ^ 118 = 0x3FA \<or> unat x div 2 ^ 120 = 0xFD"
  by (simp add: isPrivateIP_def privateRanges_eval netContains6_iff word_unat_eq_iff
      del: netContains.simps(2))

text \<open>When a host passes the private network check, and what a warning means.\<close>

lemma anyPrivate_iff: "anyPrivate ips \<longleftrightarrow> (\<exists>s \<in> set ips. \<exists>a. ParseIP s = Some a \<and> isPrivateIP a)"
  by (auto simp: anyPrivate_def list_ex_iff split: option.splits)

lemma isPrivateNetworkWithPolicy_pass:
  "isPrivateNetworkWithPolicy lookup s host = (False, warn) \<longleftrightarrow>
     toLower (stripPort host) \<noteq> ''localhost'' \<and> (\<nexists>sub. toLower (stripPort host) = sub @ ''.local'')
     \<and> (case (ParseIP (stripPort host), lookup (stripPort host)) of
          (Some a, _) \<Rightarrow> \<not> isPrivateIP a \<and> warn = []
        | (None, Some ips) \<Rightarrow> (\<nexists>a. \<exists>t \<in> set ips. ParseIP t = Some a \<and> isPrivateIP a) \<and> warn = []
        | (None, None) \<Rightarrow> sf_dnsFailPolicy s = ''allow'' \<and> warn = dnsWarningText)"
proof -
  have "privateName h \<longleftrightarrow> toLower h = ''localhost'' \<or> (\<exists>sub. toLower h = sub @ ''.local'')" for h
    unfolding privateName_def hasSuffix_iff ..
  then show ?thesis unfolding isPrivateNetworkWithPolicy_def Let_def
    by (cases "ParseIP (stripPort host)"; cases "lookup (stripPort host)") (auto simp: anyPrivate_iff)
qed

lemma IsPrivateNetwork_block:
  "sf_dnsFailPolicy s \<noteq> ''allow'' \<Longrightarrow> fst (isPrivateNetworkWithPolicy lookup s host) = IsPrivateNetwork lookup host"
  by (simp add: isPrivateNetworkWithPolicy_def IsPrivateNetwork_def Let_def split: option.splits)

lemma isDomainAllowed_iff: "isDomainAllowed s host \<longleftrightarrow> (\<exists>d \<in> set (sf_allowedDomains s).
    toLower host = toLower d \<or> (\<exists>sub. toLower host = sub @ ''.'' @ toLower d))"
  by (simp add: isDomainAllowed_def list_ex_iff hasSuffix_iff Let_def)

lemma ValidatePushURL_iff: "ValidatePushURL lookup s raw = Inr warn \<longleftrightarrow>
    (\<exists>u. urlParse raw = Some u \<and> url_hostname u \<noteq> []
     \<and> (toLower (url_scheme u) = ''https'' \<or> (toLower (url_scheme u) = ''http'' \<and> \<not> sf_requireHTTPS s))
     \<and> (sf_allowedDomains s = [] \<or> isDomainAllowed s (url_hostname u))
     \<and> (if sf_blockPrivate s then isPrivateNetworkWithPolicy lookup s (url_host u) = (False, warn) else warn = []))"
  by (auto simp: ValidatePushURL_def Let_def split: option.splits if_splits prod.splits)

lemma ssrfDecide_pass: "ssrfDecide lookup r w s = (Pass r' w', s') \<Longrightarrow> same_request r r' \<and> s' = s
    \<and> (w' = w \<or> w' = header_set w ''X-Sentinel-Warning'' dnsWarningText)"
  by (auto simp: ssrfDecide_def ValidatePushURL_def isPrivateNetworkWithPolicy_def Let_def
      dest: InspectAndRewind_same split: if_splits prod.splits sum.splits option.splits)

interpretation ssrfmw: middleware "ssrfDecide lookup" "\<lambda>s. s = s0"
proof unfold_locales
  fix s r w r' w' e
  show "snd (ssrfDecide lookup r w s) = s0" if "s = s0"
    using that by (auto simp: ssrfDecide_def Let_def split: prod.splits sum.splits)
  show "fst (ssrfDecide lookup r w s) = Pass r' w' \<Longrightarrow> same_request r r'"
    by (cases "ssrfDecide lookup r w s") (auto dest: ssrfDecide_pass)
  show "fst (ssrfDecide lookup r w s) = Block e \<Longrightarrow> 400 \<le> se_code e \<and> se_code e < 600"
    by (auto simp: ssrfDecide_def Let_def split: if_splits prod.splits sum.splits)
qed

text \<open>A POST body that fits the inspection, names a push URL and passes, has a valid push URL.\<close>

lemma ssrf_checked:
  assumes "ssrfDecide lookup r w s = (Pass r' w', s')" and "rq_method r = ''POST''"
    and "rq_body r = Some \<lparr>st_bytes = body, st_fails = False\<rparr>" and "length body \<le> 65536"
    and "extractPushURL r body \<noteq> []"
  shows "\<exists>warn. ValidatePushURL lookup s (extractPushURL r body) = Inr warn"
proof -
  have i: "InspectAndRewind r (64 * 1024) = (Inr body, r)"
    using assms(3,4) by (cases r) (auto simp: InspectAndRewind_def Let_def)
  from assms(5) have "body \<noteq> []"
    by (auto simp: extractPushURL_def extractPushURLFromJSONRPC_def extractPushURLFromRESTBody_def
        ParseJSONRPCMethod_def json_parse_def split: sum.splits if_splits)
  with assms(1,2,5) i show ?thesis
    by (auto simp: ssrfDecide_def Let_def split: sum.splits)
qed

section \<open>Properties\<close>

text \<open>C6: A push URL is accepted exactly when it has the scheme \<open>https\<close>, or \<open>http\<close> where HTTPS is not required, a
  host, where domains are configured a host that is one of them or below one, and, where private networks are
  blocked, a host that is no local name and that is a literal public address, or resolves to public addresses only,
  or cannot be resolved while the policy is \<open>allow\<close>, which the warning then reports. So under the policy \<open>block\<close> no host is
  accepted that cannot be resolved, and a host among the allowed domains is refused when it is private:
  \<open>docs/SECURITY.md\<close> and the hint of \<open>ErrSSRFBlocked\<close> have it accepted.\<close>

theorem push_url_safe:
  "ValidatePushURL lookup s raw = Inr warn \<longleftrightarrow>
     (\<exists>u. urlParse raw = Some u \<and> url_hostname u \<noteq> []
      \<and> (toLower (url_scheme u) = ''https'' \<or> (toLower (url_scheme u) = ''http'' \<and> \<not> sf_requireHTTPS s))
      \<and> (sf_allowedDomains s = [] \<or> (\<exists>d \<in> set (sf_allowedDomains s). toLower (url_hostname u) = toLower d
            \<or> (\<exists>sub. toLower (url_hostname u) = sub @ ''.'' @ toLower d)))
      \<and> (if sf_blockPrivate s
         then toLower (stripPort (url_host u)) \<noteq> ''localhost'' \<and> (\<nexists>sub. toLower (stripPort (url_host u)) = sub @ ''.local'')
           \<and> (case (ParseIP (stripPort (url_host u)), lookup (stripPort (url_host u))) of
                (Some a, _) \<Rightarrow> \<not> isPrivateIP a \<and> warn = []
              | (None, Some ips) \<Rightarrow> (\<nexists>a. \<exists>t \<in> set ips. ParseIP t = Some a \<and> isPrivateIP a) \<and> warn = []
              | (None, None) \<Rightarrow> sf_dnsFailPolicy s = ''allow'' \<and> warn = dnsWarningText)
         else warn = []))"
  by (simp only: ValidatePushURL_iff isPrivateNetworkWithPolicy_pass isDomainAllowed_iff)

definition strictChecker :: ssrf_checker where
  "strictChecker = \<lparr>sf_blockPrivate = True, sf_allowedDomains = [], sf_requireHTTPS = True,
     sf_dnsFailPolicy = ''block''\<rparr>"

lemma public_url_valid: "ValidatePushURL (\<lambda>_. Some [''93.184.216.34'']) strictChecker ''https://Example.com:8443/cb'' = Inr []"
  by code_simp

theorem push_url_safe_witness:
  "\<exists>u. urlParse ''https://Example.com:8443/cb'' = Some u
     \<and> toLower (url_scheme u) = ''https'' \<and> toLower (stripPort (url_host u)) \<noteq> ''localhost''"
  using public_url_valid[unfolded push_url_safe] by (auto simp: strictChecker_def)

text \<open>An allowed domain that resolves to a private address, and a host that cannot be resolved, are refused.\<close>

lemma allowed_private_refused:
  "ValidatePushURL (\<lambda>_. Some [''10.0.0.5'']) (strictChecker\<lparr>sf_allowedDomains := [''internal.company.com'']\<rparr>)
     ''https://internal.company.com/cb'' = Inl (ResolvesPrivate ''internal.company.com'')"
  "ValidatePushURL (\<lambda>_. None) strictChecker ''https://example.com/cb'' = Inl (ResolvesPrivate ''example.com'')"
  by code_simp+

text \<open>C34: The private ranges, as numbers: an IPv4 address is private exactly when it lies in 127/8, 10/8,
  172.16/12, 192.168/16 or 169.254/16, an IPv6 address when it is \<open>::1\<close> or lies in fe80::/10 or fd00::/8.
  The unspecified addresses and fc00::/8 are not among them.\<close>

theorem private_ranges_exact:
  "(isPrivateIP (IP4 x) \<longleftrightarrow> unat x div 2 ^ 24 \<in> {127, 10} \<or> unat x div 2 ^ 20 = 172 * 16 + 1
      \<or> unat x div 2 ^ 16 \<in> {192 * 256 + 168, 169 * 256 + 254})
   \<and> (isPrivateIP (IP6 y) \<longleftrightarrow> y = 1 \<or> unat y div 2 ^ 118 = 0x3FA \<or> unat y div 2 ^ 120 = 0xFD)
   \<and> \<not> isPrivateIP (IP4 0) \<and> \<not> isPrivateIP (IP6 0)
   \<and> \<not> isPrivateIP (IP6 0xFC000000000000000000000000000001)"
  by (simp only: isPrivateIP4_iff isPrivateIP6_iff) simp

text \<open>C7: Of a POST request whose body fits the inspection limit and is read without error, and in which
  the checker finds a push URL, the next handler sees only those with a valid one.\<close>

theorem push_registration_checked:
  assumes "rq_method r = ''POST''" and "rq_body r = Some \<lparr>st_bytes = body, st_fails = False\<rparr>"
    and "length body \<le> 65536" and "extractPushURL r body \<noteq> []"
    and "ValidatePushURL lookup s (extractPushURL r body) = Inl e"
  shows "wrapped (ssrfDecide lookup) next r w s = (WriteHTTPError w ErrSSRFBlocked, s)"
proof (cases "ssrfDecide lookup r w s")
  case (Pair v s')
  have b: "fst (ssrfDecide lookup r w s) = Pass r' w' \<Longrightarrow> False" for r' w'
    using ssrf_checked[OF _ assms(1-4), of lookup w s r' w' s'] assms(5) Pair by auto
  moreover have "v = Block ErrSSRFBlocked \<and> s' = s" if "v = Block e'" for e'
    using Pair that by (auto simp: ssrfDecide_def Let_def split: if_splits prod.splits sum.splits)
  ultimately show ?thesis using Pair by (cases v) (auto simp: wrapped_def)
qed

definition jsonText :: "string \<Rightarrow> string" where
  "jsonText s = map (\<lambda>c. if c = CHR ''`'' then char_of (34 :: nat) else c) s"

definition pushSetBody :: string where
  "pushSetBody = jsonText (''{`jsonrpc`:`2.0`,`method`:`tasks/pushNotificationConfig/set`,''
     @ ''`params`:{`pushNotificationConfig`:{`url`:`http://127.0.0.1/x`}}}'')"

definition postRequest :: "string \<Rightarrow> string \<Rightarrow> request" where
  "postRequest path body = \<lparr>rq_method = ''POST'', rq_path = path, rq_query = [], rq_headers = [],
     rq_body = Some \<lparr>st_bytes = body, st_fails = False\<rparr>, rq_remoteAddr = ''203.0.113.9:80'',
     rq_tls = False, rq_ctx = emptyContext\<rparr>"

lemma pushSetBody_url: "extractPushURL (postRequest ''/'' pushSetBody) pushSetBody = ''http://127.0.0.1/x''"
  by code_simp

theorem push_registration_checked_witness:
  "wrapped (ssrfDecide (\<lambda>_. None)) (\<lambda>r w s. (\<lparr>rs_status = 200, rs_header = [], rs_payload = PEmpty\<rparr>, s))
     (postRequest ''/'' pushSetBody) [] (strictChecker\<lparr>sf_requireHTTPS := False\<rparr>)
   = (WriteHTTPError [] ErrSSRFBlocked, strictChecker\<lparr>sf_requireHTTPS := False\<rparr>)"
proof (rule push_registration_checked[where body = pushSetBody])
  show "length pushSetBody \<le> 65536" by code_simp
  show "ValidatePushURL (\<lambda>_. None) (strictChecker\<lparr>sf_requireHTTPS := False\<rparr>)
      (extractPushURL (postRequest ''/'' pushSetBody) pushSetBody) = Inl (ResolvesPrivate ''127.0.0.1'')"
    unfolding pushSetBody_url by code_simp
  show "extractPushURL (postRequest ''/'' pushSetBody) pushSetBody \<noteq> []" by (simp add: pushSetBody_url)
qed (simp_all add: postRequest_def)

text \<open>C38: Under path-prefix routing the REST form of a push registration is not checked: the checker runs
  before the prefix \<open>/agents/\<close> is cut off, the REST patterns then do not match, and a body that is no
  JSON-RPC request passes whatever URL it registers.\<close>

theorem rest_prefix_not_checked:
  assumes "hasPrefix (rq_path r) ''/agents/''" and "rq_body r = Some \<lparr>st_bytes = body, st_fails = False\<rparr>"
    and "ParseJSONRPCMethod (take 65536 body) = Inl err"
  shows "fst (ssrfDecide lookup r w s) = Pass r w"
proof (cases "rq_method r = ''POST''")
  case True
  have p: "\<exists>q. rq_path r = ''/agents/'' @ q" using assms(1) by (simp add: hasPrefix_iff)
  have m: "MatchRESTPattern (rq_method r) (rq_path r) \<noteq> ''tasks/pushNotificationConfig/set''"
    using p by (auto simp: MatchRESTPattern_def True matchRESTPost_def hasPrefix_def)
  obtain b r' where i: "InspectAndRewind r (64 * 1024) = (Inr b, r')" and b: "b = take 65536 body" "r' = r"
    using assms(2) by (cases r) (auto simp: InspectAndRewind_def Let_def min_def)
  have "extractPushURL r b = []" using assms(3) m by (simp add: extractPushURL_def b)
  with i b show ?thesis by (simp add: ssrfDecide_def Let_def True)
qed (simp add: ssrfDecide_def)

definition restPushBody :: string where
  "restPushBody = jsonText ''{`url`:`http://127.0.0.1/x`}''"

theorem rest_prefix_not_checked_witness:
  "fst (ssrfDecide (\<lambda>_. None) (postRequest ''/agents/echo/tasks/1/pushNotifications'' restPushBody) [] strictChecker)
     = Pass (postRequest ''/agents/echo/tasks/1/pushNotifications'' restPushBody) []"
proof (rule rest_prefix_not_checked)
  show "ParseJSONRPCMethod (take 65536 restPushBody) = Inl (NotVersion2 [])" by code_simp
qed (simp_all add: postRequest_def hasPrefix_def)

end
