(* ===== verification/Pipeline.thy ===== *)
theory Pipeline
  imports Auth Rate_Limit Policy Replay Ssrf
begin

text \<open>
  The security pipeline (\<open>internal/security/pipeline.go\<close>, \<open>jws.go\<close>): which middlewares are built
  and in which order, and the handler they make around another one.

  A \<open>Middleware\<close> value is a tag of type \<open>stage\<close>; the objects behind the interface live in one
  record, a field for each, which the state of the server extends. A field whose stage is not in the
  pipeline is never touched. What a request needs of the outside, the libraries of
  other theories' headers and every reading of the clock, is the record \<open>sec_env\<close>.
\<close>

section \<open>Configuration and state\<close>

record rate_limit_pipeline_config =
  rlp_enabled :: bool
  rlp_ipPerIP :: int
  rlp_ipBurst :: int
  rlp_ipCleanupInterval :: go_duration
  rlp_userPerUser :: int
  rlp_userBurst :: int
  rlp_userCleanupInterval :: go_duration

record security_pipeline_config =
  spc_auth :: auth_pipeline_config
  spc_rateLimit :: rate_limit_pipeline_config
  spc_replay :: replay_detector_config
  spc_globalRateLimit :: int
  spc_trustedProxies :: "string list"
  spc_push :: push_config
  spc_policies :: "policy_config list"

datatype stage = GlobalStage | IPStage | AuthStage | UserStage | PolicyStage | JWSStage
  | ReplayStage | SSRFStage

record 'l pipeline_state =
  pl_global :: 'l
  pl_ip :: "'l ip_limiter"
  pl_auth :: auth_middleware
  pl_user :: "'l user_limiter"
  pl_policy :: policy_engine
  pl_replay :: "memory_nonce_store replay_detector"
  pl_ssrf :: ssrf_checker

record ('l, 'k) sec_env =
  ev_newLim :: "'l bucket_maker"
  ev_allow :: "'l bucket_allow"
  ev_fetch :: "'k jwks_fetch"
  ev_parse :: "'k jwt_parse"
  ev_tz :: tz_database
  ev_fmtG :: "string \<Rightarrow> string"
  ev_lookup :: resolver
  ev_globalNow :: go_time
  ev_ipSeen :: go_time
  ev_ipNow :: go_time
  ev_userSeen :: go_time
  ev_userNow :: go_time
  ev_policyNow :: go_time
  ev_replayNow :: go_time
  ev_storeNow1 :: go_time
  ev_storeNow2 :: go_time

section \<open>Building and applying\<close>

definition BuildPipeline :: "security_pipeline_config \<Rightarrow> stage list" where
  "BuildPipeline cfg =
     (let rl = spc_rateLimit cfg in
      (if spc_globalRateLimit cfg > 0 then [GlobalStage] else [])
      @ (if rlp_enabled rl \<and> rlp_ipPerIP rl > 0 then [IPStage] else [])
      @ [AuthStage]
      @ (if rlp_enabled rl \<and> rlp_userPerUser rl > 0 then [UserStage] else [])
      @ (if length (spc_policies cfg) > 0 then [PolicyStage] else [])
      @ [JWSStage]
      @ [ReplayStage]
      @ [SSRFStage])"

text \<open>The objects \<open>BuildPipeline\<close> constructs.\<close>

definition initPipeline :: "'l bucket_maker \<Rightarrow> security_pipeline_config \<Rightarrow> 'l pipeline_state" where
  "initPipeline newLim cfg =
     (let rl = spc_rateLimit cfg in
      \<lparr>pl_global = NewGlobalRateLimiter newLim (spc_globalRateLimit cfg),
       pl_ip = NewIPRateLimiter (rlp_ipPerIP rl) (rlp_ipBurst rl) (rlp_ipCleanupInterval rl)
                 (spc_trustedProxies cfg),
       pl_auth = NewAuthMiddleware (spc_auth cfg),
       pl_user = NewUserRateLimiter (rlp_userPerUser rl) (rlp_userBurst rl) (rlp_userCleanupInterval rl),
       pl_policy = NewPolicyEngine (ConvertPolicies (spc_policies cfg)),
       pl_replay = NewReplayDetector (spc_replay cfg),
       pl_ssrf = NewSSRFChecker (spc_push cfg)\<rparr>)"

definition onField ::
  "('s \<Rightarrow> 'a) \<Rightarrow> ('a \<Rightarrow> 's \<Rightarrow> 's) \<Rightarrow> 'a decision \<Rightarrow> 's decision" where
  "onField get put decide r w s = (case decide r w (get s) of (v, a) \<Rightarrow> (v, put a s))"

definition stageDecide ::
  "('l, 'k) sec_env \<Rightarrow> stage \<Rightarrow> ('l, 'x) pipeline_state_scheme decision" where
  "stageDecide ev st = (case st of
      GlobalStage \<Rightarrow> onField pl_global (\<lambda>a s. s\<lparr>pl_global := a\<rparr>) (globalDecide (ev_allow ev) (ev_globalNow ev))
    | IPStage \<Rightarrow> onField pl_ip (\<lambda>a s. s\<lparr>pl_ip := a\<rparr>)
        (ipDecide (ev_newLim ev) (ev_allow ev) (ev_ipSeen ev) (ev_ipNow ev))
    | AuthStage \<Rightarrow> onField pl_auth (\<lambda>a s. s\<lparr>pl_auth := a\<rparr>) (authDecide (ev_fetch ev) (ev_parse ev))
    | UserStage \<Rightarrow> onField pl_user (\<lambda>a s. s\<lparr>pl_user := a\<rparr>)
        (userDecide (ev_newLim ev) (ev_allow ev) (ev_userSeen ev) (ev_userNow ev))
    | PolicyStage \<Rightarrow> onField pl_policy (\<lambda>a s. s\<lparr>pl_policy := a\<rparr>) (policyGuardDecide (ev_tz ev) (ev_policyNow ev))
    | JWSStage \<Rightarrow> (\<lambda>r w s. (Pass r w, s))
    | ReplayStage \<Rightarrow> onField pl_replay (\<lambda>a s. s\<lparr>pl_replay := a\<rparr>)
        (replayDecide (CheckAndStore (ev_storeNow1 ev) (ev_storeNow2 ev)) (ev_fmtG ev) (ev_replayNow ev))
    | SSRFStage \<Rightarrow> onField pl_ssrf (\<lambda>a s. s\<lparr>pl_ssrf := a\<rparr>) (ssrfDecide (ev_lookup ev)))"

text \<open>\<open>Process\<close> of each middleware; that of the JWS stage is \<open>next\<close> itself.\<close>

definition Process ::
  "('l, 'k) sec_env \<Rightarrow> stage \<Rightarrow> ('l, 'x) pipeline_state_scheme handler
     \<Rightarrow> ('l, 'x) pipeline_state_scheme handler" where
  "Process ev st next = (if st = JWSStage then next else wrapped (stageDecide ev st) next)"

fun middlewareName :: "stage \<Rightarrow> string" where
  "middlewareName GlobalStage = ''global_rate_limiter''"
| "middlewareName IPStage = ''ip_rate_limiter''"
| "middlewareName AuthStage = ''auth''"
| "middlewareName UserStage = ''user_rate_limiter''"
| "middlewareName PolicyStage = ''policy_guard''"
| "middlewareName JWSStage = ''jws_verifier''"
| "middlewareName ReplayStage = ''replay_detector''"
| "middlewareName SSRFStage = ''ssrf_checker''"

text \<open>The loop of \<open>ApplyPipeline\<close> runs from the last middleware to the first.\<close>

definition ApplyPipeline ::
  "('l, 'k) sec_env \<Rightarrow> ('l, 'x) pipeline_state_scheme handler \<Rightarrow> stage list
     \<Rightarrow> ('l, 'x) pipeline_state_scheme handler" where
  "ApplyPipeline ev handler mws = fold (\<lambda>i h. Process ev (mws ! i) h) (rev [0..<length mws]) handler"

section \<open>The pipeline as a sequence of decisions\<close>

text \<open>
  The abstract reading of the pipeline: the stages decide one after the other, the first block ends
  it, and only a request that every stage passed is admitted.
\<close>

fun admit :: "('l, 'k) sec_env \<Rightarrow> stage list \<Rightarrow> request \<Rightarrow> header \<Rightarrow> ('l, 'x) pipeline_state_scheme
     \<Rightarrow> (sentinel_error \<times> header + request \<times> header) \<times> ('l, 'x) pipeline_state_scheme" where
  "admit ev [] r w s = (Inr (r, w), s)"
| "admit ev (st # sts) r w s = (case stageDecide ev st r w s of
      (Block e, s') \<Rightarrow> (Inl (e, w), s')
    | (Pass r' w', s') \<Rightarrow> admit ev sts r' w' s')"

lemma ApplyPipeline_foldr: "ApplyPipeline ev h mws = foldr (Process ev) mws h"
proof -
  have "fold (\<lambda>i h. Process ev (mws ! i) h) (rev [0..<length mws]) h
      = foldr (\<lambda>i h. Process ev (mws ! i) h) [0..<length mws] h"
    by (simp add: foldr_conv_fold)
  also have "\<dots> = foldr (Process ev) (map ((!) mws) [0..<length mws]) h"
    by (simp add: foldr_map comp_def)
  finally show ?thesis by (simp add: ApplyPipeline_def map_nth)
qed

lemma Process_wrapped: "Process ev st next = wrapped (stageDecide ev st) next"
  by (cases st) (auto simp: Process_def stageDecide_def wrapped_def)

lemma foldr_Process: "foldr (Process ev) mws h r w s = (case admit ev mws r w s of
    (Inl (e, w'), s') \<Rightarrow> (WriteHTTPError w' e, s') | (Inr (r', w'), s') \<Rightarrow> h r' w' s')"
  by (induction mws arbitrary: r w s)
    (auto simp: Process_wrapped wrapped_def split: prod.splits verdict.splits)

lemma admit_append: "admit ev (as @ bs) r w s = (case admit ev as r w s of
    (Inl x, s') \<Rightarrow> (Inl x, s') | (Inr (r', w'), s') \<Rightarrow> admit ev bs r' w' s')"
  by (induction as arbitrary: r w s) (auto split: prod.splits verdict.splits)

section \<open>What a stage may do\<close>

lemma onField_lift:
  assumes "middleware d i"
  shows "fst (onField g p d r w s) = Pass r' w' \<Longrightarrow> same_request r r'"
    and "fst (onField g p d r w s) = Block e \<Longrightarrow> 400 \<le> se_code e \<and> se_code e < 600"
  using middleware.decide_request[OF assms, of r w "g s" r' w']
    middleware.decide_error[OF assms, of r w "g s" e]
  by (auto simp: onField_def split: prod.splits)

lemma stage_contract:
  shows "fst (stageDecide ev st r w s) = Pass r' w' \<Longrightarrow> same_request r r'"
    and "fst (stageDecide ev st r w s) = Block e \<Longrightarrow> 400 \<le> se_code e \<and> se_code e < 600"
  by (cases st; simp add: stageDecide_def onField_lift[OF globalmw.middleware_axioms]
      onField_lift[OF ipmw.middleware_axioms] onField_lift[OF authmw.middleware_axioms]
      onField_lift[OF usermw.middleware_axioms] onField_lift[OF guard.middleware_axioms]
      onField_lift[OF replaymw.middleware_axioms] onField_lift[OF ssrfmw.middleware_axioms])+

text \<open>The stage that writes a field is the only one that does.\<close>

definition same_but :: "stage \<Rightarrow> ('l, 'x) pipeline_state_scheme \<Rightarrow> ('l, 'x) pipeline_state_scheme \<Rightarrow> bool" where
  "same_but st s s' \<longleftrightarrow>
     (st \<noteq> GlobalStage \<longrightarrow> pl_global s' = pl_global s) \<and> (st \<noteq> IPStage \<longrightarrow> pl_ip s' = pl_ip s)
     \<and> (st \<noteq> AuthStage \<longrightarrow> pl_auth s' = pl_auth s) \<and> (st \<noteq> UserStage \<longrightarrow> pl_user s' = pl_user s)
     \<and> (st \<noteq> PolicyStage \<longrightarrow> pl_policy s' = pl_policy s) \<and> (st \<noteq> ReplayStage \<longrightarrow> pl_replay s' = pl_replay s)
     \<and> (st \<noteq> SSRFStage \<longrightarrow> pl_ssrf s' = pl_ssrf s) \<and> pipeline_state.more s' = pipeline_state.more s"

lemma stageDecide_same_but: "same_but st s (snd (stageDecide ev st r w s))"
  by (cases st) (auto simp: stageDecide_def onField_def same_but_def split: prod.splits)

lemma stageDecide_more: "pipeline_state.more (snd (stageDecide ev st r w s)) = pipeline_state.more s"
  using stageDecide_same_but[of st s ev r w] by (simp add: same_but_def)

text \<open>The configuration of authentication and SSRF checking never changes.\<close>

lemma stageDecide_static:
  "pl_auth (snd (stageDecide ev st r w s)) = pl_auth s"
  "pl_ssrf (snd (stageDecide ev st r w s)) = pl_ssrf s"
  "pl_policy (snd (stageDecide ev st r w s)) = pl_policy s"
proof -
  show "pl_auth (snd (stageDecide ev st r w s)) = pl_auth s"
    using stageDecide_same_but[of st s ev r w]
    by (cases "st = AuthStage")
      (auto simp: same_but_def stageDecide_def onField_def authDecide_def split: sum.splits)
  show "pl_ssrf (snd (stageDecide ev st r w s)) = pl_ssrf s"
    using stageDecide_same_but[of st s ev r w]
    by (cases "st = SSRFStage")
      (auto simp: same_but_def stageDecide_def onField_def ssrfDecide_def Let_def
        split: prod.splits sum.splits)
  show "pl_policy (snd (stageDecide ev st r w s)) = pl_policy s"
    using stageDecide_same_but[of st s ev r w]
    by (cases "st = PolicyStage")
      (auto simp: same_but_def stageDecide_def onField_def policyGuardDecide_def Let_def)
qed

text \<open>What the stages put into the context: only the authentication does anything.\<close>

lemma inspect_ctx: "InspectAndRewind r n = (res, r') \<Longrightarrow> rq_ctx r' = rq_ctx r"
  by (drule InspectAndRewind_ctx) (erule ssubst, simp)

lemma requestNonce_ctx: "requestNonce fmtG d r = (x, r1) \<Longrightarrow> rq_ctx r1 = rq_ctx r"
  by (auto simp: requestNonce_def bodyNonce_def Let_def dest: inspect_ctx
      split: if_splits prod.splits sum.splits)

lemma replayDecide_ctx: "replayDecide check fmtG now r w d = (Pass r' w', d') \<Longrightarrow> rq_ctx r' = rq_ctx r"
  by (auto simp: replayDecide_def Let_def dest: requestNonce_ctx
      split: if_splits prod.splits option.splits timestamp_check.splits)

lemma ssrfDecide_ctx: "ssrfDecide lookup r w s = (Pass r' w', s') \<Longrightarrow> rq_ctx r' = rq_ctx r"
  by (auto simp: ssrfDecide_def Let_def dest: inspect_ctx split: if_splits prod.splits sum.splits)

lemma stageDecide_ctx_other:
  assumes "stageDecide ev st r w s = (Pass r' w', s')" and "st \<noteq> AuthStage"
  shows "rq_ctx r' = rq_ctx r"
  using assms
  by (cases st)
    (auto simp: stageDecide_def onField_def globalDecide_def ipDecide_def userDecide_def
      policyGuardDecide_def Let_def dest: replayDecide_ctx ssrfDecide_ctx
      split: prod.splits option.splits if_splits)

lemma stageDecide_auth:
  assumes "stageDecide ev AuthStage r w s = (Pass r' w', s')"
  shows "\<exists>i. authenticate (ev_fetch ev) (ev_parse ev) (pl_auth s) r = Inr i
    \<and> rq_ctx r' = WithAuthInfo (rq_ctx r) i"
  using assms by (auto simp: stageDecide_def onField_def authDecide_def split: sum.splits)

lemma authenticate_same:
  "same_request r r' \<Longrightarrow> authenticate fetch parse a r' = authenticate fetch parse a r"
  by (simp add: authenticate_def processPassthroughStrict_def processTerminate_def same_request_sel)

lemma admit_static: "snd (admit ev sts r w s) = s' \<Longrightarrow>
    pl_auth s' = pl_auth s \<and> pl_ssrf s' = pl_ssrf s \<and> pl_policy s' = pl_policy s
    \<and> pipeline_state.more s' = pipeline_state.more s"
proof (induction sts arbitrary: r w s)
  case (Cons st sts)
  obtain v s1 where d: "stageDecide ev st r w s = (v, s1)" by (cases "stageDecide ev st r w s") auto
  have "pl_auth s1 = pl_auth s \<and> pl_ssrf s1 = pl_ssrf s \<and> pl_policy s1 = pl_policy s
      \<and> pipeline_state.more s1 = pipeline_state.more s"
    using stageDecide_static[of ev st r w s] stageDecide_more[of ev st r w s] by (simp add: d)
  with Cons d show ?case by (cases v) auto
qed simp

lemma admit_same: "admit ev sts r w s = (Inr (r', w'), s') \<Longrightarrow> same_request r r'"
proof (induction sts arbitrary: r w s)
  case (Cons st sts)
  obtain r1 w1 s1 where d: "stageDecide ev st r w s = (Pass r1 w1, s1)"
    and a: "admit ev sts r1 w1 s1 = (Inr (r', w'), s')"
    using Cons.prems by (auto split: prod.splits verdict.splits)
  have "same_request r r1" using stage_contract(1)[of ev st r w s r1 w1] by (simp add: d)
  with Cons.IH[OF a] show ?case by (rule same_request_trans[rotated])
qed simp

lemma admit_error: "admit ev sts r w s = (Inl (e, w'), s') \<Longrightarrow> 400 \<le> se_code e \<and> se_code e < 600"
proof (induction sts arbitrary: r w s)
  case (Cons st sts)
  obtain v s1 where d: "stageDecide ev st r w s = (v, s1)" by (cases "stageDecide ev st r w s") auto
  show ?case
  proof (cases v)
    case (Block e')
    with Cons.prems d have "e' = e" by simp
    then show ?thesis using stage_contract(2)[of ev st r w s e] d Block by simp
  next
    case (Pass r1 w1)
    with Cons.prems d have "admit ev sts r1 w1 s1 = (Inl (e, w'), s')" by simp
    then show ?thesis by (rule Cons.IH)
  qed
qed simp

text \<open>
  A pipeline that holds the authentication admits only authenticated requests, with the information
  in the context, and leaves the routing values of the context as they were.
\<close>

lemma admit_ctx_other:
  "AuthStage \<notin> set sts \<Longrightarrow> admit ev sts r w s = (Inr (r', w'), s') \<Longrightarrow> rq_ctx r' = rq_ctx r"
proof (induction sts arbitrary: r w s)
  case (Cons st sts)
  obtain r1 w1 s1 where d: "stageDecide ev st r w s = (Pass r1 w1, s1)"
    and a: "admit ev sts r1 w1 s1 = (Inr (r', w'), s')"
    using Cons.prems by (auto split: prod.splits verdict.splits)
  from Cons.prems(1) have "rq_ctx r1 = rq_ctx r" by (intro stageDecide_ctx_other[OF d]) auto
  with Cons.IH[OF _ a] Cons.prems(1) show ?case by simp
qed simp

lemma admit_auth:
  assumes "admit ev (as @ AuthStage # bs) r w s = (Inr (r', w'), s')"
    and "AuthStage \<notin> set as" "AuthStage \<notin> set bs"
  shows "\<exists>i. authenticate (ev_fetch ev) (ev_parse ev) (pl_auth s) r = Inr i
    \<and> rq_ctx r' = WithAuthInfo (rq_ctx r) i"
proof -
  from assms(1) obtain r1 w1 s1 r2 w2 s2 where
    a: "admit ev as r w s = (Inr (r1, w1), s1)"
    and d: "stageDecide ev AuthStage r1 w1 s1 = (Pass r2 w2, s2)"
    and b: "admit ev bs r2 w2 s2 = (Inr (r', w'), s')"
    by (auto simp: admit_append split: prod.splits sum.splits verdict.splits)
  from stageDecide_auth[OF d] obtain i where
    i: "authenticate (ev_fetch ev) (ev_parse ev) (pl_auth s1) r1 = Inr i"
      "rq_ctx r2 = WithAuthInfo (rq_ctx r1) i" by blast
  have "pl_auth s1 = pl_auth s" using admit_static[of ev as r w s s1] a by simp
  moreover have "rq_ctx r1 = rq_ctx r" by (rule admit_ctx_other[OF assms(2) a])
  moreover have "rq_ctx r' = rq_ctx r2" by (rule admit_ctx_other[OF assms(3) b])
  moreover have "authenticate (ev_fetch ev) (ev_parse ev) (pl_auth s) r1
      = authenticate (ev_fetch ev) (ev_parse ev) (pl_auth s) r"
    by (rule authenticate_same[OF admit_same[OF a]])
  ultimately show ?thesis using i by (intro exI[of _ i]) simp
qed

lemma BuildPipeline_split: "\<exists>as bs. BuildPipeline cfg = as @ AuthStage # bs
    \<and> set as \<subseteq> {GlobalStage, IPStage} \<and> set bs \<subseteq> {UserStage, PolicyStage, JWSStage, ReplayStage, SSRFStage}
    \<and> ReplayStage \<in> set bs \<and> SSRFStage \<in> set bs"
proof -
  let ?as = "(if spc_globalRateLimit cfg > 0 then [GlobalStage] else [])
      @ (if rlp_enabled (spc_rateLimit cfg) \<and> rlp_ipPerIP (spc_rateLimit cfg) > 0 then [IPStage] else [])"
  let ?bs = "(if rlp_enabled (spc_rateLimit cfg) \<and> rlp_userPerUser (spc_rateLimit cfg) > 0 then [UserStage] else [])
      @ (if length (spc_policies cfg) > 0 then [PolicyStage] else []) @ [JWSStage, ReplayStage, SSRFStage]"
  have "BuildPipeline cfg = ?as @ AuthStage # ?bs" by (simp add: BuildPipeline_def Let_def)
  then show ?thesis by (intro exI[of _ ?as] exI[of _ ?bs]) auto
qed

lemma BuildPipeline_admit_auth:
  assumes "admit ev (BuildPipeline cfg) r w s = (Inr (r', w'), s')"
  shows "\<exists>i. authenticate (ev_fetch ev) (ev_parse ev) (pl_auth s) r = Inr i
    \<and> rq_ctx r' = WithAuthInfo (rq_ctx r) i"
proof -
  obtain as bs where b: "BuildPipeline cfg = as @ AuthStage # bs"
    and sub: "set as \<subseteq> {GlobalStage, IPStage}"
      "set bs \<subseteq> {UserStage, PolicyStage, JWSStage, ReplayStage, SSRFStage}"
    using BuildPipeline_split[of cfg] by auto
  from sub have "AuthStage \<notin> set as" "AuthStage \<notin> set bs" by auto
  with assms show ?thesis unfolding b by (rule admit_auth)
qed

text \<open>The stages of a set are the only ones whose objects may differ.\<close>

definition untouched :: "stage set \<Rightarrow> ('l, 'x) pipeline_state_scheme \<Rightarrow> ('l, 'x) pipeline_state_scheme \<Rightarrow> bool" where
  "untouched sts s s' \<longleftrightarrow>
     (GlobalStage \<notin> sts \<longrightarrow> pl_global s' = pl_global s) \<and> (IPStage \<notin> sts \<longrightarrow> pl_ip s' = pl_ip s)
     \<and> (AuthStage \<notin> sts \<longrightarrow> pl_auth s' = pl_auth s) \<and> (UserStage \<notin> sts \<longrightarrow> pl_user s' = pl_user s)
     \<and> (PolicyStage \<notin> sts \<longrightarrow> pl_policy s' = pl_policy s) \<and> (ReplayStage \<notin> sts \<longrightarrow> pl_replay s' = pl_replay s)
     \<and> (SSRFStage \<notin> sts \<longrightarrow> pl_ssrf s' = pl_ssrf s) \<and> pipeline_state.more s' = pipeline_state.more s"

lemma untouched_refl [simp]: "untouched sts s s"
  by (simp add: untouched_def)

lemma untouched_trans: "same_but st s s' \<Longrightarrow> untouched sts s' s'' \<Longrightarrow> untouched (insert st sts) s s''"
  by (auto simp: untouched_def same_but_def)

lemma untouched_one: "same_but st s s' \<Longrightarrow> untouched (insert st sts) s s'"
  by (auto simp: untouched_def same_but_def)

lemma admit_untouched: "untouched (set sts) s (snd (admit ev sts r w s))"
proof (induction sts arbitrary: r w s)
  case (Cons st sts)
  obtain v s1 where d: "stageDecide ev st r w s = (v, s1)" by (cases "stageDecide ev st r w s") auto
  have b: "same_but st s s1" using stageDecide_same_but[of st s ev r w] by (simp add: d)
  show ?case
  proof (cases v)
    case (Block e)
    then show ?thesis using untouched_one[OF b] by (simp add: d)
  next
    case (Pass r1 w1)
    then show ?thesis using untouched_trans[OF b Cons.IH] by (simp add: d)
  qed
qed simp

lemma stageDecide_meta: "stageDecide ev st r w s = (Pass r' w', s') \<Longrightarrow>
    RequestMetaFrom (rq_ctx r') = RequestMetaFrom (rq_ctx r)"
  by (cases "st = AuthStage")
    (auto simp: ctx_getters ctx_setters dest: stageDecide_auth stageDecide_ctx_other)

lemma admit_meta: "admit ev sts r w s = (Inr (r', w'), s') \<Longrightarrow>
    RequestMetaFrom (rq_ctx r') = RequestMetaFrom (rq_ctx r)"
proof (induction sts arbitrary: r w s)
  case (Cons st sts)
  obtain r1 w1 s1 where d: "stageDecide ev st r w s = (Pass r1 w1, s1)"
    and a: "admit ev sts r1 w1 s1 = (Inr (r', w'), s')"
    using Cons.prems by (auto split: prod.splits verdict.splits)
  from Cons.IH[OF a] stageDecide_meta[OF d] show ?case by simp
qed simp

section \<open>Properties\<close>

text \<open>C3: The nested handlers \<open>ApplyPipeline\<close> builds behave as the sequence of the stages' decisions: the
  first stage that blocks writes its error and nothing after it runs; a request every stage passed is
  answered by the inner handler, with the state the stages left.\<close>

theorem pipeline_refines_decisions:
  "ApplyPipeline ev h mws r w s = (case admit ev mws r w s of
     (Inl (e, w'), s') \<Rightarrow> (WriteHTTPError w' e, s') | (Inr (r', w'), s') \<Rightarrow> h r' w' s')"
  by (simp add: ApplyPipeline_foldr foldr_Process)

text \<open>C2: No request reaches the inner handler unauthenticated: what a built pipeline admits was accepted
  by the authentication of the configured mode, carries its result in the context and is otherwise the
  request that came in.\<close>

theorem pipeline_admits_authenticated:
  assumes "admit ev (BuildPipeline cfg) r w s = (Inr (r', w'), s')"
  shows "same_request r r' \<and> (\<exists>i. authenticate (ev_fetch ev) (ev_parse ev) (pl_auth s) r = Inr i
    \<and> rq_ctx r' = WithAuthInfo (rq_ctx r) i)"
  using admit_same[OF assms] BuildPipeline_admit_auth[OF assms] by simp

definition sampleEnv :: "(unit, unit) sec_env" where
  "sampleEnv = \<lparr>ev_newLim = (\<lambda>_ _. ()), ev_allow = (\<lambda>l _. (True, l)), ev_fetch = (\<lambda>_. Some ()),
     ev_parse = (\<lambda>t _. if t = ''tok'' then Some ''alice'' else None), ev_tz = (\<lambda>_. None),
     ev_fmtG = (\<lambda>l. l), ev_lookup = (\<lambda>_. None), ev_globalNow = 0, ev_ipSeen = 0, ev_ipNow = 0,
     ev_userSeen = 0, ev_userNow = 0, ev_policyNow = 0, ev_replayNow = 0, ev_storeNow1 = 0,
     ev_storeNow2 = 0\<rparr>"

definition samplePipelineConfig :: "policy_config list \<Rightarrow> security_pipeline_config" where
  "samplePipelineConfig ps = \<lparr>spc_auth = \<lparr>apc_mode = ''terminate'', apc_allowUnauthenticated = False,
       apc_issuer = ''iss'', apc_audience = [], apc_jwksURL = ''https://keys''\<rparr>,
     spc_rateLimit = \<lparr>rlp_enabled = True, rlp_ipPerIP = 60, rlp_ipBurst = 5, rlp_ipCleanupInterval = 1,
       rlp_userPerUser = 60, rlp_userBurst = 5, rlp_userCleanupInterval = 1\<rparr>,
     spc_replay = \<lparr>rdc_enabled = True, rdc_window = 100, rdc_noncePolicy = ''warn'', rdc_nonceSource = [],
       rdc_clockSkew = 5, rdc_cleanupInterval = 10\<rparr>,
     spc_globalRateLimit = 600, spc_trustedProxies = [],
     spc_push = \<lparr>pu_blockPrivateNetworks = True, pu_allowedDomains = None, pu_requireHTTPS = True,
       pu_requireChallenge = True, pu_hmacSecret = [], pu_dnsFailPolicy = ''block''\<rparr>,
     spc_policies = ps\<rparr>"

definition sampleStart :: "policy_config list \<Rightarrow> unit pipeline_state" where
  "sampleStart ps = initPipeline (ev_newLim sampleEnv) (samplePipelineConfig ps)"

text \<open>The checks below run the pipeline on a bearer request and look at what is admitted.\<close>

definition admitted :: "(sentinel_error \<times> header + request \<times> header) \<times> 's \<Rightarrow> (request \<times> header) option" where
  "admitted x = (case x of (Inr y, _) \<Rightarrow> Some y | (Inl _, _) \<Rightarrow> None)"

lemma admitted_Some: "admitted x = Some (r, w) \<Longrightarrow> \<exists>s. x = (Inr (r, w), s)"
  by (cases x) (auto simp: admitted_def split: sum.splits)

lemma bearer_admitted: "map_option (\<lambda>(r, w). AuthInfoFrom (rq_ctx r))
    (admitted (admit sampleEnv (BuildPipeline (samplePipelineConfig [])) bearerRequest [] (sampleStart [])))
   = Some (Some (authInfo ''terminate'' ''alice'' ''bearer'' True))"
  by code_simp

theorem pipeline_admits_authenticated_witness:
  "\<exists>r' w' s' i. admit sampleEnv (BuildPipeline (samplePipelineConfig [])) bearerRequest [] (sampleStart [])
      = (Inr (r', w'), s')
     \<and> authenticate (ev_fetch sampleEnv) (ev_parse sampleEnv) (pl_auth (sampleStart [])) bearerRequest = Inr i"
proof -
  obtain r' w' where a: "admitted (admit sampleEnv (BuildPipeline (samplePipelineConfig [])) bearerRequest []
      (sampleStart [])) = Some (r', w')"
    using bearer_admitted by auto
  from admitted_Some[OF a] obtain s' where
    s: "admit sampleEnv (BuildPipeline (samplePipelineConfig [])) bearerRequest [] (sampleStart []) = (Inr (r', w'), s')"
    by blast
  from pipeline_admits_authenticated[OF s] s show ?thesis by blast
qed

text \<open>A request that is blocked in the front part of a pipeline gets that error, and leaves no trace in
  the stages behind: their limiters, nonces and policies and the state of the inner handler are as
  before. In a built pipeline the rate limits by gateway and by address are such a front part, ahead of
  the authentication.\<close>

theorem blocked_leaves_later_stages:
  assumes "admit ev as r w s = (Inl (e, w'), s')"
  shows "ApplyPipeline ev h (as @ bs) r w s = (WriteHTTPError w' e, s') \<and> untouched (set as) s s'"
  using assms admit_untouched[of as s ev r w]
  by (simp add: ApplyPipeline_foldr foldr_Process admit_append)

definition emptyBucketEnv :: "(unit, unit) sec_env" where
  "emptyBucketEnv = sampleEnv\<lparr>ev_allow := (\<lambda>l _. (False, l))\<rparr>"

theorem blocked_leaves_later_stages_witness:
  "rs_status (fst (ApplyPipeline emptyBucketEnv
       (\<lambda>r w s. (\<lparr>rs_status = 200, rs_header = [], rs_payload = PEmpty\<rparr>, s))
       ([GlobalStage] @ [IPStage, AuthStage]) bearerRequest [] (sampleStart []))) = 503"
proof -
  have "admit emptyBucketEnv [GlobalStage] bearerRequest [] (sampleStart [])
      = (Inl (ErrGlobalLimitReached, []), (sampleStart [])\<lparr>pl_global := ()\<rparr>)"
    by (simp add: stageDecide_def onField_def globalDecide_def emptyBucketEnv_def)
  from blocked_leaves_later_stages[OF this] show ?thesis by simp
qed

text \<open>C39: Where every policy that denies names some A2A method, the policy stage of a pipeline never blocks
  a request that comes from outside: the method is put into the context only behind the pipeline.\<close>

theorem method_policies_inert_in_pipeline:
  assumes "RequestMetaFrom (rq_ctx r) = None"
    and "\<And>p. \<lbrakk>p \<in> set (pe_policies (pl_policy s)); po_action p = ''deny''\<rbrakk> \<Longrightarrow>
           pm_methods (po_match p) \<noteq> [] \<and> [] \<notin> set (pm_methods (po_match p))"
    and "admit ev as r w s = (Inr (r', w'), s')"
  shows "admit ev (as @ PolicyStage # bs) r w s = admit ev bs r' w' s'"
proof -
  have "RequestMetaFrom (rq_ctx r') = None"
    using admit_meta[OF assms(3)] assms(1) by simp
  moreover have "pl_policy s' = pl_policy s" using admit_static[of ev as r w s s'] assms(3) by simp
  ultimately have "policyGuardDecide (ev_tz ev) (ev_policyNow ev) r' w' (pl_policy s')
      = (Pass r' w', pl_policy s')"
    by (intro policyGuard_methods_pass) (use assms(2) in auto)
  with assms(3) show ?thesis by (simp add: admit_append stageDecide_def onField_def)
qed

definition denyPolicy :: policy_config where
  "denyPolicy = \<lparr>pc_name = ''no-send'', pc_description = [],
     pc_match = \<lparr>pmc_agents = [], pmc_methods = [''message/send''], pmc_users = [], pmc_ips = [],
                 pmc_headers = [], pmc_timeRange = None\<rparr>, pc_action = ''deny'', pc_priority = 9\<rparr>"

theorem method_policies_inert_in_pipeline_witness:
  "admit sampleEnv ([] @ PolicyStage # [JWSStage]) bearerRequest [] (sampleStart [denyPolicy])
   = admit sampleEnv [JWSStage] bearerRequest [] (sampleStart [denyPolicy])"
proof (rule method_policies_inert_in_pipeline)
  have "pe_policies (pl_policy (sampleStart [denyPolicy])) = [convertPolicy denyPolicy]"
    by (simp add: sampleStart_def initPipeline_def Let_def samplePipelineConfig_def NewPolicyEngine_def
        ConvertPolicies_def sortPolicies_def)
  then show "p \<in> set (pe_policies (pl_policy (sampleStart [denyPolicy]))) \<Longrightarrow> po_action p = ''deny'' \<Longrightarrow>
      pm_methods (po_match p) \<noteq> [] \<and> [] \<notin> set (pm_methods (po_match p))" for p
    by (simp add: convertPolicy_def denyPolicy_def)
qed (simp_all add: bearerRequest_def emptyContext_def ctx_getters)

end
