(* ===== verification/Agent_Card.thy ===== *)
theory Agent_Card
  imports Config_Check Go_Json
begin

text \<open>
  Agent cards (\<open>internal/agentcard\<close>): the card of \<open>internal/protocol/types.go\<close>, the comparison of two
  cards (\<open>change.go\<close>), the store of pending changes (\<open>pending.go\<close>), the aggregated card
  (\<open>aggregator.go\<close>) and the verification of signatures (\<open>jws.go\<close>).

  JWS comes from \<open>lestrrat-go/jwx\<close>: \<open>isJWS\<close> says whether \<open>jws.Parse\<close> succeeds, \<open>keys url\<close> is the key
  set the cache returns for a URL and \<open>verify data ks\<close> the payload, each \<open>None\<close> on an error.
\<close>

section \<open>The card (protocol/types.go)\<close>

record agent_provider =
  apv_organization :: string
  apv_url :: string

record agent_capabilities =
  cap_streaming :: bool
  cap_pushNotifications :: bool
  cap_stateTransitionHistory :: bool

record agent_interfaces =
  ain_jsonrpc :: string
  ain_grpc :: string
  ain_rest :: string

record agent_skill =
  sk_id :: string
  sk_name :: string
  sk_description :: string
  sk_tags :: "string list"
  sk_examples :: "string list"
  sk_inputModes :: "string list"
  sk_outputModes :: "string list"

record oauth_flow =
  of_authorizationURL :: string
  of_tokenURL :: string
  of_refreshURL :: string
  of_scopes :: "(string, string) gomap"

record oauth_flows =
  ofs_implicit :: "oauth_flow option"
  ofs_password :: "oauth_flow option"
  ofs_clientCredentials :: "oauth_flow option"
  ofs_authorizationCode :: "oauth_flow option"

record security_scheme =
  ss_type :: string
  ss_description :: string
  ss_scheme :: string
  ss_bearerFormat :: string
  ss_flows :: "oauth_flows option"
  ss_in :: string
  ss_name :: string
  ss_openIdConnectURL :: string

record agent_card =
  card_name :: string
  card_description :: string
  card_url :: string
  card_version :: string
  card_documentationURL :: string
  card_provider :: "agent_provider option"
  card_capabilities :: "agent_capabilities option"
  card_securitySchemes :: "(string, security_scheme) gomap"
  card_security :: "(string, string list) gomap list"
  card_skills :: "agent_skill list"
  card_defaultInputModes :: "string list"
  card_defaultOutputModes :: "string list"
  card_interfaces :: "agent_interfaces option"
  card_supportsExtendedCard :: bool

section \<open>Changes (change.go)\<close>

record card_change =
  cd_field :: string
  cd_old :: string
  cd_new :: string
  cd_critical :: bool

abbreviation card_diff :: "bool \<Rightarrow> string \<Rightarrow> string \<Rightarrow> string \<Rightarrow> bool \<Rightarrow> card_change list" where
  "card_diff differs field old new crit \<equiv>
     (if differs then [\<lparr>cd_field = field, cd_old = old, cd_new = new, cd_critical = crit\<rparr>] else [])"

definition boolString :: "bool \<Rightarrow> string" where
  "boolString b = (if b then ''true'' else ''false'')"

definition capabilitiesString :: "agent_capabilities option \<Rightarrow> string" where
  "capabilitiesString c = (case c of
      None \<Rightarrow> ''<nil>''
    | Some caps \<Rightarrow> ''streaming='' @ boolString (cap_streaming caps)
        @ '',push='' @ boolString (cap_pushNotifications caps)
        @ '',history='' @ boolString (cap_stateTransitionHistory caps))"

text \<open>The change of the number of skills is critical above one half; the quotient is exact enough.\<close>

definition skillsCritical :: "nat \<Rightarrow> nat \<Rightarrow> bool" where
  "skillsCritical olds news =
     (if olds > 0 then 2 * \<bar>int news - int olds\<bar> > int olds else news > 0)"

definition DetectChanges :: "agent_card option \<Rightarrow> agent_card option \<Rightarrow> card_change list" where
  "DetectChanges old new = (case (old, new) of
      (Some a, Some b) \<Rightarrow>
        card_diff (card_url a \<noteq> card_url b) ''url'' (card_url a) (card_url b) True
        @ card_diff (card_version a \<noteq> card_version b) ''version'' (card_version a) (card_version b) True
        @ card_diff (card_name a \<noteq> card_name b) ''name'' (card_name a) (card_name b) False
        @ card_diff (card_description a \<noteq> card_description b) ''description''
            (card_description a) (card_description b) False
        @ (let m = length (card_skills a); n = length (card_skills b) in
           card_diff (m \<noteq> n) ''skills'' (showNat m @ '' skills'') (showNat n @ '' skills'') (skillsCritical m n))
        @ (let m = length (card_securitySchemes a); n = length (card_securitySchemes b) in
           card_diff (m \<noteq> n) ''securitySchemes'' (showNat m @ '' schemes'') (showNat n @ '' schemes'') True)
        @ (let p = capabilitiesString (card_capabilities a); q = capabilitiesString (card_capabilities b) in
           card_diff (p \<noteq> q) ''capabilities'' p q False)
    | _ \<Rightarrow> [])"

definition hasCriticalChanges :: "card_change list \<Rightarrow> bool" where
  "hasCriticalChanges cs = list_ex cd_critical cs"

section \<open>Pending changes (pending.go)\<close>

record pending_change =
  pn_agentName :: string
  pn_oldCard :: "agent_card option"
  pn_newCard :: agent_card
  pn_changes :: "card_change list"
  pn_detectedAt :: go_time
  pn_status :: string

type_synonym pending_store = "(string, pending_change) gomap"

definition NewPendingStore :: pending_store where "NewPendingStore = []"

definition pendingAdd :: "pending_change \<Rightarrow> pending_store \<Rightarrow> pending_store" where
  "pendingAdd c s = map_put (pn_agentName c) c s"

definition pendingApprove :: "string \<Rightarrow> pending_store \<Rightarrow> pending_change option \<times> pending_store" where
  "pendingApprove name s = (case map_of s name of
      None \<Rightarrow> (None, s)
    | Some c \<Rightarrow> (Some (c\<lparr>pn_status := ''approved''\<rparr>), map_del name s))"

definition pendingReject :: "string \<Rightarrow> pending_store \<Rightarrow> bool \<times> pending_store" where
  "pendingReject name s = (case map_of s name of
      None \<Rightarrow> (False, s) | Some c \<Rightarrow> (True, map_del name s))"

definition pendingList :: "pending_store \<Rightarrow> pending_change list" where
  "pendingList s = map snd s"

definition pendingGet :: "string \<Rightarrow> pending_store \<Rightarrow> pending_change option" where
  "pendingGet name s = map_of s name"

section \<open>Signatures (jws.go)\<close>

record jws_verifier =
  jv_require :: bool
  jv_trustedURLs :: "string list"
  jv_cacheTTL :: go_duration
  jv_cached :: bool

definition NewJWSVerifier :: "card_signature_config \<Rightarrow> jws_verifier" where
  "NewJWSVerifier c = \<lparr>jv_require = cs_require c, jv_trustedURLs = elems (cs_trustedJWKSURLs c),
     jv_cacheTTL = cs_cacheTTL c, jv_cached = False\<rparr>"

text \<open>\<open>registered url\<close>: whether \<open>Register\<close> accepts the URL.\<close>

definition StartCache :: "(string \<Rightarrow> bool) \<Rightarrow> jws_verifier \<Rightarrow> (string option) \<times> jws_verifier" where
  "StartCache registered v =
     (if length (jv_trustedURLs v) = 0 then (None, v)
      else (case find (\<lambda>u. \<not> registered u) (jv_trustedURLs v) of
          Some u \<Rightarrow> (Some u, v)
        | None \<Rightarrow> (None, v\<lparr>jv_cached := True\<rparr>)))"

definition IsConfigured :: "jws_verifier \<Rightarrow> bool" where
  "IsConfigured v \<longleftrightarrow> length (jv_trustedURLs v) > 0"

definition RequireSignature :: "jws_verifier \<Rightarrow> bool" where
  "RequireSignature v = jv_require v"

record 'k jws_lib =
  jl_isJWS :: "string \<Rightarrow> bool"
  jl_keys :: "string \<Rightarrow> 'k option"
  jl_verify :: "string \<Rightarrow> 'k \<Rightarrow> string option"

datatype jws_error = NotSigned | NoTrustedKeys | VerificationFailed

fun tryKeys :: "'k jws_lib \<Rightarrow> string \<Rightarrow> string list \<Rightarrow> string option" where
  "tryKeys lib data [] = None"
| "tryKeys lib data (u # us) = (case jl_keys lib u of
      None \<Rightarrow> tryKeys lib data us
    | Some ks \<Rightarrow> (case jl_verify lib data ks of
        Some payload \<Rightarrow> Some payload
      | None \<Rightarrow> tryKeys lib data us))"

definition VerifyCardSignature :: "'k jws_lib \<Rightarrow> jws_verifier \<Rightarrow> string \<Rightarrow> jws_error + string" where
  "VerifyCardSignature lib v cardData =
     (if \<not> jl_isJWS lib cardData then
        (if jv_require v then Inl NotSigned else Inr cardData)
      else if \<not> jv_cached v then Inl NoTrustedKeys
      else (case tryKeys lib cardData (jv_trustedURLs v) of
          Some payload \<Rightarrow> Inr payload
        | None \<Rightarrow> Inl VerificationFailed))"

section \<open>Lemmas\<close>

lemma capabilitiesString_inject: "capabilitiesString a = capabilitiesString b \<longleftrightarrow> a = b"
proof (cases a; cases b)
  fix x y assume "a = Some x" "b = Some y"
  then show ?thesis
    by (cases x; cases y; simp add: capabilitiesString_def boolString_def)
qed (auto simp: capabilitiesString_def boolString_def)

lemma DetectChanges_Nil: "DetectChanges (Some a) (Some b) = [] \<longleftrightarrow>
    card_url a = card_url b \<and> card_version a = card_version b \<and> card_name a = card_name b
    \<and> card_description a = card_description b \<and> length (card_skills a) = length (card_skills b)
    \<and> length (card_securitySchemes a) = length (card_securitySchemes b)
    \<and> card_capabilities a = card_capabilities b"
  by (auto simp: DetectChanges_def Let_def capabilitiesString_inject)

lemma DetectChanges_critical: "hasCriticalChanges (DetectChanges (Some a) (Some b)) \<longleftrightarrow>
    card_url a \<noteq> card_url b \<or> card_version a \<noteq> card_version b
    \<or> length (card_securitySchemes a) \<noteq> length (card_securitySchemes b)
    \<or> skillsCritical (length (card_skills a)) (length (card_skills b))"
  by (auto simp: DetectChanges_def hasCriticalChanges_def Let_def skillsCritical_def)

lemma pending_laws:
  "pendingGet n (pendingAdd c s) = (if n = pn_agentName c then Some c else pendingGet n s)"
  "pendingGet n (snd (pendingApprove m s)) = (if n = m then None else pendingGet n s)"
  "pendingGet n (snd (pendingReject m s)) = (if n = m then None else pendingGet n s)"
  "fst (pendingApprove m s) = map_option (\<lambda>c. c\<lparr>pn_status := ''approved''\<rparr>) (pendingGet m s)"
  "fst (pendingReject m s) \<longleftrightarrow> pendingGet m s \<noteq> None"
  by (auto simp: pendingGet_def pendingAdd_def pendingApprove_def pendingReject_def split: option.splits)

lemma pending_ok:
  "map_ok s \<Longrightarrow> map_ok (pendingAdd c s)" "map_ok s \<Longrightarrow> map_ok (snd (pendingApprove m s))"
  "map_ok s \<Longrightarrow> map_ok (snd (pendingReject m s))"
  by (auto simp: pendingAdd_def pendingApprove_def pendingReject_def split: option.splits)

lemma tryKeys_Some: "tryKeys lib data us = Some p \<Longrightarrow>
    \<exists>u ks. u \<in> set us \<and> jl_keys lib u = Some ks \<and> jl_verify lib data ks = Some p"
  by (induction us) (auto split: option.splits)

lemma VerifyCardSignature_ok: "VerifyCardSignature lib v data = Inr p \<Longrightarrow>
    (\<not> jl_isJWS lib data \<and> \<not> jv_require v \<and> p = data)
    \<or> (jl_isJWS lib data \<and> (\<exists>u ks. u \<in> set (jv_trustedURLs v) \<and> jl_keys lib u = Some ks
        \<and> jl_verify lib data ks = Some p))"
  using tryKeys_Some[of lib data "jv_trustedURLs v" p]
  by (auto simp: VerifyCardSignature_def split: if_splits option.splits)

end
