(* ===== verification/Card_Manager.thy ===== *)
theory Card_Manager
  imports Agent_Card
begin

text \<open>
  The agent card manager (\<open>internal/agentcard/manager.go\<close>, \<open>poller.go\<close>, \<open>aggregator.go\<close>, and
  \<open>handleCardChange\<close> of \<open>change.go\<close>). The map of agents is an association list by name, in the order
  a range visits it; each entry is the state behind the pointer.

  The HTTP client, the JWS library and the decoding of a card's JSON are the record \<open>card_env\<close>;
  \<open>ce_get\<close> gives the status and the body stream of a GET, or \<open>None\<close> when the request fails.
\<close>

section \<open>State\<close>

datatype card_error =
    InsecureURL
  | CardRequestFailed
  | CardStatus int
  | CardReadFailed
  | CardSignature jws_error
  | CardParseFailed

record agent_state =
  as_name :: string
  as_url :: string
  as_cardPath :: string
  as_pollInterval :: go_duration
  as_timeout :: go_duration
  as_maxStreams :: int
  as_isDefault :: bool
  as_allowInsecure :: bool
  as_changePolicy :: string
  as_card :: "agent_card option"
  as_healthy :: bool
  as_lastPolled :: go_time
  as_lastError :: "card_error option"

record manager =
  mg_agents :: "(string, agent_state) gomap"
  mg_verifier :: jws_verifier
  mg_pending :: pending_store

record agent_status =
  st_name :: string
  st_url :: string
  st_healthy :: bool
  st_skillCount :: nat
  st_lastPolled :: go_time
  st_lastError :: "card_error option"

text \<open>The zero \<open>time.Time\<close>, January 1 of year 1, on the scale of the model.\<close>

definition zeroTime :: go_time where
  "zeroTime = - 62135596800 * 1000000000"

definition newAgentState :: "agent_config \<Rightarrow> agent_state" where
  "newAgentState a = \<lparr>as_name = ag_name a, as_url = ag_url a, as_cardPath = ag_cardPath a,
     as_pollInterval = ag_pollInterval a, as_timeout = ag_timeout a, as_maxStreams = ag_maxStreams a,
     as_isDefault = ag_default a, as_allowInsecure = ag_allowInsecure a,
     as_changePolicy = ag_cardChangePolicy a, as_card = None, as_healthy = False,
     as_lastPolled = zeroTime, as_lastError = None\<rparr>"

definition NewManager :: "agent_config list \<Rightarrow> card_signature_config \<Rightarrow> manager" where
  "NewManager agents sigCfg =
     \<lparr>mg_agents = fold (\<lambda>a. map_put (ag_name a) (newAgentState a)) agents [],
      mg_verifier = NewJWSVerifier sigCfg, mg_pending = NewPendingStore\<rparr>"

section \<open>Fetching (poller.go)\<close>

record 'k card_env =
  ce_get :: "string \<Rightarrow> (int \<times> stream) option"
  ce_jws :: "'k jws_lib"
  ce_parse :: "string \<Rightarrow> agent_card option"

definition maxCardBodySize :: nat where "maxCardBodySize = 2 ^ 20"

definition buildCardURL :: "string \<Rightarrow> string \<Rightarrow> string" where
  "buildCardURL baseURL cardPath =
     (let base = trimRightByte baseURL (CHR ''/'');
          path = (if hasPrefix cardPath ''/'' then cardPath else CHR ''/'' # cardPath) in
      base @ path)"

text \<open>\<open>io.ReadAll\<close> on a reader limited to \<open>n\<close> bytes: an error counts only when the limit is not
  reached before it.\<close>

definition readLimited :: "nat \<Rightarrow> stream \<Rightarrow> string option" where
  "readLimited n b = (if st_fails b \<and> length (st_bytes b) < n then None else Some (take n (st_bytes b)))"

definition fetchCard :: "'k card_env \<Rightarrow> jws_verifier \<Rightarrow> agent_state \<Rightarrow> card_error + agent_card" where
  "fetchCard env v st =
     (let cardURL = buildCardURL (as_url st) (as_cardPath st) in
      if \<not> as_allowInsecure st \<and> hasPrefix cardURL ''http://'' then Inl InsecureURL
      else (case ce_get env cardURL of
          None \<Rightarrow> Inl CardRequestFailed
        | Some (code, respBody) \<Rightarrow>
            if code \<noteq> 200 then Inl (CardStatus code)
            else (case readLimited maxCardBodySize respBody of
                None \<Rightarrow> Inl CardReadFailed
              | Some body \<Rightarrow>
                  (let parsed = (\<lambda>b. case ce_parse env b of None \<Rightarrow> Inl CardParseFailed | Some c \<Rightarrow> Inr c) in
                   if IsConfigured v then
                     (case VerifyCardSignature (ce_jws env) v body of
                        Inl e \<Rightarrow> if RequireSignature v then Inl (CardSignature e) else parsed body
                      | Inr verified \<Rightarrow> parsed verified)
                   else parsed body))))"

text \<open>The change policies: \<open>auto\<close> applies, \<open>approve\<close> queues, \<open>alert\<close> and unknown ones only log.\<close>

definition handleCardChange ::
  "go_time \<Rightarrow> agent_state \<Rightarrow> agent_card \<Rightarrow> card_change list \<Rightarrow> pending_store
     \<Rightarrow> agent_state \<times> pending_store" where
  "handleCardChange now st newCard changes pending =
     (if as_changePolicy st = ''auto'' then (st\<lparr>as_card := Some newCard\<rparr>, pending)
      else if as_changePolicy st = ''alert'' then (st, pending)
      else if as_changePolicy st = ''approve'' then
        (st, pendingAdd \<lparr>pn_agentName = as_name st, pn_oldCard = as_card st, pn_newCard = newCard,
               pn_changes = changes, pn_detectedAt = now, pn_status = ''pending''\<rparr> pending)
      else (st, pending))"

text \<open>The update under the lock, with the result of \<open>fetchCard\<close>.\<close>

definition updateAgent ::
  "go_time \<Rightarrow> go_time \<Rightarrow> card_error + agent_card \<Rightarrow> agent_state \<Rightarrow> pending_store
     \<Rightarrow> agent_state \<times> pending_store" where
  "updateAgent now1 now2 fetched st0 pending =
     (let st = st0\<lparr>as_lastPolled := now1\<rparr> in
      case fetched of
        Inl e \<Rightarrow> (st\<lparr>as_healthy := False, as_lastError := Some e\<rparr>, pending)
      | Inr crd \<Rightarrow>
          (case as_card st of
             None \<Rightarrow> (st\<lparr>as_card := Some crd, as_healthy := True, as_lastError := None\<rparr>, pending)
           | Some old \<Rightarrow>
               (let changes = DetectChanges (Some old) (Some crd);
                    (st1, pending1) = (if length changes > 0
                       then handleCardChange now2 st crd changes pending else (st, pending)) in
                (st1\<lparr>as_healthy := True, as_lastError := None\<rparr>, pending1))))"

definition fetchAndUpdate :: "'k card_env \<Rightarrow> go_time \<Rightarrow> go_time \<Rightarrow> string \<Rightarrow> manager \<Rightarrow> manager" where
  "fetchAndUpdate env now1 now2 name m = (case map_of (mg_agents m) name of
      None \<Rightarrow> m
    | Some st \<Rightarrow>
        (case updateAgent now1 now2 (fetchCard env (mg_verifier m) st) st (mg_pending m) of
           (st', pending') \<Rightarrow>
             m\<lparr>mg_agents := map_put name st' (mg_agents m), mg_pending := pending'\<rparr>))"

section \<open>Queries and approvals (manager.go, aggregator.go)\<close>

definition GetCard :: "string \<Rightarrow> manager \<Rightarrow> agent_card option" where
  "GetCard name m = (case map_of (mg_agents m) name of None \<Rightarrow> None | Some st \<Rightarrow> as_card st)"

definition mgIsHealthy :: "manager \<Rightarrow> string \<Rightarrow> bool" where
  "mgIsHealthy m name = (case map_of (mg_agents m) name of None \<Rightarrow> False | Some st \<Rightarrow> as_healthy st)"

definition mgHealthyAgents :: "manager \<Rightarrow> string list" where
  "mgHealthyAgents m = map (\<lambda>(k, st). as_name st) (filter (\<lambda>(k, st). as_healthy st) (mg_agents m))"

definition toAgentStatus :: "agent_state \<Rightarrow> agent_status" where
  "toAgentStatus st = \<lparr>st_name = as_name st, st_url = as_url st, st_healthy = as_healthy st,
     st_skillCount = (case as_card st of None \<Rightarrow> 0 | Some c \<Rightarrow> length (card_skills c)),
     st_lastPolled = as_lastPolled st, st_lastError = as_lastError st\<rparr>"

definition GetAgentState :: "string \<Rightarrow> manager \<Rightarrow> agent_status option" where
  "GetAgentState name m = map_option toAgentStatus (map_of (mg_agents m) name)"

definition AllAgentStates :: "manager \<Rightarrow> agent_status list" where
  "AllAgentStates m = map (\<lambda>(k, st). toAgentStatus st) (mg_agents m)"

definition ApproveCardChange :: "string \<Rightarrow> manager \<Rightarrow> bool \<times> manager" where
  "ApproveCardChange name m = (case pendingApprove name (mg_pending m) of
      (None, _) \<Rightarrow> (False, m)
    | (Some change, pending) \<Rightarrow>
        (True, (case map_of (mg_agents m) name of
            None \<Rightarrow> m\<lparr>mg_pending := pending\<rparr>
          | Some st \<Rightarrow> m\<lparr>mg_pending := pending,
                mg_agents := map_put name (st\<lparr>as_card := Some (pn_newCard change)\<rparr>) (mg_agents m)\<rparr>)))"

definition RejectCardChange :: "string \<Rightarrow> manager \<Rightarrow> bool \<times> manager" where
  "RejectCardChange name m = (case pendingReject name (mg_pending m) of
      (ok, pending) \<Rightarrow> (ok, if ok then m\<lparr>mg_pending := pending\<rparr> else m))"

definition ListPendingChanges :: "manager \<Rightarrow> pending_change list" where
  "ListPendingChanges m = pendingList (mg_pending m)"

definition noCapabilities :: agent_capabilities where
  "noCapabilities = \<lparr>cap_streaming = False, cap_pushNotifications = False,
     cap_stateTransitionHistory = False\<rparr>"

definition addCapabilities :: "agent_capabilities \<Rightarrow> agent_capabilities option \<Rightarrow> agent_capabilities" where
  "addCapabilities c caps = (case caps of
      None \<Rightarrow> c
    | Some k \<Rightarrow> \<lparr>cap_streaming = cap_streaming c \<or> cap_streaming k,
                 cap_pushNotifications = cap_pushNotifications c \<or> cap_pushNotifications k,
                 cap_stateTransitionHistory = cap_stateTransitionHistory c \<or> cap_stateTransitionHistory k\<rparr>)"

fun aggregateLoop ::
  "(string, agent_state) gomap \<Rightarrow> agent_skill list \<times> agent_capabilities
     \<Rightarrow> agent_skill list \<times> agent_capabilities" where
  "aggregateLoop [] acc = acc"
| "aggregateLoop ((k, st) # rest) (skills, caps) =
     (case as_card st of
        None \<Rightarrow> aggregateLoop rest (skills, caps)
      | Some crd \<Rightarrow>
          if \<not> as_healthy st then aggregateLoop rest (skills, caps)
          else aggregateLoop rest (skills @ card_skills crd, addCapabilities caps (card_capabilities crd)))"

definition AggregateCards :: "(string, agent_state) gomap \<Rightarrow> string \<Rightarrow> agent_card" where
  "AggregateCards agents gatewayURL =
     (let (allSkills, caps) = aggregateLoop agents ([], noCapabilities) in
      \<lparr>card_name = ''a2a-sentinel-gateway'',
       card_description = ''Aggregated Agent Card from a2a-sentinel gateway'',
       card_url = gatewayURL, card_version = [], card_documentationURL = [], card_provider = None,
       card_capabilities = Some caps, card_securitySchemes = [], card_security = [],
       card_skills = allSkills, card_defaultInputModes = [], card_defaultOutputModes = [],
       card_interfaces = None, card_supportsExtendedCard = False\<rparr>)"

definition GetAggregatedCard :: "manager \<Rightarrow> agent_card" where
  "GetAggregatedCard m = AggregateCards (mg_agents m) []"

section \<open>The manager's invariant\<close>

definition manager_ok :: "manager \<Rightarrow> bool" where
  "manager_ok m \<longleftrightarrow> map_ok (mg_agents m) \<and> map_ok (mg_pending m)
     \<and> (\<forall>k st. map_of (mg_agents m) k = Some st \<longrightarrow> as_name st = k)
     \<and> (\<forall>k c. map_of (mg_pending m) k = Some c \<longrightarrow> pn_agentName c = k)"

text \<open>The configuration of an agent never changes.\<close>

definition agent_static where
  "agent_static st = (as_name st, as_url st, as_cardPath st, as_isDefault st, as_allowInsecure st,
     as_changePolicy st, as_maxStreams st)"

lemma updateAgent_static: "updateAgent t1 t2 f st p = (st', p') \<Longrightarrow> agent_static st' = agent_static st"
  by (auto simp: updateAgent_def handleCardChange_def agent_static_def Let_def
      split: sum.splits option.splits prod.splits if_splits)

lemma updateAgent_pending: "updateAgent t1 t2 f st p = (st', p') \<Longrightarrow> p' = p
    \<or> (\<exists>crd. f = Inr crd \<and> as_changePolicy st = ''approve'' \<and> p' = pendingAdd
         \<lparr>pn_agentName = as_name st, pn_oldCard = as_card st, pn_newCard = crd,
          pn_changes = DetectChanges (as_card st) (Some crd), pn_detectedAt = t2, pn_status = ''pending''\<rparr> p)"
  by (auto simp: updateAgent_def handleCardChange_def Let_def
      split: sum.splits option.splits prod.splits if_splits)

lemma updateAgent_card: "updateAgent t1 t2 f st p = (st', p') \<Longrightarrow> as_card st' = as_card st
    \<or> (\<exists>crd. f = Inr crd \<and> as_card st' = Some crd \<and> (as_card st = None \<or> as_changePolicy st = ''auto''))"
  by (auto simp: updateAgent_def handleCardChange_def Let_def
      split: sum.splits option.splits prod.splits if_splits)

lemma manager_ok_fetch: "manager_ok m \<Longrightarrow> manager_ok (fetchAndUpdate env t1 t2 n m)"
proof (cases "map_of (mg_agents m) n")
  case None
  then show "manager_ok m \<Longrightarrow> ?thesis" by (simp add: fetchAndUpdate_def)
next
  case (Some st)
  obtain st' p' where u: "updateAgent t1 t2 (fetchCard env (mg_verifier m) st) st (mg_pending m) = (st', p')"
    by force
  assume ok: "manager_ok m"
  from updateAgent_static[OF u] ok Some have "as_name st' = n"
    by (auto simp: agent_static_def manager_ok_def)
  moreover from updateAgent_pending[OF u] ok have
    "map_ok p' \<and> (\<forall>k c. map_of p' k = Some c \<longrightarrow> pn_agentName c = k)"
    by (auto simp: manager_ok_def pendingAdd_def split: if_splits)
  ultimately show ?thesis using ok by (auto simp: manager_ok_def fetchAndUpdate_def Some u)
qed

lemma manager_ok_approve:
  assumes "manager_ok m"
  shows "manager_ok (snd (ApproveCardChange n m))"
proof (cases "map_of (mg_pending m) n")
  case None
  with assms show ?thesis by (simp add: ApproveCardChange_def pendingApprove_def)
next
  case (Some c)
  show ?thesis
  proof (cases "map_of (mg_agents m) n")
    case None
    with Some assms show ?thesis by (auto simp: manager_ok_def ApproveCardChange_def pendingApprove_def)
  next
    case (Some st)
    from assms Some have "as_name st = n" by (simp add: manager_ok_def)
    with Some \<open>map_of (mg_pending m) n = Some c\<close> assms show ?thesis
      by (simp add: manager_ok_def ApproveCardChange_def pendingApprove_def)
  qed
qed

lemma manager_ok_reject:
  assumes "manager_ok m"
  shows "manager_ok (snd (RejectCardChange n m))"
  using assms
  by (cases "map_of (mg_pending m) n")
    (auto simp: manager_ok_def RejectCardChange_def pendingReject_def)

lemma newAgentState_name [simp]: "as_name (newAgentState a) = ag_name a"
  by (simp add: newAgentState_def)

definition fresh_agents :: "(string, agent_state) gomap \<Rightarrow> bool" where
  "fresh_agents ms \<longleftrightarrow> map_ok ms \<and> (\<forall>k st. map_of ms k = Some st \<longrightarrow> as_name st = k \<and> as_card st = None)"

lemma newAgentState_card [simp]: "as_card (newAgentState a) = None"
  by (simp add: newAgentState_def)

lemma fresh_agents_put: "fresh_agents ms \<Longrightarrow> fresh_agents (map_put (ag_name a) (newAgentState a) ms)"
  by (auto simp: fresh_agents_def split: if_splits)

lemma fresh_agents_empty [simp]: "fresh_agents []"
  by (simp add: fresh_agents_def)

lemma fresh_agents_fold:
  "fresh_agents ms \<Longrightarrow> fresh_agents (fold (\<lambda>a. map_put (ag_name a) (newAgentState a)) as ms)"
proof (induction as arbitrary: ms)
  case (Cons a as)
  from Cons.IH[OF fresh_agents_put[OF Cons.prems]] show ?case by simp
qed simp

lemma fresh_agents_new: "fresh_agents (mg_agents (NewManager as cfg))"
  unfolding NewManager_def manager.simps by (rule fresh_agents_fold) simp

lemma manager_ok_new: "manager_ok (NewManager as cfg)"
using fresh_agents_new[of as cfg]
  by (simp add: manager_ok_def fresh_agents_def NewManager_def NewPendingStore_def)

section \<open>Runs of the manager\<close>

text \<open>
  The operations that change the manager, in any order: a poll of an agent, with what the network
  answers then, an approval and a rejection.
\<close>

datatype 'k card_op = Poll "'k card_env" go_time go_time string | ApproveOp string | RejectOp string

fun cardStep :: "'k card_op \<Rightarrow> manager \<Rightarrow> manager" where
  "cardStep (Poll env t1 t2 n) m = fetchAndUpdate env t1 t2 n m"
| "cardStep (ApproveOp n) m = snd (ApproveCardChange n m)"
| "cardStep (RejectOp n) m = snd (RejectCardChange n m)"

definition cardRun :: "'k card_op list \<Rightarrow> manager \<Rightarrow> manager" where
  "cardRun ops m = fold cardStep ops m"

lemma cardStep_ok: "manager_ok m \<Longrightarrow> manager_ok (cardStep x m)"
  by (cases x) (auto intro: manager_ok_fetch manager_ok_approve manager_ok_reject)

lemma cardRun_ok: "manager_ok m \<Longrightarrow> manager_ok (cardRun ops m)"
  unfolding cardRun_def by (induction ops arbitrary: m) (auto intro: cardStep_ok)

lemma cardStep_agent:
  assumes "map_of (mg_agents m) n = Some st"
  shows "\<exists>st'. map_of (mg_agents (cardStep x m)) n = Some st' \<and> agent_static st' = agent_static st
    \<and> (as_card st \<noteq> None \<longrightarrow> as_changePolicy st \<noteq> ''auto'' \<longrightarrow> x \<noteq> ApproveOp n \<longrightarrow> as_card st' = as_card st)"
proof (cases x)
  case (Poll env t1 t2 k)
  show ?thesis
  proof (cases "k = n")
    case True
    obtain st' p' where u: "updateAgent t1 t2 (fetchCard env (mg_verifier m) st) st (mg_pending m) = (st', p')"
      by force
    with Poll True assms updateAgent_static[OF u] updateAgent_card[OF u] show ?thesis
      by (intro exI[of _ st']) (auto simp: fetchAndUpdate_def)
  next
    case False
    with Poll assms show ?thesis
      by (intro exI[of _ st]) (auto simp: fetchAndUpdate_def split: option.splits prod.splits)
  qed
next
  case (ApproveOp k)
  with assms show ?thesis
    by (auto simp: ApproveCardChange_def pendingApprove_def agent_static_def split: option.splits)
next
  case (RejectOp k)
  with assms show ?thesis
    by (auto simp: RejectCardChange_def pendingReject_def split: option.splits)
qed

lemma cardRun_card:
  assumes "map_of (mg_agents m) n = Some st" and "as_card st = Some c" and "as_changePolicy st \<noteq> ''auto''"
    and "ApproveOp n \<notin> set ops"
  shows "\<exists>st'. map_of (mg_agents (cardRun ops m)) n = Some st' \<and> as_card st' = Some c"
  using assms
proof (induction ops arbitrary: m st)
  case Nil
  then show ?case by (simp add: cardRun_def)
next
  case (Cons x ops)
  from cardStep_agent[OF Cons.prems(1), of x] Cons.prems obtain st' where
    st': "map_of (mg_agents (cardStep x m)) n = Some st'" "agent_static st' = agent_static st"
      "as_card st' = Some c" by auto
  then have "as_changePolicy st' \<noteq> ''auto''" using Cons.prems(3) by (simp add: agent_static_def)
  from Cons.IH[OF st'(1,3) this] Cons.prems(4) show ?case by (simp add: cardRun_def)
qed

section \<open>Accepted cards\<close>

lemma fetchCard_ok:
  assumes "fetchCard env v st = Inr crd"
  obtains body payload where "ce_parse env payload = Some crd"
    and "as_allowInsecure st \<or> \<not> hasPrefix (buildCardURL (as_url st) (as_cardPath st)) ''http://''"
    and "length body \<le> maxCardBodySize"
    and "\<exists>b. ce_get env (buildCardURL (as_url st) (as_cardPath st)) = Some (200, b) \<and> body = take maxCardBodySize (st_bytes b)"
    and "IsConfigured v \<Longrightarrow> RequireSignature v \<Longrightarrow> VerifyCardSignature (ce_jws env) v body = Inr payload"
    and "\<not> IsConfigured v \<Longrightarrow> payload = body"
  using assms
  by (auto simp: fetchCard_def readLimited_def Let_def
      split: if_splits option.splits prod.splits sum.splits)

lemma aggregateLoop_eq: "aggregateLoop agents (sk, caps) =
    (let live = filter (\<lambda>c. c \<noteq> None) (map (\<lambda>(k, st). if as_healthy st then as_card st else None) agents) in
     (sk @ concat (map (\<lambda>c. card_skills (the c)) live),
      fold (\<lambda>c acc. addCapabilities acc (card_capabilities (the c))) live caps))"
  by (induction agents "(sk, caps)" arbitrary: sk caps rule: aggregateLoop.induct)
    (auto simp: Let_def split: option.splits)

text \<open>\<open>Start\<close> prepares the key cache; the polling goroutines it launches are the \<open>Poll\<close> steps.\<close>

definition mgStart :: "(string \<Rightarrow> bool) \<Rightarrow> manager \<Rightarrow> string option \<times> manager" where
  "mgStart registered m = (case StartCache registered (mg_verifier m) of
      (Some u, _) \<Rightarrow> (Some u, m)
    | (None, v) \<Rightarrow> (None, m\<lparr>mg_verifier := v\<rparr>))"

text \<open>
  A card is genuine for the trusted URLs \<open>urls\<close> when one of the environments polled gave a body that
  verifies under the key set of one of them, and the card is what the verified payload decodes to.
\<close>

definition genuine :: "'k card_env set \<Rightarrow> string list \<Rightarrow> agent_card \<Rightarrow> bool" where
  "genuine E urls c \<longleftrightarrow> (\<exists>env\<in>E. \<exists>url\<in>set urls. \<exists>ks body payload.
     jl_keys (ce_jws env) url = Some ks \<and> jl_verify (ce_jws env) body ks = Some payload
     \<and> ce_parse env payload = Some c)"

definition polled :: "'k card_op list \<Rightarrow> 'k card_env set" where
  "polled ops = {env. \<exists>t1 t2 n. Poll env t1 t2 n \<in> set ops}"

definition all_genuine :: "'k card_env set \<Rightarrow> manager \<Rightarrow> bool" where
  "all_genuine E m \<longleftrightarrow>
     (\<forall>k st c. map_of (mg_agents m) k = Some st \<longrightarrow> as_card st = Some c
        \<longrightarrow> genuine E (jv_trustedURLs (mg_verifier m)) c)
     \<and> (\<forall>k p. map_of (mg_pending m) k = Some p \<longrightarrow> genuine E (jv_trustedURLs (mg_verifier m)) (pn_newCard p))"

lemma fetchCard_genuine:
  assumes "fetchCard env v st = Inr c" and "IsConfigured v" and "RequireSignature v" and "env \<in> E"
  shows "genuine E (jv_trustedURLs v) c"
proof -
  from assms(1) obtain body payload where "ce_parse env payload = Some c"
    and "VerifyCardSignature (ce_jws env) v body = Inr payload"
    by (rule fetchCard_ok) (use assms in blast)
  with VerifyCardSignature_ok[of "ce_jws env" v body payload] assms show ?thesis
    unfolding genuine_def RequireSignature_def by blast
qed

lemma fetchAndUpdate_verifier [simp]: "mg_verifier (fetchAndUpdate env t1 t2 n m) = mg_verifier m"
  by (simp add: fetchAndUpdate_def split: option.splits prod.splits)

lemma cardStep_verifier [simp]: "mg_verifier (cardStep x m) = mg_verifier m"
  by (cases x) (auto simp: ApproveCardChange_def RejectCardChange_def split: option.splits prod.splits)

lemma all_genuine_poll:
  assumes "all_genuine E m" and "env \<in> E" and "IsConfigured (mg_verifier m)" "RequireSignature (mg_verifier m)"
  shows "all_genuine E (fetchAndUpdate env t1 t2 n m)"
proof (cases "map_of (mg_agents m) n")
  case None
  with assms show ?thesis by (simp add: fetchAndUpdate_def)
next
  case (Some st)
  let ?f = "fetchCard env (mg_verifier m) st"
  obtain st' p' where u: "updateAgent t1 t2 ?f st (mg_pending m) = (st', p')" by force
  have new: "genuine E (jv_trustedURLs (mg_verifier m)) c" if "?f = Inr c" for c
    using fetchCard_genuine[OF that assms(3,4,2)] .
  have "as_card st' = Some c \<Longrightarrow> genuine E (jv_trustedURLs (mg_verifier m)) c" for c
    using updateAgent_card[OF u] new assms(1) Some by (auto simp: all_genuine_def)
  moreover have "map_of p' k = Some q \<Longrightarrow> genuine E (jv_trustedURLs (mg_verifier m)) (pn_newCard q)" for k q
    using updateAgent_pending[OF u] new assms(1)
    by (auto simp: all_genuine_def pendingAdd_def split: if_splits)
  ultimately show ?thesis using assms(1) by (auto simp: all_genuine_def fetchAndUpdate_def Some u)
qed

lemma all_genuine_step:
  assumes "all_genuine E m" and "polled [x] \<subseteq> E" and "IsConfigured (mg_verifier m)" "RequireSignature (mg_verifier m)"
  shows "all_genuine E (cardStep x m)"
proof (cases x)
  case (Poll env t1 t2 n)
  with assms show ?thesis by (auto simp: polled_def intro: all_genuine_poll)
next
  case (ApproveOp n)
  with assms(1) show ?thesis
    by (auto simp: all_genuine_def ApproveCardChange_def pendingApprove_def split: option.splits if_splits)
next
  case (RejectOp n)
  with assms(1) show ?thesis
    by (auto simp: all_genuine_def RejectCardChange_def pendingReject_def split: option.splits if_splits)
qed

lemma polled_Cons: "polled (x # ops) = polled [x] \<union> polled ops"
  by (auto simp: polled_def)

lemma all_genuine_run:
  assumes "all_genuine E m" and "polled ops \<subseteq> E" and "IsConfigured (mg_verifier m)" "RequireSignature (mg_verifier m)"
  shows "all_genuine E (cardRun ops m)"
  using assms
proof (induction ops arbitrary: m)
  case Nil
  then show ?case by (simp add: cardRun_def)
next
  case (Cons x ops)
  then have "polled [x] \<subseteq> E" "polled ops \<subseteq> E" by (auto simp: polled_Cons[of x ops])
  with Cons.prems have "all_genuine E (cardStep x m)" by (blast intro: all_genuine_step)
  with Cons.IH[of "cardStep x m"] Cons.prems \<open>polled ops \<subseteq> E\<close> show ?case by (simp add: cardRun_def)
qed

section \<open>Properties\<close>

text \<open>C12: When signatures are required and trusted key sets are configured, every card the manager serves,
  after any sequence of polls, approvals and rejections, is the decoding of a payload that the JWS
  library verified under the key set of a trusted URL.\<close>

theorem served_cards_verified:
  assumes "cs_require cfg" and "elems (cs_trustedJWKSURLs cfg) \<noteq> []"
    and "mgStart registered (NewManager agents cfg) = (None, m)"
    and "GetCard n (cardRun ops m) = Some c"
  shows "genuine (polled ops) (elems (cs_trustedJWKSURLs cfg)) c"
proof -
  let ?m = "NewManager agents cfg"
  from assms(3) have m: "mg_agents m = mg_agents ?m" "mg_pending m = mg_pending ?m"
    "jv_trustedURLs (mg_verifier m) = elems (cs_trustedJWKSURLs cfg)" "jv_require (mg_verifier m) = cs_require cfg"
    by (auto simp: mgStart_def StartCache_def NewManager_def NewJWSVerifier_def split: option.splits if_splits)
  have "all_genuine (polled ops) m"
    using fresh_agents_new[of agents cfg] m
    by (auto simp: all_genuine_def fresh_agents_def NewManager_def NewPendingStore_def)
  then have "all_genuine (polled ops) (cardRun ops m)"
    by (rule all_genuine_run) (use assms m in \<open>auto simp: IsConfigured_def RequireSignature_def\<close>)
  moreover have "mg_verifier (cardRun ops m) = mg_verifier m"
    unfolding cardRun_def by (induction ops arbitrary: m) auto
  ultimately show ?thesis using assms(4) m
    by (auto simp: all_genuine_def GetCard_def split: option.splits)
qed

text \<open>Requiring signatures without configuring a trusted URL requires nothing: any body of a successful
  answer that decodes to a card is accepted, signed or not.\<close>

theorem required_signature_without_keys:
  assumes "elems (cs_trustedJWKSURLs cfg) = []"
    and "ce_get env (buildCardURL (as_url st) (as_cardPath st)) = Some (200, body)" and "\<not> st_fails body"
    and "as_allowInsecure st \<or> \<not> hasPrefix (buildCardURL (as_url st) (as_cardPath st)) ''http://''"
    and "ce_parse env (take maxCardBodySize (st_bytes body)) = Some c"
  shows "fetchCard env (NewJWSVerifier cfg) st = Inr c"
  using assms
  by (auto simp: fetchCard_def readLimited_def Let_def IsConfigured_def NewJWSVerifier_def)

text \<open>C13: An agent whose policy is not \<open>auto\<close> keeps serving its card, whatever is polled, until a change
  of it is approved, and the approval serves the card that was pending.\<close>

theorem card_kept_until_approved:
  assumes "map_of (mg_agents m) n = Some st" and "as_card st = Some c" and "as_changePolicy st \<noteq> ''auto''"
    and "ApproveOp n \<notin> set ops"
  shows "GetCard n (cardRun ops m) = Some c
    \<and> GetCard n (cardStep (ApproveOp n) (cardRun ops m)) =
        (case pendingGet n (mg_pending (cardRun ops m)) of None \<Rightarrow> Some c | Some p \<Rightarrow> Some (pn_newCard p))"
proof -
  from cardRun_card[OF assms] obtain st' where
    "map_of (mg_agents (cardRun ops m)) n = Some st'" "as_card st' = Some c" by blast
  then show ?thesis
    by (auto simp: GetCard_def ApproveCardChange_def pendingApprove_def pendingGet_def split: option.splits)
qed

section \<open>Witnesses\<close>

definition sampleCard :: "string \<Rightarrow> agent_card" where
  "sampleCard name = \<lparr>card_name = name, card_description = [], card_url = ''https://agent.test'',
     card_version = ''1'', card_documentationURL = [], card_provider = None, card_capabilities = None,
     card_securitySchemes = [], card_security = [], card_skills = [], card_defaultInputModes = [],
     card_defaultOutputModes = [], card_interfaces = None, card_supportsExtendedCard = False\<rparr>"

text \<open>A world where \<open>S\<close> marks a signed body, its payload the rest, and a body is the name of a card.\<close>

definition sampleCardEnv :: "string \<Rightarrow> unit card_env" where
  "sampleCardEnv body = \<lparr>ce_get = (\<lambda>_. Some (200, \<lparr>st_bytes = body, st_fails = False\<rparr>)),
     ce_jws = \<lparr>jl_isJWS = (\<lambda>b. hasPrefix b ''S''), jl_keys = (\<lambda>_. Some ()),
               jl_verify = (\<lambda>b _. if hasPrefix b ''S'' then Some (drop 1 b) else None)\<rparr>,
     ce_parse = (\<lambda>b. if b = [] then None else Some (sampleCard b))\<rparr>"

definition sampleSig :: "string list \<Rightarrow> card_signature_config" where
  "sampleSig urls = \<lparr>cs_require = True, cs_trustedJWKSURLs = Some urls, cs_cacheTTL = 0\<rparr>"

definition sampleAgents :: "agent_config list" where
  "sampleAgents = [(zeroAgent ''echo'' ''https://agent.test'')\<lparr>ag_cardPath := ''/card'', ag_cardChangePolicy := ''approve''\<rparr>]"

definition startedManager :: manager where
  "startedManager = snd (mgStart (\<lambda>_. True) (NewManager sampleAgents (sampleSig [''https://keys.test''])))"

lemma sampleSig_facts: "cs_require (sampleSig us)" "elems (cs_trustedJWKSURLs (sampleSig us)) = us"
  by (auto simp: sampleSig_def elems_def)

lemma startedManager_eq:
  "mgStart (\<lambda>_. True) (NewManager sampleAgents (sampleSig [''https://keys.test''])) = (None, startedManager)"
  by code_simp

lemma startedManager_serves:
  "GetCard ''echo'' (cardRun [Poll (sampleCardEnv ''Sone'') 1 2 ''echo'', Poll (sampleCardEnv ''two'') 3 4 ''echo'']
     startedManager) = Some (sampleCard ''one'')"
  by code_simp

theorem served_cards_verified_witness:
  "genuine (polled [Poll (sampleCardEnv ''Sone'') 1 2 ''echo'', Poll (sampleCardEnv ''two'') 3 4 ''echo''])
     [''https://keys.test''] (sampleCard ''one'')"
  using served_cards_verified[OF _ _ startedManager_eq startedManager_serves] by (simp add: sampleSig_facts)

theorem required_signature_without_keys_witness:
  "fetchCard (sampleCardEnv ''plain'') (NewJWSVerifier (sampleSig []))
     (newAgentState (zeroAgent ''echo'' ''https://agent.test'')) = Inr (sampleCard ''plain'')"
proof (rule required_signature_without_keys)
  let ?url = "buildCardURL (as_url (newAgentState (zeroAgent ''echo'' ''https://agent.test'')))
    (as_cardPath (newAgentState (zeroAgent ''echo'' ''https://agent.test'')))"
  show "elems (cs_trustedJWKSURLs (sampleSig [])) = []" by (simp add: sampleSig_facts)
  show "ce_get (sampleCardEnv ''plain'') ?url = Some (200, \<lparr>st_bytes = ''plain'', st_fails = False\<rparr>)"
    by code_simp
  show "as_allowInsecure (newAgentState (zeroAgent ''echo'' ''https://agent.test'')) \<or> \<not> hasPrefix ?url ''http://''"
    by code_simp
  have "maxCardBodySize \<ge> 5" by (simp add: maxCardBodySize_def)
  then show "ce_parse (sampleCardEnv ''plain'') (take maxCardBodySize (st_bytes \<lparr>st_bytes = ''plain'', st_fails = False\<rparr>))
      = Some (sampleCard ''plain'')"
    by (simp add: sampleCardEnv_def)
qed simp

text \<open>The served card \<open>one\<close> survives the poll that finds \<open>longer\<close>, which waits for the approval.\<close>

definition servingManager :: manager where
  "servingManager = cardRun [Poll (sampleCardEnv ''Sone'') 1 2 ''echo''] startedManager"

lemma servingManager_facts:
  "map_option as_card (map_of (mg_agents servingManager) ''echo'') = Some (Some (sampleCard ''one''))"
  "map_option as_changePolicy (map_of (mg_agents servingManager) ''echo'') = Some ''approve''"
  "map_option pn_newCard (pendingGet ''echo'' (mg_pending
     (cardRun [Poll (sampleCardEnv ''Slonger'') 3 4 ''echo''] servingManager))) = Some (sampleCard ''longer'')"
  by code_simp+

theorem card_kept_until_approved_witness:
  "GetCard ''echo'' (cardRun [Poll (sampleCardEnv ''Slonger'') 3 4 ''echo''] servingManager) = Some (sampleCard ''one'')
   \<and> GetCard ''echo'' (cardStep (ApproveOp ''echo'')
       (cardRun [Poll (sampleCardEnv ''Slonger'') 3 4 ''echo''] servingManager)) = Some (sampleCard ''longer'')"
proof -
  obtain st where st: "map_of (mg_agents servingManager) ''echo'' = Some st" "as_card st = Some (sampleCard ''one'')"
    "as_changePolicy st = ''approve''"
    using servingManager_facts(1,2) by (cases "map_of (mg_agents servingManager) ''echo''") auto
  from servingManager_facts(3) obtain p where p: "pendingGet ''echo'' (mg_pending
     (cardRun [Poll (sampleCardEnv ''Slonger'') 3 4 ''echo''] servingManager)) = Some p"
    "pn_newCard p = sampleCard ''longer''" by blast
  have "as_changePolicy st \<noteq> ''auto''" using st(3) by simp
  from card_kept_until_approved[OF st(1,2) this, of "[Poll (sampleCardEnv ''Slonger'') 3 4 ''echo'']"] p
  show ?thesis by simp
qed

end
