(* ===== verification/Router.thy ===== *)
theory Router
  imports Card_Manager Http_Model
begin

text \<open>
  Routing (\<open>internal/router\<close>): the interface \<open>AgentLookup\<close>, the two modes and the path prefix, and
  the adapter of \<open>internal/server/server.go\<close> that answers the interface from the card manager and the
  configured agents. The locale \<open>agent_lookup\<close> states what routing relies on.
\<close>

section \<open>The interface\<close>

text \<open>The answers of an \<open>AgentLookup\<close> at one moment.\<close>

record lookup =
  lk_isHealthy :: "string \<Rightarrow> bool"
  lk_healthyAgents :: "string list"
  lk_agentURL :: "string \<Rightarrow> string option"
  lk_defaultAgent :: "(string \<times> string) option"

record route_target =
  tg_agentName :: string
  tg_agentURL :: string
  tg_path :: string
  tg_isDefault :: bool

record router =
  ro_mode :: string
  ro_lookup :: lookup

definition NewRouter :: "string \<Rightarrow> lookup \<Rightarrow> router" where
  "NewRouter mode lk = \<lparr>ro_mode = mode, ro_lookup = lk\<rparr>"

section \<open>Routing (router.go, strategy.go)\<close>

definition pathPrefixAgentName :: "string \<Rightarrow> string \<times> string" where
  "pathPrefixAgentName path0 =
     (let path = (if hasPrefix path0 ''/'' then path0 else CHR ''/'' # path0) in
      if \<not> hasPrefix path ''/agents/'' then ([], path)
      else (let rest = drop (length ''/agents/'') path in
        case indexByte rest (CHR ''/'') of
          None \<Rightarrow> (rest, ''/'')
        | Some i \<Rightarrow> (take i rest, drop i rest)))"

definition routeSingle :: "router \<Rightarrow> request \<Rightarrow> sentinel_error + route_target" where
  "routeSingle ro req = (case lk_healthyAgents (ro_lookup ro) of
      [] \<Rightarrow> Inl ErrAgentUnavailable
    | name # _ \<Rightarrow> (case lk_agentURL (ro_lookup ro) name of
        None \<Rightarrow> Inl ErrAgentUnavailable
      | Some url \<Rightarrow> Inr \<lparr>tg_agentName = name, tg_agentURL = url, tg_path = rq_path req,
                         tg_isDefault = False\<rparr>))"

definition routeDefault :: "router \<Rightarrow> string \<Rightarrow> sentinel_error + route_target" where
  "routeDefault ro originalPath = (case lk_defaultAgent (ro_lookup ro) of
      None \<Rightarrow> Inl ErrNoRoute
    | Some (name, url) \<Rightarrow>
        if \<not> lk_isHealthy (ro_lookup ro) name then Inl ErrAgentUnavailable
        else Inr \<lparr>tg_agentName = name, tg_agentURL = url, tg_path = originalPath, tg_isDefault = True\<rparr>)"

definition routePathPrefix :: "router \<Rightarrow> request \<Rightarrow> sentinel_error + route_target" where
  "routePathPrefix ro req =
     (let (agentName, remaining) = pathPrefixAgentName (rq_path req);
          direct = (if agentName \<noteq> [] then
              (case lk_agentURL (ro_lookup ro) agentName of
                 Some url \<Rightarrow> if lk_isHealthy (ro_lookup ro) agentName
                   then Some \<lparr>tg_agentName = agentName, tg_agentURL = url, tg_path = remaining,
                              tg_isDefault = False\<rparr>
                   else None
               | None \<Rightarrow> None)
            else None) in
      case direct of Some t \<Rightarrow> Inr t | None \<Rightarrow> routeDefault ro (rq_path req))"

definition Route :: "router \<Rightarrow> request \<Rightarrow> sentinel_error + route_target" where
  "Route ro req =
     (if ro_mode ro = ''single'' then routeSingle ro req
      else if ro_mode ro = ''path-prefix'' then routePathPrefix ro req
      else Inl ErrNoRoute)"

lemma routeDefault_Inr: "routeDefault ro p = Inr t \<longleftrightarrow> (\<exists>n u. lk_defaultAgent (ro_lookup ro) = Some (n, u)
    \<and> lk_isHealthy (ro_lookup ro) n
    \<and> t = \<lparr>tg_agentName = n, tg_agentURL = u, tg_path = p, tg_isDefault = True\<rparr>)"
  by (auto simp: routeDefault_def split: option.splits)

text \<open>The three ways a request is routed.\<close>

lemma Route_cases:
  assumes "Route ro req = Inr t"
    and "\<And>n ns u. ro_mode ro = ''single'' \<Longrightarrow> lk_healthyAgents (ro_lookup ro) = n # ns
      \<Longrightarrow> lk_agentURL (ro_lookup ro) n = Some u
      \<Longrightarrow> P \<lparr>tg_agentName = n, tg_agentURL = u, tg_path = rq_path req, tg_isDefault = False\<rparr>"
    and "\<And>n rest u. ro_mode ro = ''path-prefix'' \<Longrightarrow> pathPrefixAgentName (rq_path req) = (n, rest) \<Longrightarrow> n \<noteq> []
      \<Longrightarrow> lk_agentURL (ro_lookup ro) n = Some u \<Longrightarrow> lk_isHealthy (ro_lookup ro) n
      \<Longrightarrow> P \<lparr>tg_agentName = n, tg_agentURL = u, tg_path = rest, tg_isDefault = False\<rparr>"
    and "\<And>n u. ro_mode ro = ''path-prefix'' \<Longrightarrow> lk_defaultAgent (ro_lookup ro) = Some (n, u)
      \<Longrightarrow> lk_isHealthy (ro_lookup ro) n
      \<Longrightarrow> P \<lparr>tg_agentName = n, tg_agentURL = u, tg_path = rq_path req, tg_isDefault = True\<rparr>"
  shows "P t"
proof (cases "ro_mode ro = ''single''")
  case True
  with assms(1) have "routeSingle ro req = Inr t" by (simp add: Route_def)
  with True assms(2) show ?thesis by (auto simp: routeSingle_def split: list.splits option.splits)
next
  case False
  with assms(1) have m: "ro_mode ro = ''path-prefix''" and r: "routePathPrefix ro req = Inr t"
    by (simp_all add: Route_def split: if_splits)
  obtain n rest where p: "pathPrefixAgentName (rq_path req) = (n, rest)" by force
  show ?thesis
  proof (cases "n \<noteq> [] \<and> lk_agentURL (ro_lookup ro) n \<noteq> None \<and> lk_isHealthy (ro_lookup ro) n")
    case True
    with r p have "t = \<lparr>tg_agentName = n, tg_agentURL = the (lk_agentURL (ro_lookup ro) n), tg_path = rest,
        tg_isDefault = False\<rparr>" by (auto simp: routePathPrefix_def)
    with True assms(3)[OF m p] show ?thesis by auto
  next
    case False
    with r p have "routeDefault ro (rq_path req) = Inr t"
      by (auto simp: routePathPrefix_def split: option.splits if_splits)
    with assms(4)[OF m] show ?thesis by (auto simp: routeDefault_Inr)
  qed
qed

section \<open>The path prefix\<close>

lemma indexByte_None: "indexByte s c = None \<longleftrightarrow> c \<notin> set s"
  by (induction s c rule: indexByte.induct) auto

lemma indexByte_append: "c \<notin> set xs \<Longrightarrow> indexByte (xs @ c # ys) c = Some (length xs)"
  by (induction xs) auto

lemma indexByte_Some: "indexByte s c = Some i \<Longrightarrow> \<exists>xs ys. s = xs @ c # ys \<and> c \<notin> set xs \<and> i = length xs"
proof (induction s c arbitrary: i rule: indexByte.induct)
  case (2 x s c)
  show ?case
  proof (cases "x = c")
    case True
    with 2 show ?thesis by (intro exI[of _ "[]"] exI[of _ s]) auto
  next
    case False
    with 2 obtain xs ys where "s = xs @ c # ys" "c \<notin> set xs" "i = Suc (length xs)" by auto
    with False show ?thesis by (intro exI[of _ "x # xs"] exI[of _ ys]) auto
  qed
qed simp

lemma pathPrefix_agent:
  assumes "CHR ''/'' \<notin> set name"
  shows "pathPrefixAgentName (''/agents/'' @ name @ CHR ''/'' # rest) = (name, CHR ''/'' # rest)"
    and "pathPrefixAgentName (''/agents/'' @ name) = (name, ''/'')"
  using assms
  by (auto simp: pathPrefixAgentName_def hasPrefix_iff Let_def indexByte_append indexByte_None[THEN iffD2])

text \<open>Conversely, the name and the rest make up the path.\<close>

lemma pathPrefix_split:
  assumes "pathPrefixAgentName path = (name, rest)" and "name \<noteq> []" and "hasPrefix path ''/''"
  shows "CHR ''/'' \<notin> set name \<and> (path = ''/agents/'' @ name @ rest \<or> path = ''/agents/'' @ name \<and> rest = ''/'')
    \<and> (\<exists>r. rest = CHR ''/'' # r)"
proof -
  from assms have pre: "hasPrefix path ''/agents/''"
    by (auto simp: pathPrefixAgentName_def Let_def split: if_splits)
  then obtain q where q: "path = ''/agents/'' @ q" by (auto simp: hasPrefix_iff)
  show ?thesis
  proof (cases "indexByte q (CHR ''/'')")
    case None
    with assms q have "name = q" "rest = ''/''"
      by (auto simp: pathPrefixAgentName_def Let_def hasPrefix_iff)
    with None q show ?thesis by (simp add: indexByte_None)
  next
    case (Some i)
    from indexByte_Some[OF this] obtain xs ys where x: "q = xs @ CHR ''/'' # ys" "CHR ''/'' \<notin> set xs" "i = length xs"
      by blast
    from pathPrefix_agent(1)[OF x(2), of ys] assms(1) q x(1) have "name = xs" "rest = CHR ''/'' # ys" by auto
    with q x show ?thesis by simp
  qed
qed

section \<open>The contract of a lookup\<close>

text \<open>
  What routing relies on: the listed healthy agents are the healthy ones, a healthy agent and the
  default agent are known with their URL. \<open>wf\<close> is the invariant of the state behind the lookup.
\<close>

locale agent_lookup =
  fixes view :: "'s \<Rightarrow> lookup" and wf :: "'s \<Rightarrow> bool"
  assumes healthy_listed: "wf s \<Longrightarrow> n \<in> set (lk_healthyAgents (view s)) \<longleftrightarrow> lk_isHealthy (view s) n"
    and healthy_known: "wf s \<Longrightarrow> lk_isHealthy (view s) n \<Longrightarrow> lk_agentURL (view s) n \<noteq> None"
    and default_known: "wf s \<Longrightarrow> lk_defaultAgent (view s) = Some (n, u) \<Longrightarrow> lk_agentURL (view s) n = Some u"
begin

lemma routed_to_healthy:
  assumes "wf s" and "Route (NewRouter mode (view s)) req = Inr t"
  shows "lk_isHealthy (view s) (tg_agentName t) \<and> lk_agentURL (view s) (tg_agentName t) = Some (tg_agentURL t)"
proof (rule Route_cases[OF assms(2),
      of "\<lambda>t. lk_isHealthy (view s) (tg_agentName t) \<and> lk_agentURL (view s) (tg_agentName t) = Some (tg_agentURL t)"])
  fix n ns u
  assume u: "lk_agentURL (ro_lookup (NewRouter mode (view s))) n = Some u"
  assume "lk_healthyAgents (ro_lookup (NewRouter mode (view s))) = n # ns"
  with healthy_listed[OF assms(1), of n] u
  show "lk_isHealthy (view s) (tg_agentName \<lparr>tg_agentName = n, tg_agentURL = u, tg_path = rq_path req, tg_isDefault = False\<rparr>)
    \<and> lk_agentURL (view s) (tg_agentName \<lparr>tg_agentName = n, tg_agentURL = u, tg_path = rq_path req, tg_isDefault = False\<rparr>)
      = Some (tg_agentURL \<lparr>tg_agentName = n, tg_agentURL = u, tg_path = rq_path req, tg_isDefault = False\<rparr>)"
    by (simp add: NewRouter_def)
qed (use default_known[OF assms(1)] in \<open>auto simp: NewRouter_def\<close>)

lemma single_error:
  assumes "wf s"
  shows "Route (NewRouter ''single'' (view s)) req = Inl e
    \<longleftrightarrow> e = ErrAgentUnavailable \<and> (\<forall>n. \<not> lk_isHealthy (view s) n)"
proof (cases "lk_healthyAgents (view s)")
  case Nil
  with healthy_listed[OF assms] show ?thesis by (auto simp: Route_def NewRouter_def routeSingle_def)
next
  case (Cons n ns)
  with healthy_listed[OF assms, of n] have "lk_isHealthy (view s) n" by simp
  with healthy_known[OF assms this] Cons show ?thesis
    by (auto simp: Route_def NewRouter_def routeSingle_def)
qed

lemma prefix_error:
  assumes "wf s" and "\<not> lk_isHealthy (view s) (fst (pathPrefixAgentName (rq_path req)))"
  shows "Route (NewRouter ''path-prefix'' (view s)) req =
     (case lk_defaultAgent (view s) of None \<Rightarrow> Inl ErrNoRoute
        | Some (n, u) \<Rightarrow> if lk_isHealthy (view s) n
            then Inr \<lparr>tg_agentName = n, tg_agentURL = u, tg_path = rq_path req, tg_isDefault = True\<rparr>
            else Inl ErrAgentUnavailable)"
proof -
  obtain n r where "pathPrefixAgentName (rq_path req) = (n, r)" by force
  with assms(2) show ?thesis
    by (simp add: Route_def NewRouter_def routePathPrefix_def routeDefault_def split: option.splits)
qed

end

section \<open>The adapter (server.go)\<close>

record lookup_adapter =
  la_manager :: manager
  la_agents :: "agent_config list"

definition adapterAgentURL :: "lookup_adapter \<Rightarrow> string \<Rightarrow> string option" where
  "adapterAgentURL a name = map_option ag_url (find (\<lambda>g. ag_name g = name) (la_agents a))"

definition adapterDefaultAgent :: "lookup_adapter \<Rightarrow> (string \<times> string) option" where
  "adapterDefaultAgent a = map_option (\<lambda>g. (ag_name g, ag_url g)) (find ag_default (la_agents a))"

definition adapterLookup :: "lookup_adapter \<Rightarrow> lookup" where
  "adapterLookup a = \<lparr>lk_isHealthy = mgIsHealthy (la_manager a), lk_healthyAgents = mgHealthyAgents (la_manager a),
     lk_agentURL = adapterAgentURL a, lk_defaultAgent = adapterDefaultAgent a\<rparr>"

text \<open>The manager and the configuration know the same agents, each under one name.\<close>

definition adapter_wf :: "lookup_adapter \<Rightarrow> bool" where
  "adapter_wf a \<longleftrightarrow> manager_ok (la_manager a) \<and> distinct (map ag_name (la_agents a))
     \<and> (\<forall>n. map_of (mg_agents (la_manager a)) n \<noteq> None \<longrightarrow> n \<in> set (map ag_name (la_agents a)))"

lemma mgHealthyAgents_iff:
  assumes "manager_ok m"
  shows "n \<in> set (mgHealthyAgents m) \<longleftrightarrow> mgIsHealthy m n"
proof -
  have nm: "(k, st) \<in> set (mg_agents m) \<longleftrightarrow> map_of (mg_agents m) k = Some st" for k st
    using assms by (intro map_ok_lookup) (simp add: manager_ok_def)
  have "n \<in> set (mgHealthyAgents m) \<longleftrightarrow> (\<exists>k st. (k, st) \<in> set (mg_agents m) \<and> as_healthy st \<and> as_name st = n)"
    by (force simp: mgHealthyAgents_def)
  also have "\<dots> \<longleftrightarrow> (\<exists>st. map_of (mg_agents m) n = Some st \<and> as_healthy st)"
    using assms by (auto simp: nm manager_ok_def)
  finally show ?thesis by (auto simp: mgIsHealthy_def split: option.splits)
qed

lemma find_distinct: "distinct (map f xs) \<Longrightarrow> x \<in> set xs \<Longrightarrow> find (\<lambda>y. f y = f x) xs = Some x"
  by (induction xs) (auto simp: rev_image_eqI)

lemma find_SomeD: "find P xs = Some x \<Longrightarrow> x \<in> set xs \<and> P x"
  by (induction xs) (auto split: if_splits)

lemma find_None_map: "find (\<lambda>y. f y = k) xs = None \<longleftrightarrow> k \<notin> f ` set xs"
  by (induction xs) auto

interpretation cards: agent_lookup adapterLookup adapter_wf
proof
  fix a n u
  assume wf: "adapter_wf a"
  show "n \<in> set (lk_healthyAgents (adapterLookup a)) \<longleftrightarrow> lk_isHealthy (adapterLookup a) n"
    using wf mgHealthyAgents_iff by (simp add: adapterLookup_def adapter_wf_def)
  show "lk_isHealthy (adapterLookup a) n \<Longrightarrow> lk_agentURL (adapterLookup a) n \<noteq> None"
    using wf by (auto simp: adapterLookup_def adapter_wf_def mgIsHealthy_def adapterAgentURL_def
        find_None_map split: option.splits)
  show "lk_defaultAgent (adapterLookup a) = Some (n, u) \<Longrightarrow> lk_agentURL (adapterLookup a) n = Some u"
    using wf find_distinct[of ag_name "la_agents a"]
    by (auto simp: adapterLookup_def adapter_wf_def adapterDefaultAgent_def adapterAgentURL_def
        dest!: find_SomeD)
qed

lemma updateAgent_dom: "map_of (mg_agents (cardStep x m)) n \<noteq> None \<longleftrightarrow> map_of (mg_agents m) n \<noteq> None"
  by (cases x) (auto simp: fetchAndUpdate_def ApproveCardChange_def RejectCardChange_def
      split: option.splits prod.splits)

lemma NewManager_dom: "map_of (mg_agents (NewManager as cfg)) n \<noteq> None \<Longrightarrow> n \<in> set (map ag_name as)"
proof -
  have "map_of (fold (\<lambda>a. map_put (ag_name a) (newAgentState a)) as ms) n \<noteq> None
      \<longleftrightarrow> n \<in> set (map ag_name as) \<or> map_of ms n \<noteq> None" for ms
    by (induction as arbitrary: ms) (simp_all del: not_None_eq)
  from this[of "[]"] show "map_of (mg_agents (NewManager as cfg)) n \<noteq> None \<Longrightarrow> n \<in> set (map ag_name as)"
    by (simp add: NewManager_def)
qed

lemma cardRun_dom: "map_of (mg_agents (cardRun ops m)) n \<noteq> None \<longleftrightarrow> map_of (mg_agents m) n \<noteq> None"
  unfolding cardRun_def by (induction ops arbitrary: m) (use updateAgent_dom in simp_all)

lemma adapter_wf_run:
  assumes "distinct (map ag_name agents)"
  shows "adapter_wf \<lparr>la_manager = cardRun ops (NewManager agents sig), la_agents = agents\<rparr>"
  using assms cardRun_ok[OF manager_ok_new[of agents sig], of ops] NewManager_dom[of agents sig]
  by (simp add: adapter_wf_def cardRun_dom del: not_None_eq)

lemmas adapter_sel = adapterLookup_def lookup.simps lookup_adapter.simps

section \<open>Properties\<close>

text \<open>The router of a gateway whose manager has gone through any polls and approvals.\<close>

definition gatewayRouter :: "string \<Rightarrow> agent_config list \<Rightarrow> card_signature_config \<Rightarrow> 'k card_op list \<Rightarrow> router" where
  "gatewayRouter mode agents sig ops = NewRouter mode (adapterLookup
     \<lparr>la_manager = cardRun ops (NewManager agents sig), la_agents = agents\<rparr>)"

text \<open>C16: Whatever the manager has polled and approved, a routed request goes to a configured agent with the
  URL configured for it, which is healthy at that moment; a fallback goes to an agent marked default.
  The path is the request's, or what follows \<open>/agents/name\<close> in it when it names the agent.
  The mode \<open>single\<close> takes any healthy agent and leaves the path; \<open>docs/ARCHITECTURE.md\<close> has it take the default agent
  and the path \<open>/a2a\<close>.\<close>

theorem route_sound:
  assumes "distinct (map ag_name agents)" and "hasPrefix (rq_path req) ''/''"
    and "Route (gatewayRouter mode agents sig ops) req = Inr t"
  shows "(\<exists>g\<in>set agents. ag_name g = tg_agentName t \<and> ag_url g = tg_agentURL t \<and> (tg_isDefault t \<longrightarrow> ag_default g))
    \<and> mgIsHealthy (cardRun ops (NewManager agents sig)) (tg_agentName t)
    \<and> (tg_path t = rq_path req
       \<or> rq_path req = ''/agents/'' @ tg_agentName t @ tg_path t \<and> \<not> tg_isDefault t
       \<or> rq_path req = ''/agents/'' @ tg_agentName t \<and> tg_path t = ''/'' \<and> \<not> tg_isDefault t)"
proof -
  let ?a = "\<lparr>la_manager = cardRun ops (NewManager agents sig), la_agents = agents\<rparr>"
  from cards.routed_to_healthy[OF adapter_wf_run[OF assms(1)]] assms(3)
  have h: "mgIsHealthy (cardRun ops (NewManager agents sig)) (tg_agentName t)"
    and u: "adapterAgentURL ?a (tg_agentName t) = Some (tg_agentURL t)"
    unfolding gatewayRouter_def by (fastforce simp: adapterLookup_def)+
  from u have known: "\<exists>g\<in>set agents. ag_name g = tg_agentName t \<and> ag_url g = tg_agentURL t"
    by (auto simp: adapterAgentURL_def dest!: find_SomeD)
  have dflt: "adapterDefaultAgent ?a = Some (n, w) \<Longrightarrow> \<exists>g\<in>set agents. ag_name g = n \<and> ag_url g = w \<and> ag_default g" for n w
    by (auto simp: adapterDefaultAgent_def dest!: find_SomeD)
  have "(tg_isDefault t \<longrightarrow> (\<exists>g\<in>set agents. ag_name g = tg_agentName t \<and> ag_url g = tg_agentURL t \<and> ag_default g))
    \<and> (tg_path t = rq_path req
       \<or> rq_path req = ''/agents/'' @ tg_agentName t @ tg_path t \<and> \<not> tg_isDefault t
       \<or> rq_path req = ''/agents/'' @ tg_agentName t \<and> tg_path t = ''/'' \<and> \<not> tg_isDefault t)"
    by (rule Route_cases[OF assms(3)])
      (use pathPrefix_split assms(2) dflt in \<open>auto simp: gatewayRouter_def NewRouter_def adapterLookup_def\<close>)
  with h known show ?thesis by blast
qed

text \<open>Cutting the prefix off a path undoes putting it on: a name without slashes and a path starting with
  one are recovered, and a path that names an agent is rebuilt from the name and the rest.\<close>

theorem path_prefix_roundtrip:
  "(CHR ''/'' \<notin> set name \<longrightarrow> pathPrefixAgentName (''/agents/'' @ name @ CHR ''/'' # rest) = (name, CHR ''/'' # rest))
   \<and> (\<forall>name' rest'. hasPrefix path ''/'' \<and> pathPrefixAgentName path = (name', rest') \<and> name' \<noteq> [] \<longrightarrow>
       path = ''/agents/'' @ name' @ rest' \<or> path = ''/agents/'' @ name' \<and> rest' = ''/'')"
  using pathPrefix_agent(1) pathPrefix_split by blast

section \<open>Witnesses\<close>

definition pathRequest :: "string \<Rightarrow> string \<Rightarrow> request" where
  "pathRequest method path = \<lparr>rq_method = method, rq_path = path, rq_query = [], rq_headers = [], rq_body = None,
     rq_remoteAddr = ''192.0.2.1:1234'', rq_tls = False, rq_ctx = emptyContext\<rparr>"

lemma sampleRoute: "Route (gatewayRouter ''path-prefix'' sampleAgents (sampleSig [])
      [Poll (sampleCardEnv ''one'') 1 2 ''echo'']) (pathRequest ''POST'' ''/agents/echo/message:send'')
    = Inr \<lparr>tg_agentName = ''echo'', tg_agentURL = ''https://agent.test'', tg_path = ''/message:send'', tg_isDefault = False\<rparr>"
  by code_simp

theorem route_sound_witness:
  "mgIsHealthy (cardRun [Poll (sampleCardEnv ''one'') 1 2 ''echo''] (NewManager sampleAgents (sampleSig []))) ''echo''"
  using route_sound[OF _ _ sampleRoute] by (simp add: sampleAgents_def pathRequest_def hasPrefix_iff zeroAgent_def)

theorem path_prefix_roundtrip_witness:
  "pathPrefixAgentName ''/agents/echo/tasks/1'' = (''echo'', ''/tasks/1'')"
  using path_prefix_roundtrip[of "''echo''" "''tasks/1''" "[]"] by simp

end
