(* ===== verification/Health.thy ===== *)
theory Health
  imports Router
begin

text \<open>
  The health endpoints (\<open>internal/health/handler.go\<close>) and the adapter of \<open>internal/server/server.go\<close>
  behind them. The locale \<open>agent_health\<close> states what readiness relies on.
\<close>

section \<open>The checker\<close>

record health_checker =
  hc_healthyAgents :: "string list"
  hc_allAgentNames :: "string list"

text \<open>A checker that wraps two functions.\<close>

record simple_checker =
  sc_healthyFn :: "unit \<Rightarrow> string list"
  sc_allNamesFn :: "unit \<Rightarrow> string list"

definition simpleChecker :: "simple_checker \<Rightarrow> health_checker" where
  "simpleChecker s = \<lparr>hc_healthyAgents = sc_healthyFn s (), hc_allAgentNames = sc_allNamesFn s ()\<rparr>"

definition adapterChecker :: "lookup_adapter \<Rightarrow> health_checker" where
  "adapterChecker a = \<lparr>hc_healthyAgents = mgHealthyAgents (la_manager a),
     hc_allAgentNames = map ag_name (la_agents a)\<rparr>"

section \<open>The handler\<close>

record health_handler =
  hh_checker :: health_checker
  hh_version :: string
  hh_readinessMode :: string
  hh_defaultAgent :: string

definition NewHandler :: "health_checker \<Rightarrow> string \<Rightarrow> string \<Rightarrow> string \<Rightarrow> health_handler" where
  "NewHandler c version mode da = \<lparr>hh_checker = c, hh_version = version, hh_readinessMode = mode,
     hh_defaultAgent = da\<rparr>"

definition LivenessResponse :: "string \<Rightarrow> string \<Rightarrow> jout" where
  "LivenessResponse status version = JoObj [(''status'', JoStr status), (''version'', JoStr version)]"

definition ReadinessResponse :: "string \<Rightarrow> nat \<Rightarrow> nat \<Rightarrow> jout" where
  "ReadinessResponse status hn tn = JoObj [(''status'', JoStr status),
     (''healthy_agents'', JoInt (int hn)), (''total_agents'', JoInt (int tn))]"

definition handleLiveness :: "health_handler \<Rightarrow> header \<Rightarrow> response" where
  "handleLiveness h w = \<lparr>rs_status = 200, rs_header = header_set w ''Content-Type'' ''application/json'',
     rs_payload = PJson (LivenessResponse ''ok'' (hh_version h))\<rparr>"

definition isReady :: "health_handler \<Rightarrow> bool" where
  "isReady h =
     (let healthy = hc_healthyAgents (hh_checker h);
          healthyCount = length healthy; totalCount = length (hc_allAgentNames (hh_checker h)) in
      if hh_readinessMode h = ''any_healthy'' then healthyCount > 0
      else if hh_readinessMode h = ''default_healthy'' then list_ex (\<lambda>n. n = hh_defaultAgent h) healthy
      else if hh_readinessMode h = ''all_healthy'' then healthyCount = totalCount \<and> totalCount > 0
      else healthyCount > 0)"

definition handleReadiness :: "health_handler \<Rightarrow> header \<Rightarrow> response" where
  "handleReadiness h w =
     (let status = (if isReady h then ''ready'' else ''not_ready'') in
      \<lparr>rs_status = (if isReady h then 200 else 503),
       rs_header = header_set w ''Content-Type'' ''application/json'',
       rs_payload = PJson (ReadinessResponse status (length (hc_healthyAgents (hh_checker h)))
          (length (hc_allAgentNames (hh_checker h))))\<rparr>)"

text \<open>\<open>http.NotFound\<close>.\<close>

definition NotFound :: "header \<Rightarrow> response" where
  "NotFound w = \<lparr>rs_status = 404,
     rs_header = header_set (header_set w ''Content-Type'' ''text/plain; charset=utf-8'')
        ''X-Content-Type-Options'' ''nosniff'',
     rs_payload = PText (''404 page not found'' @ [CHR 0x0A])\<rparr>"

definition healthServe :: "health_handler \<Rightarrow> request \<Rightarrow> header \<Rightarrow> response" where
  "healthServe h r w =
     (if rq_path r = ''/healthz'' then handleLiveness h w
      else if rq_path r = ''/readyz'' then handleReadiness h w
      else NotFound w)"

section \<open>The contract of a checker\<close>

text \<open>No agent is listed twice, and the healthy ones are among all.\<close>

locale agent_health =
  fixes view :: "'s \<Rightarrow> health_checker" and wf :: "'s \<Rightarrow> bool"
  assumes healthy_distinct: "wf s \<Longrightarrow> distinct (hc_healthyAgents (view s))"
    and names_distinct: "wf s \<Longrightarrow> distinct (hc_allAgentNames (view s))"
    and healthy_subset: "wf s \<Longrightarrow> set (hc_healthyAgents (view s)) \<subseteq> set (hc_allAgentNames (view s))"
begin

text \<open>Comparing the counts is comparing the sets.\<close>

lemma counts_decide:
  assumes "wf s"
  shows "length (hc_healthyAgents (view s)) = length (hc_allAgentNames (view s))
    \<longleftrightarrow> set (hc_allAgentNames (view s)) \<subseteq> set (hc_healthyAgents (view s))"
proof -
  have "length (hc_healthyAgents (view s)) = card (set (hc_healthyAgents (view s)))"
    "length (hc_allAgentNames (view s)) = card (set (hc_allAgentNames (view s)))"
    using healthy_distinct[OF assms] names_distinct[OF assms] by (simp_all add: distinct_card)
  with healthy_subset[OF assms] show ?thesis
    by (metis List.finite_set card_subset_eq order_refl subset_antisym)
qed

lemma ready_iff:
  assumes "wf s"
  shows "isReady (NewHandler (view s) v mode d) \<longleftrightarrow>
    (if mode = ''default_healthy'' then d \<in> set (hc_healthyAgents (view s))
     else if mode = ''all_healthy'' then hc_allAgentNames (view s) \<noteq> []
       \<and> (\<forall>n\<in>set (hc_allAgentNames (view s)). n \<in> set (hc_healthyAgents (view s)))
     else hc_healthyAgents (view s) \<noteq> [])"
  using counts_decide[OF assms]
  by (simp add: isReady_def NewHandler_def Let_def list_ex_iff subset_iff conj_commute Ball_def)

end

lemma mgHealthyAgents_distinct: "manager_ok m \<Longrightarrow> distinct (mgHealthyAgents m)"
proof -
  assume ok: "manager_ok m"
  then have mok: "map_ok (filter (\<lambda>(k, st). as_healthy st) (mg_agents m))" by (simp add: manager_ok_def)
  have "as_name st = k" if "(k, st) \<in> set (mg_agents m)" for k st
    using ok that map_ok_lookup[of "mg_agents m" k st] by (simp add: manager_ok_def)
  then have "mgHealthyAgents m = map fst (filter (\<lambda>(k, st). as_healthy st) (mg_agents m))"
    by (auto simp: mgHealthyAgents_def)
  with mok show ?thesis by (simp add: map_ok_def)
qed

interpretation readiness: agent_health adapterChecker adapter_wf
proof
  fix a
  assume wf: "adapter_wf a"
  then show "distinct (hc_healthyAgents (adapterChecker a))"
    by (simp add: adapterChecker_def adapter_wf_def mgHealthyAgents_distinct)
  from wf show "distinct (hc_allAgentNames (adapterChecker a))" by (simp add: adapterChecker_def adapter_wf_def)
  from wf mgHealthyAgents_iff show "set (hc_healthyAgents (adapterChecker a)) \<subseteq> set (hc_allAgentNames (adapterChecker a))"
    by (auto simp: adapterChecker_def adapter_wf_def mgIsHealthy_def split: option.splits)
qed

section \<open>Properties\<close>

text \<open>C32: The readiness of a running gateway: in mode \<open>all_healthy\<close> exactly when every configured agent is
  healthy and there is one, in mode \<open>default_healthy\<close> when the default agent is, in any other mode when
  some agent is; the status is 200 or 503 accordingly.\<close>

theorem readiness_exact:
  assumes "distinct (map ag_name agents)" and "m = cardRun ops (NewManager agents sig)"
    and "rs = handleReadiness (NewHandler (adapterChecker \<lparr>la_manager = m, la_agents = agents\<rparr>) v mode d) w"
  shows "rs_status rs = (if (if mode = ''default_healthy'' then mgIsHealthy m d
       else if mode = ''all_healthy'' then agents \<noteq> [] \<and> (\<forall>g\<in>set agents. mgIsHealthy m (ag_name g))
       else \<exists>n. mgIsHealthy m n) then 200 else 503)"
proof -
  let ?a = "\<lparr>la_manager = m, la_agents = agents\<rparr>"
  have wf: "adapter_wf ?a" using adapter_wf_run[OF assms(1)] assms(2) by simp
  then have mem: "n \<in> set (mgHealthyAgents m) \<longleftrightarrow> mgIsHealthy m n" for n
    using mgHealthyAgents_iff by (simp add: adapter_wf_def)
  then have "mgHealthyAgents m \<noteq> [] \<longleftrightarrow> (\<exists>n. mgIsHealthy m n)"
    by (metis list.set_intros(1) neq_Nil_conv empty_iff list.set(1))
  with readiness.ready_iff[OF wf, of v mode d] mem
  have "isReady (NewHandler (adapterChecker ?a) v mode d) \<longleftrightarrow>
      (if mode = ''default_healthy'' then mgIsHealthy m d
       else if mode = ''all_healthy'' then agents \<noteq> [] \<and> (\<forall>g\<in>set agents. mgIsHealthy m (ag_name g))
       else \<exists>n. mgIsHealthy m n)"
    by (simp add: adapterChecker_def)
  then show ?thesis by (simp add: assms(3) handleReadiness_def Let_def)
qed

theorem readiness_exact_witness:
  "rs_status (handleReadiness (NewHandler (adapterChecker
     \<lparr>la_manager = cardRun [Poll (sampleCardEnv ''one'') 1 2 ''echo''] (NewManager sampleAgents (sampleSig [])),
      la_agents = sampleAgents\<rparr>) ''1.0'' ''all_healthy'' []) []) = 200"
proof -
  have "mgIsHealthy (cardRun [Poll (sampleCardEnv ''one'') 1 2 ''echo''] (NewManager sampleAgents (sampleSig []))) ''echo''"
    by code_simp
  then show ?thesis
    using readiness_exact[OF _ refl refl, of sampleAgents "[Poll (sampleCardEnv ''one'') 1 2 ''echo'']" "sampleSig []"
        "''1.0''" "''all_healthy''" "[]" "[]"]
    by (simp add: sampleAgents_def zeroAgent_def)
qed

end
