(* ===== verification/Streams.thy ===== *)
theory Streams
  imports Prelude
begin

text \<open>
  The stream slots (\<open>internal/proxy/streams.go\<close>). First the operations as one goroutine runs them
  alone, then the steps of any number of goroutines that acquire and release slots while another one
  drains: the test of the draining flag, the lookup under the lock, the load and the
  compare-and-swap of the counter are separate steps, as in the code.
\<close>

section \<open>The operations\<close>

record stream_manager =
  sm_counts :: "(string, int) gomap"
  sm_draining :: bool

definition NewStreamManager :: stream_manager where
  "NewStreamManager = \<lparr>sm_counts = [], sm_draining = False\<rparr>"

text \<open>The counter of an agent, created when it is missing.\<close>

definition counterFor :: "string \<Rightarrow> (string, int) gomap \<Rightarrow> (string, int) gomap" where
  "counterFor name m = (case map_of m name of None \<Rightarrow> map_put name 0 m | Some _ \<Rightarrow> m)"

definition countOf :: "string \<Rightarrow> (string, int) gomap \<Rightarrow> int" where
  "countOf name m = (case map_of m name of None \<Rightarrow> 0 | Some c \<Rightarrow> c)"

text \<open>Without interference the first compare-and-swap succeeds.\<close>

definition AcquireStream :: "string \<Rightarrow> int \<Rightarrow> stream_manager \<Rightarrow> bool \<times> stream_manager" where
  "AcquireStream name maxStreams sm =
     (if sm_draining sm then (False, sm)
      else (let m = counterFor name (sm_counts sm); current = countOf name m in
        if current \<ge> maxStreams then (False, sm\<lparr>sm_counts := m\<rparr>)
        else (True, sm\<lparr>sm_counts := map_put name (current + 1) m\<rparr>)))"

definition ReleaseStream :: "string \<Rightarrow> stream_manager \<Rightarrow> stream_manager" where
  "ReleaseStream name sm = (case map_of (sm_counts sm) name of
      None \<Rightarrow> sm
    | Some c \<Rightarrow> sm\<lparr>sm_counts := map_put name (c - 1) (sm_counts sm)\<rparr>)"

definition ActiveStreams :: "string \<Rightarrow> stream_manager \<Rightarrow> int" where
  "ActiveStreams name sm = (case map_of (sm_counts sm) name of None \<Rightarrow> 0 | Some c \<Rightarrow> c)"

definition totalStreams :: "stream_manager \<Rightarrow> int" where
  "totalStreams sm = (\<Sum>(k, c) \<leftarrow> sm_counts sm. c)"

section \<open>The contract of a slot\<close>

text \<open>
  What a user of slots relies on: an acquisition says whether it took one, counts it when it did and
  nothing else, respects the limit, and a release gives back exactly one. \<open>wf\<close> is the invariant.
\<close>

locale stream_slots =
  fixes acquire :: "string \<Rightarrow> int \<Rightarrow> 's \<Rightarrow> bool \<times> 's" and release :: "string \<Rightarrow> 's \<Rightarrow> 's"
    and active :: "string \<Rightarrow> 's \<Rightarrow> int"
  assumes acquire_count: "active k (snd (acquire n l s))
      = active k s + (if k = n \<and> fst (acquire n l s) then 1 else 0)"
    and acquire_limit: "fst (acquire n l s) \<Longrightarrow> active n s < l"
    and release_count: "0 < active n s \<Longrightarrow> active k (release n s) = active k s - (if k = n then 1 else 0)"
begin

text \<open>Using a slot for something that leaves the slots alone gives the counts back.\<close>

lemma balanced:
  assumes "fst (acquire n l s)" and "\<And>k. active k s' = active k (snd (acquire n l s))" and "0 \<le> active n s"
  shows "active k (release n s') = active k s"
proof -
  have "0 < active n s'" using assms acquire_count[of n n l s] by simp
  then show ?thesis using release_count[of n s' k] assms(1,2) acquire_count[of k n l s] by simp
qed

lemma refused_unchanged: "\<not> fst (acquire n l s) \<Longrightarrow> active k (snd (acquire n l s)) = active k s"
  by (simp add: acquire_count)

end

interpretation slots: stream_slots AcquireStream ReleaseStream ActiveStreams
  by standard (auto simp: AcquireStream_def ReleaseStream_def ActiveStreams_def counterFor_def countOf_def
      Let_def split: option.splits if_splits)

section \<open>Goroutines\<close>

text \<open>
  Where a goroutine that wants a slot for an agent is: before the test of the flag, before the
  lookup, in the loop, with a loaded value before the compare-and-swap, holding a slot, refused, or
  finished. Refused and finished goroutines stay in the list.
\<close>

datatype slot_pc = Begin string | Lookup string | Loop string | Swap string int
  | Holding string | Refused string | Released string

datatype drain_pc = NotDraining | Waiting | Drained | GaveUp

record slot_state =
  sl_manager :: stream_manager
  sl_threads :: "slot_pc list"
  sl_drain :: drain_pc

abbreviation "counts s \<equiv> sm_counts (sl_manager s)"

inductive slot_step :: "(string \<Rightarrow> int) \<Rightarrow> slot_state \<Rightarrow> slot_state \<Rightarrow> bool" for maxOf where
  Arrive: "slot_step maxOf s (s\<lparr>sl_threads := sl_threads s @ [Begin n]\<rparr>)"
| CheckOpen: "i < length (sl_threads s) \<Longrightarrow> sl_threads s ! i = Begin n \<Longrightarrow> \<not> sm_draining (sl_manager s)
    \<Longrightarrow> slot_step maxOf s (s\<lparr>sl_threads := (sl_threads s)[i := Lookup n]\<rparr>)"
| CheckDraining: "i < length (sl_threads s) \<Longrightarrow> sl_threads s ! i = Begin n \<Longrightarrow> sm_draining (sl_manager s)
    \<Longrightarrow> slot_step maxOf s (s\<lparr>sl_threads := (sl_threads s)[i := Refused n]\<rparr>)"
| FindCounter: "i < length (sl_threads s) \<Longrightarrow> sl_threads s ! i = Lookup n
    \<Longrightarrow> slot_step maxOf s (s\<lparr>sl_manager := (sl_manager s)\<lparr>sm_counts := counterFor n (counts s)\<rparr>,
                              sl_threads := (sl_threads s)[i := Loop n]\<rparr>)"
| LoadFull: "i < length (sl_threads s) \<Longrightarrow> sl_threads s ! i = Loop n \<Longrightarrow> countOf n (counts s) \<ge> maxOf n
    \<Longrightarrow> slot_step maxOf s (s\<lparr>sl_threads := (sl_threads s)[i := Refused n]\<rparr>)"
| LoadFree: "i < length (sl_threads s) \<Longrightarrow> sl_threads s ! i = Loop n \<Longrightarrow> countOf n (counts s) < maxOf n
    \<Longrightarrow> slot_step maxOf s (s\<lparr>sl_threads := (sl_threads s)[i := Swap n (countOf n (counts s))]\<rparr>)"
| SwapOk: "i < length (sl_threads s) \<Longrightarrow> sl_threads s ! i = Swap n c \<Longrightarrow> countOf n (counts s) = c
    \<Longrightarrow> slot_step maxOf s (s\<lparr>sl_manager := (sl_manager s)\<lparr>sm_counts := map_put n (c + 1) (counts s)\<rparr>,
                              sl_threads := (sl_threads s)[i := Holding n]\<rparr>)"
| SwapFailed: "i < length (sl_threads s) \<Longrightarrow> sl_threads s ! i = Swap n c \<Longrightarrow> countOf n (counts s) \<noteq> c
    \<Longrightarrow> slot_step maxOf s (s\<lparr>sl_threads := (sl_threads s)[i := Loop n]\<rparr>)"
| Release: "i < length (sl_threads s) \<Longrightarrow> sl_threads s ! i = Holding n
    \<Longrightarrow> slot_step maxOf s (s\<lparr>sl_manager := ReleaseStream n (sl_manager s),
                              sl_threads := (sl_threads s)[i := Released n]\<rparr>)"
| DrainStart: "sl_drain s = NotDraining
    \<Longrightarrow> slot_step maxOf s (s\<lparr>sl_manager := (sl_manager s)\<lparr>sm_draining := True\<rparr>, sl_drain := Waiting\<rparr>)"
| DrainDone: "sl_drain s = Waiting \<Longrightarrow> totalStreams (sl_manager s) = 0
    \<Longrightarrow> slot_step maxOf s (s\<lparr>sl_drain := Drained\<rparr>)"
| DrainTimeout: "sl_drain s = Waiting \<Longrightarrow> totalStreams (sl_manager s) \<noteq> 0
    \<Longrightarrow> slot_step maxOf s (s\<lparr>sl_drain := GaveUp\<rparr>)"

definition slot_start :: slot_state where
  "slot_start = \<lparr>sl_manager = NewStreamManager, sl_threads = [], sl_drain = NotDraining\<rparr>"

abbreviation "slot_steps maxOf \<equiv> (slot_step maxOf)\<^sup>*\<^sup>*"

section \<open>Invariant\<close>

definition holders :: "string \<Rightarrow> slot_pc list \<Rightarrow> int" where
  "holders n ts = (\<Sum>t\<leftarrow>ts. if t = Holding n then 1 else 0)"

text \<open>
  The counters count the goroutines that hold a slot, a goroutine in or past the loop has its
  counter, a loaded value is below the limit, and the drainer waits behind a set flag.
\<close>

fun has_counter :: "slot_pc \<Rightarrow> string option" where
  "has_counter (Loop n) = Some n"
| "has_counter (Swap n c) = Some n"
| "has_counter (Holding n) = Some n"
| "has_counter _ = None"

definition known :: "string \<Rightarrow> (string, int) gomap \<Rightarrow> bool" where
  "known n m \<longleftrightarrow> map_of m n \<noteq> None"

definition slot_inv :: "(string \<Rightarrow> int) \<Rightarrow> slot_state \<Rightarrow> bool" where
  "slot_inv maxOf s \<longleftrightarrow>
     (\<forall>n. countOf n (counts s) = holders n (sl_threads s))
     \<and> (\<forall>n. holders n (sl_threads s) \<le> max 0 (maxOf n))
     \<and> (\<forall>n c. Swap n c \<in> set (sl_threads s) \<longrightarrow> c < maxOf n)
     \<and> (\<forall>t\<in>set (sl_threads s). \<forall>n. has_counter t = Some n \<longrightarrow> known n (counts s))
     \<and> (sm_draining (sl_manager s) \<longleftrightarrow> sl_drain s \<noteq> NotDraining)"

lemma holders_update:
  assumes "i < length ts"
  shows "holders n (ts[i := t]) = holders n ts - (if ts ! i = Holding n then 1 else 0) + (if t = Holding n then 1 else 0)"
  using assms
proof (induction ts arbitrary: i)
  case (Cons a ts)
  then show ?case by (cases i) (auto simp: holders_def)
qed simp

lemma holders_append [simp]: "holders n (ts @ us) = holders n ts + holders n us"
  by (simp add: holders_def)

lemma holders_single [simp]: "holders n [t] = (if t = Holding n then 1 else 0)"
  by (simp add: holders_def)

lemma holders_nonneg: "0 \<le> holders n ts"
  unfolding holders_def by (rule sum_list_nonneg) auto

lemma countOf_counterFor [simp]: "countOf k (counterFor n m) = countOf k m"
  by (auto simp: countOf_def counterFor_def split: option.splits)

lemma countOf_put [simp]: "countOf k (map_put n c m) = (if k = n then c else countOf k m)"
  by (simp add: countOf_def)

lemma countOf_release:
  "known n (sm_counts sm) \<Longrightarrow>
    countOf k (sm_counts (ReleaseStream n sm)) = countOf k (sm_counts sm) - (if k = n then 1 else 0)"
  by (auto simp: known_def countOf_def ReleaseStream_def split: option.splits)

lemma counter_kept:
  "known k m \<Longrightarrow> known k (counterFor n m)" "known n (counterFor n m)"
  "known k (sm_counts sm) \<Longrightarrow> known k (sm_counts (ReleaseStream n sm))"
  "known k (map_put n c m) \<longleftrightarrow> k = n \<or> known k m"
  by (auto simp: known_def counterFor_def ReleaseStream_def split: option.splits)

lemma set_update: "t \<in> set (ts[i := u]) \<Longrightarrow> t = u \<or> t \<in> set ts"
  by (metis insert_iff set_update_subset_insert subsetD)

text \<open>A step that only moves a goroutine between places without a slot keeps the invariant.\<close>

lemma slot_inv_move:
  assumes "slot_inv maxOf s" and "i < length (sl_threads s)"
    and "\<And>n. sl_threads s ! i \<noteq> Holding n" "\<And>n. t \<noteq> Holding n"
    and "\<And>n c. t = Swap n c \<Longrightarrow> c < maxOf n"
    and "\<And>n. has_counter t = Some n \<Longrightarrow> known n (counts s)"
  shows "slot_inv maxOf (s\<lparr>sl_threads := (sl_threads s)[i := t]\<rparr>)"
proof -
  have "holders n ((sl_threads s)[i := t]) = holders n (sl_threads s)" for n
    using assms(2-4) by (simp add: holders_update)
  then show ?thesis using assms(1,5,6) unfolding slot_inv_def
    by (auto dest: set_update)
qed

lemma has_counter_at:
  assumes "slot_inv maxOf s" and "i < length (sl_threads s)" and "has_counter (sl_threads s ! i) = Some n"
  shows "known n (counts s)"
  using assms nth_mem[OF assms(2)] unfolding slot_inv_def by blast

lemma slot_inv_counter:
  assumes "slot_inv maxOf s"
  shows "slot_inv maxOf (s\<lparr>sl_manager := (sl_manager s)\<lparr>sm_counts := counterFor n (counts s)\<rparr>\<rparr>)"
  using assms counter_kept(1)[of _ "counts s" n] unfolding slot_inv_def by simp

lemma slot_inv_swap:
  assumes inv: "slot_inv maxOf s" and i: "i < length (sl_threads s)" and t: "sl_threads s ! i = Swap n c"
    and c: "countOf n (counts s) = c"
  shows "slot_inv maxOf (s\<lparr>sl_manager := (sl_manager s)\<lparr>sm_counts := map_put n (c + 1) (counts s)\<rparr>,
      sl_threads := (sl_threads s)[i := Holding n]\<rparr>)"
proof -
  have "c < maxOf n" using inv nth_mem[OF i] t unfolding slot_inv_def by metis
  then show ?thesis using inv i t c unfolding slot_inv_def
    by (auto simp: holders_update counter_kept(4) dest!: set_update)
qed

lemma slot_inv_release:
  assumes inv: "slot_inv maxOf s" and i: "i < length (sl_threads s)" and t: "sl_threads s ! i = Holding n"
  shows "slot_inv maxOf (s\<lparr>sl_manager := ReleaseStream n (sl_manager s),
      sl_threads := (sl_threads s)[i := Released n]\<rparr>)"
proof -
  have m: "known n (counts s)" using has_counter_at[OF inv i] t by simp
  have cnt: "countOf k (sm_counts (ReleaseStream n (sl_manager s))) = countOf k (counts s) - (if k = n then 1 else 0)" for k
    by (rule countOf_release[OF m])
  have drain: "sm_draining (ReleaseStream n sm) = sm_draining sm" for sm
    by (simp add: ReleaseStream_def split: option.splits)
  have le: "holders k (sl_threads s) \<le> max 0 (maxOf k)" for k using inv by (simp add: slot_inv_def)
  have "holders k (sl_threads s) - (if k = n then 1 else 0) \<le> max 0 (maxOf k)" for k using le[of k] by auto
  moreover have "holders n (sl_threads s) - 1 \<le> max 0 (maxOf n)" using le[of n] by auto
  ultimately show ?thesis using inv i t unfolding slot_inv_def
    by (auto simp: holders_update cnt drain dest!: set_update intro: counter_kept(3))
qed

lemma slot_inv_start: "slot_inv maxOf slot_start"
  by (simp add: slot_inv_def slot_start_def NewStreamManager_def countOf_def holders_def)

lemma slot_inv_step: "slot_step maxOf s s' \<Longrightarrow> slot_inv maxOf s \<Longrightarrow> slot_inv maxOf s'"
proof (induction rule: slot_step.induct)
  case (Arrive s n)
  then show ?case unfolding slot_inv_def by (auto simp:)
next
  case (CheckOpen i s n)
  then show ?case by (intro slot_inv_move) auto
next
  case (CheckDraining i s n)
  then show ?case by (intro slot_inv_move) auto
next
  case (FindCounter i s n)
  let ?s = "s\<lparr>sl_manager := (sl_manager s)\<lparr>sm_counts := counterFor n (counts s)\<rparr>\<rparr>"
  have "slot_inv maxOf (?s\<lparr>sl_threads := (sl_threads ?s)[i := Loop n]\<rparr>)"
    using FindCounter counter_kept(2) by (intro slot_inv_move slot_inv_counter) auto
  then show ?case by simp
next
  case (LoadFull i s n)
  then show ?case by (intro slot_inv_move) auto
next
  case (LoadFree i s n)
  then show ?case using has_counter_at[OF LoadFree.prems LoadFree.hyps(1)]
    by (intro slot_inv_move) (auto)
next
  case (SwapOk i s n c)
  then show ?case by (intro slot_inv_swap) auto
next
  case (SwapFailed i s n c)
  then show ?case using has_counter_at[OF SwapFailed.prems SwapFailed.hyps(1)]
    by (intro slot_inv_move) (auto)
next
  case (Release i s n)
  then show ?case by (intro slot_inv_release) auto
qed (simp_all add: slot_inv_def)

lemma slot_inv_steps: "slot_steps maxOf s s' \<Longrightarrow> slot_inv maxOf s \<Longrightarrow> slot_inv maxOf s'"
  by (induction rule: rtranclp_induct) (blast intro: slot_inv_step)+

section \<open>The operations are runs of one goroutine\<close>

lemma acquire_refined:
  assumes i: "i < length (sl_threads s)" and b: "sl_threads s ! i = Begin n"
    and a: "AcquireStream n (maxOf n) (sl_manager s) = (ok, sm')"
  shows "slot_steps maxOf s (s\<lparr>sl_manager := sm',
      sl_threads := (sl_threads s)[i := if ok then Holding n else Refused n]\<rparr>)"
proof (cases "sm_draining (sl_manager s)")
  case True
  with a have "sm' = sl_manager s" "\<not> ok" by (auto simp: AcquireStream_def)
  with slot_step.CheckDraining[OF i b True, of maxOf] show ?thesis by simp
next
  case False
  let ?m = "counterFor n (counts s)" and ?c = "countOf n (counts s)"
  define s1 where "s1 = s\<lparr>sl_threads := (sl_threads s)[i := Lookup n]\<rparr>"
  define s2 where "s2 = s1\<lparr>sl_manager := (sl_manager s1)\<lparr>sm_counts := counterFor n (counts s1)\<rparr>,
    sl_threads := (sl_threads s1)[i := Loop n]\<rparr>"
  have 1: "slot_step maxOf s s1" unfolding s1_def by (rule slot_step.CheckOpen[OF i b False])
  have 2: "slot_step maxOf s1 s2" unfolding s2_def by (rule slot_step.FindCounter) (simp_all add: s1_def i)
  have at2: "i < length (sl_threads s2)" "sl_threads s2 ! i = Loop n" "countOf n (counts s2) = ?c"
    by (simp_all add: s2_def s1_def i)
  show ?thesis
  proof (cases "maxOf n \<le> ?c")
    case True
    with a False have "\<not> ok" "sm' = (sl_manager s)\<lparr>sm_counts := ?m\<rparr>" by (auto simp: AcquireStream_def Let_def)
    with slot_step.LoadFull[OF at2(1,2), of maxOf] True at2(3) 1 2 show ?thesis
      by (simp add: s2_def s1_def)
  next
    case less: False
    define s3 where "s3 = s2\<lparr>sl_threads := (sl_threads s2)[i := Swap n (countOf n (counts s2))]\<rparr>"
    have 3: "slot_step maxOf s2 s3" unfolding s3_def by (rule slot_step.LoadFree[OF at2(1,2)]) (use less at2(3) in simp)
    have "slot_step maxOf s3 (s3\<lparr>sl_manager := (sl_manager s3)\<lparr>sm_counts := map_put n (?c + 1) (counts s3)\<rparr>,
        sl_threads := (sl_threads s3)[i := Holding n]\<rparr>)"
      by (rule slot_step.SwapOk) (simp_all add: s3_def at2 i)
    moreover from a False less have "ok" "sm' = (sl_manager s)\<lparr>sm_counts := map_put n (?c + 1) ?m\<rparr>"
      by (auto simp: AcquireStream_def Let_def)
    ultimately show ?thesis using 1 2 3 by (simp add: s3_def s2_def s1_def)
  qed
qed

section \<open>Properties\<close>

text \<open>C17: However the goroutines interleave, the counter of an agent is the number of goroutines that hold a
  slot for it, and never exceeds its limit.\<close>

theorem streams_bounded:
  assumes "slot_steps maxOf slot_start s"
  shows "ActiveStreams n (sl_manager s) = int (length (filter (\<lambda>t. t = Holding n) (sl_threads s)))
    \<and> ActiveStreams n (sl_manager s) \<le> max 0 (maxOf n)"
proof -
  have "slot_inv maxOf s" by (rule slot_inv_steps[OF assms slot_inv_start])
  moreover have "ActiveStreams n (sl_manager s) = countOf n (counts s)"
    by (simp add: ActiveStreams_def countOf_def)
  moreover have "holders n ts = int (length (filter (\<lambda>t. t = Holding n) ts))" for ts
    by (induction ts) (auto simp: holders_def)
  ultimately show ?thesis unfolding slot_inv_def by metis
qed

text \<open>A goroutine between the test of the flag and the compare-and-swap.\<close>

fun entering :: "slot_pc \<Rightarrow> bool" where
  "entering (Lookup n) = True" | "entering (Loop n) = True" | "entering (Swap n c) = True"
| "entering (Holding n) = True" | "entering _ = False"

lemma quiet_step:
  "slot_step maxOf s s' \<Longrightarrow> sl_drain s = Drained \<and> sm_draining (sl_manager s) \<and> (\<forall>t\<in>set (sl_threads s). \<not> entering t)
    \<Longrightarrow> sl_drain s' = Drained \<and> sm_draining (sl_manager s') \<and> (\<forall>t\<in>set (sl_threads s'). \<not> entering t)"
proof (induction rule: slot_step.induct)
  case (CheckDraining i s n)
  then show ?case by (auto dest!: set_update)
qed (simp_all, (metis nth_mem entering.simps(1-4))+)

text \<open>C36: After \<open>DrainAll\<close> returned without an error a stream can still start, because the flag is tested
  before the slot is taken; this needs a goroutine that was past the test when the drain finished, and
  without one no goroutine ever holds a slot again.\<close>

theorem drain_race:
  "(\<exists>s. slot_steps (\<lambda>_. 1) slot_start s \<and> sl_drain s = Drained \<and> Holding n \<in> set (sl_threads s))
   \<and> (\<forall>maxOf s s'. slot_steps maxOf slot_start s \<and> sl_drain s = Drained \<and> (\<forall>t\<in>set (sl_threads s). \<not> entering t)
        \<and> slot_steps maxOf s s' \<longrightarrow> (\<forall>m. Holding m \<notin> set (sl_threads s')))"
proof (intro conjI allI impI)
  let ?sm = "\<lambda>cs d. \<lparr>sm_counts = cs, sm_draining = d\<rparr>"
  let ?st = "\<lambda>cs d t dr. \<lparr>sl_manager = ?sm cs d, sl_threads = [t], sl_drain = dr\<rparr>"
  let ?one = "\<lambda>_::string. 1::int"
  have "slot_step ?one slot_start (?st [] False (Begin n) NotDraining)"
    using slot_step.Arrive[of ?one slot_start n] by (simp add: slot_start_def NewStreamManager_def)
  moreover have "slot_step ?one (?st [] False (Begin n) NotDraining) (?st [] False (Lookup n) NotDraining)"
    using slot_step.CheckOpen[of 0 "?st [] False (Begin n) NotDraining" n ?one] by simp
  moreover have "slot_step ?one (?st [] False (Lookup n) NotDraining) (?st [] True (Lookup n) Waiting)"
    using slot_step.DrainStart[of "?st [] False (Lookup n) NotDraining" ?one] by simp
  moreover have "slot_step ?one (?st [] True (Lookup n) Waiting) (?st [] True (Lookup n) Drained)"
    using slot_step.DrainDone[of "?st [] True (Lookup n) Waiting" ?one] by (simp add: totalStreams_def)
  moreover have "slot_step ?one (?st [] True (Lookup n) Drained) (?st [(n, 0)] True (Loop n) Drained)"
    using slot_step.FindCounter[of 0 "?st [] True (Lookup n) Drained" n ?one] by (simp add: counterFor_def)
  moreover have "slot_step ?one (?st [(n, 0)] True (Loop n) Drained) (?st [(n, 0)] True (Swap n 0) Drained)"
    using slot_step.LoadFree[of 0 "?st [(n, 0)] True (Loop n) Drained" n ?one] by (simp add: countOf_def)
  moreover have "slot_step ?one (?st [(n, 0)] True (Swap n 0) Drained) (?st [(n, 1)] True (Holding n) Drained)"
    using slot_step.SwapOk[of 0 "?st [(n, 0)] True (Swap n 0) Drained" n 0 ?one] by (simp add: countOf_def)
  ultimately have "slot_steps ?one slot_start (?st [(n, 1)] True (Holding n) Drained)"
    by (meson rtranclp.rtrancl_refl rtranclp.rtrancl_into_rtrancl)
  then show "\<exists>s. slot_steps ?one slot_start s \<and> sl_drain s = Drained \<and> Holding n \<in> set (sl_threads s)"
    by (intro exI[of _ "?st [(n, 1)] True (Holding n) Drained"]) simp
next
  fix maxOf s s' m
  assume a: "slot_steps maxOf slot_start s \<and> sl_drain s = Drained \<and> (\<forall>t\<in>set (sl_threads s). \<not> entering t)
    \<and> slot_steps maxOf s s'"
  then have "slot_inv maxOf s" using slot_inv_steps slot_inv_start by blast
  with a have q: "sl_drain s = Drained \<and> sm_draining (sl_manager s) \<and> (\<forall>t\<in>set (sl_threads s). \<not> entering t)"
    by (simp add: slot_inv_def)
  from a have "slot_steps maxOf s s'" by simp
  then have "sl_drain s' = Drained \<and> sm_draining (sl_manager s') \<and> (\<forall>t\<in>set (sl_threads s'). \<not> entering t)"
    by (induction rule: rtranclp_induct) (use q quiet_step in blast)+
  then show "Holding m \<notin> set (sl_threads s')" by force
qed

section \<open>Witnesses\<close>

definition oneArrived :: slot_state where
  "oneArrived = slot_start\<lparr>sl_threads := [Begin ''echo'']\<rparr>"

lemma oneArrived_steps: "slot_steps maxOf slot_start oneArrived"
  using slot_step.Arrive[of maxOf slot_start "''echo''"] by (simp add: oneArrived_def slot_start_def)

theorem streams_bounded_witness:
  "ActiveStreams ''echo'' (sl_manager (oneArrived\<lparr>sl_manager := snd (AcquireStream ''echo'' 2 NewStreamManager),
      sl_threads := [Holding ''echo'']\<rparr>)) \<le> max 0 2"
proof -
  have "AcquireStream ''echo'' 2 (sl_manager oneArrived) = (True, snd (AcquireStream ''echo'' 2 NewStreamManager))"
    by code_simp
  with acquire_refined[of 0 oneArrived "''echo''" "\<lambda>_. 2" True]
  have "slot_steps (\<lambda>_. 2) oneArrived (oneArrived\<lparr>sl_manager := snd (AcquireStream ''echo'' 2 NewStreamManager),
      sl_threads := [Holding ''echo'']\<rparr>)"
    by (simp add: oneArrived_def)
  from streams_bounded[OF rtranclp_trans[OF oneArrived_steps this], of "''echo''"] show ?thesis by blast
qed

definition drainedState :: slot_state where
  "drainedState = \<lparr>sl_manager = \<lparr>sm_counts = [], sm_draining = True\<rparr>, sl_threads = [], sl_drain = Drained\<rparr>"

lemma drainedState_steps: "slot_steps maxOf slot_start drainedState"
proof -
  have "slot_step maxOf slot_start (drainedState\<lparr>sl_drain := Waiting\<rparr>)"
    using slot_step.DrainStart[of slot_start maxOf]
    by (simp add: slot_start_def drainedState_def NewStreamManager_def)
  moreover have "slot_step maxOf (drainedState\<lparr>sl_drain := Waiting\<rparr>) drainedState"
    using slot_step.DrainDone[of "drainedState\<lparr>sl_drain := Waiting\<rparr>" maxOf]
    by (simp add: drainedState_def totalStreams_def)
  ultimately show ?thesis by (meson rtranclp.rtrancl_refl rtranclp.rtrancl_into_rtrancl)
qed

theorem drain_race_witness:
  "Holding ''echo'' \<notin> set (sl_threads (drainedState\<lparr>sl_threads := [Begin ''echo'']\<rparr>))"
proof -
  have "slot_steps (\<lambda>_. 1) drainedState (drainedState\<lparr>sl_threads := [Begin ''echo'']\<rparr>)"
    using slot_step.Arrive[of "\<lambda>_. 1" drainedState "''echo''"] by (simp add: drainedState_def)
  moreover have "sl_drain drainedState = Drained" "sl_threads drainedState = []"
    by (simp_all add: drainedState_def)
  ultimately show ?thesis using drain_race[of "''echo''"] drainedState_steps[of "\<lambda>_. 1"] by force
qed

end
