(* ===== verification/Sse.thy ===== *)
theory Sse
  imports Prelude
begin

text \<open>
  The relay of a stream (\<open>ProxyStream\<close> in \<open>internal/proxy/sse.go\<close>, from the reader goroutine on): the
  lines \<open>bufio.Scanner\<close> makes of the backend's bytes, and the reader goroutine, the channel of
  capacity one and the select loop as a step relation. Which case the select takes and when the
  clock, the client and the backend act is left open.
\<close>

section \<open>The scanner\<close>

definition dropCR :: "string \<Rightarrow> string" where
  "dropCR l = (if l \<noteq> [] \<and> last l = CHR 0x0D then butlast l else l)"

text \<open>
  \<open>scanBytes m acc s\<close>: the tokens of the rest \<open>s\<close> after the bytes \<open>acc\<close> of the current line, and whether
  the line got too long for a buffer of \<open>m\<close> bytes, which ends the scan. The last line needs no newline.
\<close>

fun scanBytes :: "nat \<Rightarrow> string \<Rightarrow> string \<Rightarrow> string list \<times> bool" where
  "scanBytes m acc [] =
     (if m \<le> length acc then ([], True) else (if acc = [] then [] else [dropCR acc], False))"
| "scanBytes m acc (c # s) =
     (if m \<le> length acc then ([], True)
      else if c = CHR 0x0A then (case scanBytes m [] s of (ls, e) \<Rightarrow> (dropCR acc # ls, e))
      else scanBytes m (acc @ [c]) s)"

datatype line_result = Line string | ReadError

text \<open>What the reader goroutine sends: the scanner's buffer starts with 64 KiB and grows to the maximum.\<close>

definition scanResults :: "int \<Rightarrow> string \<Rightarrow> bool \<Rightarrow> line_result list" where
  "scanResults maxEventSize bytes fails =
     (case scanBytes (nat (max 65536 maxEventSize)) [] bytes of
        (ls, tooLong) \<Rightarrow> map Line ls @ (if tooLong \<or> fails then [ReadError] else []))"

section \<open>Reader and main loop\<close>

datatype reader_pc = Scanning "line_result list" | Sending line_result "line_result list" | Finished

datatype main_pc = Relaying | Ended | Disconnected | IdleTimeout | BackendError

record relay_state =
  rl_reader :: reader_pc
  rl_chan :: "line_result list"
  rl_main :: main_pc
  rl_out :: string
  rl_flushed :: nat
  rl_cancelled :: bool
  rl_cut :: bool

definition relay_start :: "line_result list \<Rightarrow> relay_state" where
  "relay_start rs = \<lparr>rl_reader = Scanning rs, rl_chan = [], rl_main = Relaying, rl_out = [], rl_flushed = 0,
     rl_cancelled = False, rl_cut = False\<rparr>"

definition nl :: string where "nl = [CHR 0x0A]"

definition idleEvent :: string where
  "idleEvent = ''event: error'' @ nl @ ''data: {'' @ [CHR 0x22] @ ''code'' @ [CHR 0x22] @ '':408,'' @ [CHR 0x22]
     @ ''message'' @ [CHR 0x22] @ '':'' @ [CHR 0x22] @ ''Stream idle timeout'' @ [CHR 0x22] @ ''}'' @ nl @ nl"

definition backendEvent :: string where
  "backendEvent = ''event: error'' @ nl @ ''data: {'' @ [CHR 0x22] @ ''code'' @ [CHR 0x22] @ '':502,'' @ [CHR 0x22]
     @ ''message'' @ [CHR 0x22] @ '':'' @ [CHR 0x22] @ ''Backend stream error'' @ [CHR 0x22] @ ''}'' @ nl @ nl"

definition writeFlush :: "string \<Rightarrow> relay_state \<Rightarrow> relay_state" where
  "writeFlush t s = s\<lparr>rl_out := rl_out s @ t, rl_flushed := length (rl_out s @ t)\<rparr>"

text \<open>
  What a scan that is cut short still gives of the lines \<open>xs\<close>: some first lines, the last of them possibly
  without its end, since the scanner hands out what it has when a read fails.
\<close>

fun truncation :: "line_result list \<Rightarrow> line_result list \<Rightarrow> bool" where
  "truncation xs [] \<longleftrightarrow> True"
| "truncation (Line l # xs) (Line k # ys) \<longleftrightarrow> (if ys = [] then hasPrefix l k else l = k \<and> truncation xs ys)"
| "truncation _ _ \<longleftrightarrow> False"

text \<open>
  The steps. The backend request carries the context of the client's request, which is cancelled when the client
  disconnects (\<open>Cancel\<close>); the select may notice (\<open>ClientGone\<close>) or the read may fail first. When \<open>ProxyStream\<close>
  returns, the deferred \<open>resp.Body.Close()\<close> makes a scan still going on fail, too (\<open>BodyCut\<close>).
\<close>

inductive relay_step :: "relay_state \<Rightarrow> relay_state \<Rightarrow> bool" where
  ScanNext: "rl_reader s = Scanning (x # xs) \<Longrightarrow> relay_step s (s\<lparr>rl_reader := Sending x xs\<rparr>)"
| ScanEnd: "rl_reader s = Scanning [] \<Longrightarrow> relay_step s (s\<lparr>rl_reader := Finished\<rparr>)"
| Send: "rl_reader s = Sending x xs \<Longrightarrow> length (rl_chan s) < 1
    \<Longrightarrow> relay_step s (s\<lparr>rl_reader := (if x = ReadError \<and> xs = [] then Finished else Scanning xs),
          rl_chan := rl_chan s @ [x]\<rparr>)"
| Cancel: "\<not> rl_cancelled s \<Longrightarrow> relay_step s (s\<lparr>rl_cancelled := True\<rparr>)"
| BodyCut: "rl_main s \<noteq> Relaying \<or> rl_cancelled s \<Longrightarrow> \<not> rl_cut s \<Longrightarrow> rl_reader s = Scanning xs \<Longrightarrow> truncation xs ys
    \<Longrightarrow> relay_step s (s\<lparr>rl_reader := Scanning (ys @ [ReadError]), rl_cut := True\<rparr>)"
| RecvLine: "rl_main s = Relaying \<Longrightarrow> rl_chan s = Line l # ch
    \<Longrightarrow> relay_step s (s\<lparr>rl_chan := ch, rl_out := rl_out s @ l @ nl,
          rl_flushed := (if l = [] then length (rl_out s @ l @ nl) else rl_flushed s)\<rparr>)"
| RecvError: "rl_main s = Relaying \<Longrightarrow> rl_chan s = ReadError # ch
    \<Longrightarrow> relay_step s ((writeFlush backendEvent s)\<lparr>rl_chan := ch, rl_main := BackendError\<rparr>)"
| RecvClosed: "rl_main s = Relaying \<Longrightarrow> rl_chan s = [] \<Longrightarrow> rl_reader s = Finished
    \<Longrightarrow> relay_step s (s\<lparr>rl_main := Ended\<rparr>)"
| ClientGone: "rl_main s = Relaying \<Longrightarrow> rl_cancelled s \<Longrightarrow> relay_step s (s\<lparr>rl_main := Disconnected\<rparr>)"
| Idle: "rl_main s = Relaying \<Longrightarrow> relay_step s ((writeFlush idleEvent s)\<lparr>rl_main := IdleTimeout\<rparr>)"

inductive_cases relay_stepE: "relay_step s s'"

abbreviation "relay_steps \<equiv> relay_step\<^sup>*\<^sup>*"

section \<open>Invariant\<close>

fun pendingResults :: "reader_pc \<Rightarrow> line_result list" where
  "pendingResults (Scanning xs) = xs" | "pendingResults (Sending x xs) = x # xs" | "pendingResults Finished = []"

definition render :: "string list \<Rightarrow> string" where
  "render ls = concat (map (\<lambda>l. l @ nl) ls)"

fun closing :: "main_pc \<Rightarrow> string" where
  "closing IdleTimeout = idleEvent" | "closing BackendError = backendEvent" | "closing _ = []"

text \<open>What has been written are the first lines, then the event of the way the relay ended.\<close>

definition relay_inv :: "line_result list \<Rightarrow> string list \<Rightarrow> relay_state \<Rightarrow> bool" where
  "relay_inv rs ls s \<longleftrightarrow> rl_out s = render ls @ closing (rl_main s) \<and> ReadError \<notin> set (butlast rs)
     \<and> (rl_main s = Relaying \<and> ReadError \<in> set (rl_chan s) \<longrightarrow> rl_reader s = Finished)
     \<and> (\<exists>zs. rs = map Line ls @ zs
          \<and> (rl_main s = Relaying \<longrightarrow> (\<exists>us. zs = rl_chan s @ us
                \<and> (ReadError \<in> set (rl_chan s) \<or> us = pendingResults (rl_reader s))))
          \<and> (rl_main s = Ended \<longrightarrow> zs = [])
          \<and> (rl_main s = BackendError \<longrightarrow> zs \<noteq> [] \<and> hd zs = ReadError))"

text \<open>The results are those of the whole scan, or of one cut short after the client's context was cancelled.\<close>

definition relay_from :: "line_result list \<Rightarrow> string list \<Rightarrow> relay_state \<Rightarrow> bool" where
  "relay_from rs ls s \<longleftrightarrow> (\<exists>rs'. relay_inv rs' ls s
     \<and> (rs' = rs \<or> rl_cut s \<and> rl_cancelled s \<and> (\<exists>ys. truncation rs ys \<and> rs' = ys @ [ReadError])))"

lemma truncation_append: "ReadError \<notin> set ps \<Longrightarrow> truncation xs ys \<Longrightarrow> truncation (ps @ xs) (ps @ ys)"
proof (induction ps)
  case (Cons p ps)
  then show ?case by (cases p) (auto simp: hasPrefix_def)
qed simp

lemma truncation_length: "truncation xs ys \<Longrightarrow> length ys \<le> length xs \<and> ReadError \<notin> set ys"
  by (induction xs ys rule: truncation.induct) (auto split: if_splits)

lemma render_simps [simp]: "render [] = []" "render (ls @ [l]) = render ls @ l @ nl"
  by (simp_all add: render_def)

lemma relay_inv_start: "ReadError \<notin> set (butlast rs) \<Longrightarrow> relay_inv rs [] (relay_start rs)"
  by (simp add: relay_inv_def relay_start_def)

lemma relay_inv_step:
  assumes "relay_step s s'" and "relay_inv rs ls s" and "\<not> (rl_cut s' \<and> \<not> rl_cut s \<and> rl_main s = Relaying)"
  shows "\<exists>ls'. relay_inv rs ls' s'"
  using assms
proof (induction rule: relay_step.induct)
  case (RecvLine s l ch)
  then have "relay_inv rs (ls @ [l]) (s\<lparr>rl_chan := ch, rl_out := rl_out s @ l @ nl,
      rl_flushed := (if l = [] then length (rl_out s @ l @ nl) else rl_flushed s)\<rparr>)"
    by (auto simp: relay_inv_def)
  then show ?case ..
qed (auto simp: relay_inv_def writeFlush_def butlast_append intro!: exI[of _ ls] split: if_splits)

lemma relay_inv_cut:
  assumes "relay_inv rs ls s" and "rl_main s = Relaying" and "rl_reader s = Scanning xs" and "truncation xs ys"
  shows "\<exists>zs. truncation rs zs \<and> relay_inv (zs @ [ReadError]) ls (s\<lparr>rl_reader := Scanning (ys @ [ReadError]), rl_cut := True\<rparr>)"
proof -
  from assms(1-3) have rs: "rs = (map Line ls @ rl_chan s) @ xs" and no: "ReadError \<notin> set (map Line ls @ rl_chan s)"
    by (auto simp: relay_inv_def)
  from truncation_append[OF no assms(4)] have "truncation rs ((map Line ls @ rl_chan s) @ ys)" unfolding rs .
  moreover have "relay_inv (((map Line ls @ rl_chan s) @ ys) @ [ReadError]) ls
      (s\<lparr>rl_reader := Scanning (ys @ [ReadError]), rl_cut := True\<rparr>)"
    using assms(1,2) no truncation_length[OF assms(4)] by (auto simp: relay_inv_def butlast_append)
  ultimately show ?thesis by blast
qed

lemma relay_step_flags: "relay_step s s' \<Longrightarrow> (rl_cut s \<longrightarrow> rl_cut s') \<and> (rl_cancelled s \<longrightarrow> rl_cancelled s')"
  by (induction rule: relay_step.induct) (auto simp: writeFlush_def)

lemma relay_from_step: "relay_step s s' \<Longrightarrow> relay_from rs ls s \<Longrightarrow> \<exists>ls'. relay_from rs ls' s'"
proof -
  assume st: "relay_step s s'" and "relay_from rs ls s"
  then obtain rs' where inv: "relay_inv rs' ls s" and from_rs: "rs' = rs
      \<or> rl_cut s \<and> rl_cancelled s \<and> (\<exists>ys. truncation rs ys \<and> rs' = ys @ [ReadError])"
    by (auto simp: relay_from_def)
  show ?thesis
  proof (cases "rl_cut s' \<and> \<not> rl_cut s \<and> rl_main s = Relaying")
    case False
    from relay_inv_step[OF st inv False] from_rs relay_step_flags[OF st] show ?thesis
      unfolding relay_from_def by blast
  next
    case True
    with from_rs have "rs' = rs" by blast
    moreover from st True obtain xs ys where "rl_reader s = Scanning xs" "truncation xs ys" "rl_cancelled s"
      and s': "s' = s\<lparr>rl_reader := Scanning (ys @ [ReadError]), rl_cut := True\<rparr>"
      by (auto elim!: relay_stepE simp: writeFlush_def)
    ultimately show ?thesis using relay_inv_cut[of rs ls s xs ys] inv True unfolding relay_from_def s'
      by (auto intro!: exI[of _ ls])
  qed
qed

lemma relay_from_steps: "ReadError \<notin> set (butlast rs) \<Longrightarrow> relay_steps (relay_start rs) s \<Longrightarrow> \<exists>ls. relay_from rs ls s"
proof (rotate_tac, induction rule: rtranclp_induct)
  case base
  then show ?case using relay_inv_start unfolding relay_from_def by blast
qed (use relay_from_step in blast)

section \<open>Termination\<close>

fun readerWork :: "reader_pc \<Rightarrow> nat" where
  "readerWork (Scanning xs) = 3 * length xs + 1" | "readerWork (Sending x xs) = 3 * length xs + 3" | "readerWork Finished = 0"

definition relayWork :: "relay_state \<Rightarrow> nat" where
  "relayWork s = readerWork (rl_reader s) + length (rl_chan s) + (if rl_main s = Relaying then 1 else 0)
     + (if rl_cut s then 0 else 4) + (if rl_cancelled s then 0 else 1)"

lemma relayWork_step: "relay_step s s' \<Longrightarrow> relayWork s' < relayWork s"
  by (induction rule: relay_step.induct) (auto simp: relayWork_def writeFlush_def dest: truncation_length)

lemma relayWork_steps: "(relay_step ^^ n) s s' \<Longrightarrow> n + relayWork s' \<le> relayWork s"
proof (induction n arbitrary: s')
  case (Suc n)
  then obtain t where "(relay_step ^^ n) s t" "relay_step t s'" by auto
  with Suc.IH[of t] relayWork_step[of t s'] show ?case by simp
qed simp

section \<open>Lines and bytes\<close>

lemma scanBytes_line:
  "CHR 0x0A \<notin> set l \<Longrightarrow> length acc + length l < m \<Longrightarrow>
    scanBytes m acc (l @ CHR 0x0A # s) = (case scanBytes m [] s of (ls, e) \<Rightarrow> (dropCR (acc @ l) # ls, e))"
proof (induction l arbitrary: acc)
  case (Cons c l)
  then have "c \<noteq> CHR 0x0A" by auto
  with Cons.IH[of "acc @ [c]"] Cons.prems show ?case by simp
qed simp

text \<open>A line the scanner gives back as it is.\<close>

definition plain_line :: "nat \<Rightarrow> string \<Rightarrow> bool" where
  "plain_line m l \<longleftrightarrow> CHR 0x0A \<notin> set l \<and> length l < m \<and> (l = [] \<or> last l \<noteq> CHR 0x0D)"

lemma scanBytes_render: "0 < m \<Longrightarrow> \<forall>l\<in>set ls. plain_line m l \<Longrightarrow> scanBytes m [] (render ls) = (ls, False)"
proof (induction ls)
  case (Cons l ls)
  then have "scanBytes m [] (l @ CHR 0x0A # render ls) = (l # ls, False)"
    by (subst scanBytes_line) (auto simp: plain_line_def dropCR_def)
  then show ?case by (simp add: render_def nl_def)
qed simp

lemma scanResults_render:
  assumes "\<forall>l\<in>set ls. plain_line (nat (max 65536 m)) l"
  shows "scanResults m (render ls) fails = map Line ls @ (if fails then [ReadError] else [])"
  using scanBytes_render[OF _ assms] by (simp add: scanResults_def)

lemma truncation_lines: "truncation (map Line ls @ [ReadError]) ys \<Longrightarrow> truncation (map Line ls) ys"
proof (induction ls arbitrary: ys)
  case Nil
  then show ?case by (cases ys) auto
next
  case (Cons l ls)
  then show ?case by (cases ys; cases "hd ys") (auto split: if_splits)
qed

lemma truncation_take: "truncation (map Line ls) (map Line (take n ls))"
  using truncation_append[of "map Line (take n ls)" "map Line (drop n ls)" "[]"]
  by (auto simp flip: map_append)

lemma truncation_prefix: "truncation rs (map Line ls @ zs) \<Longrightarrow> truncation rs (map Line ls)"
proof (induction ls arbitrary: rs)
  case (Cons l ls)
  then obtain k rs' where rs: "rs = Line k # rs'" by (cases rs; cases "hd rs") auto
  show ?case
  proof (cases "map Line ls @ zs = []")
    case True
    with Cons.prems rs show ?thesis by simp
  next
    case False
    with Cons.prems rs have "k = l" "truncation rs' (map Line ls @ zs)" by simp_all
    with Cons.IH rs show ?thesis by (simp add: hasPrefix_def)
  qed
qed simp

section \<open>Properties\<close>

text \<open>C18: The relay is transparent: of a backend stream of lines that fit the buffer and do not end in a carriage
  return, every reachable state has written exactly the first lines and, when it gave up, one error event; only
  when the client's context was cancelled, so that nobody reads it, the last of them may lack its end. When the
  relay ends normally, the backend has not failed and the client has got all of its bytes; the error of the
  backend is reported only when a read failed, by itself or by that cancellation.\<close>

theorem relay_transparent:
  assumes "\<forall>l\<in>set ls. plain_line (nat (max 65536 maxEventSize)) l"
    and "relay_steps (relay_start (scanResults maxEventSize (render ls) fails)) s"
  shows "(\<exists>ys. truncation (map Line ls) (map Line ys) \<and> rl_out s = render ys @ closing (rl_main s)
        \<and> (\<not> rl_cancelled s \<longrightarrow> ys = take (length ys) ls))
    \<and> (rl_main s = Ended \<longrightarrow> \<not> fails \<and> rl_out s = render ls)
    \<and> (rl_main s = BackendError \<longrightarrow> fails \<or> rl_cancelled s)"
proof -
  let ?rs = "map Line ls @ (if fails then [ReadError] else [])"
  have "ReadError \<notin> set (butlast ?rs)" by (auto simp: butlast_append dest: in_set_butlastD)
  with relay_from_steps[OF _ assms(2)] scanResults_render[OF assms(1)] obtain ys rs' where inv: "relay_inv rs' ys s"
    and from_rs: "rs' = ?rs \<or> rl_cancelled s \<and> (\<exists>us. truncation ?rs us \<and> rs' = us @ [ReadError])"
    by (auto simp: relay_from_def)
  from inv obtain zs where zs: "rs' = map Line ys @ zs" and out: "rl_out s = render ys @ closing (rl_main s)"
    and fin: "rl_main s = Ended \<longrightarrow> zs = []" "rl_main s = BackendError \<longrightarrow> zs \<noteq> [] \<and> hd zs = ReadError"
    by (auto simp: relay_inv_def)
  show ?thesis
  proof (cases "rs' = ?rs")
    case True
    have ys: "ys = take (length ys) ls \<and> map Line (drop (length ys) ls) @ (if fails then [ReadError] else []) = zs"
    proof -
      from zs True have eq: "map Line ls @ (if fails then [ReadError] else []) = map Line ys @ zs" by simp
      have len: "length ys \<le> length ls"
      proof (rule ccontr)
        assume "\<not> length ys \<le> length ls"
        then have l: "length ls < length ys" by simp
        with arg_cong[OF eq, of "\<lambda>xs. xs ! length ls"] arg_cong[OF eq, of length]
        show False by (auto simp: nth_append split: if_splits)
      qed
      from arg_cong[OF eq, of "take (length ys)"] len have "map Line (take (length ys) ls) = map Line ys"
        by (simp add: take_map)
      then have t: "ys = take (length ys) ls" by (simp add: inj_map_eq_map inj_def)
      from arg_cong[OF eq, of "drop (length ys)"] len show ?thesis using t by (simp add: drop_map)
    qed
    have "rl_main s = Ended \<longrightarrow> \<not> fails \<and> ys = ls" using fin(1) ys by (auto split: if_splits)
    moreover have "rl_main s = BackendError \<longrightarrow> fails"
      using fin(2) ys by (cases "drop (length ys) ls") (auto split: if_splits)
    ultimately show ?thesis using out ys truncation_take[of ls "length ys"] by auto
  next
    case False
    with from_rs obtain us where c: "rl_cancelled s" and us: "truncation ?rs us" "rs' = us @ [ReadError]" by blast
    have "truncation (map Line ls) us" using us(1) truncation_lines by (auto split: if_splits)
    moreover have ne: "zs \<noteq> []"
    proof
      assume "zs = []"
      with zs us(2) have "ReadError \<in> set (map Line ys)" by (metis append_Nil2 in_set_conv_decomp)
      then show False by auto
    qed
    moreover from ne zs us(2) have "us = map Line ys @ butlast zs" by (metis butlast_append butlast_snoc)
    ultimately have "truncation (map Line ls) (map Line ys)" using truncation_prefix by blast
    with ne fin out c show ?thesis by blast
  qed
qed

text \<open>C19: Every run of the relay is finite, bounded by the lines of the backend, and does not stop before
  \<open>ProxyStream\<close> has returned. The reader goroutine, however, need not finish: when the client disconnects while
  one line waits in the channel and the next is read, it blocks on the channel for ever.\<close>

theorem relay_terminates:
  "((relay_step ^^ n) (relay_start rs) s \<longrightarrow> n \<le> 3 * length rs + 7)
   \<and> (relay_steps (relay_start rs) s \<and> \<not> (\<exists>s'. relay_step s s') \<longrightarrow> rl_main s \<noteq> Relaying)
   \<and> (2 \<le> length rs \<longrightarrow> (\<exists>t. relay_steps (relay_start rs) t \<and> rl_main t = Disconnected
        \<and> rl_reader t \<noteq> Finished \<and> \<not> (\<exists>t'. relay_step t t')))"
proof (intro conjI impI)
  show "n \<le> 3 * length rs + 7" if "(relay_step ^^ n) (relay_start rs) s"
    using relayWork_steps[OF that] by (simp add: relayWork_def relay_start_def)
next
  show "rl_main s \<noteq> Relaying" if "relay_steps (relay_start rs) s \<and> \<not> (\<exists>s'. relay_step s s')"
    using that relay_step.Idle by blast
next
  assume "2 \<le> length rs"
  then obtain x y zs where rs: "rs = x # y # zs"
    by (metis Suc_le_length_iff numeral_2_eq_2)
  let ?t = "\<lambda>rd ch m c. \<lparr>rl_reader = rd, rl_chan = ch, rl_main = m, rl_out = [], rl_flushed = 0, rl_cancelled = c,
    rl_cut = False\<rparr>"
  have "relay_step (relay_start rs) (?t (Sending x (y # zs)) [] Relaying False)"
    using relay_step.ScanNext[of "relay_start rs" x "y # zs"] by (simp add: relay_start_def rs)
  moreover have "relay_step (?t (Sending x (y # zs)) [] Relaying False) (?t (Scanning (y # zs)) [x] Relaying False)"
    using relay_step.Send[of "?t (Sending x (y # zs)) [] Relaying False" x "y # zs"] by simp
  moreover have "relay_step (?t (Scanning (y # zs)) [x] Relaying False) (?t (Sending y zs) [x] Relaying False)"
    using relay_step.ScanNext[of "?t (Scanning (y # zs)) [x] Relaying False" y zs] by simp
  moreover have "relay_step (?t (Sending y zs) [x] Relaying False) (?t (Sending y zs) [x] Relaying True)"
    using relay_step.Cancel[of "?t (Sending y zs) [x] Relaying False"] by simp
  moreover have "relay_step (?t (Sending y zs) [x] Relaying True) (?t (Sending y zs) [x] Disconnected True)"
    using relay_step.ClientGone[of "?t (Sending y zs) [x] Relaying True"] by simp
  ultimately have "relay_steps (relay_start rs) (?t (Sending y zs) [x] Disconnected True)"
    by (meson rtranclp.rtrancl_refl rtranclp.rtrancl_into_rtrancl)
  moreover have "\<not> relay_step (?t (Sending y zs) [x] Disconnected True) t'" for t'
    by (auto elim!: relay_stepE)
  ultimately show "\<exists>t. relay_steps (relay_start rs) t \<and> rl_main t = Disconnected
      \<and> rl_reader t \<noteq> Finished \<and> \<not> (\<exists>t'. relay_step t t')"
    by (intro exI[of _ "?t (Sending y zs) [x] Disconnected True"]) simp
qed

section \<open>Witnesses\<close>

theorem relay_transparent_witness:
  "rl_main (relay_start (scanResults 0 (render [''data: a'', []]) False)) \<noteq> BackendError"
proof -
  have "\<forall>l\<in>set [''data: a'', []]. plain_line (nat (max 65536 0)) l" by (simp add: plain_line_def)
  from relay_transparent[where fails = False, OF this rtranclp.rtrancl_refl] show ?thesis by (simp add: relay_start_def)
qed

theorem relay_terminates_witness:
  "\<exists>t. relay_steps (relay_start [Line ''data: a'', Line []]) t \<and> rl_main t = Disconnected
     \<and> rl_reader t \<noteq> Finished \<and> \<not> (\<exists>t'. relay_step t t')"
  using relay_terminates[where rs = "[Line ''data: a'', Line []]" and n = 0 and s = "relay_start []"] by simp

end
