(* ===== verification/Proxy.thy ===== *)
theory Proxy
  imports Http_Model Go_Url Streams Sse
begin

text \<open>
  Forwarding (\<open>internal/proxy\<close>): the header filter (\<open>headers.go\<close>), plain requests (\<open>http.go\<close>) and the
  setting up of a stream (\<open>sse.go\<close>), whose relay is the step relation of \<open>Sse\<close>. The backend is a
  parameter: what \<open>client.Do\<close> of the proxy's own client answers a request, \<open>None\<close> on an error.
\<close>

section \<open>Headers (headers.go)\<close>

definition hopByHopHeaders :: "string list" where
  "hopByHopHeaders = [''Connection'', ''Keep-Alive'', ''Proxy-Authenticate'', ''Proxy-Authorization'', ''Te'',
     ''Trailers'', ''Transfer-Encoding'', ''Upgrade'']"

definition isHopByHop :: "string \<Rightarrow> bool" where
  "isHopByHop k = list_ex (\<lambda>h. canonicalKey k = canonicalKey h) hopByHopHeaders"

definition addAll :: "string \<Rightarrow> string list \<Rightarrow> header \<Rightarrow> header" where
  "addAll k vs h = fold (\<lambda>v d. header_add d k v) vs h"

definition CopyHeadersFiltered :: "header \<Rightarrow> header \<Rightarrow> header" where
  "CopyHeadersFiltered dst src =
     fold (\<lambda>(k, vs) d. if isHopByHop k then d else addAll k vs d) src dst"

section \<open>Requests to a backend\<close>

record backend_request =
  bq_method :: string
  bq_url :: string
  bq_headers :: header
  bq_body :: "stream option"

record backend_response =
  br_status :: int
  br_header :: header
  br_body :: stream

datatype proxy_error = BadBackendRequest | BackendFailed | StreamLimit string | NoFlusher
  | RelayIdle | RelayRead

definition extractClientIP :: "request \<Rightarrow> string" where
  "extractClientIP r = (case SplitHostPort (rq_remoteAddr r) of None \<Rightarrow> rq_remoteAddr r | Some (host, p) \<Rightarrow> host)"

text \<open>The headers of the request to the backend: copied, forwarding headers set, \<open>X-Sentinel-*\<close> removed.\<close>

definition dropSentinel :: "header \<Rightarrow> header" where
  "dropSentinel h = fold (\<lambda>k d. if hasPrefix (toLower k) ''x-sentinel-'' then header_del d k else d) (map fst h) h"

definition forwardHeaders :: "request \<Rightarrow> header" where
  "forwardHeaders r =
     (let h = CopyHeadersFiltered [] (rq_headers r);
          clientIP = extractClientIP r; prior = hdr r ''X-Forwarded-For'';
          h1 = header_set h ''X-Forwarded-For'' (if prior \<noteq> [] then prior @ '', '' @ clientIP else clientIP);
          h2 = header_set h1 ''X-Forwarded-Proto'' (if rq_tls r then ''https'' else ''http'') in
      dropSentinel h2)"

text \<open>
  \<open>http.NewRequestWithContext\<close> refuses a method that is not a token and a URL that does not parse;
  the empty method stands for GET.
\<close>

definition newRequest :: "request \<Rightarrow> string \<Rightarrow> backend_request option" where
  "newRequest r url =
     (let m = (if rq_method r = [] then ''GET'' else rq_method r) in
      if \<not> list_all isTokenByte m \<or> urlParse url = None then None
      else Some \<lparr>bq_method = m, bq_url = url, bq_headers = forwardHeaders r, bq_body = rq_body r\<rparr>)"

definition backendURL :: "request \<Rightarrow> string \<Rightarrow> string \<Rightarrow> string" where
  "backendURL r targetURL targetPath =
     targetURL @ targetPath @ (if rq_query r \<noteq> [] then CHR ''?'' # rq_query r else [])"

section \<open>Plain requests (http.go)\<close>

definition Forward ::
  "(backend_request \<Rightarrow> backend_response option) \<Rightarrow> request \<Rightarrow> header \<Rightarrow> string \<Rightarrow> string
     \<Rightarrow> response \<times> proxy_error option" where
  "Forward do r w targetURL targetPath = (case newRequest r (backendURL r targetURL targetPath) of
      None \<Rightarrow> (WriteHTTPError w ErrAgentUnavailable, Some BadBackendRequest)
    | Some q \<Rightarrow> (case do q of
        None \<Rightarrow> (WriteHTTPError w ErrAgentUnavailable, Some BackendFailed)
      | Some resp \<Rightarrow> (\<lparr>rs_status = br_status resp, rs_header = CopyHeadersFiltered w (br_header resp),
            rs_payload = PText (st_bytes (br_body resp))\<rparr>, None)))"

section \<open>Streams (sse.go)\<close>

record sse_proxy =
  sp_maxEventSize :: int
  sp_idleTimeout :: go_duration

definition NewSSEProxy :: sse_proxy where
  "NewSSEProxy = \<lparr>sp_maxEventSize = 1024 * 1024, sp_idleTimeout = 5 * 60 * nanos 1\<rparr>"

definition SetMaxEventSize :: "int \<Rightarrow> sse_proxy \<Rightarrow> sse_proxy" where
  "SetMaxEventSize n p = p\<lparr>sp_maxEventSize := n\<rparr>"

definition SetIdleTimeout :: "go_duration \<Rightarrow> sse_proxy \<Rightarrow> sse_proxy" where
  "SetIdleTimeout d p = p\<lparr>sp_idleTimeout := d\<rparr>"

definition presetHeaders :: "string list" where
  "presetHeaders = [''Content-Type'', ''Cache-Control'', ''Connection'', ''X-Accel-Buffering'']"

definition streamHeaders :: "header \<Rightarrow> header \<Rightarrow> header" where
  "streamHeaders w resp =
     (let h = header_set (header_set (header_set (header_set w ''Content-Type'' ''text/event-stream'')
          ''Cache-Control'' ''no-cache'') ''Connection'' ''keep-alive'') ''X-Accel-Buffering'' ''no'' in
      fold (\<lambda>(k, vs) d. if canonicalKey k \<in> set presetHeaders then d
                        else if isHopByHop k then d else addAll k vs d) resp h)"

text \<open>How the relay ended, as the value \<open>ProxyStream\<close> returns.\<close>

fun relayError :: "main_pc \<Rightarrow> proxy_error option" where
  "relayError IdleTimeout = Some RelayIdle" | "relayError BackendError = Some RelayRead" | "relayError _ = None"

text \<open>
  \<open>relay\<close> chooses the final state of the relay of a stream: which one it is depends on the clock, the
  client and the scheduler. \<open>flushable\<close>: whether the writer is an \<open>http.Flusher\<close>.
\<close>

definition streamBody ::
  "(backend_request \<Rightarrow> backend_response option) \<Rightarrow> bool \<Rightarrow> (line_result list \<Rightarrow> relay_state) \<Rightarrow> sse_proxy
     \<Rightarrow> request \<Rightarrow> header \<Rightarrow> string \<Rightarrow> string \<Rightarrow> response \<times> proxy_error option" where
  "streamBody do flushable relay p r w targetURL targetPath =
     (case newRequest r (backendURL r targetURL targetPath) of
        None \<Rightarrow> (WriteHTTPError w ErrAgentUnavailable, Some BadBackendRequest)
      | Some q \<Rightarrow> (case do q of
          None \<Rightarrow> (WriteHTTPError w ErrAgentUnavailable, Some BackendFailed)
        | Some resp \<Rightarrow>
            if \<not> flushable then (WriteHTTPError w ErrAgentUnavailable, Some NoFlusher)
            else (let end = relay (scanResults (sp_maxEventSize p) (st_bytes (br_body resp)) (st_fails (br_body resp))) in
              (\<lparr>rs_status = 200, rs_header = streamHeaders w (br_header resp), rs_payload = PText (rl_out end)\<rparr>,
               relayError (rl_main end)))))"

definition ProxyStream ::
  "(backend_request \<Rightarrow> backend_response option) \<Rightarrow> bool \<Rightarrow> (line_result list \<Rightarrow> relay_state) \<Rightarrow> sse_proxy
     \<Rightarrow> request \<Rightarrow> header \<Rightarrow> string \<Rightarrow> string \<Rightarrow> string \<Rightarrow> int \<Rightarrow> stream_manager
     \<Rightarrow> (response \<times> proxy_error option) \<times> stream_manager" where
  "ProxyStream do flushable relay p r w agentName targetURL targetPath maxStreams sm =
     (case AcquireStream agentName maxStreams sm of
        (False, sm1) \<Rightarrow> ((WriteHTTPError w ErrStreamLimitExceeded, Some (StreamLimit agentName)), sm1)
      | (True, sm1) \<Rightarrow>
          (streamBody do flushable relay p r w targetURL targetPath, ReleaseStream agentName sm1))"

section \<open>What the header operations do\<close>

definition vals :: "header \<Rightarrow> string \<Rightarrow> string list" where
  "vals h k = (case map_of h k of None \<Rightarrow> [] | Some vs \<Rightarrow> vs)"

text \<open>Headers as the server reads them: distinct canonical keys.\<close>

definition header_wf :: "header \<Rightarrow> bool" where
  "header_wf h \<longleftrightarrow> map_ok h \<and> (\<forall>k\<in>fst ` set h. canonicalKey k = k)"

lemma vals_ops:
  "vals (header_set h k v) k' = (if k' = canonicalKey k then [v] else vals h k')"
  "vals (header_add h k v) k' = (if k' = canonicalKey k then vals h k' @ [v] else vals h k')"
  "vals (header_del h k) k' = (if k' = canonicalKey k then [] else vals h k')"
  "vals [] k' = []"
  by (auto simp: vals_def header_set_def header_add_def header_del_def split: option.splits)

lemma vals_addAll: "vals (addAll k vs h) k' = vals h k' @ (if k' = canonicalKey k then vs else [])"
proof (induction vs arbitrary: h)
  case (Cons v vs)
  then show ?case by (simp add: addAll_def vals_ops)
qed (simp add: addAll_def)

lemma vals_copy_if:
  "header_wf src \<Longrightarrow> vals (fold (\<lambda>(k, vs) d. if P k then d else addAll k vs d) src dst) k
     = vals dst k @ (if P k then [] else vals src k)"
proof (induction src arbitrary: dst)
  case Nil
  then show ?case by (simp add: vals_def)
next
  case (Cons a src)
  obtain k' vs where a: "a = (k', vs)" by (cases a)
  from Cons.prems have wf: "header_wf src" and k': "canonicalKey k' = k'" and new: "map_of src k' = None"
    by (auto simp: header_wf_def map_ok_def a map_of_eq_None_iff)
  have "vals ((k', vs) # src) k = (if k = k' then vs else vals src k)" "vals src k' = []"
    using new by (auto simp: vals_def)
  then show ?case using Cons.IH[OF wf] by (auto simp: a vals_addAll k')
qed

lemma vals_CopyHeadersFiltered:
  "header_wf src \<Longrightarrow> vals (CopyHeadersFiltered dst src) k = vals dst k @ (if isHopByHop k then [] else vals src k)"
  unfolding CopyHeadersFiltered_def by (rule vals_copy_if)

lemma vals_dropSentinel:
  "canonicalKey k = k \<Longrightarrow>
     vals (dropSentinel h) k = (if hasPrefix (toLower k) ''x-sentinel-'' then [] else vals h k)"
proof -
  assume k: "canonicalKey k = k"
  have fold: "vals (fold (\<lambda>k d. if hasPrefix (toLower k) ''x-sentinel-'' then header_del d k else d) ks d) k
      = (if hasPrefix (toLower k) ''x-sentinel-'' \<and> k \<in> canonicalKey ` set ks then [] else vals d k)" for ks d
  proof (induction ks arbitrary: d)
    case (Cons a ks)
    have "k = canonicalKey a \<Longrightarrow> toLower k = toLower a" by simp
    with Cons show ?case by (auto simp: vals_ops)
  qed simp
  have "vals h k = []" if "k \<notin> canonicalKey ` fst ` set h"
  proof -
    have "k \<notin> fst ` set h" using that k by force
    then show ?thesis by (simp add: vals_def map_of_eq_None_iff[THEN iffD2])
  qed
  then show ?thesis by (auto simp: dropSentinel_def fold image_image)
qed

text \<open>\<open>Get\<close> reads the first value.\<close>

lemma header_get_vals: "header_get h k = (case vals h (canonicalKey k) of [] \<Rightarrow> [] | v # vs \<Rightarrow> v)"
  by (auto simp: header_get_def vals_def split: option.splits list.splits)

lemma Forward_ok:
  assumes "Forward do r w u p = (resp, None)"
  obtains q b where "newRequest r (backendURL r u p) = Some q" and "do q = Some b"
    and "resp = \<lparr>rs_status = br_status b, rs_header = CopyHeadersFiltered w (br_header b),
      rs_payload = PText (st_bytes (br_body b))\<rparr>"
  using assms by (auto simp: Forward_def split: option.splits)

section \<open>Properties\<close>

lemma forward_keys:
  "canonicalKey ''X-Forwarded-For'' = ''X-Forwarded-For''" "canonicalKey ''X-Forwarded-Proto'' = ''X-Forwarded-Proto''"
  "hasPrefix (toLower ''X-Forwarded-For'') ''x-sentinel-'' = False"
  "hasPrefix (toLower ''X-Forwarded-Proto'') ''x-sentinel-'' = False"
  by code_simp+

text \<open>C20: The headers a backend gets, exactly: the forwarding headers, with the client's address appended to
  what the first \<open>X-Forwarded-For\<close> line said, no hop-by-hop header of the list and no \<open>X-Sentinel\<close> header, and
  every other header with all its values in order; method and body are the client's.\<close>

theorem forward_headers_exact:
  assumes "header_wf (rq_headers r)" and "newRequest r url = Some q" and "canonicalKey k = k"
  shows "vals (bq_headers q) k =
      (if k = ''X-Forwarded-For'' then
         [(case vals (rq_headers r) k of x # xs \<Rightarrow> if x = [] then extractClientIP r else x @ '', '' @ extractClientIP r
           | [] \<Rightarrow> extractClientIP r)]
       else if k = ''X-Forwarded-Proto'' then [if rq_tls r then ''https'' else ''http'']
       else if isHopByHop k \<or> hasPrefix (toLower k) ''x-sentinel-'' then []
       else vals (rq_headers r) k)
    \<and> bq_body q = rq_body r \<and> (rq_method r \<noteq> [] \<longrightarrow> bq_method q = rq_method r)"
proof -
  from assms(2) have q: "bq_headers q = forwardHeaders r" "bq_body q = rq_body r"
    "rq_method r \<noteq> [] \<longrightarrow> bq_method q = rq_method r"
    by (auto simp: newRequest_def Let_def split: if_splits)
  have "vals (forwardHeaders r) k =
      (if k = ''X-Forwarded-For'' then
         [(case vals (rq_headers r) k of x # xs \<Rightarrow> if x = [] then extractClientIP r else x @ '', '' @ extractClientIP r
           | [] \<Rightarrow> extractClientIP r)]
       else if k = ''X-Forwarded-Proto'' then [if rq_tls r then ''https'' else ''http'']
       else if isHopByHop k \<or> hasPrefix (toLower k) ''x-sentinel-'' then []
       else vals (rq_headers r) k)"
    unfolding forwardHeaders_def Let_def vals_dropSentinel[OF assms(3)] vals_ops
      vals_CopyHeadersFiltered[OF assms(1)] forward_keys hdr_def header_get_vals
    by (auto simp: forward_keys(3,4) split: list.splits)
  with q show ?thesis by simp
qed

text \<open>A stream gives its slot back on every way out, and is refused with 429 exactly when the gateway is
  draining or the agent's limit is reached; a relayed stream is answered 200 whatever the backend's status.\<close>

theorem stream_slot_returned:
  assumes "0 \<le> ActiveStreams agent sm"
    and "ProxyStream do fl relay p r w agent u path maxS sm = ((resp, err), sm')"
  shows "ActiveStreams k sm' = ActiveStreams k sm
    \<and> (err = Some (StreamLimit agent) \<longleftrightarrow> sm_draining sm \<or> maxS \<le> ActiveStreams agent sm)
    \<and> (err = Some (StreamLimit agent) \<longrightarrow> resp = WriteHTTPError w ErrStreamLimitExceeded)
    \<and> (err = None \<longrightarrow> rs_status resp = 200)"
proof -
  obtain ok sm1 where a: "AcquireStream agent maxS sm = (ok, sm1)" by force
  have ok: "ok \<longleftrightarrow> \<not> sm_draining sm \<and> ActiveStreams agent sm < maxS"
    using a by (auto simp: AcquireStream_def ActiveStreams_def countOf_def counterFor_def Let_def
        split: if_splits option.splits)
  have limit: "relayError m \<noteq> Some (StreamLimit agent)" for m by (cases m) auto
  show ?thesis
  proof (cases ok)
    case True
    from True assms(2) a have s: "sm' = ReleaseStream agent sm1"
      and b: "streamBody do fl relay p r w u path = (resp, err)" by (simp_all add: ProxyStream_def)
    have "ActiveStreams k sm' = ActiveStreams k sm"
      unfolding s by (rule slots.balanced[of agent maxS]) (use a True assms(1) in auto)
    moreover have "err \<noteq> Some (StreamLimit agent) \<and> (err = None \<longrightarrow> rs_status resp = 200)"
      using b limit by (auto simp: streamBody_def Let_def split: option.splits if_splits)
    ultimately show ?thesis using True ok by auto
  next
    case False
    with assms(2) a have "sm' = sm1" "err = Some (StreamLimit agent)" "resp = WriteHTTPError w ErrStreamLimitExceeded"
      by (auto simp: ProxyStream_def)
    with False ok slots.refused_unchanged[of agent maxS sm k] a show ?thesis by auto
  qed
qed

section \<open>Two gaps\<close>

text \<open>
  \<open>Trailer\<close> is forwarded, since the list names \<open>Trailers\<close>; and the decoded path goes into the URL
  without being escaped again, so that a \<open>%3F\<close> of the client starts the query of the backend's URL.
\<close>

lemma trailer_forwarded: "\<not> isHopByHop ''Trailer''"
  by code_simp

lemma decoded_path_reparsed:
  "map_option (\<lambda>u. (url_path u, url_rawQuery u)) (urlParse (''http://agent.test'' @ ''/tasks?admin=1''))
    = Some (''/tasks'', ''admin=1'')"
  by code_simp

section \<open>Witnesses\<close>

definition forwardedRequest :: request where
  "forwardedRequest = \<lparr>rq_method = ''POST'', rq_path = ''/message:send'', rq_query = [],
     rq_headers = [(''X-Forwarded-For'', [''198.51.100.7'']), (''Connection'', [''close'']), (''X-Sentinel-Id'', [''1''])],
     rq_body = None, rq_remoteAddr = ''192.0.2.1:1234'', rq_tls = False, rq_ctx = emptyContext\<rparr>"

lemma forwardedRequest_wf: "header_wf (rq_headers forwardedRequest)"
proof -
  have "canonicalKey ''Connection'' = ''Connection''" "canonicalKey ''X-Sentinel-Id'' = ''X-Sentinel-Id''" by code_simp+
  then show ?thesis by (simp add: header_wf_def forwardedRequest_def map_ok_def forward_keys)
qed

theorem forward_headers_exact_witness:
  "\<exists>q. newRequest forwardedRequest ''http://agent.test/message:send'' = Some q
     \<and> vals (bq_headers q) ''X-Forwarded-For'' = [''198.51.100.7, 192.0.2.1'']"
proof -
  have "newRequest forwardedRequest ''http://agent.test/message:send'' \<noteq> None" by code_simp
  then obtain q where q: "newRequest forwardedRequest ''http://agent.test/message:send'' = Some q" by blast
  have "extractClientIP forwardedRequest = ''192.0.2.1''" by code_simp
  with forward_headers_exact[OF forwardedRequest_wf q forward_keys(1)] q show ?thesis
    by (simp add: forwardedRequest_def vals_def)
qed

theorem stream_slot_returned_witness:
  "ActiveStreams ''echo'' (snd (ProxyStream (\<lambda>_. None) True relay_start NewSSEProxy forwardedRequest [] ''echo''
     ''http://agent.test'' ''/message:stream'' 2 NewStreamManager)) = 0"
proof -
  let ?p = "ProxyStream (\<lambda>_. None) True relay_start NewSSEProxy forwardedRequest [] ''echo''
     ''http://agent.test'' ''/message:stream'' 2 NewStreamManager"
  obtain rs err sm where "?p = ((rs, err), sm)" by (metis prod.collapse)
  moreover have "ActiveStreams k NewStreamManager = 0" for k by (simp add: ActiveStreams_def NewStreamManager_def)
  ultimately show ?thesis using stream_slot_returned[of "''echo''" NewStreamManager] by (metis order_refl snd_conv)
qed

end
