(* ===== verification/Audit_Log.thy ===== *)
theory Audit_Log
  imports Config "HOL-Library.Word"
begin

text \<open>
  Audit logging and metrics (\<open>internal/audit\<close>): the sampling decision, the audit record, and the
  metric families with the operations that update them. What \<open>rand.Float64\<close> draws is an argument; the
  Prometheus registry is the three maps of counters, gauges and observations by family and labels.
\<close>

section \<open>Sampling (sampling.go)\<close>

record sampling_config =
  sa_rate :: go_float
  sa_errorRate :: go_float
  sa_maxBody :: int

definition flt_ge1 :: "go_float \<Rightarrow> bool" where
  "flt_ge1 x \<longleftrightarrow> flt_less (Fin 1) x \<or> flt_eq (Fin 1) x"

definition ShouldLog :: "rat \<Rightarrow> sampling_config \<Rightarrow> string \<Rightarrow> bool" where
  "ShouldLog draw s status =
     (let rate = (if status = ''blocked'' \<or> status = ''error'' then sa_errorRate s else sa_rate s) in
      flt_ge1 rate \<or> flt_less (Fin draw) rate)"

section \<open>The audit record (logger.go)\<close>

record audit_log =
  al_traceID :: string
  al_spanID :: string
  al_attributes :: "(string \<times> string) list"
  al_startTime :: go_time
  al_stream :: "(int \<times> int) option"

definition milliseconds :: "go_duration \<Rightarrow> int" where
  "milliseconds d = (if d < 0 then - ((- d) div 1000000) else d div 1000000)"

definition LogRequest :: "rat \<Rightarrow> sampling_config \<Rightarrow> context_vals \<Rightarrow> audit_log option" where
  "LogRequest draw s ctx = (case AuditEntryFrom ctx of
      None \<Rightarrow> None
    | Some e \<Rightarrow>
        if \<not> ShouldLog draw s (au_status e) then None
        else Some \<lparr>al_traceID = au_traceID e, al_spanID = au_spanID e,
          al_attributes = [(''a2a.method'', au_method e), (''a2a.protocol'', au_protocol e),
             (''a2a.target_agent'', au_targetAgent e), (''a2a.auth.scheme'', au_authScheme e),
             (''a2a.auth.subject'', au_authSubject e), (''a2a.status'', au_status e),
             (''a2a.block_reason'', au_blockReason e)],
          al_startTime = au_startTime e,
          al_stream = (if au_streamEvents e > 0
             then Some (au_streamEvents e, milliseconds (au_streamDuration e)) else None)\<rparr>)"

text \<open>\<open>None\<close>: the slice expression panics on a negative size.\<close>

definition TruncateBody :: "string \<Rightarrow> int \<Rightarrow> string option" where
  "TruncateBody body maxSize =
     (if int (length body) \<le> maxSize then Some body
      else if maxSize < 0 then None
      else Some (take (nat maxSize) body @ ''...(truncated)''))"

section \<open>Numbers as text (metrics.go)\<close>

text \<open>The first loop appends the digits, least first; the second swaps the ends inwards.\<close>

fun digitLoop :: "nat \<Rightarrow> string \<Rightarrow> string" where
  "digitLoop n buf = (if n = 0 then buf else digitLoop (n div 10) (buf @ [char_of (48 + n mod 10)]))"

declare digitLoop.simps [simp del]

function swapLoop :: "nat \<Rightarrow> nat \<Rightarrow> string \<Rightarrow> string" where
  "swapLoop i j buf = (if i < j then swapLoop (i + 1) (j - 1) (buf[i := buf ! j, j := buf ! i]) else buf)"
  by pat_completeness auto
termination by (relation "measure (\<lambda>(i, j, _). j - i)") auto

declare swapLoop.simps [simp del]

definition intToString :: "64 word \<Rightarrow> string" where
  "intToString n =
     (if n = 0 then ''0''
      else (let negative = sint n < 0; m = (if negative then - n else n);
                buf = digitLoop (nat (sint m)) [] @ (if negative then ''-'' else []) in
        swapLoop 0 (length buf - 1) buf))"

definition commonStatus :: "int list" where
  "commonStatus = [200, 201, 204, 400, 401, 403, 404, 429, 500, 502, 503]"

definition statusString :: "64 word \<Rightarrow> string" where
  "statusString code = (if sint code \<in> set commonStatus then showInt (sint code) else intToString code)"

section \<open>Metrics (metrics.go)\<close>

record metrics =
  mt_counters :: "(string \<times> string list, nat) gomap"
  mt_gauges :: "(string \<times> string list, rat) gomap"
  mt_observations :: "(string \<times> string list, rat list) gomap"

text \<open>The gauges without labels exist from the start, with value 0.\<close>

definition NewMetrics :: metrics where
  "NewMetrics = \<lparr>mt_counters = [],
     mt_gauges = [((''sentinel_active_streams'', []), 0), ((''sentinel_config_reload_timestamp_seconds'', []), 0)],
     mt_observations = []\<rparr>"

definition incr :: "string \<Rightarrow> string list \<Rightarrow> metrics \<Rightarrow> metrics" where
  "incr fam ls m = m\<lparr>mt_counters := map_put (fam, ls)
     ((case map_of (mt_counters m) (fam, ls) of None \<Rightarrow> 0 | Some c \<Rightarrow> c) + 1) (mt_counters m)\<rparr>"

definition setGauge :: "string \<Rightarrow> string list \<Rightarrow> rat \<Rightarrow> metrics \<Rightarrow> metrics" where
  "setGauge fam ls v m = m\<lparr>mt_gauges := map_put (fam, ls) v (mt_gauges m)\<rparr>"

definition gaugeOf :: "string \<Rightarrow> string list \<Rightarrow> metrics \<Rightarrow> rat" where
  "gaugeOf fam ls m = (case map_of (mt_gauges m) (fam, ls) of None \<Rightarrow> 0 | Some v \<Rightarrow> v)"

definition observe :: "string \<Rightarrow> string list \<Rightarrow> rat \<Rightarrow> metrics \<Rightarrow> metrics" where
  "observe fam ls v m = m\<lparr>mt_observations := map_put (fam, ls)
     ((case map_of (mt_observations m) (fam, ls) of None \<Rightarrow> [] | Some vs \<Rightarrow> vs) @ [v]) (mt_observations m)\<rparr>"

definition RecordRequest :: "string \<Rightarrow> string \<Rightarrow> 64 word \<Rightarrow> metrics \<Rightarrow> metrics" where
  "RecordRequest agent method status = incr ''sentinel_requests_total'' [agent, method, statusString status]"

definition RecordLatency :: "string \<Rightarrow> string \<Rightarrow> rat \<Rightarrow> metrics \<Rightarrow> metrics" where
  "RecordLatency agent method ms = observe ''sentinel_request_duration_seconds'' [agent, method] (ms / 1000)"

definition SetActiveStreams :: "int \<Rightarrow> metrics \<Rightarrow> metrics" where
  "SetActiveStreams n = setGauge ''sentinel_active_streams'' [] (of_int n)"

definition IncrActiveStreams :: "metrics \<Rightarrow> metrics" where
  "IncrActiveStreams m = setGauge ''sentinel_active_streams'' [] (gaugeOf ''sentinel_active_streams'' [] m + 1) m"

definition DecrActiveStreams :: "metrics \<Rightarrow> metrics" where
  "DecrActiveStreams m = setGauge ''sentinel_active_streams'' [] (gaugeOf ''sentinel_active_streams'' [] m - 1) m"

definition RecordRateLimitHit :: "string \<Rightarrow> string \<Rightarrow> metrics \<Rightarrow> metrics" where
  "RecordRateLimitHit layer agent = incr ''sentinel_rate_limit_hits_total'' [layer, agent]"

definition SetAgentHealth :: "string \<Rightarrow> bool \<Rightarrow> metrics \<Rightarrow> metrics" where
  "SetAgentHealth agent healthy = setGauge ''sentinel_agent_health'' [agent] (if healthy then 1 else 0)"

definition RecordConfigReload :: "bool \<Rightarrow> metrics \<Rightarrow> metrics" where
  "RecordConfigReload success =
     incr ''sentinel_config_reloads_total'' [if success then ''success'' else ''failure'']"

definition SetConfigReloadTime :: "go_time \<Rightarrow> metrics \<Rightarrow> metrics" where
  "SetConfigReloadTime t = setGauge ''sentinel_config_reload_timestamp_seconds'' [] (of_int (t div 1000000000))"

definition RecordGRPCRequest :: "string \<Rightarrow> string \<Rightarrow> 64 word \<Rightarrow> metrics \<Rightarrow> metrics" where
  "RecordGRPCRequest agent method status =
     incr ''sentinel_grpc_requests_total'' [agent, method, statusString status]"

definition RecordGRPCLatency :: "string \<Rightarrow> string \<Rightarrow> rat \<Rightarrow> metrics \<Rightarrow> metrics" where
  "RecordGRPCLatency agent method secs = observe ''sentinel_grpc_request_duration_seconds'' [agent, method] secs"

definition RecordAgentCardChange :: "string \<Rightarrow> string \<Rightarrow> metrics \<Rightarrow> metrics" where
  "RecordAgentCardChange agent action = incr ''sentinel_agent_card_changes_total'' [agent, action]"

definition RecordMCPRequest :: "string \<Rightarrow> bool \<Rightarrow> metrics \<Rightarrow> metrics" where
  "RecordMCPRequest tool success =
     incr ''sentinel_mcp_requests_total'' [tool, if success then ''success'' else ''error'']"

definition RecordSecurityBlock :: "string \<Rightarrow> metrics \<Rightarrow> metrics" where
  "RecordSecurityBlock reason = incr ''sentinel_security_blocks_total'' [reason]"

definition RecordUpstreamLatency :: "string \<Rightarrow> rat \<Rightarrow> metrics \<Rightarrow> metrics" where
  "RecordUpstreamLatency agent secs = observe ''sentinel_upstream_latency_seconds'' [agent] secs"

definition SetBuildInfo :: "string \<Rightarrow> string \<Rightarrow> metrics \<Rightarrow> metrics" where
  "SetBuildInfo version goVersion = setGauge ''sentinel_build_info'' [version, goVersion] 1"

section \<open>The families\<close>

text \<open>The families as \<open>NewMetrics\<close> registers them: name, kind, labels and help. The three histograms have the
  default buckets.\<close>

datatype family_kind = CounterKind | GaugeKind | HistogramKind

definition metricFamilies :: "(string \<times> family_kind \<times> string list \<times> string) list" where
  "metricFamilies =
     [(''sentinel_requests_total'', CounterKind, [''agent'', ''method'', ''status''], ''Total number of requests processed by the sentinel gateway.''),
      (''sentinel_request_duration_seconds'', HistogramKind, [''agent'', ''method''], ''Request duration in seconds.''),
      (''sentinel_active_streams'', GaugeKind, [], ''Number of currently active SSE streams.''),
      (''sentinel_rate_limit_hits_total'', CounterKind, [''layer'', ''agent''], ''Total number of rate limit hits.''),
      (''sentinel_agent_health'', GaugeKind, [''agent''], ''Health status of backend agents (1=healthy, 0=unhealthy).''),
      (''sentinel_config_reloads_total'', CounterKind, [''result''], ''Total number of configuration reload attempts.''),
      (''sentinel_config_reload_timestamp_seconds'', GaugeKind, [], ''Unix timestamp of the last successful configuration reload.''),
      (''sentinel_grpc_requests_total'', CounterKind, [''agent'', ''method'', ''status''], ''Total number of gRPC requests processed.''),
      (''sentinel_grpc_request_duration_seconds'', HistogramKind, [''agent'', ''method''], ''gRPC request duration in seconds.''),
      (''sentinel_agent_card_changes_total'', CounterKind, [''agent'', ''action''], ''Total number of agent card change events.''),
      (''sentinel_mcp_requests_total'', CounterKind, [''tool'', ''status''], ''Total number of MCP tool requests.''),
      (''sentinel_security_blocks_total'', CounterKind, [''reason''], ''Total number of requests blocked for security reasons.''),
      (''sentinel_upstream_latency_seconds'', HistogramKind, [''agent''], ''Backend upstream response time in seconds.''),
      (''sentinel_build_info'', GaugeKind, [''version'', ''go_version''], ''Build information about the sentinel binary. Value is always 1.'')]"

text \<open>\<open>MustRegister\<close> panics when a name is registered twice, \<open>WithLabelValues\<close> when the number of values is not
  that of the labels. A metric exists under a family only with as many values as the family has labels.\<close>

definition familyHas :: "family_kind \<Rightarrow> string \<Rightarrow> nat \<Rightarrow> bool" where
  "familyHas k f n \<longleftrightarrow> (\<exists>(name, kind, labels, help) \<in> set metricFamilies. name = f \<and> kind = k \<and> length labels = n)"

definition in_families :: "family_kind \<Rightarrow> (string \<times> string list, 'v) gomap \<Rightarrow> bool" where
  "in_families k m \<longleftrightarrow> (\<forall>((f, ls), v) \<in> set m. familyHas k f (length ls))"

definition metrics_ok :: "metrics \<Rightarrow> bool" where
  "metrics_ok m \<longleftrightarrow> in_families CounterKind (mt_counters m) \<and> in_families GaugeKind (mt_gauges m)
     \<and> in_families HistogramKind (mt_observations m)"

lemma families_distinct: "distinct (map fst metricFamilies)"
  by code_simp

lemma families:
  shows "familyHas CounterKind ''sentinel_requests_total'' (Suc (Suc (Suc 0)))"
    and "familyHas HistogramKind ''sentinel_request_duration_seconds'' (Suc (Suc 0))"
    and "familyHas GaugeKind ''sentinel_active_streams'' 0"
    and "familyHas CounterKind ''sentinel_rate_limit_hits_total'' (Suc (Suc 0))"
    and "familyHas GaugeKind ''sentinel_agent_health'' (Suc 0)"
    and "familyHas CounterKind ''sentinel_config_reloads_total'' (Suc 0)"
    and "familyHas GaugeKind ''sentinel_config_reload_timestamp_seconds'' 0"
    and "familyHas CounterKind ''sentinel_grpc_requests_total'' (Suc (Suc (Suc 0)))"
    and "familyHas HistogramKind ''sentinel_grpc_request_duration_seconds'' (Suc (Suc 0))"
    and "familyHas CounterKind ''sentinel_agent_card_changes_total'' (Suc (Suc 0))"
    and "familyHas CounterKind ''sentinel_mcp_requests_total'' (Suc (Suc 0))"
    and "familyHas CounterKind ''sentinel_security_blocks_total'' (Suc 0)"
    and "familyHas HistogramKind ''sentinel_upstream_latency_seconds'' (Suc 0)"
    and "familyHas GaugeKind ''sentinel_build_info'' (Suc (Suc 0))"
  by code_simp+

lemma in_families_put: "in_families k m \<Longrightarrow> familyHas k f (length ls) \<Longrightarrow> in_families k (map_put (f, ls) v m)"
proof (induction m)
  case (Cons p m)
  then show ?case by (cases p) (auto simp: in_families_def)
qed (simp add: in_families_def)

lemma updates_ok:
  assumes "metrics_ok m"
  shows "familyHas CounterKind f (length ls) \<Longrightarrow> metrics_ok (incr f ls m)"
    and "familyHas GaugeKind f (length ls) \<Longrightarrow> metrics_ok (setGauge f ls v m)"
    and "familyHas HistogramKind f (length ls) \<Longrightarrow> metrics_ok (observe f ls x m)"
  using assms by (simp_all add: metrics_ok_def incr_def setGauge_def observe_def in_families_put)

text \<open>No operation panics: each uses a family of its kind with the right number of labels.\<close>

lemma operations_ok:
  assumes "metrics_ok m"
  shows "metrics_ok NewMetrics" and "metrics_ok (RecordRequest a b c m)" and "metrics_ok (RecordLatency a b x m)"
    and "metrics_ok (SetActiveStreams i m)" and "metrics_ok (IncrActiveStreams m)" and "metrics_ok (DecrActiveStreams m)"
    and "metrics_ok (RecordRateLimitHit a b m)" and "metrics_ok (SetAgentHealth a h m)"
    and "metrics_ok (RecordConfigReload h m)" and "metrics_ok (SetConfigReloadTime t m)"
    and "metrics_ok (RecordGRPCRequest a b c m)" and "metrics_ok (RecordGRPCLatency a b x m)"
    and "metrics_ok (RecordAgentCardChange a b m)" and "metrics_ok (RecordMCPRequest a h m)"
    and "metrics_ok (RecordSecurityBlock a m)" and "metrics_ok (RecordUpstreamLatency a x m)"
    and "metrics_ok (SetBuildInfo a b m)"
proof -
  show "metrics_ok NewMetrics" by (simp add: metrics_ok_def NewMetrics_def in_families_def families)
qed (auto intro!: updates_ok[OF assms] simp: families RecordRequest_def RecordLatency_def
    SetActiveStreams_def IncrActiveStreams_def DecrActiveStreams_def RecordRateLimitHit_def SetAgentHealth_def
    RecordConfigReload_def SetConfigReloadTime_def RecordGRPCRequest_def RecordGRPCLatency_def RecordAgentCardChange_def
    RecordMCPRequest_def RecordSecurityBlock_def RecordUpstreamLatency_def SetBuildInfo_def)

section \<open>The text of a number\<close>

lemma swap_ends: "length xs = i \<Longrightarrow> length xs + length ms + 1 = j \<Longrightarrow>
    ((xs @ a # ms @ b # ys)[i := b, j := a]) = xs @ b # ms @ a # ys"
  by (auto simp: list_update_append)

lemma swapLoop_rev:
  "ms \<noteq> [] \<Longrightarrow> length xs = i \<Longrightarrow> i + length ms = j + 1 \<Longrightarrow> swapLoop i j (xs @ ms @ ys) = xs @ rev ms @ ys"
proof (induction "length ms" arbitrary: ms xs ys i j rule: less_induct)
  case less
  show ?case
  proof (cases "length ms = 1")
    case True
    with less.prems show ?thesis by (subst swapLoop.simps) (auto simp: length_Suc_conv)
  next
    case False
    with less.prems(1) obtain a ms' where "ms = a # ms'" "ms' \<noteq> []" by (cases ms) auto
    then obtain us b where ms: "ms = a # us @ [b]" by (metis rev_exhaust)
    from less.prems ms have j: "j = length xs + length us + 1" and ij: "i < j" by simp_all
    have at: "(xs @ ms @ ys) ! i = a" "(xs @ ms @ ys) ! j = b"
      using less.prems(2) j ms by (simp_all add: nth_append)
    have upd: "(xs @ ms @ ys)[i := b, j := a] = xs @ b # us @ a # ys"
      using swap_ends[of xs i us j a b ys] less.prems(2) j ms by simp
    have step: "swapLoop i j (xs @ ms @ ys) = swapLoop (i + 1) (j - 1) (xs @ b # us @ a # ys)"
      by (subst swapLoop.simps) (use ij at upd in simp)
    show ?thesis
    proof (cases "us = []")
      case True
      with step less.prems(2) j ms show ?thesis by (simp add: swapLoop.simps[of "Suc i" i])
    next
      case us: False
      have "swapLoop (i + 1) (j - 1) ((xs @ [b]) @ us @ (a # ys)) = (xs @ [b]) @ rev us @ (a # ys)"
        by (rule less.hyps) (use us ms j less.prems(2) in auto)
      with step ms show ?thesis by simp
    qed
  qed
qed

lemma swapLoop_all: "buf \<noteq> [] \<Longrightarrow> swapLoop 0 (length buf - 1) buf = rev buf"
  using swapLoop_rev[of buf "[]" 0 "length buf - 1" "[]"] by simp

lemma digitLoop_digits: "0 < n \<Longrightarrow> digitLoop n buf = buf @ rev (map (\<lambda>d. char_of (48 + d)) (natDigits n))"
proof (induction n arbitrary: buf rule: less_induct)
  case (less n)
  show ?case
  proof (cases "n < 10")
    case True
    with less.prems show ?thesis by (subst digitLoop.simps, subst natDigits.simps) (simp add: digitLoop.simps)
  next
    case False
    with less.IH[of "n div 10"] less.prems show ?thesis
      by (subst digitLoop.simps, subst natDigits.simps) simp
  qed
qed

lemma digitLoop_zero [simp]: "digitLoop 0 buf = buf"
  by (subst digitLoop.simps) simp

lemma intToString_pos: "0 < sint n \<Longrightarrow> intToString n = showNat (nat (sint n))"
proof -
  assume n: "0 < sint n"
  then have d: "digitLoop (nat (sint n)) [] = rev (showNat (nat (sint n)))"
    by (simp add: digitLoop_digits showNat_def)
  moreover have "rev (showNat (nat (sint n))) \<noteq> []" by (simp add: showNat_def natDigits_ne)
  ultimately show ?thesis using n swapLoop_all[of "rev (showNat (nat (sint n)))"]
    by (auto simp: intToString_def Let_def)
qed

lemma sint_minus_min:
  fixes n :: "64 word"
  assumes "sint n < 0"
  shows "sint (- n) = (if sint n = - (2 ^ 63) then - (2 ^ 63) else - sint n)"
proof -
  have lo: "- (2 ^ 63) \<le> sint n" using sint_ge[of n] by simp
  have "sint (- n) = signed_take_bit 63 (- sint n)" by (simp add: sint_word_ariths)
  also have "\<dots> = (if sint n = - (2 ^ 63) then - (2 ^ 63) else - sint n)"
  proof (cases "sint n = - (2 ^ 63)")
    case True
    then show ?thesis by (simp add: signed_take_bit_eq_if_positive)
  next
    case False
    then show ?thesis using lo assms by (simp add: signed_take_bit_int_eq_self_iff)
  qed
  finally show ?thesis .
qed

lemma intToString_neg:
  assumes "sint n < 0"
  shows "intToString n = (if sint n = - (2 ^ 63) then ''-'' else CHR ''-'' # showNat (nat (- sint n)))"
proof -
  let ?buf = "digitLoop (nat (sint (- n))) [] @ ''-''"
  have "intToString n = rev ?buf"
    using assms swapLoop_all[of ?buf] by (auto simp: intToString_def Let_def)
  moreover have "digitLoop (nat (sint (- n))) [] =
      (if sint n = - (2 ^ 63) then [] else rev (showNat (nat (- sint n))))"
    using assms by (simp add: sint_minus_min[OF assms] digitLoop_digits showNat_def)
  ultimately show ?thesis by simp
qed

section \<open>Properties\<close>

text \<open>The hand-written conversion of a 64-bit integer gives its decimal text, with one exception: the
  least integer, whose negation wraps around to itself, becomes a lone minus sign.\<close>

theorem int_to_string_exact:
  "intToString n = (if sint n = - (2 ^ 63) then ''-'' else showInt (sint n))
   \<and> statusString n = intToString n"
proof -
  consider "n = 0" | "0 < sint n" | "sint n < 0"
    by (metis linorder_neqE_linordered_idom sint_0 word_eq_iff_signed len_gt_0)
  then have i: "intToString n = (if sint n = - (2 ^ 63) then ''-'' else showInt (sint n))"
  proof cases
    case 1
    have "showInt 0 = ''0''" by code_simp
    with 1 show ?thesis by (simp add: intToString_def)
  next
    case 2
    then show ?thesis by (simp add: intToString_pos showInt_def)
  next
    case 3
    then show ?thesis by (simp add: intToString_neg showInt_def)
  qed
  have "\<forall>c\<in>set commonStatus. c \<noteq> - (2 ^ 63)" by (simp add: commonStatus_def)
  then have "statusString n = intToString n" using i by (auto simp: statusString_def)
  with i show ?thesis by blast
qed

text \<open>Counting: every counter holds the number of its increments.\<close>

lemma incr_count: "map_of (mt_counters (fold (\<lambda>(f, ls). incr f ls) calls m)) k =
    (case map_of (mt_counters m) k of
       None \<Rightarrow> if k \<in> set calls then Some (count_list calls k) else None
     | Some c \<Rightarrow> Some (c + count_list calls k))"
proof (induction calls arbitrary: m)
  case (Cons a calls)
  then show ?case by (cases a) (auto simp: incr_def split: option.splits)
qed (simp split: option.splits)

lemma log_only_audited: "LogRequest draw s ctx = Some l \<Longrightarrow>
    \<exists>e. AuditEntryFrom ctx = Some e \<and> al_traceID l = au_traceID e \<and> ShouldLog draw s (au_status e)"
  by (auto simp: LogRequest_def split: option.splits if_splits)

end
