(* ===== verification/Serve_Mux.thy ===== *)
theory Serve_Mux
  imports Http_Model Go_Url
begin

text \<open>
  \<open>http.ServeMux\<close> as the gateway uses it: patterns with their method, host, wildcards and subtrees, what makes
  the registration panic, and which pattern a request is dispatched to. The configured health paths are such
  patterns (\<open>handler\<close> in \<open>internal/server/server.go\<close>). Letters of wildcard names are those of ASCII.
\<close>

section \<open>Paths\<close>

text \<open>
  \<open>path.Clean\<close> of a rooted path, and the cleaning \<open>ServeMux\<close> does, which keeps a trailing slash.
\<close>

fun cleanElems :: "string list \<Rightarrow> string list \<Rightarrow> string list" where
  "cleanElems acc [] = acc"
| "cleanElems acc (e # es) =
     (if e = [] \<or> e = ''.'' then cleanElems acc es
      else if e = ''..'' then cleanElems (butlast acc) es
      else cleanElems (acc @ [e]) es)"

definition cleanPath :: "string \<Rightarrow> string" where
  "cleanPath p =
     (if p = [] then ''/''
      else (let q = (if hd p \<noteq> CHR ''/'' then CHR ''/'' # p else p);
                np = CHR ''/'' # joinWith ''/'' (cleanElems [] (splitByte q (CHR ''/''))) in
            if last q = CHR ''/'' \<and> np \<noteq> ''/'' then np @ ''/'' else np))"

text \<open>\<open>URL.EscapedPath\<close> of a decoded path and the raw path kept beside it.\<close>

definition pathSafe :: "char \<Rightarrow> bool" where
  "pathSafe c \<longleftrightarrow> isAlnum c \<or> c \<in> set ''-_.~$&+,/:;=@''"

definition validEncodedPath :: "string \<Rightarrow> bool" where
  "validEncodedPath s \<longleftrightarrow> list_all (\<lambda>c. pathSafe c \<or> c \<in> set ''!()*[]%'' \<or> byte_of c = 39) s"

definition upperHex :: "nat \<Rightarrow> char" where
  "upperHex n = char_of (if n < 10 then 48 + n else 55 + n)"

definition escapePath :: "string \<Rightarrow> string" where
  "escapePath s = concat (map (\<lambda>c. if pathSafe c then [c]
     else [CHR ''%'', upperHex (byte_of c div 16), upperHex (byte_of c mod 16)]) s)"

definition EscapedPath :: "string \<Rightarrow> string \<Rightarrow> string" where
  "EscapedPath path raw =
     (if raw \<noteq> [] \<and> validEncodedPath raw \<and> unescape EncodePath raw = Some path then raw
      else if path = ''*'' then ''*''
      else escapePath path)"

definition pathUnescape :: "string \<Rightarrow> string" where
  "pathUnescape s = (case unescape EncodePath s of None \<Rightarrow> s | Some u \<Rightarrow> u)"

section \<open>Patterns\<close>

text \<open>\<open>Multi\<close> is the wildcard for the rest of the path, of a trailing slash or with dots; \<open>{$}\<close> is the literal slash.\<close>

datatype mux_segment = Literal string | Wild | Multi

record mux_pattern =
  mp_method :: string
  mp_host :: string
  mp_segments :: "mux_segment list"

definition isLetter :: "char \<Rightarrow> bool" where
  "isLetter c \<longleftrightarrow> isAlnum c \<and> \<not> isDigit c"

definition isWildcardName :: "string \<Rightarrow> bool" where
  "isWildcardName s \<longleftrightarrow> s \<noteq> [] \<and> list_all (\<lambda>c. isLetter c \<or> c = CHR ''_'' \<or> isDigit c) s \<and> \<not> isDigit (hd s)"

text \<open>One segment with a brace: \<open>goesOn\<close> says whether the path goes on behind it; the result has the name.\<close>

definition parseWildcard :: "string \<Rightarrow> bool \<Rightarrow> (mux_segment \<times> string) option" where
  "parseWildcard seg goesOn =
     (if hd seg \<noteq> CHR ''{'' \<or> last seg \<noteq> CHR ''}'' then None
      else (let name = butlast (tl seg) in
        if name = ''$'' then (if goesOn then None else Some (Literal ''/'', []))
        else (let multi = hasSuffix name ''...''; base = trimSuffix name ''...'' in
          if (multi \<and> goesOn) \<or> \<not> isWildcardName base then None
          else Some (if multi then Multi else Wild, base))))"

text \<open>The segments of the path, given as its parts between the slashes; a trailing slash gives a last empty part.\<close>

fun parseSegments :: "string list \<Rightarrow> string list \<Rightarrow> mux_segment list option" where
  "parseSegments seen [] = Some []"
| "parseSegments seen (seg # rest) =
     (if seg = [] \<and> rest = [] then Some [Multi]
      else if CHR ''{'' \<notin> set seg then map_option ((#) (Literal (pathUnescape seg))) (parseSegments seen rest)
      else (case parseWildcard seg (rest \<noteq> []) of
          None \<Rightarrow> None
        | Some (s, name) \<Rightarrow>
            if name \<noteq> [] \<and> name \<in> set seen then None
            else map_option ((#) s) (parseSegments (name # seen) rest)))"

definition isBlank :: "char \<Rightarrow> bool" where
  "isBlank c \<longleftrightarrow> c = CHR '' '' \<or> byte_of c = 9"

definition parsePattern :: "string \<Rightarrow> mux_pattern option" where
  "parsePattern s =
     (let found = list_ex isBlank s;
          meth = (if found then takeWhile (\<lambda>c. \<not> isBlank c) s else []);
          rest = (if found then dropWhile isBlank (dropWhile (\<lambda>c. \<not> isBlank c) s) else s) in
      if s = [] \<or> (found \<and> (meth \<noteq> [] \<and> \<not> list_all isTokenByte meth)) then None
      else (case indexByte rest (CHR ''/'') of
          None \<Rightarrow> None
        | Some i \<Rightarrow>
            (let host = take i rest; path = drop i rest in
             if CHR ''{'' \<in> set host \<or> (meth \<noteq> [] \<and> meth \<noteq> ''CONNECT'' \<and> cleanPath path \<noteq> path) then None
             else map_option (\<lambda>ss. \<lparr>mp_method = meth, mp_host = host, mp_segments = ss\<rparr>)
                    (parseSegments [] (splitByte (tl path) (CHR ''/''))))))"

section \<open>Conflicts\<close>

datatype relationship = Equivalent | MoreGeneral | MoreSpecific | Disjoint | Overlaps

fun inverseRel :: "relationship \<Rightarrow> relationship" where
  "inverseRel MoreGeneral = MoreSpecific" | "inverseRel MoreSpecific = MoreGeneral" | "inverseRel r = r"

fun combineRel :: "relationship \<Rightarrow> relationship \<Rightarrow> relationship" where
  "combineRel Equivalent r2 = r2"
| "combineRel Disjoint r2 = Disjoint"
| "combineRel Overlaps r2 = (if r2 = Disjoint then Disjoint else Overlaps)"
| "combineRel r1 r2 = (if r2 = Equivalent then r1 else if r2 = inverseRel r1 then Overlaps else r2)"

fun compareSegments :: "mux_segment \<Rightarrow> mux_segment \<Rightarrow> relationship" where
  "compareSegments Multi Multi = Equivalent"
| "compareSegments Multi _ = MoreGeneral"
| "compareSegments _ Multi = MoreSpecific"
| "compareSegments Wild Wild = Equivalent"
| "compareSegments Wild (Literal s) = (if s = ''/'' then Disjoint else MoreGeneral)"
| "compareSegments (Literal s) Wild = (if s = ''/'' then Disjoint else MoreSpecific)"
| "compareSegments (Literal s) (Literal t) = (if s = t then Equivalent else Disjoint)"

fun comparePaths :: "relationship \<Rightarrow> mux_segment list \<Rightarrow> mux_segment list \<Rightarrow> bool \<Rightarrow> bool \<Rightarrow> relationship" where
  "comparePaths rel (a # as) (b # bs) m1 m2 =
     (let r = combineRel rel (compareSegments a b) in if r = Disjoint then Disjoint else comparePaths r as bs m1 m2)"
| "comparePaths rel [] [] m1 m2 = rel"
| "comparePaths rel [] (b # bs) m1 m2 = (if m1 then combineRel rel MoreGeneral else Disjoint)"
| "comparePaths rel (a # as) [] m1 m2 = (if m2 then combineRel rel MoreSpecific else Disjoint)"

definition endsMulti :: "mux_segment list \<Rightarrow> bool" where
  "endsMulti ss \<longleftrightarrow> ss \<noteq> [] \<and> last ss = Multi"

definition compareMethods :: "string \<Rightarrow> string \<Rightarrow> relationship" where
  "compareMethods a b =
     (if a = b then Equivalent
      else if a = [] then MoreGeneral
      else if b = [] then MoreSpecific
      else if a = ''GET'' \<and> b = ''HEAD'' then MoreGeneral
      else if b = ''GET'' \<and> a = ''HEAD'' then MoreSpecific
      else Disjoint)"

definition conflictsWith :: "mux_pattern \<Rightarrow> mux_pattern \<Rightarrow> bool" where
  "conflictsWith p q \<longleftrightarrow> mp_host p = mp_host q \<and>
     (let ss = mp_segments p; ts = mp_segments q; m = compareMethods (mp_method p) (mp_method q);
          r = (if length ss \<noteq> length ts \<and> \<not> endsMulti ss \<and> \<not> endsMulti ts then Disjoint
               else comparePaths Equivalent ss ts (endsMulti ss) (endsMulti ts)) in
      m \<noteq> Disjoint \<and> combineRel m r \<in> {Equivalent, Overlaps})"

text \<open>\<open>Handle\<close> on the patterns in turn; \<open>None\<close> is the panic on a bad or a conflicting pattern.\<close>

type_synonym 't mux = "(mux_pattern \<times> 't) list"

fun muxRegister :: "'t mux \<Rightarrow> (string \<times> 't) list \<Rightarrow> 't mux option" where
  "muxRegister m [] = Some m"
| "muxRegister m ((s, t) # ps) = (case parsePattern s of
      None \<Rightarrow> None
    | Some p \<Rightarrow> if list_ex (\<lambda>(q, _). conflictsWith p q) m then None else muxRegister (m @ [(p, t)]) ps)"

section \<open>Dispatch\<close>

definition firstSegment :: "string \<Rightarrow> string \<times> string" where
  "firstSegment path =
     (if path = ''/'' then (''/'', [])
      else (let p = tl path in
        (pathUnescape (takeWhile (\<lambda>c. c \<noteq> CHR ''/'') p), dropWhile (\<lambda>c. c \<noteq> CHR ''/'') p)))"

lemma firstSegment_shorter: "path \<noteq> [] \<Longrightarrow> firstSegment path = (seg, rest) \<Longrightarrow> length rest < length path"
  by (cases path) (auto simp: firstSegment_def Let_def length_dropWhile_le le_imp_less_Suc split: if_splits)

text \<open>
  The walk down the tree of patterns. A node is the list of the patterns below it with their remaining segments:
  the child of a literal comes first, then that of the single wildcard, then the rest of the path.
\<close>

definition literalChild :: "string \<Rightarrow> (mux_segment list \<times> 'a) list \<Rightarrow> (mux_segment list \<times> 'a) list" where
  "literalChild seg ps = [(tl ss, x). (ss, x) \<leftarrow> ps, ss \<noteq> [], hd ss = Literal seg]"

definition wildChild :: "(mux_segment list \<times> 'a) list \<Rightarrow> (mux_segment list \<times> 'a) list" where
  "wildChild ps = [(tl ss, x). (ss, x) \<leftarrow> ps, ss \<noteq> [], hd ss = Wild]"

definition multiChild :: "(mux_segment list \<times> 'a) list \<Rightarrow> 'a option" where
  "multiChild ps = map_option snd (find (\<lambda>(ss, x). ss = [Multi]) ps)"

function matchPath :: "(mux_segment list \<times> 'a) list \<Rightarrow> string \<Rightarrow> 'a option" where
  "matchPath ps path =
     (if path = [] then map_option snd (find (\<lambda>(ss, x). ss = []) ps)
      else (case matchPath (literalChild (fst (firstSegment path)) ps) (snd (firstSegment path)) of
          Some x \<Rightarrow> Some x
        | None \<Rightarrow>
            (case (if fst (firstSegment path) \<noteq> ''/'' then matchPath (wildChild ps) (snd (firstSegment path)) else None) of
               Some x \<Rightarrow> Some x
             | None \<Rightarrow> multiChild ps)))"
  by pat_completeness auto
termination
  by (relation "measure (\<lambda>(ps, path). length path)") (auto simp: firstSegment_shorter[OF _ prod.collapse[symmetric]])

declare matchPath.simps [simp del]

definition pathsOf :: "string \<Rightarrow> string \<Rightarrow> 't mux \<Rightarrow> (mux_segment list \<times> (mux_pattern \<times> 't)) list" where
  "pathsOf host meth m = [(mp_segments p, (p, t)). (p, t) \<leftarrow> m, mp_host p = host, mp_method p = meth]"

fun firstSome :: "'a option list \<Rightarrow> 'a option" where
  "firstSome [] = None"
| "firstSome (x # xs) = (case x of None \<Rightarrow> firstSome xs | Some v \<Rightarrow> Some v)"

definition matchMethodAndPath :: "'t mux \<Rightarrow> string \<Rightarrow> string \<Rightarrow> string \<Rightarrow> (mux_pattern \<times> 't) option" where
  "matchMethodAndPath m host meth path = firstSome
     ([matchPath (pathsOf host meth m) path]
      @ (if meth = ''HEAD'' then [matchPath (pathsOf host ''GET'' m) path] else [])
      @ [matchPath (pathsOf host [] m) path])"

definition treeMatch :: "'t mux \<Rightarrow> string \<Rightarrow> string \<Rightarrow> string \<Rightarrow> (mux_pattern \<times> 't) option" where
  "treeMatch m host meth path = firstSome
     ((if host \<noteq> [] then [matchMethodAndPath m host meth path] else []) @ [matchMethodAndPath m [] meth path])"

definition exactMatch :: "(mux_pattern \<times> 't) option \<Rightarrow> string \<Rightarrow> bool" where
  "exactMatch n path = (case n of
      None \<Rightarrow> False
    | Some (p, t) \<Rightarrow>
        \<not> endsMulti (mp_segments p)
        \<or> (\<not> (path \<noteq> [] \<and> last path \<noteq> CHR ''/'') \<and> length (mp_segments p) = count_list path (CHR ''/'')))"

text \<open>Whether \<open>matchOrRedirect\<close> redirects to the path with a slash behind it.\<close>

definition slashRedirect :: "'t mux \<Rightarrow> string \<Rightarrow> string \<Rightarrow> string \<Rightarrow> bool" where
  "slashRedirect m host meth path \<longleftrightarrow>
     \<not> exactMatch (treeMatch m host meth path) path \<and> \<not> hasSuffix path ''/''
     \<and> exactMatch (treeMatch m host meth (path @ ''/'')) (path @ ''/'')"

definition stripHostPort :: "string \<Rightarrow> string" where
  "stripHostPort h = (if CHR '':'' \<notin> set h then h else (case SplitHostPort h of None \<Rightarrow> h | Some (a, _) \<Rightarrow> a))"

definition otherMethods :: "'t mux \<Rightarrow> string \<Rightarrow> string \<Rightarrow> bool" where
  "otherMethods m host path \<longleftrightarrow> list_ex (\<lambda>(p, _). mp_method p \<noteq> []
     \<and> list_ex (\<lambda>h. list_ex (\<lambda>q. matchPath (pathsOf h (mp_method p) m) q \<noteq> None)
                 (if hasSuffix path ''/'' then [path] else [path, path @ ''/'']))
         (if host \<noteq> [] then [host, []] else [[]])) m"

datatype 't mux_answer = MuxBadRequest | MuxRedirect | MuxMethodNotAllowed | MuxNotFound | MuxTarget 't

text \<open>
  \<open>findHandler\<close> and \<open>ServeHTTP\<close>: the method, \<open>Request.Host\<close>, \<open>URL.Host\<close>, the path and the raw path. The path
  \<open>*\<close> stands for the request URI of that name.
\<close>

definition muxFind :: "'t mux \<Rightarrow> string \<Rightarrow> string \<Rightarrow> string \<Rightarrow> string \<Rightarrow> string \<Rightarrow> 't mux_answer" where
  "muxFind m meth rhost uhost path raw =
     (let escaped = EscapedPath path raw;
          connect = (meth = ''CONNECT'');
          host = (if connect then rhost else stripHostPort rhost);
          q = (if connect then escaped else cleanPath escaped);
          n = treeMatch m host meth q in
      if path = ''*'' then MuxBadRequest
      else if slashRedirect m (if connect then uhost else host) meth q then MuxRedirect
      else if q \<noteq> escaped then MuxRedirect
      else (case n of
          Some (p, t) \<Rightarrow> MuxTarget t
        | None \<Rightarrow> if otherMethods m host q then MuxMethodNotAllowed else MuxNotFound))"

section \<open>What a match means\<close>

text \<open>A path matched by the segments of a pattern, segment by segment.\<close>

fun segmentsAccept :: "mux_segment list \<Rightarrow> string \<Rightarrow> bool" where
  "segmentsAccept [] path \<longleftrightarrow> path = []"
| "segmentsAccept (Literal l # ss) path \<longleftrightarrow> path \<noteq> [] \<and> fst (firstSegment path) = l \<and> segmentsAccept ss (snd (firstSegment path))"
| "segmentsAccept (Wild # ss) path \<longleftrightarrow> path \<noteq> [] \<and> fst (firstSegment path) \<noteq> ''/'' \<and> segmentsAccept ss (snd (firstSegment path))"
| "segmentsAccept (Multi # ss) path \<longleftrightarrow> path \<noteq> [] \<and> ss = []"

lemma find_Some_set: "find P xs = Some x \<Longrightarrow> x \<in> set xs \<and> P x"
  by (induction xs) (auto split: if_splits)

lemma matchPath_accepts: "matchPath ps path = Some x \<Longrightarrow> \<exists>ss. (ss, x) \<in> set ps \<and> segmentsAccept ss path"
proof (induction ps path arbitrary: x rule: matchPath.induct)
  case (1 ps path)
  let ?f = "firstSegment path"
  show ?case
  proof (cases "path = []")
    case True
    with "1.prems" have "\<exists>y. find (\<lambda>(ss, x). ss = []) ps = Some y \<and> snd y = x" by (subst (asm) matchPath.simps) auto
    with True show ?thesis by (auto dest!: find_Some_set)
  next
    case ne: False
    consider (lit) "matchPath (literalChild (fst ?f) ps) (snd ?f) = Some x"
      | (wild) "matchPath (literalChild (fst ?f) ps) (snd ?f) = None" "fst ?f \<noteq> ''/''" "matchPath (wildChild ps) (snd ?f) = Some x"
      | (multi) "multiChild ps = Some x"
      using "1.prems" ne by (subst (asm) matchPath.simps) (auto split: option.splits if_splits)
    then show ?thesis
    proof cases
      case lit
      from "1.IH"(1)[OF ne lit] obtain ss where "(ss, x) \<in> set (literalChild (fst ?f) ps)" "segmentsAccept ss (snd ?f)" by blast
      then obtain ts where "(ts, x) \<in> set ps" "ts = Literal (fst ?f) # ss"
        by (auto simp: literalChild_def neq_Nil_conv split: if_splits)
      with ne \<open>segmentsAccept ss (snd ?f)\<close> show ?thesis by (intro exI[of _ ts]) simp
    next
      case wild
      from "1.IH"(2)[OF ne wild(1,2,3)] obtain ss where "(ss, x) \<in> set (wildChild ps)" "segmentsAccept ss (snd ?f)" by blast
      then obtain ts where "(ts, x) \<in> set ps" "ts = Wild # ss"
        by (auto simp: wildChild_def neq_Nil_conv split: if_splits)
      with ne wild(2) \<open>segmentsAccept ss (snd ?f)\<close> show ?thesis by (intro exI[of _ ts]) simp
    next
      case multi
      then have "([Multi], x) \<in> set ps" by (auto simp: multiChild_def dest!: find_Some_set)
      with ne show ?thesis by (intro exI[of _ "[Multi]"]) simp
    qed
  qed
qed

text \<open>The path the mux matches, and the requests a pattern is for.\<close>

definition muxPath :: "string \<Rightarrow> string \<Rightarrow> string \<Rightarrow> string" where
  "muxPath meth path raw = (if meth = ''CONNECT'' then EscapedPath path raw else cleanPath (EscapedPath path raw))"

definition patternAccepts :: "mux_pattern \<Rightarrow> string \<Rightarrow> string \<Rightarrow> string \<Rightarrow> string \<Rightarrow> bool" where
  "patternAccepts p meth rhost path raw \<longleftrightarrow>
     (mp_method p = [] \<or> mp_method p = meth \<or> (mp_method p = ''GET'' \<and> meth = ''HEAD''))
     \<and> (mp_host p = [] \<or> mp_host p = (if meth = ''CONNECT'' then rhost else stripHostPort rhost))
     \<and> segmentsAccept (mp_segments p) (muxPath meth path raw)"

lemma firstSome_Some: "firstSome xs = Some x \<Longrightarrow> Some x \<in> set xs"
  by (induction xs rule: firstSome.induct) (auto split: option.splits)

lemma treeMatch_accepts:
  assumes "treeMatch m host meth path = Some (p, t)"
  shows "(p, t) \<in> set m \<and> (mp_method p = [] \<or> mp_method p = meth \<or> (mp_method p = ''GET'' \<and> meth = ''HEAD''))
    \<and> (mp_host p = [] \<or> mp_host p = host) \<and> segmentsAccept (mp_segments p) path"
proof -
  have "matchMethodAndPath m host meth path = Some (p, t) \<and> host \<noteq> [] \<or> matchMethodAndPath m [] meth path = Some (p, t)"
    using firstSome_Some[OF assms[unfolded treeMatch_def]] by (auto split: if_splits)
  then obtain h where h: "h = [] \<or> h = host" and 1: "matchMethodAndPath m h meth path = Some (p, t)" by blast
  have "matchPath (pathsOf h meth m) path = Some (p, t)
      \<or> meth = ''HEAD'' \<and> matchPath (pathsOf h ''GET'' m) path = Some (p, t) \<or> matchPath (pathsOf h [] m) path = Some (p, t)"
    using firstSome_Some[OF 1[unfolded matchMethodAndPath_def]] by (auto split: if_splits)
  then obtain k where k: "k = meth \<or> (meth = ''HEAD'' \<and> k = ''GET'') \<or> k = []"
    and 2: "matchPath (pathsOf h k m) path = Some (p, t)" by blast
  from matchPath_accepts[OF 2] show ?thesis using h k by (auto simp: pathsOf_def)
qed

lemma muxFind_accepts:
  assumes "muxFind m meth rhost uhost path raw = MuxTarget t"
  shows "\<exists>p. (p, t) \<in> set m \<and> patternAccepts p meth rhost path raw"
proof -
  let ?host = "if meth = ''CONNECT'' then rhost else stripHostPort rhost"
  obtain p where "treeMatch m ?host meth (muxPath meth path raw) = Some (p, t)"
    using assms by (auto simp: muxFind_def muxPath_def Let_def split: if_splits option.splits)
  from treeMatch_accepts[OF this] show ?thesis by (auto simp: patternAccepts_def)
qed

lemma muxRegister_parsed: "muxRegister m ps = Some m' \<Longrightarrow> (p, t) \<in> set m' \<Longrightarrow>
    (p, t) \<in> set m \<or> (\<exists>s. (s, t) \<in> set ps \<and> parsePattern s = Some p)"
  by (induction m ps rule: muxRegister.induct) (auto split: option.splits if_splits)

section \<open>Examples\<close>

lemma mux_examples:
  "parsePattern ''/healthz'' = Some \<lparr>mp_method = [], mp_host = [], mp_segments = [Literal ''healthz'']\<rparr>"
  "parsePattern ''GET example.com/a/{id}/{rest...}'' =
     Some \<lparr>mp_method = ''GET'', mp_host = ''example.com'', mp_segments = [Literal ''a'', Wild, Multi]\<rparr>"
  "parsePattern ''/a/{$}'' = Some \<lparr>mp_method = [], mp_host = [], mp_segments = [Literal ''a'', Literal ''/'']\<rparr>"
  "parsePattern ''healthz'' = None" "parsePattern ''/a/{x}/{x}'' = None"
  "Option.bind (muxRegister [] [(''/h/'', 1), (''/'', 2 :: nat)]) (\<lambda>m. Some (map (\<lambda>p. muxFind m ''GET'' [] [] p [])
     [''/h/x'', ''/h'', ''/hx'', ''/a//b'']))
   = Some [MuxTarget 1, MuxRedirect, MuxTarget 2, MuxRedirect]"
  by code_simp+

end
