(* ===== verification/Server.thy ===== *)
theory Server
  imports Pipeline Health Proxy Audit_Log Serve_Mux
begin

text \<open>
  The gateway (\<open>internal/server/server.go\<close>): assembling the components, the main handler behind the
  security pipeline, errors and audit, the mux with its endpoints that bypass security, and the
  listener that limits connections. Starting and stopping are in \<open>Lifecycle\<close>.

  The state of the handlers is the state of the pipeline extended by the manager, the stream slots and
  the audit log. What is outside the program is the record \<open>gateway_env\<close>.
\<close>

section \<open>Cards as JSON\<close>

definition omitS :: "string \<Rightarrow> string \<Rightarrow> (string \<times> jout) list" where
  "omitS k v = (if v = [] then [] else [(k, JoStr v)])"

definition omitB :: "string \<Rightarrow> bool \<Rightarrow> (string \<times> jout) list" where
  "omitB k v = (if v then [(k, JoBool True)] else [])"

definition strArr :: "string list \<Rightarrow> jout" where
  "strArr xs = JoArr (map JoStr xs)"

definition omitL :: "string \<Rightarrow> jout list \<Rightarrow> (string \<times> jout) list" where
  "omitL k xs = (if xs = [] then [] else [(k, JoArr xs)])"

definition omitO :: "string \<Rightarrow> ('a \<Rightarrow> jout) \<Rightarrow> 'a option \<Rightarrow> (string \<times> jout) list" where
  "omitO k f x = (case x of None \<Rightarrow> [] | Some v \<Rightarrow> [(k, f v)])"

definition skillJson :: "agent_skill \<Rightarrow> jout" where
  "skillJson s = JoObj ([(''id'', JoStr (sk_id s)), (''name'', JoStr (sk_name s))]
     @ omitS ''description'' (sk_description s) @ omitL ''tags'' (map JoStr (sk_tags s))
     @ omitL ''examples'' (map JoStr (sk_examples s)) @ omitL ''inputModes'' (map JoStr (sk_inputModes s))
     @ omitL ''outputModes'' (map JoStr (sk_outputModes s)))"

definition flowJson :: "oauth_flow \<Rightarrow> jout" where
  "flowJson f = JoObj (omitS ''authorizationUrl'' (of_authorizationURL f) @ omitS ''tokenUrl'' (of_tokenURL f)
     @ omitS ''refreshUrl'' (of_refreshURL f)
     @ (if of_scopes f = [] then [] else [(''scopes'', JoObj (map (\<lambda>(k, v). (k, JoStr v)) (of_scopes f)))]))"

definition flowsJson :: "oauth_flows \<Rightarrow> jout" where
  "flowsJson f = JoObj (omitO ''implicit'' flowJson (ofs_implicit f) @ omitO ''password'' flowJson (ofs_password f)
     @ omitO ''clientCredentials'' flowJson (ofs_clientCredentials f)
     @ omitO ''authorizationCode'' flowJson (ofs_authorizationCode f))"

definition schemeJson :: "security_scheme \<Rightarrow> jout" where
  "schemeJson s = JoObj ([(''type'', JoStr (ss_type s))] @ omitS ''description'' (ss_description s)
     @ omitS ''scheme'' (ss_scheme s) @ omitS ''bearerFormat'' (ss_bearerFormat s)
     @ omitO ''flows'' flowsJson (ss_flows s) @ omitS ''in'' (ss_in s) @ omitS ''name'' (ss_name s)
     @ omitS ''openIdConnectUrl'' (ss_openIdConnectURL s))"

definition capabilitiesJson :: "agent_capabilities \<Rightarrow> jout" where
  "capabilitiesJson c = JoObj (omitB ''streaming'' (cap_streaming c)
     @ omitB ''pushNotifications'' (cap_pushNotifications c)
     @ omitB ''stateTransitionHistory'' (cap_stateTransitionHistory c))"

definition cardJson :: "agent_card \<Rightarrow> jout" where
  "cardJson c = JoObj ([(''name'', JoStr (card_name c))] @ omitS ''description'' (card_description c)
     @ [(''url'', JoStr (card_url c))] @ omitS ''version'' (card_version c)
     @ omitS ''documentationUrl'' (card_documentationURL c)
     @ omitO ''provider'' (\<lambda>p. JoObj ([(''organization'', JoStr (apv_organization p))] @ omitS ''url'' (apv_url p)))
         (card_provider c)
     @ omitO ''capabilities'' capabilitiesJson (card_capabilities c)
     @ (if card_securitySchemes c = [] then []
        else [(''securitySchemes'', JoObj (map (\<lambda>(k, v). (k, schemeJson v)) (card_securitySchemes c)))])
     @ omitL ''security'' (map (\<lambda>m. JoObj (map (\<lambda>(k, v). (k, strArr v)) m)) (card_security c))
     @ omitL ''skills'' (map skillJson (card_skills c))
     @ omitL ''defaultInputModes'' (map JoStr (card_defaultInputModes c))
     @ omitL ''defaultOutputModes'' (map JoStr (card_defaultOutputModes c))
     @ omitO ''interfaces'' (\<lambda>i. JoObj (omitS ''jsonrpc'' (ain_jsonrpc i) @ omitS ''grpc'' (ain_grpc i)
         @ omitS ''rest'' (ain_rest i))) (card_interfaces c)
     @ omitB ''supportsAuthenticatedExtendedCard'' (card_supportsExtendedCard c))"

section \<open>The server\<close>

record 'l server_state = "'l pipeline_state" +
  sv_manager :: manager
  sv_streams :: stream_manager
  sv_audit :: "audit_log list"

record server =
  sr_cfg :: config
  sr_version :: string
  sr_bundle :: lang_bundle
  sr_sampling :: sampling_config
  sr_healthDefault :: string
  sr_sse :: sse_proxy
  sr_hasGRPC :: bool
  sr_hasMCP :: bool

record ('l, 'k) gateway_env =
  ge_sec :: "('l, 'k) sec_env"
  ge_backend :: "backend_request \<Rightarrow> backend_response option"
  ge_flushable :: bool
  ge_relay :: "line_result list \<Rightarrow> relay_state"
  ge_parseFloat :: "string \<Rightarrow> rat option"
  ge_startTime :: go_time
  ge_draw :: rat
  ge_host :: string
  ge_urlHost :: string
  ge_rawPath :: string
  ge_metricsPage :: "header \<Rightarrow> response"
  ge_muxError :: "int \<Rightarrow> header \<Rightarrow> response"
  ge_redirect :: "request \<Rightarrow> header \<Rightarrow> response"

definition defaultAgentName :: "agent_config list \<Rightarrow> string" where
  "defaultAgentName as = (case find ag_default as of None \<Rightarrow> [] | Some a \<Rightarrow> ag_name a)"

text \<open>\<open>New\<close>, with what reading the embedded locale files gives.\<close>

definition New :: "dir_entry list option \<Rightarrow> config \<Rightarrow> string \<Rightarrow> bundle_error + server" where
  "New locales cfg version = (case NewBundle locales ''en'' of
      Inl e \<Rightarrow> Inl e
    | Inr b \<Rightarrow> Inr \<lparr>sr_cfg = cfg, sr_version = version, sr_bundle = b,
        sr_sampling = \<lparr>sa_rate = ac_samplingRate (lg_audit (cf_logging cfg)),
          sa_errorRate = ac_errorSamplingRate (lg_audit (cf_logging cfg)),
          sa_maxBody = ac_maxBodyLogSize (lg_audit (cf_logging cfg))\<rparr>,
        sr_healthDefault = defaultAgentName (cf_agents cfg), sr_sse = NewSSEProxy,
        sr_hasGRPC = (ln_grpcPort (cf_listen cfg) > 0), sr_hasMCP = mc_enabled (cf_mcp cfg)\<rparr>)"

definition buildSecurityPipelineConfig :: "config \<Rightarrow> security_pipeline_config" where
  "buildSecurityPipelineConfig c =
     (let se = cf_security c; rl = se_rateLimit se; rp = se_replay se;
          jwt = (if au_mode (se_auth se) = ''terminate'' then
                   (case au_schemes (se_auth se) of [] \<Rightarrow> \<lparr>jw_issuer = [], jw_audience = [], jw_jwksURL = []\<rparr>
                    | sc # _ \<Rightarrow> sc_jwt sc)
                 else \<lparr>jw_issuer = [], jw_audience = [], jw_jwksURL = []\<rparr>) in
      \<lparr>spc_auth = \<lparr>apc_mode = au_mode (se_auth se), apc_allowUnauthenticated = au_allowUnauthenticated (se_auth se),
          apc_issuer = jw_issuer jwt, apc_audience = jw_audience jwt, apc_jwksURL = jw_jwksURL jwt\<rparr>,
       spc_rateLimit = \<lparr>rlp_enabled = rl_enabled rl, rlp_ipPerIP = ir_perIP (rl_ip rl), rlp_ipBurst = ir_burst (rl_ip rl),
          rlp_ipCleanupInterval = ir_cleanupInterval (rl_ip rl), rlp_userPerUser = ur_perUser (rl_user rl),
          rlp_userBurst = ur_burst (rl_user rl), rlp_userCleanupInterval = ur_cleanupInterval (rl_user rl)\<rparr>,
       spc_replay = \<lparr>rdc_enabled = rp_enabled rp, rdc_window = rp_window rp, rdc_noncePolicy = rp_noncePolicy rp,
          rdc_nonceSource = rp_nonceSource rp, rdc_clockSkew = rp_clockSkew rp,
          rdc_cleanupInterval = rp_cleanupInterval rp\<rparr>,
       spc_globalRateLimit = ln_globalRateLimit (cf_listen c), spc_trustedProxies = elems (ln_trustedProxies (cf_listen c)),
       spc_push = se_push se, spc_policies = se_policies se\<rparr>)"

definition initServer :: "'l bucket_maker \<Rightarrow> config \<Rightarrow> 'l server_state" where
  "initServer newLim cfg = pipeline_state.extend (initPipeline newLim (buildSecurityPipelineConfig cfg))
     \<lparr>sv_manager = NewManager (cf_agents cfg) (se_cardSignature (cf_security cfg)),
      sv_streams = NewStreamManager, sv_audit = []\<rparr>"

section \<open>The main handler\<close>

definition handleAgentCard :: "manager \<Rightarrow> header \<Rightarrow> response" where
  "handleAgentCard m w = \<lparr>rs_status = 200, rs_header = header_set w ''Content-Type'' ''application/json'',
     rs_payload = PJson (cardJson (GetAggregatedCard m))\<rparr>"

definition writeError :: "header \<Rightarrow> request \<Rightarrow> sentinel_error \<Rightarrow> response" where
  "writeError w r e =
     (let sentErr = Localize e (LocalizerFrom (rq_ctx r)) in
      case RequestMetaFrom (rq_ctx r) of
        Some meta \<Rightarrow>
          if rm_protocol meta = protocolString ProtocolJSONRPC
          then \<lparr>rs_status = se_code sentErr, rs_header = header_set w ''Content-Type'' ''application/json'',
                rs_payload = PRpcError (ToJSONRPCError sentErr None)\<rparr>
          else WriteHTTPError w sentErr
      | None \<Rightarrow> WriteHTTPError w sentErr)"

text \<open>The audit entry is shared by pointer: what is written into it is what \<open>LogRequest\<close> reads.\<close>

definition finalizeAudit :: "rat \<Rightarrow> sampling_config \<Rightarrow> request \<Rightarrow> string \<Rightarrow> audit_log list \<Rightarrow> audit_log list" where
  "finalizeAudit draw sampling r status out = (case AuditEntryFrom (rq_ctx r) of
      None \<Rightarrow> out
    | Some e \<Rightarrow>
        (let e1 = e\<lparr>au_status := status\<rparr>;
             e2 = (case AuthInfoFrom (rq_ctx r) of None \<Rightarrow> e1
                   | Some i \<Rightarrow> e1\<lparr>au_authScheme := ai_scheme i, au_authSubject := ai_subject i\<rparr>) in
         (case LogRequest draw sampling (WithAuditEntry (rq_ctx r) e2) of None \<Rightarrow> out | Some l \<Rightarrow> out @ [l])))"

definition getMaxStreams :: "config \<Rightarrow> string \<Rightarrow> int" where
  "getMaxStreams cfg name = (case find (\<lambda>a. ag_name a = name) (cf_agents cfg) of
      None \<Rightarrow> 10 | Some a \<Rightarrow> ag_maxStreams a)"

definition isStreamMethod :: "string \<Rightarrow> bool" where
  "isStreamMethod m \<longleftrightarrow> m = ''message/stream'' \<or> m = ''tasks/subscribe''"

definition newAuditEntry :: "detect_result \<Rightarrow> go_time \<Rightarrow> audit_entry" where
  "newAuditEntry d now = \<lparr>au_traceID = [], au_spanID = [], au_method = dr_method d,
     au_protocol = protocolString (dr_protocol d), au_targetAgent = [], au_authScheme = [], au_authSubject = [],
     au_status = [], au_blockReason = [], au_startTime = now, au_streamEvents = 0, au_streamDuration = 0\<rparr>"

definition serverRouter :: "server \<Rightarrow> manager \<Rightarrow> router" where
  "serverRouter srv m = NewRouter (rt_mode (cf_routing (sr_cfg srv)))
     (adapterLookup \<lparr>la_manager = m, la_agents = cf_agents (sr_cfg srv)\<rparr>)"

text \<open>The request as it reaches the router, and as it reaches the proxy.\<close>

definition detectedRequest :: "detect_result \<Rightarrow> go_time \<Rightarrow> request \<Rightarrow> request" where
  "detectedRequest d now r = r\<lparr>rq_ctx := WithAuditEntry (WithRequestMeta (rq_ctx r)
     \<lparr>rm_protocol = protocolString (dr_protocol d), rm_method = dr_method d, rm_binding = dr_binding d\<rparr>)
     (newAuditEntry d now)\<rparr>"

definition routedRequest :: "detect_result \<Rightarrow> go_time \<Rightarrow> route_target \<Rightarrow> request \<Rightarrow> request" where
  "routedRequest d now t r = r\<lparr>rq_ctx := WithRouteResult
     (WithAuditEntry (rq_ctx r) ((newAuditEntry d now)\<lparr>au_targetAgent := tg_agentName t\<rparr>))
     \<lparr>rr_agentName = tg_agentName t, rr_agentURL = tg_agentURL t, rr_matchedSkill = [],
      rr_isStreaming = isStreamMethod (dr_method d)\<rparr>\<rparr>"

text \<open>Forwarding to the agent: the answer, the error of the proxy, and the stream slots.\<close>

definition proxyRequest :: "('l, 'k) gateway_env \<Rightarrow> server \<Rightarrow> detect_result \<Rightarrow> route_target \<Rightarrow> request \<Rightarrow> header
    \<Rightarrow> stream_manager \<Rightarrow> (response \<times> proxy_error option) \<times> stream_manager" where
  "proxyRequest ev srv d t r w sm =
     (if isStreamMethod (dr_method d)
      then ProxyStream (ge_backend ev) (ge_flushable ev) (ge_relay ev) (sr_sse srv) r w
             (tg_agentName t) (tg_agentURL t) (tg_path t) (getMaxStreams (sr_cfg srv) (tg_agentName t)) sm
      else (Forward (ge_backend ev) r w (tg_agentURL t) (tg_path t), sm))"

definition mainHandler :: "('l, 'k) gateway_env \<Rightarrow> server \<Rightarrow> 'l server_state handler" where
  "mainHandler ev srv r0 w s =
     (if rq_method r0 = ''GET'' \<and> rq_path r0 = ''/.well-known/agent.json''
      then (handleAgentCard (sv_manager s) w, s)
      else (case Detect r0 of
        (Inl e, r) \<Rightarrow> (WriteHTTPError w (Localize ErrInvalidRequest (LocalizerFrom (rq_ctx r))), s)
      | (Inr d, r) \<Rightarrow>
          (let now = ge_startTime ev; r1 = detectedRequest d now r;
               fin = finalizeAudit (ge_draw ev) (sr_sampling srv) in
           (case Route (serverRouter srv (sv_manager s)) r1 of
              Inl routeErr \<Rightarrow> (writeError w r1 routeErr, s\<lparr>sv_audit := fin r1 ''blocked'' (sv_audit s)\<rparr>)
            | Inr t \<Rightarrow>
                (let r2 = routedRequest d now t r1;
                     ((resp, proxyErr), streams) = proxyRequest ev srv d t r2 w (sv_streams s) in
                 (resp, s\<lparr>sv_streams := streams,
                          sv_audit := fin r2 (if proxyErr \<noteq> None then ''error'' else ''ok'') (sv_audit s)\<rparr>))))))"

section \<open>The mux\<close>

text \<open>
  The patterns of \<open>handler\<close>, in the order of their registration; the two paths of the health endpoints are
  configured. Bad or conflicting patterns make \<open>handler\<close> panic. What only the mux reads of a request is in the
  environment: \<open>ge_host\<close>, \<open>ge_urlHost\<close> and \<open>ge_rawPath\<close> are \<open>Host\<close>, \<open>URL.Host\<close> and \<open>URL.RawPath\<close>.
\<close>

datatype mux_target = HealthTarget | MetricsTarget | SecuredTarget

definition gatewayMux :: "config \<Rightarrow> mux_target mux option" where
  "gatewayMux cfg = muxRegister [] [(hc_livenessPath (cf_health cfg), HealthTarget),
     (hc_readinessPath (cf_health cfg), HealthTarget), (''/metrics'', MetricsTarget), (''/'', SecuredTarget)]"

definition muxAnswer :: "('l, 'k) gateway_env \<Rightarrow> mux_target mux \<Rightarrow> request \<Rightarrow> mux_target mux_answer" where
  "muxAnswer ev m r = muxFind m (rq_method r) (ge_host ev) (ge_urlHost ev) (rq_path r) (ge_rawPath ev)"

definition localizerMiddleware :: "(string \<Rightarrow> rat option) \<Rightarrow> lang_bundle \<Rightarrow> 's handler \<Rightarrow> 's handler" where
  "localizerMiddleware parseFloat b next = (\<lambda>r w s.
     next (r\<lparr>rq_ctx := WithLocalizer (rq_ctx r) (NewLocalizer parseFloat b (hdr r ''Accept-Language''))\<rparr>) w s)"

definition securedHandler :: "('l, 'k) gateway_env \<Rightarrow> server \<Rightarrow> 'l server_state handler" where
  "securedHandler ev srv = ApplyPipeline (ge_sec ev) (mainHandler ev srv)
     (BuildPipeline (buildSecurityPipelineConfig (sr_cfg srv)))"

definition muxServe :: "('l, 'k) gateway_env \<Rightarrow> server \<Rightarrow> mux_target mux \<Rightarrow> 'l server_state handler" where
  "muxServe ev srv m r w s = (case muxAnswer ev m r of
      MuxBadRequest \<Rightarrow> (ge_muxError ev 400 w, s)
    | MuxRedirect \<Rightarrow> (ge_redirect ev r w, s)
    | MuxMethodNotAllowed \<Rightarrow> (ge_muxError ev 405 w, s)
    | MuxNotFound \<Rightarrow> (ge_muxError ev 404 w, s)
    | MuxTarget HealthTarget \<Rightarrow>
        (healthServe (NewHandler (adapterChecker \<lparr>la_manager = sv_manager s, la_agents = cf_agents (sr_cfg srv)\<rparr>)
          (sr_version srv) (hc_readinessMode (cf_health (sr_cfg srv))) (sr_healthDefault srv)) r w, s)
    | MuxTarget MetricsTarget \<Rightarrow> (ge_metricsPage ev w, s)
    | MuxTarget SecuredTarget \<Rightarrow> securedHandler ev srv r w s)"

definition gatewayHandler :: "('l, 'k) gateway_env \<Rightarrow> server \<Rightarrow> 'l server_state handler option" where
  "gatewayHandler ev srv = map_option
     (\<lambda>m. localizerMiddleware (ge_parseFloat ev) (sr_bundle srv) (muxServe ev srv m)) (gatewayMux (sr_cfg srv))"

section \<open>Limiting connections\<close>

text \<open>
  The listener: \<open>Accept\<close> takes a place in the semaphore before the connection and gives it back on an
  error; a connection gives its place back at the first \<open>Close\<close>. A connection is whether it is open.
\<close>

record conn_state =
  cn_sem :: nat
  cn_accepting :: nat
  cn_conns :: "bool list"

inductive conn_step :: "nat \<Rightarrow> conn_state \<Rightarrow> conn_state \<Rightarrow> bool" for maxConns where
  Enter: "cn_sem s < maxConns \<Longrightarrow> conn_step maxConns s (s\<lparr>cn_sem := Suc (cn_sem s), cn_accepting := Suc (cn_accepting s)\<rparr>)"
| AcceptOk: "cn_accepting s = Suc n \<Longrightarrow> conn_step maxConns s (s\<lparr>cn_accepting := n, cn_conns := cn_conns s @ [True]\<rparr>)"
| AcceptError: "cn_accepting s = Suc n \<Longrightarrow> conn_step maxConns s (s\<lparr>cn_accepting := n, cn_sem := cn_sem s - 1\<rparr>)"
| CloseFirst: "i < length (cn_conns s) \<Longrightarrow> cn_conns s ! i
    \<Longrightarrow> conn_step maxConns s (s\<lparr>cn_sem := cn_sem s - 1, cn_conns := (cn_conns s)[i := False]\<rparr>)"
| CloseAgain: "i < length (cn_conns s) \<Longrightarrow> \<not> cn_conns s ! i \<Longrightarrow> conn_step maxConns s s"

definition newLimitedListener :: conn_state where
  "newLimitedListener = \<lparr>cn_sem = 0, cn_accepting = 0, cn_conns = []\<rparr>"

definition openConns :: "conn_state \<Rightarrow> nat" where
  "openConns s = count_list (cn_conns s) True"

lemma count_close: "i < length cs \<Longrightarrow> cs ! i \<Longrightarrow> count_list cs True = Suc (count_list (cs[i := False]) True)"
  by (induction cs arbitrary: i) (auto simp: nth_Cons split: nat.splits)

lemma conn_bounded: "(conn_step m)\<^sup>*\<^sup>* newLimitedListener s \<Longrightarrow>
    cn_sem s = openConns s + cn_accepting s \<and> cn_sem s \<le> m"
proof (induction rule: rtranclp_induct)
  case base
  then show ?case by (simp add: newLimitedListener_def openConns_def)
next
  case (step s t)
  from step(2,3) show ?case
    by (induction rule: conn_step.induct) (auto simp: openConns_def dest: count_close)
qed

section \<open>What blocks and what is logged\<close>

text \<open>The pipeline leaves what the server adds to its state alone.\<close>

lemma admit_server_parts:
  fixes s :: "'l server_state"
  assumes "admit ev sts r w s = (x, s')"
  shows "sv_manager s' = sv_manager s \<and> sv_streams s' = sv_streams s \<and> sv_audit s' = sv_audit s"
proof -
  have "pipeline_state.more s' = pipeline_state.more s"
    using admit_untouched[of sts s ev r w] assms by (simp add: untouched_def)
  then show ?thesis by (cases s; cases s') simp
qed





text \<open>What the mux does not hand to the pipeline matches a pattern of the endpoints, as documented for the patterns.\<close>

definition endpointRequest :: "('l, 'k) gateway_env \<Rightarrow> server \<Rightarrow> request \<Rightarrow> bool" where
  "endpointRequest ev srv r = list_ex (\<lambda>pat. case parsePattern pat of
       None \<Rightarrow> False
     | Some p \<Rightarrow> patternAccepts p (rq_method r) (ge_host ev) (rq_path r) (ge_rawPath ev))
     [hc_livenessPath (cf_health (sr_cfg srv)), hc_readinessPath (cf_health (sr_cfg srv)), ''/metrics'']"

lemma gatewayMux_bypass:
  assumes "gatewayMux (sr_cfg srv) = Some m" and "muxAnswer ev m r = MuxTarget t" and "t \<noteq> SecuredTarget"
  shows "endpointRequest ev srv r"
proof -
  from muxFind_accepts assms(2) obtain p where "(p, t) \<in> set m"
    "patternAccepts p (rq_method r) (ge_host ev) (rq_path r) (ge_rawPath ev)" by (metis muxAnswer_def)
  with muxRegister_parsed[OF assms(1)[unfolded gatewayMux_def], of p t] assms(3)
  show ?thesis by (auto simp: endpointRequest_def)
qed

section \<open>Properties\<close>

text \<open>C1: The gateway as a whole. A request gets to no handler of the program (the mux redirects or refuses it);
  or it matches the pattern of a health path or of the metrics, and nothing changes; or it is answered by the error of the security
  stage that blocked it, and then nothing is logged, no stream slot is taken and no card touched; or it was
  authenticated in the configured mode and is answered by the main handler, with the authentication in its
  context and otherwise as it came in.\<close>

theorem gateway_guarded:
  assumes "gatewayHandler ev srv = Some h" and "h r w s = (rs, s')"
  shows "(\<exists>m. gatewayMux (sr_cfg srv) = Some m \<and> s' = s
       \<and> (muxAnswer ev m r \<in> {MuxBadRequest, MuxRedirect, MuxMethodNotAllowed, MuxNotFound} \<or> endpointRequest ev srv r))
    \<or> (\<exists>e w'. rs = WriteHTTPError w' e \<and> 400 \<le> se_code e \<and> se_code e < 600
       \<and> sv_manager s' = sv_manager s \<and> sv_streams s' = sv_streams s \<and> sv_audit s' = sv_audit s)
    \<or> (\<exists>r0 r1 w1 s1 i. same_request r r0 \<and> same_request r0 r1
       \<and> authenticate (ev_fetch (ge_sec ev)) (ev_parse (ge_sec ev)) (pl_auth s) r0 = Inr i
       \<and> AuthInfoFrom (rq_ctx r1) = Some i \<and> sv_manager s1 = sv_manager s
       \<and> sv_streams s1 = sv_streams s \<and> sv_audit s1 = sv_audit s
       \<and> (rs, s') = mainHandler ev srv r1 w1 s1)"
proof -
  let ?mws = "BuildPipeline (buildSecurityPipelineConfig (sr_cfg srv))"
  define r0 where "r0 = r\<lparr>rq_ctx := WithLocalizer (rq_ctx r)
    (NewLocalizer (ge_parseFloat ev) (sr_bundle srv) (hdr r ''Accept-Language''))\<rparr>"
  have same0: "same_request r r0" by (simp add: r0_def same_request_ctx)
  obtain m where m: "gatewayMux (sr_cfg srv) = Some m" and serve: "muxServe ev srv m r0 w s = (rs, s')"
    using assms by (auto simp: gatewayHandler_def localizerMiddleware_def r0_def)
  have ans: "muxAnswer ev m r0 = muxAnswer ev m r" by (simp add: muxAnswer_def r0_def)
  show ?thesis
  proof (cases "muxAnswer ev m r = MuxTarget SecuredTarget")
    case False
    with serve ans have "s' = s" by (auto simp: muxServe_def split: mux_answer.splits mux_target.splits)
    moreover have "muxAnswer ev m r \<in> {MuxBadRequest, MuxRedirect, MuxMethodNotAllowed, MuxNotFound}
        \<or> (\<exists>t. muxAnswer ev m r = MuxTarget t \<and> t \<noteq> SecuredTarget)"
      using False by (cases "muxAnswer ev m r") auto
    ultimately have "muxAnswer ev m r \<in> {MuxBadRequest, MuxRedirect, MuxMethodNotAllowed, MuxNotFound} \<or> endpointRequest ev srv r"
      using gatewayMux_bypass[OF m, of ev r] by blast
    with m \<open>s' = s\<close> show ?thesis by - (rule disjI1, rule exI[of _ m], intro conjI)
  next
    case True
  with serve ans have sec: "securedHandler ev srv r0 w s = (rs, s')" by (simp add: muxServe_def)
  obtain x s1 where a: "admit (ge_sec ev) ?mws r0 w s = (x, s1)" by force
  note parts = admit_server_parts[OF a]
  show ?thesis
  proof (cases x)
    case (Inl y)
    obtain e w' where y: "y = (e, w')" by force
    with a Inl sec have "rs = WriteHTTPError w' e" "s' = s1"
      by (auto simp: securedHandler_def ApplyPipeline_foldr foldr_Process)
    with admit_error[of "ge_sec ev" ?mws r0 w s e w' s1] a Inl y parts have
      "rs = WriteHTTPError w' e \<and> 400 \<le> se_code e \<and> se_code e < 600
       \<and> sv_manager s' = sv_manager s \<and> sv_streams s' = sv_streams s \<and> sv_audit s' = sv_audit s" by simp
    then show ?thesis by (intro disjI2 disjI1 exI)
  next
    case (Inr y)
    obtain r1 w1 where y: "y = (r1, w1)" by force
    with a Inr have adm: "admit (ge_sec ev) ?mws r0 w s = (Inr (r1, w1), s1)" by simp
    with sec have main: "(rs, s') = mainHandler ev srv r1 w1 s1"
      by (simp add: securedHandler_def ApplyPipeline_foldr foldr_Process)
    from BuildPipeline_admit_auth[OF adm] obtain i where
      "authenticate (ev_fetch (ge_sec ev)) (ev_parse (ge_sec ev)) (pl_auth s) r0 = Inr i"
      "rq_ctx r1 = WithAuthInfo (rq_ctx r0) i" by blast
    moreover from this have "AuthInfoFrom (rq_ctx r1) = Some i" by (simp add: ctx_getters ctx_setters)
    ultimately have "same_request r r0 \<and> same_request r0 r1
       \<and> authenticate (ev_fetch (ge_sec ev)) (ev_parse (ge_sec ev)) (pl_auth s) r0 = Inr i
       \<and> AuthInfoFrom (rq_ctx r1) = Some i \<and> sv_manager s1 = sv_manager s
       \<and> sv_streams s1 = sv_streams s \<and> sv_audit s1 = sv_audit s
       \<and> (rs, s') = mainHandler ev srv r1 w1 s1"
      using same0 admit_same[OF adm] parts main by simp
    then show ?thesis by (intro disjI2 exI)
  qed
  qed
qed




section \<open>Health paths\<close>

text \<open>
  The paths of the health endpoints are configurable in the mux only: the handler knows \<open>/healthz\<close> and
  \<open>/readyz\<close>, so a request that any other configured path matches is answered 404, even by a healthy gateway.
\<close>

lemma configured_health_path_404:
  assumes "gatewayHandler ev srv = Some h" and "gatewayMux (sr_cfg srv) = Some m"
    and "muxAnswer ev m r = MuxTarget HealthTarget" and "rq_path r \<notin> {''/healthz'', ''/readyz''}"
  shows "rs_status (fst (h r w s)) = 404"
proof -
  have "muxAnswer ev m (r\<lparr>rq_ctx := c\<rparr>) = MuxTarget HealthTarget" for c using assms(3) by (simp add: muxAnswer_def)
  with assms show ?thesis
    by (auto simp: gatewayHandler_def localizerMiddleware_def muxServe_def healthServe_def NotFound_def)
qed

text \<open>Equal paths pass the checks of the configuration and make \<open>handler\<close> panic.\<close>

lemma equal_health_paths_panic:
  assumes "hc_livenessPath (cf_health c) = ''/health''" and "hc_readinessPath (cf_health c) = ''/health''"
  shows "gatewayMux c = None"
proof -
  have "muxRegister [] [(''/health'', HealthTarget), (''/health'', HealthTarget), (''/metrics'', MetricsTarget),
      (''/'', SecuredTarget)] = None" by code_simp
  then show ?thesis by (simp add: gatewayMux_def assms)
qed

section \<open>Witnesses\<close>

definition emptyBundle :: lang_bundle where
  "emptyBundle = \<lparr>trans_tables = [(''en'', [])], defaultLang = ''en''\<rparr>"

definition sampleConfig :: config where
  "sampleConfig = ApplyDefaults (smallConfig\<lparr>cf_agents := sampleAgents\<rparr>)"

definition sampleServer :: server where
  "sampleServer = \<lparr>sr_cfg = sampleConfig, sr_version = ''1'', sr_bundle = emptyBundle,
     sr_sampling = \<lparr>sa_rate = Fin 1, sa_errorRate = PosInf, sa_maxBody = 0\<rparr>, sr_healthDefault = [],
     sr_sse = NewSSEProxy, sr_hasGRPC = False, sr_hasMCP = False\<rparr>"

definition sampleGateway :: "(unit, unit) gateway_env" where
  "sampleGateway = \<lparr>ge_sec = sampleEnv, ge_backend = (\<lambda>_. None), ge_flushable = True, ge_relay = relay_start,
     ge_parseFloat = (\<lambda>_. None), ge_startTime = 0, ge_draw = 0, ge_host = ''gateway.test:8080'', ge_urlHost = [], ge_rawPath = [],
     ge_metricsPage = (\<lambda>w. \<lparr>rs_status = 200, rs_header = w, rs_payload = PEmpty\<rparr>),
     ge_muxError = (\<lambda>c w. \<lparr>rs_status = c, rs_header = w, rs_payload = PEmpty\<rparr>),
     ge_redirect = (\<lambda>r w. \<lparr>rs_status = 301, rs_header = w, rs_payload = PEmpty\<rparr>)\<rparr>"

definition sampleServerState :: "unit server_state" where
  "sampleServerState = initServer (\<lambda>_ _. ()) sampleConfig"

text \<open>An unauthenticated request is blocked with 401, and the audit log stays empty.\<close>

lemma sample_blocked:
  "map_option (\<lambda>h. rs_status (fst (h (pathRequest ''POST'' ''/message:send'') [] sampleServerState)))
     (gatewayHandler sampleGateway sampleServer) = Some 401"
  by code_simp

lemma sample_secured: "map_option (\<lambda>m. muxAnswer sampleGateway m (pathRequest ''POST'' ''/message:send'')) (gatewayMux sampleConfig)
    = Some (MuxTarget SecuredTarget)"
  by code_simp

lemma sample_no_endpoint: "\<not> endpointRequest sampleGateway sampleServer (pathRequest ''POST'' ''/message:send'')"
  by code_simp

theorem gateway_guarded_witness:
  "\<exists>h. gatewayHandler sampleGateway sampleServer = Some h
     \<and> sv_audit (snd (h (pathRequest ''POST'' ''/message:send'') [] sampleServerState)) = []"
proof -
  let ?r = "pathRequest ''POST'' ''/message:send''"
  from sample_secured obtain m where m: "gatewayMux sampleConfig = Some m"
    "muxAnswer sampleGateway m ?r = MuxTarget SecuredTarget" by blast
  then obtain h where h: "gatewayHandler sampleGateway sampleServer = Some h" by (simp add: gatewayHandler_def sampleServer_def)
  obtain rs s' where g: "h ?r [] sampleServerState = (rs, s')" by force
  have cfg: "sr_cfg sampleServer = sampleConfig" by (simp add: sampleServer_def)
  have auth: "authenticate (ev_fetch (ge_sec sampleGateway)) (ev_parse (ge_sec sampleGateway)) (pl_auth sampleServerState) r0
      \<noteq> Inr i" if "same_request ?r r0" for r0 i
  proof -
    have "hdr r0 ''Authorization'' = []" using same_request_sel(6)[OF that, of "''Authorization''"]
      by (simp add: hdr_def header_get_def pathRequest_def)
    moreover have "am_mode (pl_auth sampleServerState) = ''passthrough-strict''"
      "\<not> am_allowUnauthenticated (pl_auth sampleServerState)" by code_simp+
    ultimately show ?thesis by (simp add: authenticate_def processPassthroughStrict_def)
  qed
  have start: "sv_audit sampleServerState = []" by code_simp
  show ?thesis
  proof (intro exI conjI, rule h)
    show "sv_audit (snd (h ?r [] sampleServerState)) = []"
      using gateway_guarded[OF h g] auth g start m sample_no_endpoint unfolding cfg by fastforce
  qed
qed


end
