(* ===== verification/Mcp_Bridge.thy ===== *)
theory Mcp_Bridge
  imports Mcp_Server Server
begin

text \<open>
  The gateway's own bridge (\<open>internal/server/mcpbridge.go\<close>): the operations of the MCP server on the card
  manager and the stream slots, with the configuration the server was started with. \<open>quote\<close> is \<open>%q\<close>
  (\<open>strconv.Quote\<close>). The properties say who can change what over MCP.
\<close>

section \<open>State\<close>

type_synonym bridge_state = "manager \<times> stream_manager"

record mcp_bridge =
  mb_cfg :: config
  mb_version :: string
  mb_startTime :: go_time

definition newMCPBridge :: "config \<Rightarrow> string \<Rightarrow> go_time \<Rightarrow> mcp_bridge" where
  "newMCPBridge cfg version now = \<lparr>mb_cfg = cfg, mb_version = version, mb_startTime = now\<rparr>"

section \<open>Reading\<close>

definition agentStatusJson :: "agent_status \<Rightarrow> jout" where
  "agentStatusJson s = JoObj [(''name'', JoStr (st_name s)), (''url'', JoStr (st_url s)),
     (''healthy'', JoBool (st_healthy s)), (''skills_count'', JoInt (int (st_skillCount s))),
     (''last_polled'', JoTime (st_lastPolled s))]"

definition ListAgents :: "bridge_state \<Rightarrow> agent_status list" where
  "ListAgents b = AllAgentStates (fst b)"

definition healthyCount :: "agent_status list \<Rightarrow> nat" where
  "healthyCount as = length (filter st_healthy as)"

definition totalActiveStreams :: "mcp_bridge \<Rightarrow> bridge_state \<Rightarrow> int" where
  "totalActiveStreams mb b = (\<Sum>a \<leftarrow> cf_agents (mb_cfg mb). ActiveStreams (ag_name a) (snd b))"

definition healthStatus :: "nat \<Rightarrow> nat \<Rightarrow> string" where
  "healthStatus healthy n =
     (if healthy = 0 \<and> n > 0 then ''unhealthy'' else if healthy < n then ''degraded'' else ''healthy'')"

definition HealthCheck :: "mcp_bridge \<Rightarrow> go_time \<Rightarrow> bridge_state \<Rightarrow> jout" where
  "HealthCheck mb now b =
     (let agents = ListAgents b in
      JoObj [(''status'', JoStr (healthStatus (healthyCount agents) (length agents))),
        (''agents'', JoArr (map agentStatusJson agents)),
        (''active_streams'', JoInt (totalActiveStreams mb b)),
        (''uptime'', JoInt (time_sub now (mb_startTime mb)))])"

definition GetAgentCard :: "(string \<Rightarrow> string) \<Rightarrow> string \<Rightarrow> bridge_state \<Rightarrow> string + jout" where
  "GetAgentCard quote name b = (case GetCard name (fst b) of
      None \<Rightarrow> Inl (''agent '' @ quote name @ '' not found'')
    | Some c \<Rightarrow> Inr (cardJson c))"

definition pendingJson :: "pending_change \<Rightarrow> jout" where
  "pendingJson p = JoObj [(''agent_name'', JoStr (pn_agentName p)), (''detected_at'', JoTime (pn_detectedAt p)),
     (''changes_count'', JoInt (int (length (pn_changes p)))),
     (''has_critical'', JoBool (hasCriticalChanges (pn_changes p))), (''status'', JoStr (pn_status p))]"

definition policyJson :: "policy_config \<Rightarrow> jout" where
  "policyJson p =
     (let m = pc_match p in
      JoObj [(''name'', JoStr (pc_name p)), (''description'', JoStr (pc_description p)),
        (''action'', JoStr (pc_action p)), (''priority'', JoInt (pc_priority p)),
        (''match'', JoObj (omitL ''agents'' (map JoStr (pmc_agents m)) @ omitL ''methods'' (map JoStr (pmc_methods m))
          @ omitL ''users'' (map JoStr (pmc_users m)) @ omitL ''ips'' (map JoStr (pmc_ips m))
          @ (if pmc_headers m = [] then [] else [(''headers'', JoObj (map (\<lambda>(k, v). (k, JoStr v)) (pmc_headers m)))])
          @ omitO ''time_range'' (\<lambda>t. JoObj [(''start'', JoStr (trc_start t)), (''end'', JoStr (trc_end t)),
              (''tz'', JoStr (trc_tz t))]) (pmc_timeRange m)))])"

definition bridgeListPolicies :: "mcp_bridge \<Rightarrow> jout" where
  "bridgeListPolicies mb = JoArr (map policyJson (se_policies (cf_security (mb_cfg mb))))"

definition EvaluatePolicyResult :: jout where
  "EvaluatePolicyResult = JoObj [(''action'', JoStr ''allow''), (''matched_policy'', JoStr ''default''),
     (''reason'', JoStr ''no matching deny policy'')]"

definition sanitizeAgents :: "agent_config list \<Rightarrow> jout" where
  "sanitizeAgents as = JoArr (map (\<lambda>a. JoObj [(''name'', JoStr (ag_name a)), (''url'', JoStr (ag_url a)),
     (''default'', JoBool (ag_default a))]) as)"

definition maskToken :: "string \<Rightarrow> string" where
  "maskToken t =
     (if t = [] then ''(none)''
      else if length t \<le> 4 then replicate (length t) (CHR ''*'')
      else take 2 t @ replicate (length t - 4) (CHR ''*'') @ drop (length t - 2) t)"

definition GetConfig :: "mcp_bridge \<Rightarrow> jout" where
  "GetConfig mb =
     (let c = mb_cfg mb; ln = cf_listen c; se = cf_security c; mc = cf_mcp c in
      JoObj [(''listen'', JoObj [(''host'', JoStr (ln_host ln)), (''port'', JoInt (ln_port ln)),
          (''max_connections'', JoInt (ln_maxConnections ln)), (''global_rate_limit'', JoInt (ln_globalRateLimit ln))]),
        (''routing'', JoObj [(''mode'', JoStr (rt_mode (cf_routing c)))]),
        (''security'', JoObj [(''auth_mode'', JoStr (au_mode (se_auth se))),
          (''rate_limit'', JoBool (rl_enabled (se_rateLimit se))), (''replay_detect'', JoBool (rp_enabled (se_replay se))),
          (''card_signature'', JoBool (cs_require (se_cardSignature se)))]),
        (''agents'', sanitizeAgents (cf_agents c)),
        (''mcp'', JoObj [(''enabled'', JoBool (mc_enabled mc)), (''host'', JoStr (mc_host mc)),
          (''port'', JoInt (mc_port mc)), (''auth'', JoStr (maskToken (mc_token mc)))])])"

text \<open>\<open>int(d.Seconds())\<close>, up to the rounding of the float.\<close>

definition wholeSeconds :: "go_duration \<Rightarrow> int" where
  "wholeSeconds d = (if d \<ge> 0 then d div 1000000000 else - ((- d) div 1000000000))"

definition GetMetrics :: "mcp_bridge \<Rightarrow> go_time \<Rightarrow> bridge_state \<Rightarrow> jout" where
  "GetMetrics mb now b = JoObj [(''total_agents'', JoInt (int (length (ListAgents b)))),
     (''healthy_agents'', JoInt (int (healthyCount (ListAgents b)))),
     (''active_streams'', JoInt (totalActiveStreams mb b)),
     (''uptime_seconds'', JoInt (wholeSeconds (time_sub now (mb_startTime mb)))),
     (''version'', JoStr (mb_version mb))]"

definition GetSecurityReport :: "mcp_bridge \<Rightarrow> jout" where
  "GetSecurityReport mb =
     (let se = cf_security (mb_cfg mb) in
      JoObj [(''auth_mode'', JoStr (au_mode (se_auth se))),
        (''allow_unauthenticated'', JoBool (au_allowUnauthenticated (se_auth se))),
        (''rate_limit_enabled'', JoBool (rl_enabled (se_rateLimit se))),
        (''replay_detection'', JoBool (rp_enabled (se_replay se))),
        (''card_signature_required'', JoBool (cs_require (se_cardSignature se))),
        (''push_security'', JoObj [(''block_private_networks'', JoBool (pu_blockPrivateNetworks (se_push se))),
          (''require_https'', JoBool (pu_requireHTTPS (se_push se))),
          (''require_challenge'', JoBool (pu_requireChallenge (se_push se)))]),
        (''policy_count'', JoInt (int (length (se_policies se))))])"

section \<open>The bridge\<close>

text \<open>The two decisions on a card; the others that write are not implemented in the program.\<close>

definition decide :: "(string \<Rightarrow> string) \<Rightarrow> (string \<Rightarrow> manager \<Rightarrow> bool \<times> manager) \<Rightarrow> string \<Rightarrow> bridge_state
     \<Rightarrow> string option \<times> bridge_state" where
  "decide quote f name b = (case f name (fst b) of
      (ok, m) \<Rightarrow> (if ok then None else Some (''no pending change for agent '' @ quote name), (m, snd b)))"

definition mcpBridge :: "(string \<Rightarrow> string) \<Rightarrow> mcp_bridge \<Rightarrow> bridge_state bridge" where
  "mcpBridge quote mb =
     \<lparr>bg_ListAgents = (\<lambda>b. JoArr (map agentStatusJson (ListAgents b))),
      bg_HealthCheck = HealthCheck mb,
      bg_GetBlockedRequests = (\<lambda>since n b. JoArr []),
      bg_GetAgentCard = GetAgentCard quote,
      bg_GetAggregatedCard = (\<lambda>b. Inr (cardJson (GetAggregatedCard (fst b)))),
      bg_GetRateLimitStatus = (\<lambda>b. JoArr []),
      bg_UpdateRateLimit = (\<lambda>name n b. (Inl ''rate limit update not implemented'', b)),
      bg_RegisterAgent = (\<lambda>name url d b. (Some ''dynamic agent registration not implemented'', b)),
      bg_DeregisterAgent = (\<lambda>name b. (Some ''dynamic agent deregistration not implemented'', b)),
      bg_SendTestMessage = (\<lambda>name text b. (Inl ''test message sending not implemented'', b)),
      bg_ListPendingChanges = (\<lambda>b. JoArr (map pendingJson (ListPendingChanges (fst b)))),
      bg_ApproveCardChange = decide quote ApproveCardChange,
      bg_RejectCardChange = decide quote RejectCardChange,
      bg_ListPolicies = (\<lambda>b. bridgeListPolicies mb),
      bg_EvaluatePolicy = (\<lambda>agent method user ip b. EvaluatePolicyResult),
      bg_GetConfig = (\<lambda>b. GetConfig mb),
      bg_GetMetrics = GetMetrics mb,
      bg_GetSecurityReport = (\<lambda>b. GetSecurityReport mb)\<rparr>"





section \<open>What a decision changes\<close>


lemma pendingApprove_change: "pendingApprove n p = (Some c, p') \<Longrightarrow> map_of p n = Some c'
    \<Longrightarrow> pn_newCard c = pn_newCard c'"
  by (auto simp: pendingApprove_def split: option.splits if_splits)


section \<open>Properties\<close>

text \<open>The endpoint of the gateway, as \<open>New\<close> of \<open>server.go\<close> wires it.\<close>

definition mcpServer :: "config \<Rightarrow> lang_bundle \<Rightarrow> mcp_server" where
  "mcpServer cfg b = NewServer \<lparr>mi_host = mc_host (cf_mcp cfg), mi_port = mc_port (cf_mcp cfg),
     mi_token = mc_token (cf_mcp cfg)\<rparr> b"

definition mcpEndpoint ::
  "(string \<Rightarrow> rat option) \<Rightarrow> mcp_env \<Rightarrow> (string \<Rightarrow> string) \<Rightarrow> mcp_bridge \<Rightarrow> lang_bundle \<Rightarrow> string \<Rightarrow> request
     \<Rightarrow> bridge_state mcp_state \<Rightarrow> response \<times> bridge_state mcp_state" where
  "mcpEndpoint pf env quote mb b rnd r s =
     handleRPC pf env (mcpBridge quote mb) (mcpServer (mb_cfg mb) b) rnd r [] s"


text \<open>C31: The sessions of the MCP endpoint: once one was started, a request other than \<open>initialize\<close> that names
  no session it knows is refused and changes nothing. Sessions are never removed, and the only one added is
  that whose identifier the answer to \<open>initialize\<close> carries.\<close>

theorem mcp_sessions:
  assumes "mcpEndpoint pf env quote mb b rnd r s = (rs, s')"
    and "Option.bind (decodeFirst (rq_body r)) requestOf = Some q"
  shows "(ms_sessions s \<noteq> [] \<and> jq_method q \<noteq> ''initialize'' \<and> hdr r ''Mcp-Session-Id'' \<notin> set (ms_sessions s) \<longrightarrow>
        rs_status rs \<in> {400, 401, 404, 405} \<and> s' = s)
    \<and> (set (ms_sessions s') = set (ms_sessions s)
       \<or> jq_method q = ''initialize'' \<and> rs_status rs = 200
         \<and> header_get (rs_header rs) ''Mcp-Session-Id'' = generateSessionID rnd
         \<and> set (ms_sessions s') = insert (generateSessionID rnd) (set (ms_sessions s)))"
proof (cases "rq_method r \<noteq> ''POST'' \<or> callerOf (mx_token (mcpServer (mb_cfg mb) b)) r = Rejected")
  case True
  from rpc_rejected[OF True assms(1)[unfolded mcpEndpoint_def]] show ?thesis by auto
next
  case False
  then have f: "rq_method r = ''POST''" "callerOf (mx_token (mcpServer (mb_cfg mb) b)) r \<noteq> Rejected" by auto
  show ?thesis
  proof (cases "sessionCheck (ms_sessions s) q r = SessionOK")
    case True
    from rpc_dispatched[OF f assms(2) True assms(1)[unfolded mcpEndpoint_def]] True sessionCheck_refuses
    show ?thesis by (auto simp: session_header) (auto simp: rpcAnswer_def)
  next
    case False
    from rpc_no_session[OF f assms(2) False assms(1)[unfolded mcpEndpoint_def]] show ?thesis by auto
  qed
qed

section \<open>Witnesses\<close>

text \<open>A gateway with the token \<open>s3cret\<close>, whose agent \<open>echo\<close> has a new card waiting.\<close>

definition rpcCall :: string where
  "rpcCall = map (\<lambda>c. if c = CHR ''`'' then char_of (34 :: nat) else c)
     ''{`id`:`a`,`method`:`tools/call`,`params`:{`name`:`approve_card_change`,`arguments`:{`agent_name`:`echo`}}}''"

definition approveRequest :: "string \<Rightarrow> header \<Rightarrow> request" where
  "approveRequest body h = \<lparr>rq_method = ''POST'', rq_path = ''/'', rq_query = [], rq_headers = h,
     rq_body = Some \<lparr>st_bytes = body, st_fails = False\<rparr>, rq_remoteAddr = ''127.0.0.1:80'',
     rq_tls = False, rq_ctx = emptyContext\<rparr>"

definition waitingManager :: manager where
  "waitingManager = cardRun [Poll (sampleCardEnv ''Slonger'') 3 4 ''echo''] servingManager"

definition tokenBridge :: mcp_bridge where
  "tokenBridge = newMCPBridge ((zeroConfig sampleAgents)\<lparr>cf_mcp := \<lparr>mc_enabled = True, mc_host = ''127.0.0.1'', mc_port = 8081,
     mc_token = ''s3cret''\<rparr>\<rparr>) ''v'' 0"

definition approveRun :: "header \<Rightarrow> bridge_state mcp_state \<Rightarrow> response \<times> bridge_state mcp_state" where
  "approveRun h = mcpEndpoint (\<lambda>_. None) \<lparr>me_now = 0, me_jsonError = (\<lambda>_. []), me_timeError = (\<lambda>_. [])\<rparr> (\<lambda>s. s)
     tokenBridge \<lparr>trans_tables = [], defaultLang = ''en''\<rparr> [] (approveRequest rpcCall h)"

definition waitingState :: "bridge_state mcp_state" where
  "waitingState = \<lparr>ms_sessions = [], ms_bridge = (waitingManager, NewStreamManager)\<rparr>"






theorem mcp_sessions_witness:
  "rs_status (fst (approveRun [(''Authorization'', [''Bearer s3cret''])] (waitingState\<lparr>ms_sessions := [''abc'']\<rparr>)))
     \<in> {400, 401, 404, 405}
   \<and> snd (approveRun [(''Authorization'', [''Bearer s3cret''])] (waitingState\<lparr>ms_sessions := [''abc'']\<rparr>))
     = waitingState\<lparr>ms_sessions := [''abc'']\<rparr>"
proof -
  let ?h = "[(''Authorization'', [''Bearer s3cret''])]"
  let ?s = "waitingState\<lparr>ms_sessions := [''abc'']\<rparr>"
  have e: "mcpEndpoint (\<lambda>_. None) \<lparr>me_now = 0, me_jsonError = (\<lambda>_. []), me_timeError = (\<lambda>_. [])\<rparr> (\<lambda>s. s)
     tokenBridge \<lparr>trans_tables = [], defaultLang = ''en''\<rparr> [] (approveRequest rpcCall ?h) ?s
     = (fst (approveRun ?h ?s), snd (approveRun ?h ?s))" by (simp add: approveRun_def)
  have "map_option jq_method (Option.bind (decodeFirst (rq_body (approveRequest rpcCall ?h))) requestOf) = Some ''tools/call''"
    by code_simp
  then obtain q where q: "Option.bind (decodeFirst (rq_body (approveRequest rpcCall ?h))) requestOf = Some q"
    and m: "jq_method q = ''tools/call''" by auto
  have "hdr (approveRequest rpcCall ?h) ''Mcp-Session-Id'' = []" by code_simp
  with mcp_sessions[OF e q] m show ?thesis by simp
qed

text \<open>The token is compared without regard to case: \<open>S3CRET\<close> is accepted for \<open>s3cret\<close>.\<close>

lemma token_case_ignored:
  "callerOf ''s3cret'' (approveRequest rpcCall [(''Authorization'', [''bearer S3CRET''])]) = Authenticated"
  by code_simp

text \<open>The masked token still shows its first two and last two characters.\<close>

lemma maskToken_shows:
  assumes "length t > 4"
  shows "take 2 (maskToken t) = take 2 t" "drop (length t - 2) (maskToken t) = drop (length t - 2) t"
    "length (maskToken t) = length t"
  using assms by (auto simp: maskToken_def)

end
