(* ===== verification/Lifecycle.thy ===== *)
theory Lifecycle
  imports Mcp_Bridge
begin

text \<open>
  Starting and stopping: \<open>Start\<close> and \<open>Shutdown\<close> of \<open>internal/server/server.go\<close>, \<open>DrainAll\<close> of
  \<open>internal/proxy/streams.go\<close>, and \<open>Start\<close> and \<open>Shutdown\<close> of \<open>internal/mcpserver/server.go\<close>. What these
  functions do to the services is a trace of actions with their times. The record \<open>lc_env\<close> says what the
  network, the clients and the signals do while they run.
\<close>

section \<open>The environment\<close>

text \<open>What comes out of the channel \<open>errCh\<close>, from which service, and which case of the \<open>select\<close> is taken.\<close>

datatype service = PollService | HTTPService | GRPCService | MCPService

datatype serve_result = ServeNil | ServerClosed | ServeFailed string

datatype wake = FromErrCh service serve_result | CtxDone

text \<open>
  \<open>le_registered\<close>: whether the cache accepts the URL of a key set; \<open>le_listen\<close>: whether \<open>net.Listen\<close> gets the
  address; \<open>le_injected\<close>, \<open>le_mcpInjected\<close>: whether a listener was set beforehand; \<open>le_wake\<close> at \<open>le_wakeAt\<close>: what ends the
  waiting; \<open>le_managerAt\<close>: the stream slots over time; \<open>le_httpIdle\<close>, \<open>le_mcpIdle\<close>: from when on \<open>http.Server.Shutdown\<close>
  finds no busy connection; \<open>le_rpcsDone\<close>: when the last pending call of the gRPC server ends, if it does;
  \<open>le_mcpServing\<close>: whether the MCP goroutine has got as far as storing its \<open>http.Server\<close> when the waiting ends.
\<close>

record lc_env =
  le_registered :: "string \<Rightarrow> bool"
  le_listen :: "string \<Rightarrow> bool"
  le_injected :: bool
  le_wake :: wake
  le_wakeAt :: go_time
  le_managerAt :: "go_time \<Rightarrow> stream_manager"
  le_httpIdle :: go_time
  le_rpcsDone :: "go_time option"
  le_mcpInjected :: bool
  le_mcpServing :: bool
  le_mcpIdle :: go_time

section \<open>Deadlines\<close>

text \<open>The deadline of \<open>context.WithTimeout\<close>; a parent that is \<open>None\<close> is the background context.\<close>

definition withTimeout :: "go_time option \<Rightarrow> go_duration \<Rightarrow> go_time \<Rightarrow> go_time" where
  "withTimeout parent d now = (case parent of None \<Rightarrow> now + d | Some p \<Rightarrow> min p (now + d))"

text \<open>
  The loop of \<open>DrainAll\<close>: the slots are read at once and at every tick of 100 ms. When the deadline and a tick
  fall together \<open>select\<close> may take either case; the model takes the deadline.
\<close>

definition drainTick :: go_duration where
  "drainTick = 100000000"

function drainLoop :: "(go_time \<Rightarrow> stream_manager) \<Rightarrow> go_time \<Rightarrow> go_time \<Rightarrow> bool \<times> go_time" where
  "drainLoop mgr deadline now =
     (if totalStreams (mgr now) = 0 then (True, now)
      else if deadline \<le> now + drainTick then (False, max now deadline)
      else drainLoop mgr deadline (now + drainTick))"
  by pat_completeness auto
termination by (relation "measure (\<lambda>(_, deadline, now). nat (deadline - now))") (auto simp: drainTick_def)

declare drainLoop.simps [simp del]

definition DrainAll :: "(go_time \<Rightarrow> stream_manager) \<Rightarrow> go_time \<Rightarrow> go_time \<Rightarrow> bool \<times> go_time" where
  "DrainAll mgr deadline now = drainLoop (\<lambda>t. (mgr t)\<lparr>sm_draining := True\<rparr>) deadline now"

text \<open>\<open>http.Server.Shutdown\<close>: the idle connections are looked at before the context is.\<close>

definition httpShutdown :: "go_time \<Rightarrow> go_time \<Rightarrow> go_time \<Rightarrow> bool \<times> go_time" where
  "httpShutdown idle deadline now =
     (if idle \<le> now then (True, now)
      else if idle \<le> deadline then (True, idle)
      else (False, max now deadline))"

section \<open>The MCP server\<close>

text \<open>\<open>Shutdown\<close>; there is nothing to stop before the \<open>http.Server\<close> is stored.\<close>

definition mcpStop :: "lc_env \<Rightarrow> bool \<Rightarrow> go_time \<Rightarrow> go_time \<Rightarrow> bool \<times> go_time" where
  "mcpStop env hasHTTP deadline now =
     (if hasHTTP then httpShutdown (le_mcpIdle env) deadline now else (True, now))"

datatype mcp_outcome = McpListenError string | McpServeError string | McpShutdown bool go_time

text \<open>\<open>Start\<close>, woken by \<open>w\<close> at \<open>now\<close>; its shutdown gets a context with the timeout 0. \<open>McpShutdown\<close>: whether
  it went without an error, and when.\<close>

definition McpStart :: "lc_env \<Rightarrow> mcp_server \<Rightarrow> wake \<Rightarrow> go_time \<Rightarrow> mcp_outcome" where
  "McpStart env x w now =
     (if \<not> le_mcpInjected env \<and> \<not> le_listen env (mx_addr x) then McpListenError (mx_addr x)
      else (case w of
          FromErrCh _ (ServeFailed e) \<Rightarrow> McpServeError e
        | _ \<Rightarrow> (let (ok, t) = mcpStop env True (withTimeout None 0 now) now in McpShutdown ok t)))"

section \<open>The gateway\<close>

datatype action =
    PollStarted "string list"
  | Listening string "int option"
  | ServingHTTP
  | ServingGRPC string
  | ServingMCP
  | ServeReturned service
  | ContextDone
  | Draining
  | DrainEnded bool
  | HTTPShutdown bool
  | GRPCStopped
  | MCPShutdown bool
  | PollingStopped

type_synonym trace = "(go_time \<times> action) list"

definition mcpUp :: "lc_env \<Rightarrow> server \<Rightarrow> bool" where
  "mcpUp env srv \<longleftrightarrow> sr_hasMCP srv \<and> le_mcpServing env
     \<and> (le_mcpInjected env \<or> le_listen env (mx_addr (mcpServer (sr_cfg srv) (sr_bundle srv))))"

datatype shutdown_result = ShutOK go_time | ShutError go_time | ShutBlocked

text \<open>\<open>Shutdown\<close>. \<open>GracefulStop\<close> waits for the pending calls without a deadline. The \<open>http.Server\<close> is nil before \<open>Start\<close>.\<close>

definition Shutdown :: "lc_env \<Rightarrow> server \<Rightarrow> bool \<Rightarrow> go_time \<Rightarrow> go_time \<Rightarrow> shutdown_result \<times> trace" where
  "Shutdown env srv hasHTTP deadline now =
     (let (ok1, t1) = DrainAll (le_managerAt env)
            (withTimeout (Some deadline) (sd_drainTimeout (cf_shutdown (sr_cfg srv))) now) now;
          tr1 = [(now, Draining), (t1, DrainEnded ok1)];
          (ok2, t2) = (if hasHTTP then httpShutdown (le_httpIdle env) deadline t1 else (True, t1));
          tr2 = tr1 @ (if hasHTTP then [(t2, HTTPShutdown ok2)] else []) in
      if \<not> ok2 then (ShutError t2, tr2)
      else (case (if sr_hasGRPC srv then map_option (max t2) (le_rpcsDone env) else Some t2) of
          None \<Rightarrow> (ShutBlocked, tr2)
        | Some t3 \<Rightarrow>
            (let tr3 = tr2 @ (if sr_hasGRPC srv then [(t3, GRPCStopped)] else []);
                 (ok4, t4) = mcpStop env (mcpUp env srv) deadline t3;
                 tr4 = tr3 @ (if mcpUp env srv then [(t4, MCPShutdown ok4)] else []) in
             (ShutOK t4, tr4 @ [(t4, PollingStopped)]))))"

datatype start_error = StartCards string | ListenError string | ListenGRPCError string | ServerError string | ShutdownError

datatype outcome = Returned "start_error option" go_time | Blocked | Crashed

definition listenAddr :: "config \<Rightarrow> int \<Rightarrow> string" where
  "listenAddr cfg port = ln_host (cf_listen cfg) @ '':'' @ showInt port"

text \<open>\<open>newLimitedListener\<close> wraps a listener of its own only, and only with a positive limit.\<close>

definition connLimit :: "lc_env \<Rightarrow> config \<Rightarrow> int option" where
  "connLimit env cfg = (let n = ln_maxConnections (cf_listen cfg) in
     if \<not> le_injected env \<and> n > 0 then Some n else None)"

text \<open>
  What the end of the waiting has done by itself: a server whose \<open>Serve\<close> returned is down; a context that is done
  ends the polling goroutines and the \<open>Start\<close> of the MCP server, which run under it.
\<close>

definition wakeTrace :: "lc_env \<Rightarrow> server \<Rightarrow> trace" where
  "wakeTrace env srv = (case le_wake env of
      FromErrCh svc r \<Rightarrow> [(le_wakeAt env, ServeReturned svc)]
    | CtxDone \<Rightarrow> (le_wakeAt env, ContextDone) #
        (if mcpUp env srv then
           (case McpStart env (mcpServer (sr_cfg srv) (sr_bundle srv)) CtxDone (le_wakeAt env) of
              McpShutdown ok t \<Rightarrow> [(t, MCPShutdown ok)] | _ \<Rightarrow> [])
         else []))"

text \<open>\<open>handler()\<close> registers the patterns of the mux before anything listens; its panic ends the process (\<open>Crashed\<close>).\<close>

definition Start :: "lc_env \<Rightarrow> server \<Rightarrow> manager \<Rightarrow> go_time \<Rightarrow> outcome \<times> manager \<times> trace" where
  "Start env srv m now =
     (let cfg = sr_cfg srv; addr = listenAddr cfg (ln_port (cf_listen cfg));
          grpcAddr = listenAddr cfg (ln_grpcPort (cf_listen cfg)) in
      case mgStart (le_registered env) m of
        (Some u, m') \<Rightarrow> (Returned (Some (StartCards u)) now, m', [])
      | (None, m') \<Rightarrow>
          (let tr1 = [(now, PollStarted (map fst (mg_agents m')))] in
           if gatewayMux cfg = None then (Crashed, m', tr1)
           else if \<not> le_injected env \<and> \<not> le_listen env addr then (Returned (Some (ListenError addr)) now, m', tr1)
           else (let tr2 = tr1 @ [(now, Listening addr (connLimit env cfg)), (now, ServingHTTP)] in
             if sr_hasGRPC srv \<and> \<not> le_listen env grpcAddr
             then (Returned (Some (ListenGRPCError grpcAddr)) now, m', tr2)
             else (let tr3 = tr2 @ (if sr_hasGRPC srv then [(now, ServingGRPC grpcAddr)] else [])
                              @ (if mcpUp env srv then [(now, ServingMCP)] else []) @ wakeTrace env srv;
                       t = le_wakeAt env in
               case le_wake env of
                 FromErrCh svc (ServeFailed e) \<Rightarrow> (Returned (Some (ServerError e)) t, m', tr3)
               | _ \<Rightarrow> (case Shutdown env srv True (withTimeout None (sd_timeout (cf_shutdown cfg)) t) t of
                     (ShutOK t', tr) \<Rightarrow> (Returned None t', m', tr3 @ tr)
                   | (ShutError t', tr) \<Rightarrow> (Returned (Some ShutdownError) t', m', tr3 @ tr)
                   | (ShutBlocked, tr) \<Rightarrow> (Blocked, m', tr3 @ tr))))))"

section \<open>The logger\<close>

datatype log_level = LevelDebug | LevelInfo | LevelWarn | LevelError

datatype log_output = LogStdout | LogStderr

datatype log_handler = TextHandler log_output log_level | JSONHandler log_output log_level

definition buildLogger :: "config \<Rightarrow> log_handler" where
  "buildLogger cfg =
     (let l = cf_logging cfg;
          level = (if lg_level l = ''debug'' then LevelDebug
                   else if lg_level l = ''warn'' then LevelWarn
                   else if lg_level l = ''error'' then LevelError
                   else LevelInfo);
          output = (if lg_output l = ''stderr'' then LogStderr else LogStdout) in
      if lg_format l = ''text'' then TextHandler output level else JSONHandler output level)"

section \<open>What runs after a trace\<close>

text \<open>The services an action starts or stops. A shutdown that fails closes the listener and leaves connections open.\<close>

fun effect :: "action \<Rightarrow> service set \<Rightarrow> service set" where
  "effect (PollStarted ns) S = insert PollService S"
| "effect ServingHTTP S = insert HTTPService S"
| "effect (ServingGRPC a) S = insert GRPCService S"
| "effect ServingMCP S = insert MCPService S"
| "effect (ServeReturned svc) S = S - {svc}"
| "effect ContextDone S = S - {PollService}"
| "effect (HTTPShutdown ok) S = (if ok then S - {HTTPService} else S)"
| "effect GRPCStopped S = S - {GRPCService}"
| "effect (MCPShutdown ok) S = (if ok then S - {MCPService} else S)"
| "effect PollingStopped S = S - {PollService}"
| "effect a S = S"

definition running :: "trace \<Rightarrow> service set" where
  "running tr = fold (\<lambda>(t, a). effect a) tr {}"

lemma running_Nil [simp]: "running [] = {}"
  by (simp add: running_def)

lemma running_append: "running (xs @ ys) = fold (\<lambda>(t, a). effect a) ys (running xs)"
  by (simp add: running_def)

section \<open>Deadlines are kept\<close>

lemma drainLoop_ends: "now \<le> deadline \<Longrightarrow> drainLoop mgr deadline now = (ok, t) \<Longrightarrow> now \<le> t \<and> t \<le> deadline"
proof (induction mgr deadline now rule: drainLoop.induct)
  case (1 mgr deadline now)
  show ?case
  proof (cases "totalStreams (mgr now) = 0 \<or> deadline \<le> now + drainTick")
    case True
    with "1.prems" show ?thesis by (subst (asm) drainLoop.simps) (auto split: if_splits)
  next
    case False
    with "1.prems" have "drainLoop mgr deadline (now + drainTick) = (ok, t)" by (simp add: drainLoop.simps[of mgr deadline now])
    with "1.IH" False have "now + drainTick \<le> t \<and> t \<le> deadline" by simp
    then show ?thesis by (simp add: drainTick_def)
  qed
qed

text \<open>\<open>DrainAll\<close> succeeds exactly when it finds no stream at once or at a tick before the deadline.\<close>

lemma drainLoop_exact: "fst (drainLoop mgr deadline now) \<longleftrightarrow>
    (\<exists>k::nat. totalStreams (mgr (now + int k * drainTick)) = 0 \<and> (k = 0 \<or> now + int k * drainTick < deadline))"
proof (induction mgr deadline now rule: drainLoop.induct)
  case (1 mgr deadline now)
  let ?at = "\<lambda>k::nat. now + int k * drainTick"
  have shift: "now + drainTick + int k * drainTick = ?at (Suc k)" for k by (simp add: algebra_simps)
  have mono: "?at (Suc k) < deadline \<Longrightarrow> now + drainTick < deadline" for k
    by (simp add: drainTick_def)
  show ?case
  proof (cases "totalStreams (mgr now) = 0 \<or> deadline \<le> now + drainTick")
    case True
    then show ?thesis
    proof
      assume "totalStreams (mgr now) = 0"
      then show ?thesis by (subst drainLoop.simps) (auto intro: exI[of _ 0])
    next
      assume late: "deadline \<le> now + drainTick"
      have none: "\<not> ?at k < deadline" if "k \<noteq> 0" for k using late mono[of "k - 1"] that by (cases k) auto
      have "(\<exists>k. totalStreams (mgr (?at k)) = 0 \<and> (k = 0 \<or> ?at k < deadline)) \<longleftrightarrow> totalStreams (mgr now) = 0"
      proof
        assume "\<exists>k. totalStreams (mgr (?at k)) = 0 \<and> (k = 0 \<or> ?at k < deadline)"
        then obtain k where "totalStreams (mgr (?at k)) = 0" "k = 0" using none by blast
        then show "totalStreams (mgr now) = 0" by simp
      qed (auto intro: exI[of _ 0])
      with late show ?thesis by (subst drainLoop.simps) simp
    qed
  next
    case False
    then have "fst (drainLoop mgr deadline now) \<longleftrightarrow> (\<exists>k. totalStreams (mgr (?at (Suc k))) = 0
        \<and> (k = 0 \<or> ?at (Suc k) < deadline))"
      using "1.IH" by (simp add: drainLoop.simps[of mgr deadline now] shift)
    also have "\<dots> \<longleftrightarrow> (\<exists>k. totalStreams (mgr (?at k)) = 0 \<and> (k = 0 \<or> ?at k < deadline))"
    proof
      assume "\<exists>k. totalStreams (mgr (?at (Suc k))) = 0 \<and> (k = 0 \<or> ?at (Suc k) < deadline)"
      then obtain k where k: "totalStreams (mgr (?at (Suc k))) = 0" "k = 0 \<or> ?at (Suc k) < deadline" by blast
      from k(2) False have "?at (Suc k) < deadline" by auto
      with k(1) show "\<exists>k. totalStreams (mgr (?at k)) = 0 \<and> (k = 0 \<or> ?at k < deadline)" by blast
    next
      assume "\<exists>k. totalStreams (mgr (?at k)) = 0 \<and> (k = 0 \<or> ?at k < deadline)"
      then obtain k where k: "totalStreams (mgr (?at k)) = 0" "k = 0 \<or> ?at k < deadline" by blast
      with False have "k \<noteq> 0" by (auto intro: ccontr)
      with k show "\<exists>k. totalStreams (mgr (?at (Suc k))) = 0 \<and> (k = 0 \<or> ?at (Suc k) < deadline)"
        by (cases k) auto
    qed
    finally show ?thesis .
  qed
qed

lemma httpShutdown_ends:
  "httpShutdown idle deadline now = (ok, t) \<Longrightarrow> now \<le> t \<and> (t \<le> deadline \<or> t = now) \<and> (now \<le> deadline \<longrightarrow> (ok \<longleftrightarrow> idle \<le> deadline))"
  by (auto simp: httpShutdown_def split: if_splits)

text \<open>The outcomes of \<open>Shutdown\<close>, with the state of the drain and of the HTTP server.\<close>

lemma Shutdown_cases:
  assumes "Shutdown env srv hasHTTP deadline now = (res, tr)"
  obtains ok1 t1 ok2 t2 tr0 where
      "drainLoop (\<lambda>t. (le_managerAt env t)\<lparr>sm_draining := True\<rparr>)
         (min deadline (now + sd_drainTimeout (cf_shutdown (sr_cfg srv)))) now = (ok1, t1)"
    and "(if hasHTTP then httpShutdown (le_httpIdle env) deadline t1 else (True, t1)) = (ok2, t2)"
    and "tr0 = [(now, Draining), (t1, DrainEnded ok1)] @ (if hasHTTP then [(t2, HTTPShutdown ok2)] else [])"
    and "\<not> ok2 \<and> res = ShutError t2 \<and> tr = tr0
       \<or> ok2 \<and> sr_hasGRPC srv \<and> le_rpcsDone env = None \<and> res = ShutBlocked \<and> tr = tr0
       \<or> ok2 \<and> (\<exists>t3 t4 ok4. (if sr_hasGRPC srv then \<exists>t. le_rpcsDone env = Some t \<and> t3 = max t2 t else t3 = t2)
           \<and> (if mcpUp env srv then httpShutdown (le_mcpIdle env) deadline t3 else (True, t3)) = (ok4, t4)
           \<and> res = ShutOK t4
           \<and> tr = tr0 @ (if sr_hasGRPC srv then [(t3, GRPCStopped)] else [])
               @ (if mcpUp env srv then [(t4, MCPShutdown ok4)] else []) @ [(t4, PollingStopped)])"
proof -
  obtain ok1 t1 where 1: "drainLoop (\<lambda>t. (le_managerAt env t)\<lparr>sm_draining := True\<rparr>)
      (min deadline (now + sd_drainTimeout (cf_shutdown (sr_cfg srv)))) now = (ok1, t1)" by fastforce
  obtain ok2 t2 where 2: "(if hasHTTP then httpShutdown (le_httpIdle env) deadline t1 else (True, t1)) = (ok2, t2)" by fastforce
  show ?thesis
    by (rule that[OF 1 2 refl])
      (use assms 1 2 in \<open>auto simp: Shutdown_def mcpStop_def DrainAll_def withTimeout_def Let_def split: prod.splits if_splits option.splits\<close>)
qed

section \<open>Properties\<close>

text \<open>C33: The shutdown keeps its deadlines: the drain ends by its own and by that of the whole shutdown, and succeeds
  exactly when it sees no stream before that; an error is returned exactly when a connection is still busy at
  the deadline. Only the gRPC server is outside: the shutdown returns after the deadline only when a gRPC call
  lasts that long, and never when one does not end.\<close>

theorem shutdown_bounded:
  assumes "Shutdown env srv hasHTTP deadline now = (res, tr)" and "now \<le> deadline"
    and "drainDeadline = min deadline (now + sd_drainTimeout (cf_shutdown (sr_cfg srv)))" and "now \<le> drainDeadline"
  shows "(\<exists>ok t. (t, DrainEnded ok) \<in> set tr \<and> t \<le> drainDeadline
      \<and> (ok \<longleftrightarrow> (\<exists>k::nat. totalStreams (le_managerAt env (now + int k * drainTick)) = 0
            \<and> (k = 0 \<or> now + int k * drainTick < drainDeadline))))
    \<and> ((\<exists>t. res = ShutError t) \<longleftrightarrow> hasHTTP \<and> deadline < le_httpIdle env)
    \<and> (res = ShutBlocked \<longleftrightarrow> sr_hasGRPC srv \<and> le_rpcsDone env = None \<and> (hasHTTP \<longrightarrow> le_httpIdle env \<le> deadline))
    \<and> (\<forall>t. res = ShutOK t \<or> res = ShutError t \<longrightarrow> t \<le> deadline \<or> (sr_hasGRPC srv \<and> le_rpcsDone env = Some t))"
  using assms(1)
proof (rule Shutdown_cases)
  fix ok1 t1 ok2 t2 tr0
  assume d: "drainLoop (\<lambda>t. (le_managerAt env t)\<lparr>sm_draining := True\<rparr>)
      (min deadline (now + sd_drainTimeout (cf_shutdown (sr_cfg srv)))) now = (ok1, t1)"
    and h: "(if hasHTTP then httpShutdown (le_httpIdle env) deadline t1 else (True, t1)) = (ok2, t2)"
    and tr0: "tr0 = [(now, Draining), (t1, DrainEnded ok1)] @ (if hasHTTP then [(t2, HTTPShutdown ok2)] else [])"
    and c: "\<not> ok2 \<and> res = ShutError t2 \<and> tr = tr0
       \<or> ok2 \<and> sr_hasGRPC srv \<and> le_rpcsDone env = None \<and> res = ShutBlocked \<and> tr = tr0
       \<or> ok2 \<and> (\<exists>t3 t4 ok4. (if sr_hasGRPC srv then \<exists>t. le_rpcsDone env = Some t \<and> t3 = max t2 t else t3 = t2)
           \<and> (if mcpUp env srv then httpShutdown (le_mcpIdle env) deadline t3 else (True, t3)) = (ok4, t4)
           \<and> res = ShutOK t4
           \<and> tr = tr0 @ (if sr_hasGRPC srv then [(t3, GRPCStopped)] else [])
               @ (if mcpUp env srv then [(t4, MCPShutdown ok4)] else []) @ [(t4, PollingStopped)])"
  have [simp]: "totalStreams (m\<lparr>sm_draining := b\<rparr>) = totalStreams m" for m b by (simp add: totalStreams_def)
  from drainLoop_ends[OF assms(4)[unfolded assms(3)] d] have t1: "now \<le> t1" "t1 \<le> drainDeadline"
    unfolding assms(3) by blast+
  then have "t1 \<le> deadline" using assms(3) by simp
  with h have h': "t2 \<le> deadline" "ok2 \<longleftrightarrow> \<not> (hasHTTP \<and> deadline < le_httpIdle env)"
    by (auto simp: httpShutdown_def split: if_splits)
  have "(t1, DrainEnded ok1) \<in> set tr" using c tr0 by auto
  then have drain: "\<exists>ok t. (t, DrainEnded ok) \<in> set tr \<and> t \<le> drainDeadline
      \<and> (ok \<longleftrightarrow> (\<exists>k::nat. totalStreams (le_managerAt env (now + int k * drainTick)) = 0
            \<and> (k = 0 \<or> now + int k * drainTick < drainDeadline)))" if "ok1 \<longleftrightarrow> (\<exists>k::nat.
        totalStreams (le_managerAt env (now + int k * drainTick)) = 0 \<and> (k = 0 \<or> now + int k * drainTick < drainDeadline))"
    using t1(2) that by blast
  have exact: "ok1 \<longleftrightarrow> (\<exists>k::nat. totalStreams (le_managerAt env (now + int k * drainTick)) = 0
      \<and> (k = 0 \<or> now + int k * drainTick < drainDeadline))"
    using drainLoop_exact[of "\<lambda>t. (le_managerAt env t)\<lparr>sm_draining := True\<rparr>" drainDeadline now] d assms(3) by simp
  have late: "t \<le> deadline \<or> (sr_hasGRPC srv \<and> le_rpcsDone env = Some t)" if "res = ShutOK t \<or> res = ShutError t" for t
    using that c h'(1) by (auto simp: httpShutdown_def max_def split: if_splits)
  have err: "(\<exists>t. res = ShutError t) \<longleftrightarrow> \<not> ok2" using c by auto
  have blocked: "res = ShutBlocked \<longleftrightarrow> ok2 \<and> sr_hasGRPC srv \<and> le_rpcsDone env = None"
    using c by (auto split: if_splits)
  show ?thesis
    by (intro conjI allI impI, rule drain[OF exact]) (use err blocked late h'(2) in auto)
qed

definition allServices :: "lc_env \<Rightarrow> server \<Rightarrow> service set" where
  "allServices env srv = {PollService, HTTPService} \<union> (if sr_hasGRPC srv then {GRPCService} else {})
     \<union> (if mcpUp env srv then {MCPService} else {})"

lemma Shutdown_running:
  assumes "Shutdown env srv True d t = (res, tr)" and "S \<subseteq> allServices env srv"
  shows "fold (\<lambda>(t, a). effect a) tr S =
      (case res of ShutOK t \<Rightarrow> if MCPShutdown True \<in> snd ` set tr then {} else S \<inter> {MCPService}
        | ShutError t \<Rightarrow> S
        | ShutBlocked \<Rightarrow> S - {HTTPService})"
  using assms(1)
proof (rule Shutdown_cases)
  fix ok1 t1 ok2 t2 tr0
  assume tr0: "tr0 = [(t, Draining), (t1, DrainEnded ok1)] @ (if True then [(t2, HTTPShutdown ok2)] else [])"
    and c: "\<not> ok2 \<and> res = ShutError t2 \<and> tr = tr0
       \<or> ok2 \<and> sr_hasGRPC srv \<and> le_rpcsDone env = None \<and> res = ShutBlocked \<and> tr = tr0
       \<or> ok2 \<and> (\<exists>t3 t4 ok4. (if sr_hasGRPC srv then \<exists>t. le_rpcsDone env = Some t \<and> t3 = max t2 t else t3 = t2)
           \<and> (if mcpUp env srv then httpShutdown (le_mcpIdle env) d t3 else (True, t3)) = (ok4, t4)
           \<and> res = ShutOK t4
           \<and> tr = tr0 @ (if sr_hasGRPC srv then [(t3, GRPCStopped)] else [])
               @ (if mcpUp env srv then [(t4, MCPShutdown ok4)] else []) @ [(t4, PollingStopped)])"
  from c show ?thesis
  proof (elim disjE conjE exE)
    fix t3 t4 ok4
    assume ok2: "ok2" and res: "res = ShutOK t4" and tr: "tr = tr0 @ (if sr_hasGRPC srv then [(t3, GRPCStopped)] else [])
               @ (if mcpUp env srv then [(t4, MCPShutdown ok4)] else []) @ [(t4, PollingStopped)]"
    from assms(2) show ?thesis unfolding tr tr0 res allServices_def using ok2
      by (cases "sr_hasGRPC srv"; cases "mcpUp env srv"; cases ok4) auto
  qed (auto simp: tr0)
qed

text \<open>What the end of the waiting leaves running.\<close>

definition afterWake :: "lc_env \<Rightarrow> server \<Rightarrow> service set" where
  "afterWake env srv = (case le_wake env of
      FromErrCh svc r \<Rightarrow> allServices env srv - {svc}
    | CtxDone \<Rightarrow> allServices env srv - {PollService} - (if le_mcpIdle env \<le> le_wakeAt env then {MCPService} else {}))"

text \<open>The MCP server's own shutdown takes no time, and succeeds exactly when nothing is busy.\<close>

lemma mcpStop_at_once: "mcpStop env True (withTimeout None 0 now) now = (le_mcpIdle env \<le> now, now)"
  by (simp add: mcpStop_def httpShutdown_def withTimeout_def)

lemma wakeTrace_done: "le_wake env = CtxDone \<Longrightarrow> wakeTrace env srv = (le_wakeAt env, ContextDone) #
    (if mcpUp env srv then [(le_wakeAt env, MCPShutdown (le_mcpIdle env \<le> le_wakeAt env))] else [])"
  by (simp add: wakeTrace_def McpStart_def mcpStop_at_once mcpUp_def)

lemma wakeTrace_running: "fold (\<lambda>(t, a). effect a) (wakeTrace env srv) (allServices env srv) = afterWake env srv"
proof (cases "le_wake env")
  case CtxDone
  then show ?thesis by (auto simp: wakeTrace_done afterWake_def allServices_def)
qed (simp add: wakeTrace_def afterWake_def)

lemma wakeTrace_mcp:
  assumes "(t, MCPShutdown True) \<in> set (wakeTrace env srv)"
  shows "MCPService \<notin> afterWake env srv"
proof (cases "le_wake env")
  case (FromErrCh svc r)
  with assms show ?thesis by (simp add: wakeTrace_def)
next
  case CtxDone
  with assms have "le_mcpIdle env \<le> le_wakeAt env" by (simp add: wakeTrace_done split: if_splits)
  with CtxDone show ?thesis by (simp add: afterWake_def)
qed

lemma afterWake_sub: "afterWake env srv \<subseteq> allServices env srv"
  by (auto simp: afterWake_def split: wake.splits)

text \<open>C40: What still runs when \<open>Start\<close> has returned. Without an error everything is stopped, except an MCP server
  whose shutdown failed. After an error nothing is stopped that did not end by itself (a server that failed, or
  what runs under a context that is done): when the port of the gRPC server is taken the gateway goes on
  serving, and after a connection outlived the timeout the gRPC server does. A process that crashed had health paths
  the mux does not take.\<close>

theorem services_after_start:
  assumes "Start env srv m now = (oc, m', tr)"
  shows "(case oc of
      Returned None t \<Rightarrow> running tr \<subseteq> {MCPService} \<and> (running tr \<noteq> {} \<longrightarrow> MCPShutdown True \<notin> snd ` set tr)
    | Returned (Some (StartCards u)) t \<Rightarrow> running tr = {}
    | Returned (Some (ListenError a)) t \<Rightarrow> running tr = {PollService}
    | Returned (Some (ListenGRPCError a)) t \<Rightarrow> running tr = {PollService, HTTPService}
    | Returned (Some e) t \<Rightarrow> running tr = afterWake env srv
    | Blocked \<Rightarrow> running tr = afterWake env srv - {HTTPService}
    | Crashed \<Rightarrow> gatewayMux (sr_cfg srv) = None)"
proof -
  obtain u m1 where mg: "mgStart (le_registered env) m = (u, m1)" by force
  obtain up where up_def: "up = [(now, PollStarted (map fst (mg_agents m1))),
      (now, Listening (listenAddr (sr_cfg srv) (ln_port (cf_listen (sr_cfg srv)))) (connLimit env (sr_cfg srv))),
      (now, ServingHTTP)]
    @ (if sr_hasGRPC srv then [(now, ServingGRPC (listenAddr (sr_cfg srv) (ln_grpcPort (cf_listen (sr_cfg srv)))))] else [])
    @ (if mcpUp env srv then [(now, ServingMCP)] else [])" by blast
  have all: "running up = allServices env srv"
    by (auto simp: up_def running_def allServices_def)
  have woken: "running (up @ wakeTrace env srv) = afterWake env srv"
    by (simp add: running_append all wakeTrace_running)
  obtain res tr2 where sh: "Shutdown env srv True
      (withTimeout None (sd_timeout (cf_shutdown (sr_cfg srv))) (le_wakeAt env)) (le_wakeAt env) = (res, tr2)" by force
  have both: "running ((up @ wakeTrace env srv) @ tr2) = (case res of
        ShutOK t \<Rightarrow> if MCPShutdown True \<in> snd ` set tr2 then {} else afterWake env srv \<inter> {MCPService}
      | ShutError t \<Rightarrow> afterWake env srv | ShutBlocked \<Rightarrow> afterWake env srv - {HTTPService})"
    unfolding running_append[of "up @ wakeTrace env srv"] woken by (rule Shutdown_running[OF sh afterWake_sub])
  consider (cards) x where "u = Some x"
    | (crash) "oc = Crashed" "gatewayMux (sr_cfg srv) = None"
    | (listen) "u = None" "gatewayMux (sr_cfg srv) \<noteq> None" "\<not> le_injected env" "\<not> le_listen env (listenAddr (sr_cfg srv) (ln_port (cf_listen (sr_cfg srv))))"
    | (grpc) "u = None" "gatewayMux (sr_cfg srv) \<noteq> None" "le_injected env \<or> le_listen env (listenAddr (sr_cfg srv) (ln_port (cf_listen (sr_cfg srv))))"
        "sr_hasGRPC srv" "\<not> le_listen env (listenAddr (sr_cfg srv) (ln_grpcPort (cf_listen (sr_cfg srv))))"
    | (serve) e where "oc = Returned (Some (ServerError e)) (le_wakeAt env)" "tr = up @ wakeTrace env srv"
    | (down) "tr = (up @ wakeTrace env srv) @ tr2" "oc = (case res of ShutOK t \<Rightarrow> Returned None t
        | ShutError t \<Rightarrow> Returned (Some ShutdownError) t | ShutBlocked \<Rightarrow> Blocked)"
    using assms unfolding Start_def Let_def mg
    by (cases u; cases "le_wake env") (auto simp: sh up_def split: if_splits serve_result.splits shutdown_result.splits)
  then show ?thesis
  proof cases
    case down
    have "(a, MCPShutdown True) \<notin> set up" for a by (simp add: up_def)
    then show ?thesis unfolding down(1) both unfolding down(2) by (cases res) (auto dest: wakeTrace_mcp)
  qed (use assms mg woken in \<open>auto simp: Start_def Let_def running_def\<close>)
qed

text \<open>A clean shutdown keeps the order: the streams are drained while the HTTP server still accepts connections, then
  it is shut down, then the gRPC server, the MCP server and the polling.\<close>

lemma shutdown_order:
  assumes "Shutdown env srv True deadline now = (ShutOK t, tr)"
  shows "\<exists>ok ok'. map snd tr = [Draining, DrainEnded ok, HTTPShutdown True]
    @ (if sr_hasGRPC srv then [GRPCStopped] else [])
    @ (if mcpUp env srv then [MCPShutdown ok'] else []) @ [PollingStopped]"
  using assms by (rule Shutdown_cases) auto

text \<open>The certificate and the key of the configuration change nothing of what \<open>Start\<close> does.\<close>

lemma tls_not_used:
  "Start env (srv\<lparr>sr_cfg := (sr_cfg srv)\<lparr>cf_listen := (cf_listen (sr_cfg srv))\<lparr>ln_tls := x\<rparr>\<rparr>\<rparr>) m now = Start env srv m now"
proof -
  let ?s = "srv\<lparr>sr_cfg := (sr_cfg srv)\<lparr>cf_listen := (cf_listen (sr_cfg srv))\<lparr>ln_tls := x\<rparr>\<rparr>\<rparr>"
  have same: "listenAddr (sr_cfg ?s) p = listenAddr (sr_cfg srv) p" "connLimit env (sr_cfg ?s) = connLimit env (sr_cfg srv)"
    "ln_port (cf_listen (sr_cfg ?s)) = ln_port (cf_listen (sr_cfg srv))"
    "ln_grpcPort (cf_listen (sr_cfg ?s)) = ln_grpcPort (cf_listen (sr_cfg srv))"
    "cf_shutdown (sr_cfg ?s) = cf_shutdown (sr_cfg srv)" "sr_hasGRPC ?s = sr_hasGRPC srv" "sr_hasMCP ?s = sr_hasMCP srv" for p
    by (simp_all add: listenAddr_def connLimit_def)
  have addr: "mx_addr (mcpServer (sr_cfg ?s) (sr_bundle ?s)) = mx_addr (mcpServer (sr_cfg srv) (sr_bundle srv))"
    by (simp add: mcpServer_def NewServer_def)
  have up: "mcpUp env ?s = mcpUp env srv" unfolding mcpUp_def addr same ..
  have wake: "wakeTrace env ?s = wakeTrace env srv" unfolding wakeTrace_def McpStart_def addr up ..
  have mux: "gatewayMux (sr_cfg ?s) = gatewayMux (sr_cfg srv)" by (simp add: gatewayMux_def)
  show ?thesis unfolding Start_def Shutdown_def Let_def same up wake mux ..
qed

text \<open>The MCP server does not wait for its connections: its shutdown ends at once, with an error when one is busy.\<close>

lemma mcp_stop_abrupt:
  assumes "McpStart env x CtxDone now = McpShutdown ok t"
  shows "t = now \<and> (ok \<longleftrightarrow> le_mcpIdle env \<le> now)"
  using assms by (auto simp: McpStart_def mcpStop_at_once split: if_splits)

section \<open>Witnesses\<close>

text \<open>A stream ends after a quarter of a second, a gRPC call never does, and the port of the gRPC server is taken.\<close>

definition sampleLifecycle :: lc_env where
  "sampleLifecycle = \<lparr>le_registered = (\<lambda>_. True), le_listen = (\<lambda>a. a \<noteq> ''0.0.0.0:0''), le_injected = False,
     le_wake = CtxDone, le_wakeAt = 5,
     le_managerAt = (\<lambda>t. \<lparr>sm_counts = [(''echo'', if t < 250000000 then 1 else 0)], sm_draining = False\<rparr>),
     le_httpIdle = 300000000, le_rpcsDone = None, le_mcpInjected = False, le_mcpServing = True, le_mcpIdle = 0\<rparr>"

definition grpcServer :: server where
  "grpcServer = sampleServer\<lparr>sr_hasGRPC := True\<rparr>"

lemma sample_drained:
  "DrainAll (le_managerAt sampleLifecycle) (nanos 15) 0 = (True, 300000000)"
  by (simp add: DrainAll_def sampleLifecycle_def drainLoop.simps drainTick_def totalStreams_def nanos_def)

theorem shutdown_bounded_witness:
  "fst (Shutdown sampleLifecycle grpcServer True (nanos 30) 0) = ShutBlocked"
proof -
  obtain res tr where s: "Shutdown sampleLifecycle grpcServer True (nanos 30) 0 = (res, tr)" by force
  have t: "0 \<le> min (nanos 30) (0 + sd_drainTimeout (cf_shutdown (sr_cfg grpcServer)))" by code_simp
  have d: "(0::go_time) \<le> nanos 30" by (simp add: nanos_def)
  from shutdown_bounded[OF s d refl t] have "res = ShutBlocked"
    by (simp add: grpcServer_def sampleLifecycle_def nanos_def)
  with s show ?thesis by simp
qed

theorem services_after_start_witness:
  "running (snd (snd (Start sampleLifecycle grpcServer startedManager 0))) = {PollService, HTTPService}"
proof -
  obtain oc m' tr where s: "Start sampleLifecycle grpcServer startedManager 0 = (oc, m', tr)" by (metis prod_cases3)
  have "fst (Start sampleLifecycle grpcServer startedManager 0) = Returned (Some (ListenGRPCError ''0.0.0.0:0'')) 0"
    by code_simp
  with services_after_start[OF s] s show ?thesis by simp
qed

end
