(* ===== verification/Grpc_Messages.thy ===== *)
theory Grpc_Messages
  imports Server
begin

text \<open>
  The messages of the gRPC binding: the task and message types of \<open>internal/protocol/types.go\<close> with their
  JSON form, and the translation of \<open>internal/grpc/translate.go\<close> between them and the messages of \<open>a2a.proto\<close>.

  A message that has the same fields on both sides is one record over the type of its free-form maps: \<open>'m\<close>
  is Go's \<open>map[string]interface{}\<close>, \<open>'st\<close> the \<open>Struct\<close> of \<open>structpb\<close>; a nil map or message is \<open>None\<close>. The
  conversions of \<open>structpb\<close> are the record \<open>struct_lib\<close>. A repeated field is nil exactly when it is empty.
\<close>

section \<open>Messages\<close>

record file_content =
  fc_name :: string
  fc_mimeType :: string
  fc_bytes :: string
  fc_uri :: string

record 'm part =
  pt_type :: string
  pt_text :: string
  pt_file :: "file_content option"
  pt_data :: "'m option"
  pt_metadata :: "'m option"

record 'm message =
  im_role :: string
  im_parts :: "'m part list"
  im_messageID :: string
  im_metadata :: "'m option"

record push_auth_info =
  pa_schemes :: "string list"
  pa_credentials :: string

record push_notification =
  pc_url :: string
  pc_token :: string
  pc_authentication :: "push_auth_info option"

record send_configuration =
  sg_acceptedOutputModes :: "string list"
  sg_blocking :: "bool option"
  sg_historyLength :: "int option"
  sg_pushNotification :: "push_notification option"

record 'm send_request =
  sq_message :: "'m message"
  sq_configuration :: "send_configuration option"
  sq_metadata :: "'m option"

text \<open>In the message of the wire the message itself may be missing.\<close>

record 'st pb_send_request =
  pq_message :: "'st message option"
  pq_configuration :: "send_configuration option"
  pq_metadata :: "'st option"

record 'm artifact =
  ar_artifactID :: string
  ar_name :: string
  ar_description :: string
  ar_parts :: "'m part list"
  ar_index :: int
  ar_append :: "bool option"
  ar_lastChunk :: "bool option"
  ar_metadata :: "'m option"

record 'm task_status =
  ts_state :: string
  ts_message :: "'m message option"
  ts_timestamp :: string

record 'm task =
  tk_id :: string
  tk_sessionID :: string
  tk_status :: "'m task_status"
  tk_history :: "'m message list"
  tk_artifacts :: "'m artifact list"
  tk_metadata :: "'m option"

record 'm status_event =
  su_id :: string
  su_status :: "'m task_status"
  su_final :: bool
  su_metadata :: "'m option"

record 'm artifact_event =
  ae_id :: string
  ae_artifact :: "'m artifact"
  ae_metadata :: "'m option"

section \<open>Translation (translate.go)\<close>

record ('m, 'st) struct_lib =
  sl_asMap :: "'st \<Rightarrow> 'm"
  sl_newStruct :: "'m \<Rightarrow> 'st option"

definition structToMap :: "('m, 'st) struct_lib \<Rightarrow> 'st option \<Rightarrow> 'm option" where
  "structToMap lib s = map_option (sl_asMap lib) s"

definition mapToStruct :: "('m, 'st) struct_lib \<Rightarrow> 'm option \<Rightarrow> 'st option" where
  "mapToStruct lib m = (case m of None \<Rightarrow> None | Some x \<Rightarrow> sl_newStruct lib x)"

definition partToInternal :: "('m, 'st) struct_lib \<Rightarrow> 'st part option \<Rightarrow> 'm part" where
  "partToInternal lib p = (case p of
      None \<Rightarrow> \<lparr>pt_type = [], pt_text = [], pt_file = None, pt_data = None, pt_metadata = None\<rparr>
    | Some q \<Rightarrow> \<lparr>pt_type = pt_type q, pt_text = pt_text q, pt_file = pt_file q,
        pt_data = structToMap lib (pt_data q), pt_metadata = structToMap lib (pt_metadata q)\<rparr>)"

definition messageToInternal :: "('m, 'st) struct_lib \<Rightarrow> 'st message option \<Rightarrow> 'm message" where
  "messageToInternal lib msg = (case msg of
      None \<Rightarrow> \<lparr>im_role = [], im_parts = [], im_messageID = [], im_metadata = None\<rparr>
    | Some m \<Rightarrow> \<lparr>im_role = im_role m, im_parts = map (\<lambda>p. partToInternal lib (Some p)) (im_parts m),
        im_messageID = im_messageID m, im_metadata = structToMap lib (im_metadata m)\<rparr>)"

definition pushNotifConfigToInternal :: "push_notification option \<Rightarrow> push_notification option" where
  "pushNotifConfigToInternal pnc = (case pnc of
      None \<Rightarrow> None
    | Some p \<Rightarrow> Some \<lparr>pc_url = pc_url p, pc_token = pc_token p,
        pc_authentication = (case pc_authentication p of None \<Rightarrow> None
          | Some a \<Rightarrow> Some \<lparr>pa_schemes = pa_schemes a, pa_credentials = pa_credentials a\<rparr>)\<rparr>)"

definition sendMessageRequestToInternal ::
  "('m, 'st) struct_lib \<Rightarrow> 'st pb_send_request option \<Rightarrow> string + 'm send_request" where
  "sendMessageRequestToInternal lib req = (case req of
      None \<Rightarrow> Inl ''nil request''
    | Some q \<Rightarrow> Inr \<lparr>sq_message = messageToInternal lib (pq_message q),
        sq_configuration = (case pq_configuration q of None \<Rightarrow> None
          | Some c \<Rightarrow> Some \<lparr>sg_acceptedOutputModes = sg_acceptedOutputModes c, sg_blocking = sg_blocking c,
              sg_historyLength = sg_historyLength c,
              sg_pushNotification = pushNotifConfigToInternal (sg_pushNotification c)\<rparr>),
        sq_metadata = structToMap lib (pq_metadata q)\<rparr>)"

definition partToProto :: "('m, 'st) struct_lib \<Rightarrow> 'm part option \<Rightarrow> 'st part option" where
  "partToProto lib p = (case p of
      None \<Rightarrow> None
    | Some q \<Rightarrow> Some \<lparr>pt_type = pt_type q, pt_text = pt_text q, pt_file = pt_file q,
        pt_data = mapToStruct lib (pt_data q), pt_metadata = mapToStruct lib (pt_metadata q)\<rparr>)"

text \<open>The loop appends what the conversion of each part gives, which is never nil.\<close>

definition partsToProto :: "('m, 'st) struct_lib \<Rightarrow> 'm part list \<Rightarrow> 'st part list" where
  "partsToProto lib ps = List.map_filter (\<lambda>p. partToProto lib (Some p)) ps"

definition messageToProto :: "('m, 'st) struct_lib \<Rightarrow> 'm message option \<Rightarrow> 'st message option" where
  "messageToProto lib msg = (case msg of
      None \<Rightarrow> None
    | Some m \<Rightarrow> Some \<lparr>im_role = im_role m, im_parts = partsToProto lib (im_parts m),
        im_messageID = im_messageID m, im_metadata = mapToStruct lib (im_metadata m)\<rparr>)"

text \<open>The conversion \<open>int32(a.Index)\<close> keeps the low 32 bits.\<close>

definition toInt32 :: "int \<Rightarrow> int" where
  "toInt32 i = sint (word_of_int i :: 32 word)"

definition artifactToProto :: "('m, 'st) struct_lib \<Rightarrow> 'm artifact option \<Rightarrow> 'st artifact option" where
  "artifactToProto lib x = (case x of
      None \<Rightarrow> None
    | Some a \<Rightarrow> Some \<lparr>ar_artifactID = ar_artifactID a, ar_name = ar_name a, ar_description = ar_description a,
        ar_parts = partsToProto lib (ar_parts a), ar_index = toInt32 (ar_index a), ar_append = ar_append a,
        ar_lastChunk = ar_lastChunk a, ar_metadata = mapToStruct lib (ar_metadata a)\<rparr>)"

definition taskStatusToProto :: "('m, 'st) struct_lib \<Rightarrow> 'm task_status \<Rightarrow> 'st task_status" where
  "taskStatusToProto lib s = \<lparr>ts_state = ts_state s, ts_message = messageToProto lib (ts_message s),
     ts_timestamp = ts_timestamp s\<rparr>"

definition taskToProto :: "('m, 'st) struct_lib \<Rightarrow> 'm task \<Rightarrow> 'st task" where
  "taskToProto lib t = \<lparr>tk_id = tk_id t, tk_sessionID = tk_sessionID t,
     tk_status = taskStatusToProto lib (tk_status t),
     tk_history = List.map_filter (\<lambda>m. messageToProto lib (Some m)) (tk_history t),
     tk_artifacts = List.map_filter (\<lambda>a. artifactToProto lib (Some a)) (tk_artifacts t),
     tk_metadata = mapToStruct lib (tk_metadata t)\<rparr>"

definition pushNotifConfigToProto :: "push_notification option \<Rightarrow> push_notification option" where
  "pushNotifConfigToProto c = (case c of
      None \<Rightarrow> None
    | Some p \<Rightarrow> Some \<lparr>pc_url = pc_url p, pc_token = pc_token p,
        pc_authentication = (case pc_authentication p of None \<Rightarrow> None
          | Some a \<Rightarrow> Some \<lparr>pa_schemes = pa_schemes a, pa_credentials = pa_credentials a\<rparr>)\<rparr>)"

definition taskStatusUpdateEventToProto :: "('m, 'st) struct_lib \<Rightarrow> 'm status_event \<Rightarrow> 'st status_event" where
  "taskStatusUpdateEventToProto lib e = \<lparr>su_id = su_id e, su_status = taskStatusToProto lib (su_status e),
     su_final = su_final e, su_metadata = mapToStruct lib (su_metadata e)\<rparr>"

text \<open>The artifact of an event is never nil, so its conversion is not either.\<close>

definition taskArtifactUpdateEventToProto ::
  "('m, 'st) struct_lib \<Rightarrow> 'm artifact_event \<Rightarrow> 'st artifact_event" where
  "taskArtifactUpdateEventToProto lib e = \<lparr>ae_id = ae_id e,
     ae_artifact = the (artifactToProto lib (Some (ae_artifact e))), ae_metadata = mapToStruct lib (ae_metadata e)\<rparr>"

section \<open>JSON\<close>

text \<open>
  Marshalling a free-form map can fail (on a NaN): \<open>mj\<close> gives its members or the text of the error.
\<close>

definition bindE :: "'e + 'a \<Rightarrow> ('a \<Rightarrow> 'e + 'b) \<Rightarrow> 'e + 'b" where
  "bindE x f = (case x of Inl e \<Rightarrow> Inl e | Inr v \<Rightarrow> f v)"

fun mapE :: "('a \<Rightarrow> 'e + 'b) \<Rightarrow> 'a list \<Rightarrow> 'e + 'b list" where
  "mapE f [] = Inr []"
| "mapE f (x # xs) = bindE (f x) (\<lambda>y. bindE (mapE f xs) (\<lambda>ys. Inr (y # ys)))"

type_synonym 'm map_json = "'m \<Rightarrow> string + (string \<times> jout) list"

definition omitM :: "'m map_json \<Rightarrow> string \<Rightarrow> 'm option \<Rightarrow> string + (string \<times> jout) list" where
  "omitM mj k m = (case m of
      None \<Rightarrow> Inr []
    | Some x \<Rightarrow> bindE (mj x) (\<lambda>ms. Inr (if ms = [] then [] else [(k, JoObj ms)])))"

text \<open>A list without \<open>omitempty\<close>: nil gives null.\<close>

definition listJson :: "jout list \<Rightarrow> jout" where
  "listJson xs = (if xs = [] then JoNull else JoArr xs)"

definition fileJson :: "file_content \<Rightarrow> jout" where
  "fileJson f = JoObj (omitS ''name'' (fc_name f) @ omitS ''mimeType'' (fc_mimeType f) @ omitS ''bytes'' (fc_bytes f)
     @ omitS ''uri'' (fc_uri f))"

definition partJson :: "'m map_json \<Rightarrow> 'm part \<Rightarrow> string + jout" where
  "partJson mj p = bindE (omitM mj ''data'' (pt_data p)) (\<lambda>d. bindE (omitM mj ''metadata'' (pt_metadata p)) (\<lambda>md.
     Inr (JoObj ([(''type'', JoStr (pt_type p))] @ omitS ''text'' (pt_text p) @ omitO ''file'' fileJson (pt_file p)
       @ d @ md))))"

definition messageJson :: "'m map_json \<Rightarrow> 'm message \<Rightarrow> string + jout" where
  "messageJson mj m = bindE (mapE (partJson mj) (im_parts m)) (\<lambda>ps. bindE (omitM mj ''metadata'' (im_metadata m)) (\<lambda>md.
     Inr (JoObj ([(''role'', JoStr (im_role m)), (''parts'', listJson ps)] @ omitS ''messageId'' (im_messageID m) @ md))))"

definition pushConfigJson :: "push_notification \<Rightarrow> jout" where
  "pushConfigJson p = JoObj ([(''url'', JoStr (pc_url p))] @ omitS ''token'' (pc_token p)
     @ omitO ''authentication'' (\<lambda>a. JoObj (omitL ''schemes'' (map JoStr (pa_schemes a))
         @ omitS ''credentials'' (pa_credentials a))) (pc_authentication p))"

definition configurationJson :: "send_configuration \<Rightarrow> jout" where
  "configurationJson c = JoObj (omitL ''acceptedOutputModes'' (map JoStr (sg_acceptedOutputModes c))
     @ omitO ''blocking'' JoBool (sg_blocking c) @ omitO ''historyLength'' JoInt (sg_historyLength c)
     @ omitO ''pushNotificationConfig'' pushConfigJson (sg_pushNotification c))"

definition sendRequestJson :: "'m map_json \<Rightarrow> 'm send_request \<Rightarrow> string + jout" where
  "sendRequestJson mj q = bindE (messageJson mj (sq_message q)) (\<lambda>m. bindE (omitM mj ''metadata'' (sq_metadata q)) (\<lambda>md.
     Inr (JoObj ([(''message'', m)] @ omitO ''configuration'' configurationJson (sq_configuration q) @ md))))"

text \<open>The envelope; \<open>params\<close> is what marshalling the parameters gives.\<close>

definition wrapJSONRPC :: "string \<Rightarrow> string + jout \<Rightarrow> int \<Rightarrow> string + jout" where
  "wrapJSONRPC meth params ident = (case params of
      Inl e \<Rightarrow> Inl (''marshaling params: '' @ e)
    | Inr p \<Rightarrow> Inr (JoObj [(''jsonrpc'', JoStr ''2.0''), (''method'', JoStr meth), (''params'', p), (''id'', JoInt ident)]))"

text \<open>The error member of a response: a pointer to a struct, which a null resets and a repetition merges into.\<close>

fun setErrorPtr :: "(int \<times> string) option \<Rightarrow> json list \<Rightarrow> (int \<times> string) option option" where
  "setErrorPtr old [] = Some old"
| "setErrorPtr old (JNull # vs) = setErrorPtr None vs"
| "setErrorPtr old (JObj raw ms # vs) =
     (let (c, m) = (case old of None \<Rightarrow> (0, []) | Some x \<Rightarrow> x) in
      case (setInt c (fieldVals ''code'' ms), setString m (fieldVals ''message'' ms)) of
        (Some c', Some m') \<Rightarrow> setErrorPtr (Some (c', m')) vs
      | _ \<Rightarrow> None)"
| "setErrorPtr old (_ # vs) = None"

text \<open>\<open>parseText\<close> is the text of the error of \<open>json.Unmarshal\<close> on a body it refuses.\<close>

definition unwrapJSONRPCResult :: "(string \<Rightarrow> string) \<Rightarrow> string \<Rightarrow> string + json option" where
  "unwrapJSONRPCResult parseText body =
     (let bad = Inl (''parsing JSON-RPC response: '' @ parseText body) in
      case Option.bind (json_parse body) structFields of
        None \<Rightarrow> bad
      | Some ms \<Rightarrow> (case (setString [] (fieldVals ''jsonrpc'' ms), setErrorPtr None (fieldVals ''error'' ms)) of
          (Some ver, Some err) \<Rightarrow>
            if \<not> list_all ifaceOK (fieldVals ''id'' ms) then bad
            else (case err of
                Some (c, m) \<Rightarrow> Inl (''JSON-RPC error '' @ showInt c @ '': '' @ m)
              | None \<Rightarrow> Inr (setRaw (fieldVals ''result'' ms)))
        | _ \<Rightarrow> bad))"

definition grpcMethodToA2A :: "(string, string) gomap" where
  "grpcMethodToA2A =
     [(''/a2a.v1.A2AService/SendMessage'', ''message/send''),
      (''/a2a.v1.A2AService/StreamMessage'', ''message/stream''),
      (''/a2a.v1.A2AService/GetTask'', ''tasks/get''),
      (''/a2a.v1.A2AService/CancelTask'', ''tasks/cancel''),
      (''/a2a.v1.A2AService/SetPushNotificationConfig'', ''tasks/pushNotificationConfig/set''),
      (''/a2a.v1.A2AService/GetPushNotificationConfig'', ''tasks/pushNotificationConfig/get'')]"

section \<open>Round trips\<close>

text \<open>
  The structs of a message, and the message without them. \<open>structpb\<close> does not give back every struct: \<open>AsMap\<close>
  makes strings of the numbers NaN and Infinity.
\<close>

definition returned :: "('m, 'st) struct_lib \<Rightarrow> 'st \<Rightarrow> bool" where
  "returned lib s \<longleftrightarrow> sl_newStruct lib (sl_asMap lib s) = Some s"

definition partStructs :: "'st part \<Rightarrow> 'st set" where
  "partStructs p = set_option (pt_data p) \<union> set_option (pt_metadata p)"

definition messageStructs :: "'st message \<Rightarrow> 'st set" where
  "messageStructs m = set_option (im_metadata m) \<union> (\<Union>p\<in>set (im_parts m). partStructs p)"

definition plainMessage :: "'st message \<Rightarrow> 'st message" where
  "plainMessage m = m\<lparr>im_metadata := None,
     im_parts := map (\<lambda>p. p\<lparr>pt_data := None, pt_metadata := None\<rparr>) (im_parts m)\<rparr>"

lemma mapToStruct_structToMap: "mapToStruct lib (structToMap lib x) = x \<longleftrightarrow> (\<forall>s\<in>set_option x. returned lib s)"
  by (cases x) (simp_all add: mapToStruct_def structToMap_def returned_def)

lemma partsToProto_map: "partsToProto lib ps = map (\<lambda>p. the (partToProto lib (Some p))) ps"
  by (induction ps) (simp_all add: partsToProto_def List.map_filter_simps partToProto_def)

lemma part_roundtrip: "the (partToProto lib (Some (partToInternal lib (Some p)))) = p \<longleftrightarrow> (\<forall>s\<in>partStructs p. returned lib s)"
  unfolding partStructs_def ball_Un mapToStruct_structToMap[symmetric]
  by (cases p) (simp add: partToProto_def partToInternal_def)

lemma parts_roundtrip:
  "partsToProto lib (map (\<lambda>p. partToInternal lib (Some p)) ps) = ps \<longleftrightarrow> (\<forall>p\<in>set ps. \<forall>s\<in>partStructs p. returned lib s)"
  by (induction ps) (simp_all add: partsToProto_map part_roundtrip)

lemma plain_roundtrip: "map_option plainMessage (messageToProto lib (Some (messageToInternal lib (Some m)))) = Some (plainMessage m)"
  by (cases m) (simp add: messageToProto_def messageToInternal_def plainMessage_def partsToProto_map partToProto_def
      partToInternal_def)

lemma message_roundtrip: "messageToProto lib (Some (messageToInternal lib (Some m))) = Some m
    \<longleftrightarrow> (\<forall>s\<in>messageStructs m. returned lib s)"
  unfolding messageStructs_def ball_Un ball_UN mapToStruct_structToMap[symmetric] parts_roundtrip[symmetric]
  by (cases m) (auto simp: messageToProto_def messageToInternal_def)

lemma push_roundtrip: "pushNotifConfigToProto (pushNotifConfigToInternal c) = c"
  by (cases c) (auto simp: pushNotifConfigToProto_def pushNotifConfigToInternal_def split: option.splits)

lemma toInt32_exact: "toInt32 i = i \<longleftrightarrow> - (2 ^ 31) \<le> i \<and> i < 2 ^ 31"
proof -
  have "toInt32 i = signed_take_bit 31 i" by (simp add: toInt32_def sint_sbintrunc')
  then show ?thesis using signed_take_bit_int_eq_self_iff[of 31 i] by simp
qed

text \<open>C30: A message that comes in through the gRPC binding and goes out again is the same message exactly when
  \<open>structpb\<close> gives back each of its structs (those without NaN and Infinity); its other fields are kept in any
  case, and so is a push configuration. An artifact goes out with its index exactly when that fits 32 bits.\<close>

theorem grpc_messages_roundtrip:
  "(messageToProto lib (Some (messageToInternal lib (Some m))) = Some m
      \<longleftrightarrow> messageStructs m \<subseteq> {s. sl_newStruct lib (sl_asMap lib s) = Some s})
   \<and> map_option plainMessage (messageToProto lib (Some (messageToInternal lib (Some m)))) = Some (plainMessage m)
   \<and> pushNotifConfigToProto (pushNotifConfigToInternal c) = c
   \<and> (map_option ar_index (artifactToProto lib (Some a)) = Some (ar_index a)
        \<longleftrightarrow> - (2 ^ 31) \<le> ar_index a \<and> ar_index a < 2 ^ 31)"
  using toInt32_exact[of "ar_index a"] plain_roundtrip[of lib m]
  by (auto simp: message_roundtrip push_roundtrip artifactToProto_def returned_def)

text \<open>
  A library of structs with one number, which gives NaN back as a string (\<open>Inr\<close>): data with a finite number comes
  back, data with NaN does not.
\<close>

definition numberLib :: "(go_float + string, go_float + string) struct_lib" where
  "numberLib = \<lparr>sl_asMap = (\<lambda>s. case s of
      Inl NaN \<Rightarrow> Inr ''NaN'' | Inl PosInf \<Rightarrow> Inr ''Infinity'' | Inl NegInf \<Rightarrow> Inr ''-Infinity'' | x \<Rightarrow> x),
     sl_newStruct = Some\<rparr>"

definition dataMessage :: "go_float \<Rightarrow> (go_float + string) message" where
  "dataMessage x = \<lparr>im_role = ''user'', im_parts = [\<lparr>pt_type = ''data'', pt_text = [], pt_file = None,
     pt_data = Some (Inl x), pt_metadata = None\<rparr>], im_messageID = ''m1'', im_metadata = None\<rparr>"

theorem grpc_messages_roundtrip_witness:
  "messageToProto numberLib (Some (messageToInternal numberLib (Some (dataMessage (Fin 1))))) = Some (dataMessage (Fin 1))
   \<and> messageToProto numberLib (Some (messageToInternal numberLib (Some (dataMessage NaN)))) \<noteq> Some (dataMessage NaN)"
proof
  have s: "messageStructs (dataMessage x) = {Inl x}" for x
    by (simp add: messageStructs_def dataMessage_def partStructs_def)
  show "messageToProto numberLib (Some (messageToInternal numberLib (Some (dataMessage (Fin 1))))) = Some (dataMessage (Fin 1))"
    by (simp only: grpc_messages_roundtrip[THEN conjunct1] s) (simp add: numberLib_def)
  show "messageToProto numberLib (Some (messageToInternal numberLib (Some (dataMessage NaN)))) \<noteq> Some (dataMessage NaN)"
    by (simp only: grpc_messages_roundtrip[THEN conjunct1] s) (simp add: numberLib_def)
qed

end
