(* ===== verification/Grpc_Server.thy ===== *)
theory Grpc_Server
  imports Grpc_Messages
begin

text \<open>
  The gRPC binding (\<open>internal/grpc/interceptors.go\<close>, \<open>server.go\<close>): the security pipeline run on a synthetic
  HTTP request, the calls forwarded to the backend as JSON-RPC over HTTP, and the events of a stream.

  Its pipeline is an instance of its own: \<open>grpc_state\<close> has the objects of \<open>New\<close>'s second \<open>BuildPipeline\<close>, with
  the shared manager of cards and the counter of request identifiers. The transport, the decoding of task
  types and the texts of library errors are the record \<open>grpc_env\<close>.
\<close>

section \<open>Status\<close>

datatype grpc_code = OK | InvalidArgument | Unauthenticated | PermissionDenied | NotFoundCode | AlreadyExists
  | ResourceExhausted | Unavailable | Internal

definition httpStatusToGRPCCode :: "int \<Rightarrow> grpc_code" where
  "httpStatusToGRPCCode c =
     (if c = 400 then InvalidArgument
      else if c = 401 then Unauthenticated
      else if c = 403 then PermissionDenied
      else if c = 404 then NotFoundCode
      else if c = 409 then AlreadyExists
      else if c = 429 then ResourceExhausted
      else if c = 502 then Unavailable
      else if c = 503 then Unavailable
      else Internal)"

text \<open>The message of a status: a text, or the body the pipeline wrote.\<close>

datatype grpc_message = GmText string | GmBody payload

type_synonym grpc_status = "grpc_code \<times> grpc_message"

definition sentinelErrorToGRPC :: "sentinel_error \<Rightarrow> grpc_status" where
  "sentinelErrorToGRPC e = (httpStatusToGRPCCode (se_code e), GmText (se_message e
     @ (if se_hint e \<noteq> [] then '' (hint: '' @ se_hint e @ '')'' else [])
     @ (if se_docs e \<noteq> [] then '' [docs: '' @ se_docs e @ '']'' else [])))"

section \<open>State and environment\<close>

record 'l grpc_state = "'l pipeline_state" +
  gs_passed :: "request option"
  gs_manager :: manager
  gs_requestID :: "64 word"

record backend_call =
  gc_url :: string
  gc_headers :: header
  gc_body :: jout
  gc_timeout :: go_duration

record incoming =
  in_metadata :: "(string, string list) gomap option"
  in_peer :: "string option"

record ('l, 'k, 'm, 'st) grpc_env =
  gr_sec :: "('l, 'k) sec_env"
  gr_lib :: "('m, 'st) struct_lib"
  gr_mapJson :: "'m map_json"
  gr_do :: "backend_call \<Rightarrow> string + (int \<times> stream)"
  gr_task :: "json option \<Rightarrow> string + 'm task"
  gr_push :: "json option \<Rightarrow> string + push_notification"
  gr_statusEvent :: "string \<Rightarrow> string + 'm status_event"
  gr_artifactEvent :: "string \<Rightarrow> string + 'm artifact_event"
  gr_urlText :: "string \<Rightarrow> string"
  gr_readText :: string
  gr_parseText :: "string \<Rightarrow> string"

section \<open>The interceptors (interceptors.go)\<close>

text \<open>
  The URL is \<open>/\<close> before the full method, which starts with a slash itself: the service becomes the host and
  the path is that of the method. A range over the metadata visits the keys in some order.
\<close>

definition buildSyntheticRequest :: "incoming \<Rightarrow> string \<Rightarrow> request" where
  "buildSyntheticRequest i fullMethod =
     \<lparr>rq_method = ''POST'',
      rq_path = (case urlParse (CHR ''/'' # fullMethod) of None \<Rightarrow> [] | Some u \<Rightarrow> url_path u),
      rq_query = (case urlParse (CHR ''/'' # fullMethod) of None \<Rightarrow> [] | Some u \<Rightarrow> url_rawQuery u),
      rq_headers = (case in_metadata i of None \<Rightarrow> []
        | Some md \<Rightarrow> fold (\<lambda>(k, vs) h. fold (\<lambda>v h. header_add h k v) vs h) md []),
      rq_body = Some \<lparr>st_bytes = [], st_fails = False\<rparr>,
      rq_remoteAddr = (case in_peer i of None \<Rightarrow> [] | Some a \<Rightarrow> a),
      rq_tls = False, rq_ctx = emptyContext\<rparr>"

text \<open>The handler at the end of the pipeline records that the request passed, and the request.\<close>

definition passHandler :: "'l grpc_state handler" where
  "passHandler r w s = (\<lparr>rs_status = 200, rs_header = w, rs_payload = PEmpty\<rparr>, s\<lparr>gs_passed := Some r\<rparr>)"

definition applySecurityPipeline ::
  "('l, 'k) sec_env \<Rightarrow> stage list \<Rightarrow> request \<Rightarrow> 'l grpc_state \<Rightarrow> (grpc_status + request) \<times> 'l grpc_state" where
  "applySecurityPipeline ev mws req s =
     (case ApplyPipeline ev passHandler mws req [] (s\<lparr>gs_passed := None\<rparr>) of
        (rs, s') \<Rightarrow> (case gs_passed s' of
            Some r \<Rightarrow> (Inr r, s')
          | None \<Rightarrow> (Inl (httpStatusToGRPCCode (rs_status rs), GmBody (rs_payload rs)), s')))"

text \<open>The merged context looks in the gRPC context first.\<close>

definition mergedValue :: "('k \<Rightarrow> 'v option) \<Rightarrow> ('k \<Rightarrow> 'v option) \<Rightarrow> 'k \<Rightarrow> 'v option" where
  "mergedValue grpcCtx httpCtx k = (case grpcCtx k of Some v \<Rightarrow> Some v | None \<Rightarrow> httpCtx k)"

text \<open>Both interceptors: the handler of the call runs after the pipeline passed.\<close>

definition intercept ::
  "('l, 'k) sec_env \<Rightarrow> stage list \<Rightarrow> incoming \<Rightarrow> string \<Rightarrow> ('l grpc_state \<Rightarrow> (grpc_status + 'r) \<times> 'l grpc_state)
     \<Rightarrow> 'l grpc_state \<Rightarrow> (grpc_status + 'r) \<times> 'l grpc_state" where
  "intercept ev mws i fullMethod handler s =
     (case applySecurityPipeline ev mws (buildSyntheticRequest i fullMethod) s of
        (Inl e, s') \<Rightarrow> (Inl e, s')
      | (Inr r, s') \<Rightarrow> handler s')"

section \<open>Forwarding (server.go)\<close>

definition getBackendURL :: "config \<Rightarrow> route_target \<Rightarrow> string" where
  "getBackendURL cfg t = (case find (\<lambda>a. ag_name a = tg_agentName t \<and> ag_grpcURL a \<noteq> []) (cf_agents cfg) of
      None \<Rightarrow> tg_agentURL t | Some a \<Rightarrow> ag_grpcURL a)"

definition getAgentTimeout :: "config \<Rightarrow> string \<Rightarrow> go_duration" where
  "getAgentTimeout cfg name = (case find (\<lambda>a. ag_name a = name) (cf_agents cfg) of
      None \<Rightarrow> nanos 30 | Some a \<Rightarrow> ag_timeout a)"

definition nextID :: "'l grpc_state \<Rightarrow> int \<times> 'l grpc_state" where
  "nextID s = (let n = gs_requestID s + 1 in (sint n, s\<lparr>gs_requestID := n\<rparr>))"

definition routingRequest :: request where
  "routingRequest = \<lparr>rq_method = ''POST'', rq_path = ''/'', rq_query = [],
     rq_headers = header_set [] ''Content-Type'' ''application/json'', rq_body = None, rq_remoteAddr = [],
     rq_tls = False, rq_ctx = emptyContext\<rparr>"

definition grpcRouter :: "config \<Rightarrow> manager \<Rightarrow> router" where
  "grpcRouter cfg m = NewRouter (rt_mode (cf_routing cfg)) (adapterLookup \<lparr>la_manager = m, la_agents = cf_agents cfg\<rparr>)"

text \<open>
  The call to the backend: routing, the request and its execution. \<open>streaming\<close> adds the \<open>Accept\<close> header
  and has no timeout.
\<close>

definition callBackend ::
  "('l, 'k, 'm, 'st) grpc_env \<Rightarrow> config \<Rightarrow> bool \<Rightarrow> jout \<Rightarrow> 'l grpc_state \<Rightarrow> grpc_status + (int \<times> stream)" where
  "callBackend ev cfg streaming body s =
     (case Route (grpcRouter cfg (gs_manager s)) routingRequest of
        Inl e \<Rightarrow> Inl (sentinelErrorToGRPC e)
      | Inr t \<Rightarrow>
          (let url = getBackendURL cfg t @ tg_path t;
               h = header_set [] ''Content-Type'' ''application/json'' in
           if urlParse url = None then Inl (Internal, GmText (''creating backend request: '' @ gr_urlText ev url))
           else (case gr_do ev \<lparr>gc_url = url,
                     gc_headers = (if streaming then header_set h ''Accept'' ''text/event-stream'' else h),
                     gc_body = body,
                     gc_timeout = (if streaming then 0 else getAgentTimeout cfg (tg_agentName t))\<rparr> of
               Inl e \<Rightarrow> Inl (Unavailable, GmText (''backend request failed: '' @ e))
             | Inr resp \<Rightarrow> Inr resp)))"

definition maxResponseSize :: nat where "maxResponseSize = 10 * 1024 * 1024"

definition statusText :: "int \<Rightarrow> string \<Rightarrow> grpc_message" where
  "statusText code body = GmText (''backend returned status '' @ showInt code @ '': '' @ body)"

definition readResult ::
  "('l, 'k, 'm, 'st) grpc_env \<Rightarrow> int \<times> stream \<Rightarrow> grpc_status + json option" where
  "readResult ev resp = (case resp of (code, st) \<Rightarrow>
     (case readLimited maxResponseSize st of
        None \<Rightarrow> Inl (Internal, GmText (''reading backend response: '' @ gr_readText ev))
      | Some body \<Rightarrow>
          if code \<noteq> 200 then Inl (Internal, statusText code body)
          else (case unwrapJSONRPCResult (gr_parseText ev) body of
              Inl e \<Rightarrow> Inl (Internal, GmText (''unwrapping response: '' @ e))
            | Inr v \<Rightarrow> Inr v)))"

definition forwardUnary ::
  "('l, 'k, 'm, 'st) grpc_env \<Rightarrow> config \<Rightarrow> string \<Rightarrow> string + jout \<Rightarrow> 'l grpc_state
     \<Rightarrow> (grpc_status + json option) \<times> 'l grpc_state" where
  "forwardUnary ev cfg meth params s =
     (case nextID s of (ident, s') \<Rightarrow>
        (case wrapJSONRPC meth params ident of
           Inl e \<Rightarrow> (Inl (Internal, GmText (''building request: '' @ e)), s')
         | Inr body \<Rightarrow> (bindE (callBackend ev cfg False body s') (readResult ev), s')))"

text \<open>Decoding the result, and the answer made of it.\<close>

definition decodeAnswer ::
  "(json option \<Rightarrow> string + 'a) \<Rightarrow> ('a \<Rightarrow> 'b) \<Rightarrow> (grpc_status + json option) \<times> 's \<Rightarrow> (grpc_status + 'b) \<times> 's" where
  "decodeAnswer dec conv res = (case res of (x, s) \<Rightarrow>
     (bindE x (\<lambda>v. case dec v of
        Inl e \<Rightarrow> Inl (Internal, GmText (''parsing backend response: '' @ e)) | Inr t \<Rightarrow> Inr (conv t)), s))"

definition SendMessage ::
  "('l, 'k, 'm, 'st) grpc_env \<Rightarrow> config \<Rightarrow> 'st pb_send_request option \<Rightarrow> 'l grpc_state
     \<Rightarrow> (grpc_status + 'st task) \<times> 'l grpc_state" where
  "SendMessage ev cfg req s = (case sendMessageRequestToInternal (gr_lib ev) req of
      Inl e \<Rightarrow> (Inl (InvalidArgument, GmText (''invalid request: '' @ e)), s)
    | Inr q \<Rightarrow> decodeAnswer (gr_task ev) (taskToProto (gr_lib ev))
        (forwardUnary ev cfg ''message/send'' (sendRequestJson (gr_mapJson ev) q) s))"

definition GetTask ::
  "('l, 'k, 'm, 'st) grpc_env \<Rightarrow> config \<Rightarrow> string \<Rightarrow> int option \<Rightarrow> 'l grpc_state
     \<Rightarrow> (grpc_status + 'st task) \<times> 'l grpc_state" where
  "GetTask ev cfg taskID historyLength s = decodeAnswer (gr_task ev) (taskToProto (gr_lib ev))
     (forwardUnary ev cfg ''tasks/get''
        (Inr (JoObj (omitO ''historyLength'' JoInt historyLength @ [(''id'', JoStr taskID)]))) s)"

definition CancelTask ::
  "('l, 'k, 'm, 'st) grpc_env \<Rightarrow> config \<Rightarrow> string \<Rightarrow> 'l grpc_state \<Rightarrow> (grpc_status + 'st task) \<times> 'l grpc_state" where
  "CancelTask ev cfg taskID s = decodeAnswer (gr_task ev) (taskToProto (gr_lib ev))
     (forwardUnary ev cfg ''tasks/cancel'' (Inr (JoObj [(''id'', JoStr taskID)])) s)"

definition SetPushNotificationConfig ::
  "('l, 'k, 'm, 'st) grpc_env \<Rightarrow> config \<Rightarrow> string \<Rightarrow> push_notification option \<Rightarrow> 'l grpc_state
     \<Rightarrow> (grpc_status + push_notification option) \<times> 'l grpc_state" where
  "SetPushNotificationConfig ev cfg taskID pnc s =
     decodeAnswer (gr_push ev) (\<lambda>p. pushNotifConfigToProto (Some p))
       (forwardUnary ev cfg ''tasks/pushNotificationConfig/set''
          (Inr (JoObj [(''config'', case pushNotifConfigToInternal pnc of None \<Rightarrow> JoNull | Some p \<Rightarrow> pushConfigJson p),
             (''id'', JoStr taskID)])) s)"

definition GetPushNotificationConfig ::
  "('l, 'k, 'm, 'st) grpc_env \<Rightarrow> config \<Rightarrow> string \<Rightarrow> 'l grpc_state
     \<Rightarrow> (grpc_status + push_notification option) \<times> 'l grpc_state" where
  "GetPushNotificationConfig ev cfg taskID s = decodeAnswer (gr_push ev) (\<lambda>p. pushNotifConfigToProto (Some p))
     (forwardUnary ev cfg ''tasks/pushNotificationConfig/get'' (Inr (JoObj [(''id'', JoStr taskID)])) s)"

section \<open>Streams\<close>

datatype 'st stream_event = StatusUpdate "'st status_event" | ArtifactUpdate "'st artifact_event"

text \<open>\<open>None\<close>: events that are skipped; the text of a parse error is only logged.\<close>

definition parseSSEEvent ::
  "('l, 'k, 'm, 'st) grpc_env \<Rightarrow> string \<Rightarrow> string \<Rightarrow> string + 'st stream_event option" where
  "parseSSEEvent ev eventType data =
     (if eventType = ''status'' \<or> eventType = [] then (case gr_statusEvent ev data of
          Inl e \<Rightarrow> Inl (''parsing status event: '' @ e)
        | Inr x \<Rightarrow> Inr (Some (StatusUpdate (taskStatusUpdateEventToProto (gr_lib ev) x))))
      else if eventType = ''artifact'' then (case gr_artifactEvent ev data of
          Inl e \<Rightarrow> Inl (''parsing artifact event: '' @ e)
        | Inr x \<Rightarrow> Inr (Some (ArtifactUpdate (taskArtifactUpdateEventToProto (gr_lib ev) x))))
      else Inr None)"

text \<open>
  \<open>canSend sent\<close> is \<open>None\<close> when \<open>stream.Send\<close> succeeds after the events \<open>sent\<close>, else the code and the text of
  its error; a wrapped status keeps its code. The result is the events sent and the status of the call.
\<close>

definition sendEvent ::
  "('l, 'k, 'm, 'st) grpc_env \<Rightarrow> ('st stream_event list \<Rightarrow> (grpc_code \<times> string) option) \<Rightarrow> string \<Rightarrow> string list
     \<Rightarrow> 'st stream_event list \<Rightarrow> (grpc_code \<times> string) option \<times> 'st stream_event list" where
  "sendEvent ev canSend eventType dataLines sent =
     (if dataLines = [] then (None, sent)
      else (case parseSSEEvent ev eventType (joinWith nl dataLines) of
          Inl e \<Rightarrow> (None, sent)
        | Inr None \<Rightarrow> (None, sent)
        | Inr (Some x) \<Rightarrow> (case canSend sent of None \<Rightarrow> (None, sent @ [x]) | Some e \<Rightarrow> (Some e, sent))))"

definition fieldLine :: "string \<Rightarrow> string \<times> string list \<Rightarrow> string \<times> string list" where
  "fieldLine line acc = (case acc of (eventType, dataLines) \<Rightarrow>
     (if hasPrefix line ''event:'' then (trimSpace (trimPrefix line ''event:''), dataLines)
      else if hasPrefix line ''data:'' then (eventType, dataLines @ [trimSpace (trimPrefix line ''data:'')])
      else (eventType, dataLines)))"

fun sseLoop ::
  "('l, 'k, 'm, 'st) grpc_env \<Rightarrow> ('st stream_event list \<Rightarrow> (grpc_code \<times> string) option) \<Rightarrow> line_result list
     \<Rightarrow> string \<times> string list \<Rightarrow> bool \<Rightarrow> 'st stream_event list \<Rightarrow> (grpc_status + unit) \<times> 'st stream_event list" where
  "sseLoop ev canSend (Line l # ls) (ty, ds) failed sent =
     (if l = [] then (case sendEvent ev canSend ty ds sent of
          (Some (c, e), sent') \<Rightarrow> (Inl (c, GmText (''sending stream event: '' @ e)), sent')
        | (None, sent') \<Rightarrow> sseLoop ev canSend ls ([], []) failed sent')
      else sseLoop ev canSend ls (fieldLine l (ty, ds)) failed sent)"
| "sseLoop ev canSend (ReadError # ls) acc failed sent = sseLoop ev canSend ls acc True sent"
| "sseLoop ev canSend [] (ty, ds) failed sent = (case sendEvent ev canSend ty ds sent of
      (Some (c, e), sent') \<Rightarrow> (Inl (c, GmText (''sending final stream event: '' @ e)), sent')
    | (None, sent') \<Rightarrow>
        (if failed then Inl (Internal, GmText (''reading SSE stream: '' @ gr_readText ev)) else Inr (), sent'))"

definition forwardSSEToStream ::
  "('l, 'k, 'm, 'st) grpc_env \<Rightarrow> ('st stream_event list \<Rightarrow> (grpc_code \<times> string) option) \<Rightarrow> stream
     \<Rightarrow> (grpc_status + unit) \<times> 'st stream_event list" where
  "forwardSSEToStream ev canSend body =
     sseLoop ev canSend (scanResults (1024 * 1024) (st_bytes body) (st_fails body)) ([], []) False []"

definition readStatusBody :: "stream \<Rightarrow> string" where
  "readStatusBody st = take 4096 (st_bytes st)"

definition StreamMessage ::
  "('l, 'k, 'm, 'st) grpc_env \<Rightarrow> config \<Rightarrow> ('st stream_event list \<Rightarrow> (grpc_code \<times> string) option) \<Rightarrow> 'st pb_send_request option
     \<Rightarrow> 'l grpc_state \<Rightarrow> ((grpc_status + unit) \<times> 'st stream_event list) \<times> 'l grpc_state" where
  "StreamMessage ev cfg canSend req s = (case sendMessageRequestToInternal (gr_lib ev) req of
      Inl e \<Rightarrow> ((Inl (InvalidArgument, GmText (''invalid request: '' @ e)), []), s)
    | Inr q \<Rightarrow> (case nextID s of (ident, s') \<Rightarrow>
        (case wrapJSONRPC ''message/stream'' (sendRequestJson (gr_mapJson ev) q) ident of
           Inl e \<Rightarrow> ((Inl (Internal, GmText (''building request: '' @ e)), []), s')
         | Inr body \<Rightarrow> (case callBackend ev cfg True body s' of
             Inl e \<Rightarrow> ((Inl e, []), s')
           | Inr (code, st) \<Rightarrow>
               if code \<noteq> 200 then ((Inl (Internal, statusText code (readStatusBody st)), []), s')
               else (forwardSSEToStream ev canSend st, s')))))"

section \<open>The interceptor\<close>

lemma applySecurityPipeline_admit: "applySecurityPipeline ev mws req s = (case admit ev mws req [] (s\<lparr>gs_passed := None\<rparr>) of
    (Inl (e, w'), s') \<Rightarrow> (Inl (httpStatusToGRPCCode (se_code e), GmBody (PError e)), s')
  | (Inr (r', w'), s') \<Rightarrow> (Inr r', s'\<lparr>gs_passed := Some r'\<rparr>))"
proof -
  obtain x s' where a: "admit ev mws req [] (s\<lparr>gs_passed := None\<rparr>) = (x, s')" by force
  have "pipeline_state.more s' = pipeline_state.more (s\<lparr>gs_passed := None\<rparr>)"
    using admit_static[of ev mws req "[]" "s\<lparr>gs_passed := None\<rparr>" s'] a by simp
  then have "gs_passed s' = None" by (cases s; cases s') simp
  with a show ?thesis
    by (cases x) (auto simp: applySecurityPipeline_def ApplyPipeline_foldr foldr_Process passHandler_def)
qed

lemma admit_grpc_parts:
  fixes s :: "'l grpc_state"
  assumes "admit ev mws r w s = (x, s')"
  shows "gs_manager s' = gs_manager s \<and> gs_requestID s' = gs_requestID s"
proof -
  have "pipeline_state.more s' = pipeline_state.more s"
    using admit_static[of ev mws r w s s'] assms by simp
  then show ?thesis by (cases s; cases s') simp
qed

text \<open>The stages that look at the body find an empty one.\<close>

lemma synthetic_body: "same_request (buildSyntheticRequest i m) r \<Longrightarrow>
    rq_body r = Some \<lparr>st_bytes = [], st_fails = False\<rparr> \<and> rq_method r = ''POST''"
  by (auto simp: same_request_iff buildSyntheticRequest_def body_kept_def)

lemma ssrf_sees_nothing:
  assumes "same_request (buildSyntheticRequest i m) r"
  shows "stageDecide ev SSRFStage r w s = (Pass r w, s)"
proof -
  have "r\<lparr>rq_body := Some \<lparr>st_bytes = [], st_fails = False\<rparr>\<rparr> = r"
    using synthetic_body[OF assms] by (cases r) simp
  then have "InspectAndRewind r (64 * 1024) = (Inr [], r)"
    using synthetic_body[OF assms] by (simp add: InspectAndRewind_def Let_def)
  then show ?thesis by (simp add: stageDecide_def onField_def ssrfDecide_def)
qed

lemma replay_sees_nothing:
  assumes "same_request (buildSyntheticRequest i m) r"
    and "hdr (buildSyntheticRequest i m) ''Content-Type'' = ''application/grpc''"
  shows "stageDecide ev ReplayStage r w s = (Pass r w, s)"
proof -
  have "hdr r ''Content-Type'' = ''application/grpc''" using same_request_sel(6)[OF assms(1)] assms(2) by simp
  then show ?thesis by (simp add: stageDecide_def onField_def replayDecide_def jsonContent_def)
qed

section \<open>The lines of a stream\<close>

lemma trimSpace_space: "trimSpace (CHR '' '' # s) = trimSpace s"
  by (simp add: trimSpace_def isSpace_def byte_of_def)

lemma fieldLine_event: "fieldLine (''event: '' @ v) (ty, ds) = (trimSpace v, ds)"
proof -
  have e: "''event: '' @ v = ''event:'' @ (CHR '' '' # v)" by simp
  show ?thesis unfolding e fieldLine_def by (simp only: hasPrefix_append trimPrefix_append trimSpace_space) simp
qed

lemma fieldLine_data: "fieldLine (''data: '' @ v) (ty, ds) = (ty, ds @ [trimSpace v])"
proof -
  have e: "''data: '' @ v = ''data:'' @ (CHR '' '' # v)" by simp
  have "\<not> hasPrefix (''data:'' @ (CHR '' '' # v)) ''event:''" by (simp add: hasPrefix_def)
  then show ?thesis unfolding e fieldLine_def by (simp add: trimSpace_space del: append.simps)
qed

text \<open>An event as a server writes it: its type, its data lines, an empty line.\<close>

definition eventLines :: "string \<times> string list \<Rightarrow> string list" where
  "eventLines b = (case b of (ty, ds) \<Rightarrow> (''event: '' @ ty) # map ((@) ''data: '') ds @ [[]])"

definition plain_event :: "string \<times> string list \<Rightarrow> bool" where
  "plain_event b \<longleftrightarrow> (case b of (ty, ds) \<Rightarrow> ds \<noteq> [] \<and> (\<forall>x\<in>set (ty # ds). trimSpace x = x))
     \<and> (\<forall>l\<in>set (eventLines b). plain_line (1024 * 1024) l)"

text \<open>
  The events of a stream: between the empty lines, the last type and the data lines, where there are any. An event of
  the type \<open>status\<close>, or of none, or \<open>artifact\<close> has a translation if its data decodes; no other event has one.
\<close>

fun splitBlocks :: "string list \<Rightarrow> string list list" where
  "splitBlocks [] = [[]]"
| "splitBlocks (l # ls) = (if l = [] then [] # splitBlocks ls
     else (case splitBlocks ls of [] \<Rightarrow> [[l]] | b # bs \<Rightarrow> (l # b) # bs))"

definition blockType :: "string list \<Rightarrow> string" where
  "blockType b = (case rev (filter (\<lambda>l. hasPrefix l ''event:'') b) of [] \<Rightarrow> [] | l # ls \<Rightarrow> trimSpace (drop 6 l))"

definition blockData :: "string list \<Rightarrow> string list" where
  "blockData b = map (\<lambda>l. trimSpace (drop 5 l)) (filter (\<lambda>l. hasPrefix l ''data:'') b)"

definition eventBlocks :: "string list \<Rightarrow> (string \<times> string list) list" where
  "eventBlocks ls = filter (\<lambda>b. snd b \<noteq> []) (map (\<lambda>b. (blockType b, blockData b)) (splitBlocks ls))"

definition eventOf :: "('l, 'k, 'm, 'st) grpc_env \<Rightarrow> string \<times> string list \<Rightarrow> 'st stream_event option" where
  "eventOf ev b =
     (if fst b \<in> {''status'', []} then (case gr_statusEvent ev (joinWith nl (snd b)) of
          Inl e \<Rightarrow> None | Inr x \<Rightarrow> Some (StatusUpdate (taskStatusUpdateEventToProto (gr_lib ev) x)))
      else if fst b = ''artifact'' then (case gr_artifactEvent ev (joinWith nl (snd b)) of
          Inl e \<Rightarrow> None | Inr x \<Rightarrow> Some (ArtifactUpdate (taskArtifactUpdateEventToProto (gr_lib ev) x)))
      else None)"

definition streamEvents :: "('l, 'k, 'm, 'st) grpc_env \<Rightarrow> string list \<Rightarrow> 'st stream_event list" where
  "streamEvents ev ls = List.map_filter (eventOf ev) (eventBlocks ls)"

definition scannedLines :: "line_result list \<Rightarrow> string list" where
  "scannedLines rs = List.map_filter (\<lambda>r. case r of Line l \<Rightarrow> Some l | ReadError \<Rightarrow> None) rs"

lemma scannedLines_simps [simp]:
  "scannedLines [] = []" "scannedLines (Line l # rs) = l # scannedLines rs" "scannedLines (ReadError # rs) = scannedLines rs"
  by (simp_all add: scannedLines_def List.map_filter_simps)

lemma scannedLines_Line [simp]: "scannedLines (map Line ls) = ls"
  by (induction ls) simp_all

text \<open>What the loop has read of an event when it has seen the lines \<open>b\<close>.\<close>

lemma fieldLine_block: "fieldLine l (blockType b, blockData b) = (blockType (b @ [l]), blockData (b @ [l]))"
proof -
  have "\<not> (hasPrefix l ''event:'' \<and> hasPrefix l ''data:'')" by (cases l) (auto simp: hasPrefix_def)
  then show ?thesis
    by (auto simp: fieldLine_def blockType_def blockData_def trimPrefix_def eval_nat_numeral)
qed

definition blockEvent :: "('l, 'k, 'm, 'st) grpc_env \<Rightarrow> string list \<Rightarrow> 'st stream_event option" where
  "blockEvent ev b = (if blockData b = [] then None else eventOf ev (blockType b, blockData b))"

lemma sendEvent_block: "sendEvent ev cs (blockType b) (blockData b) sent = (case blockEvent ev b of
    None \<Rightarrow> (None, sent)
  | Some x \<Rightarrow> (case cs sent of None \<Rightarrow> (None, sent @ [x]) | Some e \<Rightarrow> (Some e, sent)))"
  by (simp add: sendEvent_def blockEvent_def eventOf_def parseSSEEvent_def split: sum.split)

lemma streamEvents_blocks: "streamEvents ev ls = List.map_filter (blockEvent ev) (splitBlocks ls)"
proof -
  have "List.map_filter (eventOf ev) (filter (\<lambda>b. snd b \<noteq> []) (map (\<lambda>b. (blockType b, blockData b)) bs))
      = List.map_filter (blockEvent ev) bs" for bs
    by (induction bs) (simp_all add: List.map_filter_simps blockEvent_def split: option.split)
  then show ?thesis by (simp add: streamEvents_def eventBlocks_def)
qed

text \<open>Sending events in turn, up to the first that cannot be sent.\<close>

fun delivers :: "('st stream_event list \<Rightarrow> (grpc_code \<times> string) option) \<Rightarrow> grpc_status + unit \<Rightarrow> 'st stream_event list
    \<Rightarrow> 'st stream_event list \<Rightarrow> (grpc_status + unit) \<times> 'st stream_event list \<Rightarrow> bool" where
  "delivers cs fin [] sent r \<longleftrightarrow> r = (fin, sent)"
| "delivers cs fin (x # xs) sent r \<longleftrightarrow> (case cs sent of
      None \<Rightarrow> delivers cs fin xs (sent @ [x]) r
    | Some (c, e) \<Rightarrow> r \<in> {(Inl (c, GmText (''sending stream event: '' @ e)), sent),
                          (Inl (c, GmText (''sending final stream event: '' @ e)), sent)})"

lemma delivers_prefix: "delivers cs fin evs sent (res, out) \<Longrightarrow>
    \<exists>n \<le> length evs. out = sent @ take n evs \<and> (\<forall>k < n. cs (sent @ take k evs) = None)
      \<and> (if n < length evs then \<exists>c e. cs out = Some (c, e)
            \<and> res \<in> {Inl (c, GmText (''sending stream event: '' @ e)), Inl (c, GmText (''sending final stream event: '' @ e))}
         else res = fin)"
proof (induction evs arbitrary: sent)
  case Nil
  then show ?case by simp
next
  case (Cons x xs)
  show ?case
  proof (cases "cs sent")
    case None
    with Cons obtain n where n: "n \<le> length xs" "out = (sent @ [x]) @ take n xs" "\<forall>k < n. cs ((sent @ [x]) @ take k xs) = None"
      "if n < length xs then \<exists>c e. cs out = Some (c, e)
            \<and> res \<in> {Inl (c, GmText (''sending stream event: '' @ e)), Inl (c, GmText (''sending final stream event: '' @ e))}
         else res = fin" by fastforce
    have "cs (sent @ take k (x # xs)) = None" if "k < Suc n" for k using that None n(3) by (cases k) auto
    with n(1,2,4) show ?thesis by (intro exI[of _ "Suc n"]) simp
  next
    case (Some e)
    with Cons.prems show ?thesis by (intro exI[of _ 0]) (auto split: prod.splits)
  qed
qed

lemma splitBlocks_ne: "splitBlocks ls \<noteq> []"
  by (induction ls) (simp_all split: list.splits)

definition streamEnd :: "('l, 'k, 'm, 'st) grpc_env \<Rightarrow> bool \<Rightarrow> grpc_status + unit" where
  "streamEnd ev bad = (if bad then Inl (Internal, GmText (''reading SSE stream: '' @ gr_readText ev)) else Inr ())"

lemma sseLoop_delivers:
  "delivers cs (streamEnd ev (failed \<or> ReadError \<in> set rs))
     (List.map_filter (blockEvent ev) ((b @ hd (splitBlocks (scannedLines rs))) # tl (splitBlocks (scannedLines rs)))) sent
     (sseLoop ev cs rs (blockType b, blockData b) failed sent)"
proof (induction rs arbitrary: b failed sent)
  case Nil
  show ?case by (simp add: sendEvent_block List.map_filter_simps streamEnd_def split: option.splits)
next
  case (Cons r rs)
  have empty: "blockType [] = []" "blockData [] = []" by (simp_all add: blockType_def blockData_def)
  have collapse: "hd (splitBlocks ls) # tl (splitBlocks ls) = splitBlocks ls" for ls using splitBlocks_ne by simp
  show ?case
  proof (cases r)
    case ReadError
    with Cons.IH[of True b sent] show ?thesis by simp
  next
    case (Line l)
    show ?thesis
    proof (cases "l = []")
      case False
      have "hd (splitBlocks (l # ls)) = l # hd (splitBlocks ls) \<and> tl (splitBlocks (l # ls)) = tl (splitBlocks ls)" for ls
        using False splitBlocks_ne[of ls] by (cases "splitBlocks ls") simp_all
      with Line False Cons.IH[of failed "b @ [l]" sent] show ?thesis by (simp add: fieldLine_block del: splitBlocks.simps)
    next
      case True
      from Cons.IH[of failed "[]"] have "delivers cs (streamEnd ev (failed \<or> ReadError \<in> set rs))
          (List.map_filter (blockEvent ev) (splitBlocks (scannedLines rs))) t (sseLoop ev cs rs ([], []) failed t)" for t
        by (simp add: empty collapse)
      with Line True show ?thesis by (simp add: sendEvent_block List.map_filter_simps(1) split: option.splits)
    qed
  qed
qed

text \<open>The events of a stream that writes each as its type, its data lines and an empty line are these events.\<close>

lemma splitBlocks_append: "[] \<notin> set xs \<Longrightarrow> splitBlocks (xs @ [] # ls) = xs # splitBlocks ls"
  by (induction xs) auto

lemma eventBlocks_lines:
  assumes "\<forall>b\<in>set bs. plain_event b"
  shows "eventBlocks (concat (map eventLines bs)) = bs"
  using assms
proof (induction bs)
  case Nil
  show ?case by (simp add: eventBlocks_def blockData_def)
next
  case (Cons b bs)
  obtain ty ds where b: "b = (ty, ds)" by force
  with Cons.prems have t: "trimSpace ty = ty" "ds \<noteq> []" "\<forall>x\<in>set ds. trimSpace x = x" by (auto simp: plain_event_def)
  let ?ls = "(''event: '' @ ty) # map ((@) ''data: '') ds"
  have 1: "\<not> hasPrefix (''data: '' @ x) ''event:''" "hasPrefix (''data: '' @ x) ''data:''"
    "\<not> hasPrefix (''event: '' @ x) ''data:''" "hasPrefix (''event: '' @ x) ''event:''" for x
    by (simp_all add: hasPrefix_def)
  have 2: "filter (\<lambda>l. hasPrefix l ''event:'') (map ((@) ''data: '') ds) = []"
    "filter (\<lambda>l. hasPrefix l ''data:'') (map ((@) ''data: '') ds) = map ((@) ''data: '') ds" for ds
    using 1 by (auto simp: filter_empty_conv intro: filter_True)
  have "map ((\<lambda>l. trimSpace (drop 5 l)) \<circ> (@) ''data: '') ds = ds"
    using t(3) by (intro map_idI) (simp add: trimSpace_space)
  then have d: "blockData ?ls = ds" using 1 2 by (simp add: blockData_def del: append.simps)
  have ty: "blockType ?ls = ty" using 1 2 t(1) by (simp add: blockType_def trimSpace_space)
  have "splitBlocks (concat (map eventLines (b # bs))) = ?ls # splitBlocks (concat (map eventLines bs))"
    using splitBlocks_append[of ?ls "concat (map eventLines bs)"] by (auto simp: b eventLines_def)
  then have "eventBlocks (concat (map eventLines (b # bs))) = (ty, ds) # eventBlocks (concat (map eventLines bs))"
    unfolding eventBlocks_def using d ty t(2) by simp
  then show ?case using Cons by (simp add: b)
qed

section \<open>Properties\<close>

lemma httpStatusToGRPCCode_error: "httpStatusToGRPCCode c \<noteq> OK"
  by (simp add: httpStatusToGRPCCode_def)

text \<open>C15: A gRPC call reaches its handler only when the synthetic request was authenticated in the configured
  mode; a call that is stopped ends with the error of the stage that blocked it and a code that is not OK, and
  leaves the cards and the request counter as they were (the state of the pipeline itself, the buckets of the
  limiters among it, may change). The error is the message of the status, the body with its hint and the URL of
  the documentation; \<open>docs/ERRORS.md\<close> puts those into the details of the status.\<close>

theorem grpc_guarded:
  assumes "intercept ev (BuildPipeline pc) i m handler s = (res, s')"
  shows "(\<exists>e. res = Inl (httpStatusToGRPCCode (se_code e), GmBody (PError e))
       \<and> httpStatusToGRPCCode (se_code e) \<noteq> OK \<and> 400 \<le> se_code e \<and> se_code e < 600
       \<and> gs_manager s' = gs_manager s \<and> gs_requestID s' = gs_requestID s)
    \<or> (\<exists>a s1. authenticate (ev_fetch ev) (ev_parse ev) (pl_auth s) (buildSyntheticRequest i m) = Inr a
       \<and> gs_manager s1 = gs_manager s \<and> gs_requestID s1 = gs_requestID s \<and> (res, s') = handler s1)"
proof -
  obtain x s1 where a: "admit ev (BuildPipeline pc) (buildSyntheticRequest i m) [] (s\<lparr>gs_passed := None\<rparr>) = (x, s1)"
    by force
  note parts = admit_grpc_parts[OF a]
  show ?thesis
  proof (cases x)
    case (Inl y)
    obtain e w' where y: "y = (e, w')" by force
    with Inl a assms have "res = Inl (httpStatusToGRPCCode (se_code e), GmBody (PError e))" "s' = s1"
      by (simp_all add: intercept_def applySecurityPipeline_admit)
    moreover have "400 \<le> se_code e \<and> se_code e < 600" using a Inl y by (intro admit_error) simp
    ultimately show ?thesis using parts by (auto simp: httpStatusToGRPCCode_error)
  next
    case (Inr y)
    obtain r1 w1 where y: "y = (r1, w1)" by force
    with Inr a assms have "(res, s') = handler (s1\<lparr>gs_passed := Some r1\<rparr>)"
      by (simp add: intercept_def applySecurityPipeline_admit)
    moreover from BuildPipeline_admit_auth[of ev pc] a Inr y obtain au where
      "authenticate (ev_fetch ev) (ev_parse ev) (pl_auth s) (buildSyntheticRequest i m) = Inr au" by fastforce
    ultimately show ?thesis using parts by (intro disjI2 exI[of _ au] exI[of _ "s1\<lparr>gs_passed := Some r1\<rparr>"]) simp
  qed
qed

text \<open>C35: Replay detection and the check of push URLs never act on a gRPC call, whatever they are configured to
  do: the interceptor decides as if these two stages were not in the pipeline.\<close>

theorem grpc_body_stages_inert:
  assumes "hdr (buildSyntheticRequest i m) ''Content-Type'' = ''application/grpc''"
  shows "applySecurityPipeline ev (BuildPipeline pc) (buildSyntheticRequest i m) s
    = applySecurityPipeline ev (filter (\<lambda>st. st \<noteq> ReplayStage \<and> st \<noteq> SSRFStage) (BuildPipeline pc))
        (buildSyntheticRequest i m) s"
proof -
  let ?r = "buildSyntheticRequest i m"
  define front where "front = filter (\<lambda>st. st \<noteq> ReplayStage \<and> st \<noteq> SSRFStage) (BuildPipeline pc)"
  have split: "BuildPipeline pc = front @ [ReplayStage, SSRFStage]"
    by (simp add: front_def BuildPipeline_def Let_def)
  have "admit ev (front @ [ReplayStage, SSRFStage]) ?r w t = admit ev front ?r w t" for w and t :: "'a grpc_state"
  proof -
    obtain x t1 where a: "admit ev front ?r w t = (x, t1)" by force
    show ?thesis
    proof (cases x)
      case Inl
      with a show ?thesis by (cases x) (auto simp: admit_append)
    next
      case (Inr y)
      obtain r1 w1 where y: "y = (r1, w1)" by force
      have "same_request ?r r1" using admit_same[of ev front ?r w t r1 w1 t1] a Inr y by simp
      with a Inr y show ?thesis by (simp add: admit_append replay_sees_nothing[OF _ assms] ssrf_sees_nothing)
    qed
  qed
  then show ?thesis
    unfolding front_def[symmetric] by (simp only: applySecurityPipeline_admit split)
qed

text \<open>C29: The events of a stream, whatever the bytes and the client: the client is sent the translations of the events
  the lines make up, in order, from the first on and up to the first that cannot be sent. All of them have been sent
  unless that error ends the call, and then the call ends without an error exactly when the reading did. An event
  whose data does not decode, an \<open>error\<close> event and one of an unknown type has no translation and is dropped without
  a trace for the client. The events of a stream that is written in the plain form are those written.\<close>

theorem sse_events_translated:
  defines "scanned body \<equiv> scanResults (1024 * 1024) (st_bytes body) (st_fails body)"
  shows "(\<exists>n \<le> length (streamEvents ev (scannedLines (scanned body))).
      snd (forwardSSEToStream ev canSend body) = take n (streamEvents ev (scannedLines (scanned body)))
      \<and> (\<forall>k < n. canSend (take k (streamEvents ev (scannedLines (scanned body)))) = None)
      \<and> (if n < length (streamEvents ev (scannedLines (scanned body)))
         then \<exists>c e. canSend (snd (forwardSSEToStream ev canSend body)) = Some (c, e)
           \<and> fst (forwardSSEToStream ev canSend body) \<in> {Inl (c, GmText (''sending stream event: '' @ e)),
                Inl (c, GmText (''sending final stream event: '' @ e))}
         else fst (forwardSSEToStream ev canSend body) = (if ReadError \<in> set (scanned body)
           then Inl (Internal, GmText (''reading SSE stream: '' @ gr_readText ev)) else Inr ())))
    \<and> ((\<forall>b\<in>set bs. plain_event b) \<longrightarrow>
        scanned \<lparr>st_bytes = render (concat (map eventLines bs)), st_fails = False\<rparr> = map Line (concat (map eventLines bs))
        \<and> streamEvents ev (concat (map eventLines bs)) = List.map_filter (eventOf ev) bs)"
proof (rule conjI)
  have "[] @ hd (splitBlocks ls) # tl (splitBlocks ls) = splitBlocks ls" for ls using splitBlocks_ne by simp
  then have "delivers canSend (if ReadError \<in> set (scanned body)
        then Inl (Internal, GmText (''reading SSE stream: '' @ gr_readText ev)) else Inr ())
      (streamEvents ev (scannedLines (scanned body))) [] (forwardSSEToStream ev canSend body)"
    using sseLoop_delivers[of canSend ev False "scanned body" "[]" "[]"]
    by (simp add: streamEvents_blocks forwardSSEToStream_def scanned_def blockType_def blockData_def streamEnd_def)
  then have "delivers canSend (if ReadError \<in> set (scanned body)
        then Inl (Internal, GmText (''reading SSE stream: '' @ gr_readText ev)) else Inr ())
      (streamEvents ev (scannedLines (scanned body))) []
      (fst (forwardSSEToStream ev canSend body), snd (forwardSSEToStream ev canSend body))" by simp
  from delivers_prefix[OF this]
  show "\<exists>n \<le> length (streamEvents ev (scannedLines (scanned body))).
      snd (forwardSSEToStream ev canSend body) = take n (streamEvents ev (scannedLines (scanned body)))
      \<and> (\<forall>k < n. canSend (take k (streamEvents ev (scannedLines (scanned body)))) = None)
      \<and> (if n < length (streamEvents ev (scannedLines (scanned body)))
         then \<exists>c e. canSend (snd (forwardSSEToStream ev canSend body)) = Some (c, e)
           \<and> fst (forwardSSEToStream ev canSend body) \<in> {Inl (c, GmText (''sending stream event: '' @ e)),
                Inl (c, GmText (''sending final stream event: '' @ e))}
         else fst (forwardSSEToStream ev canSend body) = (if ReadError \<in> set (scanned body)
           then Inl (Internal, GmText (''reading SSE stream: '' @ gr_readText ev)) else Inr ()))"
    by (simp only: append_Nil)
  show "(\<forall>b\<in>set bs. plain_event b) \<longrightarrow>
        scanned \<lparr>st_bytes = render (concat (map eventLines bs)), st_fails = False\<rparr> = map Line (concat (map eventLines bs))
        \<and> streamEvents ev (concat (map eventLines bs)) = List.map_filter (eventOf ev) bs"
  proof
    assume p: "\<forall>b\<in>set bs. plain_event b"
    then have "\<forall>l\<in>set (concat (map eventLines bs)). plain_line (nat (max 65536 (1024 * 1024))) l"
      by (fastforce simp: plain_event_def)
    from scanResults_render[OF this] eventBlocks_lines[OF p]
    show "scanned \<lparr>st_bytes = render (concat (map eventLines bs)), st_fails = False\<rparr> = map Line (concat (map eventLines bs))
        \<and> streamEvents ev (concat (map eventLines bs)) = List.map_filter (eventOf ev) bs"
      by (simp add: scanned_def streamEvents_def)
  qed
qed

section \<open>Witnesses\<close>

definition sampleStatus :: "string \<Rightarrow> unit task_status" where
  "sampleStatus st = \<lparr>ts_state = st, ts_message = None, ts_timestamp = []\<rparr>"

text \<open>The state of an event is its data.\<close>

definition sampleGrpc :: "(unit, unit, unit, unit) grpc_env" where
  "sampleGrpc = \<lparr>gr_sec = sampleEnv, gr_lib = \<lparr>sl_asMap = id, sl_newStruct = Some\<rparr>, gr_mapJson = (\<lambda>_. Inr []),
     gr_do = (\<lambda>_. Inl ''refused''), gr_task = (\<lambda>_. Inl ''no task''), gr_push = (\<lambda>_. Inl ''no config''),
     gr_statusEvent = (\<lambda>d. Inr \<lparr>su_id = [], su_status = sampleStatus d, su_final = False, su_metadata = None\<rparr>),
     gr_artifactEvent = (\<lambda>_. Inl ''no artifact''), gr_urlText = (\<lambda>_. []), gr_readText = [], gr_parseText = (\<lambda>_. [])\<rparr>"

definition initGrpc :: "'l bucket_maker \<Rightarrow> config \<Rightarrow> 'l grpc_state" where
  "initGrpc newLim cfg = pipeline_state.extend (initPipeline newLim (buildSecurityPipelineConfig cfg))
     \<lparr>gs_passed = None, gs_manager = NewManager (cf_agents cfg) (se_cardSignature (cf_security cfg)), gs_requestID = 0\<rparr>"

definition grpcCall :: incoming where
  "grpcCall = \<lparr>in_metadata = Some [(''content-type'', [''application/grpc''])], in_peer = Some ''192.0.2.1:99''\<rparr>"

lemma grpc_blocked: "fst (intercept sampleEnv (BuildPipeline (buildSecurityPipelineConfig sampleConfig)) grpcCall
    ''/a2a.v1.A2AService/CancelTask'' (CancelTask sampleGrpc sampleConfig ''t1'') (initGrpc (\<lambda>_ _. ()) sampleConfig))
   = Inl (Unauthenticated, GmBody (PError ErrAuthRequired))"
  by code_simp

theorem grpc_guarded_witness:
  "gs_requestID (snd (intercept sampleEnv (BuildPipeline (buildSecurityPipelineConfig sampleConfig)) grpcCall
    ''/a2a.v1.A2AService/CancelTask'' (CancelTask sampleGrpc sampleConfig ''t1'') (initGrpc (\<lambda>_ _. ()) sampleConfig))) = 0"
proof -
  let ?s = "initGrpc (\<lambda>_ _. ()) sampleConfig"
  obtain res s' where g: "intercept sampleEnv (BuildPipeline (buildSecurityPipelineConfig sampleConfig)) grpcCall
    ''/a2a.v1.A2AService/CancelTask'' (CancelTask sampleGrpc sampleConfig ''t1'') ?s = (res, s')" by force
  have "fst (parseAuthHeader []) = []" by code_simp
  have no: "authenticate (ev_fetch sampleEnv) (ev_parse sampleEnv) (pl_auth ?s)
      (buildSyntheticRequest grpcCall ''/a2a.v1.A2AService/CancelTask'') \<noteq> Inr a" for a
  proof -
    have "hdr (buildSyntheticRequest grpcCall ''/a2a.v1.A2AService/CancelTask'') ''Authorization'' = []" by code_simp
    moreover have "am_mode (pl_auth ?s) = ''passthrough-strict''" "\<not> am_allowUnauthenticated (pl_auth ?s)" by code_simp+
    ultimately show ?thesis by (simp add: authenticate_def processPassthroughStrict_def)
  qed
  have "gs_requestID ?s = 0" by (simp add: initGrpc_def pipeline_state.extend_def)
  with grpc_guarded[OF g] no g show ?thesis by auto
qed

theorem grpc_body_stages_inert_witness:
  "applySecurityPipeline sampleEnv (BuildPipeline (buildSecurityPipelineConfig sampleConfig))
     (buildSyntheticRequest grpcCall ''/a2a.v1.A2AService/SendMessage'') (initGrpc (\<lambda>_ _. ()) sampleConfig)
   = applySecurityPipeline sampleEnv (filter (\<lambda>st. st \<noteq> ReplayStage \<and> st \<noteq> SSRFStage)
       (BuildPipeline (buildSecurityPipelineConfig sampleConfig)))
     (buildSyntheticRequest grpcCall ''/a2a.v1.A2AService/SendMessage'') (initGrpc (\<lambda>_ _. ()) sampleConfig)"
proof (rule grpc_body_stages_inert)
  show "hdr (buildSyntheticRequest grpcCall ''/a2a.v1.A2AService/SendMessage'') ''Content-Type'' = ''application/grpc''"
    by code_simp
qed

theorem sse_events_translated_witness:
  "forwardSSEToStream sampleGrpc (\<lambda>_. None)
     \<lparr>st_bytes = render (concat (map eventLines [(''status'', [''working'']), (''ping'', [''x'']), (''status'', [''completed''])])),
      st_fails = False\<rparr>
   = (Inr (), [StatusUpdate \<lparr>su_id = [], su_status = sampleStatus ''working'', su_final = False, su_metadata = None\<rparr>,
       StatusUpdate \<lparr>su_id = [], su_status = sampleStatus ''completed'', su_final = False, su_metadata = None\<rparr>])"
proof -
  let ?bs = "[(''status'', [''working'']), (''ping'', [''x'']), (''status'', [''completed''])]"
  have p: "\<forall>b\<in>set ?bs. plain_event b"
    by (simp add: plain_event_def plain_line_def eventLines_def trimSpace_def isSpace_def byte_of_def)
  let ?body = "\<lparr>st_bytes = render (concat (map eventLines ?bs)), st_fails = False\<rparr>"
  have e: "List.map_filter (eventOf sampleGrpc) ?bs
      = [StatusUpdate \<lparr>su_id = [], su_status = sampleStatus ''working'', su_final = False, su_metadata = None\<rparr>,
       StatusUpdate \<lparr>su_id = [], su_status = sampleStatus ''completed'', su_final = False, su_metadata = None\<rparr>]"
    by (simp add: List.map_filter_simps eventOf_def sampleGrpc_def taskStatusUpdateEventToProto_def
        taskStatusToProto_def messageToProto_def mapToStruct_def sampleStatus_def)
  from sse_events_translated[THEN conjunct2, of ?bs sampleGrpc] p
  have s: "scanResults (1024 * 1024) (st_bytes ?body) (st_fails ?body) = map Line (concat (map eventLines ?bs))"
    "streamEvents sampleGrpc (concat (map eventLines ?bs)) = List.map_filter (eventOf sampleGrpc) ?bs" by simp_all
  have "snd (forwardSSEToStream sampleGrpc (\<lambda>_. None) ?body) = List.map_filter (eventOf sampleGrpc) ?bs
      \<and> fst (forwardSSEToStream sampleGrpc (\<lambda>_. None) ?body) = Inr ()"
    using sse_events_translated[THEN conjunct1, of sampleGrpc ?body "\<lambda>_. None"]
    unfolding s scannedLines_Line by (auto split: if_splits)
  then show ?thesis unfolding e by (metis prod.collapse)
qed

end
