(* ===== verification/Cli.thy ===== *)
theory Cli
  imports Card_Manager
begin

text \<open>
  The command line (\<open>cmd/sentinel/main.go\<close>), the profiles of \<open>sentinel init\<close>
  (\<open>internal/config/profiles.go\<close>) and the migration to agentgateway (\<open>internal/migrate/agentgateway.go\<close>).

  A profile is the configuration its YAML text denotes. Loading, writing files, starting the server and
  rendering YAML are the record \<open>cli_env\<close>; a command gives its exit code and what it wrote and printed.
\<close>

section \<open>Profiles (profiles.go)\<close>

definition exampleAgent :: "bool \<Rightarrow> agent_config" where
  "exampleAgent insecure = \<lparr>ag_name = ''example-agent'', ag_url = ''http://localhost:9000'', ag_grpcURL = [],
     ag_cardPath = ''/.well-known/agent.json'', ag_pollInterval = nanos 60, ag_timeout = nanos 30, ag_maxStreams = 10,
     ag_default = True, ag_allowInsecure = insecure,
     ag_healthCheck = \<lparr>hk_enabled = True, hk_interval = nanos 30\<rparr>, ag_cardChangePolicy = ''alert''\<rparr>"

text \<open>What the two templates have in common, over the values that differ.\<close>

definition profileReplay :: replay_config where
  "profileReplay = \<lparr>rp_enabled = True, rp_window = nanos 300, rp_noncePolicy = ''warn'', rp_nonceSource = ''auto'',
     rp_clockSkew = nanos 5, rp_store = ''memory'', rp_redisURL = [], rp_cleanupInterval = 0\<rparr>"

definition profileRateLimit :: "bool \<Rightarrow> rate_limit_config" where
  "profileRateLimit on = \<lparr>rl_enabled = on,
     rl_ip = \<lparr>ir_perIP = 200, ir_burst = 50, ir_cleanupInterval = nanos 300\<rparr>,
     rl_user = \<lparr>ur_perUser = 100, ur_burst = 20, ur_cleanupInterval = nanos 300\<rparr>, rl_perAgent = 500\<rparr>"

definition profilePush :: "bool \<Rightarrow> push_config" where
  "profilePush on = \<lparr>pu_blockPrivateNetworks = on, pu_allowedDomains = Some [], pu_requireHTTPS = on,
     pu_requireChallenge = on, pu_hmacSecret = [], pu_dnsFailPolicy = ''block''\<rparr>"

definition profileAuth :: "bool \<Rightarrow> auth_config" where
  "profileAuth anonymous = \<lparr>au_mode = ''passthrough-strict'',
     au_schemes = [\<lparr>sc_type = ''bearer'', sc_jwt = \<lparr>jw_issuer = [], jw_audience = [], jw_jwksURL = []\<rparr>\<rparr>],
     au_allowUnauthenticated = anonymous\<rparr>"

definition DevProfile :: config where
  "DevProfile = \<lparr>cf_listen = \<lparr>ln_host = ''127.0.0.1'', ln_port = 8080, ln_grpcPort = 0, ln_maxConnections = 100,
       ln_globalRateLimit = 1000, ln_trustedProxies = Some [], ln_tls = \<lparr>tls_certFile = [], tls_keyFile = []\<rparr>\<rparr>,
     cf_externalURL = ''http://localhost:8080'',
     cf_mcp = \<lparr>mc_enabled = True, mc_host = ''127.0.0.1'', mc_port = 8081, mc_token = []\<rparr>,
     cf_health = \<lparr>hc_livenessPath = ''/healthz'', hc_readinessPath = ''/readyz'', hc_readinessMode = ''any_healthy''\<rparr>,
     cf_agents = [exampleAgent True], cf_routing = \<lparr>rt_mode = ''path-prefix''\<rparr>,
     cf_card = \<lparr>cc_mode = ''gateway'', cc_gatewayJWKFile = []\<rparr>,
     cf_security = \<lparr>se_cardSignature = \<lparr>cs_require = False, cs_trustedJWKSURLs = Some [], cs_cacheTTL = nanos 3600\<rparr>,
       se_auth = profileAuth True, se_replay = profileReplay, se_rateLimit = profileRateLimit False,
       se_push = profilePush False, se_policies = []\<rparr>,
     cf_bodyInspection = \<lparr>bi_maxSize = 1048576, bi_skipStreaming = True\<rparr>,
     cf_logging = \<lparr>lg_level = ''debug'', lg_format = ''json'', lg_output = ''stdout'',
       lg_audit = \<lparr>ac_samplingRate = Fin 1, ac_errorSamplingRate = Fin 1, ac_maxBodyLogSize = 1024\<rparr>\<rparr>,
     cf_shutdown = \<lparr>sd_timeout = nanos 30, sd_drainTimeout = nanos 15\<rparr>, cf_agentgatewayVersion = ''latest'',
     cf_reload = \<lparr>re_enabled = False, re_watchFile = False, re_debounce = 0\<rparr>, cf_locale = []\<rparr>"

definition ProdProfile :: config where
  "ProdProfile = \<lparr>cf_listen = \<lparr>ln_host = ''0.0.0.0'', ln_port = 8080, ln_grpcPort = 0, ln_maxConnections = 1000,
       ln_globalRateLimit = 5000, ln_trustedProxies = Some [], ln_tls = \<lparr>tls_certFile = [], tls_keyFile = []\<rparr>\<rparr>,
     cf_externalURL = ''https://sentinel.example.com'',
     cf_mcp = \<lparr>mc_enabled = False, mc_host = ''127.0.0.1'', mc_port = 8081, mc_token = []\<rparr>,
     cf_health = \<lparr>hc_livenessPath = ''/healthz'', hc_readinessPath = ''/readyz'', hc_readinessMode = ''any_healthy''\<rparr>,
     cf_agents = [exampleAgent False], cf_routing = \<lparr>rt_mode = ''path-prefix''\<rparr>,
     cf_card = \<lparr>cc_mode = ''gateway'', cc_gatewayJWKFile = []\<rparr>,
     cf_security = \<lparr>se_cardSignature = \<lparr>cs_require = True, cs_trustedJWKSURLs = Some [], cs_cacheTTL = nanos 3600\<rparr>,
       se_auth = profileAuth False, se_replay = profileReplay, se_rateLimit = profileRateLimit True,
       se_push = profilePush True, se_policies = []\<rparr>,
     cf_bodyInspection = \<lparr>bi_maxSize = 1048576, bi_skipStreaming = True\<rparr>,
     cf_logging = \<lparr>lg_level = ''info'', lg_format = ''json'', lg_output = ''stdout'',
       lg_audit = \<lparr>ac_samplingRate = Fin 1, ac_errorSamplingRate = Fin 1, ac_maxBodyLogSize = 1024\<rparr>\<rparr>,
     cf_shutdown = \<lparr>sd_timeout = nanos 30, sd_drainTimeout = nanos 15\<rparr>, cf_agentgatewayVersion = ''latest'',
     cf_reload = \<lparr>re_enabled = False, re_watchFile = False, re_debounce = 0\<rparr>, cf_locale = []\<rparr>"

section \<open>Migration (agentgateway.go)\<close>

text \<open>\<open>time.Duration.String\<close>.\<close>

definition padZeros :: "nat \<Rightarrow> string \<Rightarrow> string" where
  "padZeros n s = replicate (n - length s) (CHR ''0'') @ s"

definition fracText :: "nat \<Rightarrow> nat \<Rightarrow> string" where
  "fracText u prec = (let ds = trimRightByte (padZeros prec (showNat (u mod 10 ^ prec))) (CHR ''0'') in
     if ds = [] then [] else CHR ''.'' # ds)"

definition durationString :: "go_duration \<Rightarrow> string" where
  "durationString d =
     (let u = nat \<bar>d\<bar>; s = u div 10 ^ 9; m = s div 60;
          t = (if u = 0 then ''0s''
               else if u < 1000 then showNat u @ ''ns''
               else if u < 10 ^ 6 then showNat (u div 1000) @ fracText u 3 @ [CHR 0xC2, CHR 0xB5] @ ''s''
               else if u < 10 ^ 9 then showNat (u div 10 ^ 6) @ fracText u 6 @ ''ms''
               else (if m div 60 > 0 then showNat (m div 60) @ ''h'' else [])
                 @ (if m > 0 then showNat (m mod 60) @ ''m'' else [])
                 @ showNat (s mod 60) @ fracText u 9 @ ''s'')
      in if d < 0 then CHR ''-'' # t else t)"

record gw_backend =
  gb_name :: string
  gb_address :: string
  gb_default :: bool

record gw_rate_limit =
  gr_perIP :: int
  gr_perUser :: int

record gw_graceful =
  gg_timeout :: string
  gg_drain :: string

record gw_server =
  gv_port :: int
  gv_graceful :: "gw_graceful option"

record gw_observability =
  go_logLevel :: string
  go_audit :: bool

text \<open>The one-field structs are their field.\<close>

record gateway_config =
  gw_backends :: "gw_backend list"
  gw_authPolicy :: "string option"
  gw_rateLimit :: "gw_rate_limit option"
  gw_ssrfBlockPrivate :: "bool option"
  gw_routingStrategy :: "string option"
  gw_server :: "gw_server option"
  gw_observability :: "gw_observability option"
  gw_tlsVerifyCards :: "bool option"

record migration_warning =
  wn_field :: string
  wn_message :: string

definition mapAuthMode :: "string \<Rightarrow> string" where
  "mapAuthMode mode =
     (if mode = ''passthrough'' \<or> mode = ''passthrough-strict'' then ''passthrough''
      else if mode = ''terminate'' then ''enforce'' else mode)"

definition migrationWarnings :: "config \<Rightarrow> migration_warning list" where
  "migrationWarnings c =
     (if mc_enabled (cf_mcp c) then [\<lparr>wn_field = ''mcp.*'',
        wn_message = ''MCP server has no agentgateway equivalent. Remove or implement separately.''\<rparr>] else [])
     @ (if rp_enabled (se_replay (cf_security c)) then [\<lparr>wn_field = ''security.replay.*'',
        wn_message = ''Replay attack prevention has no agentgateway equivalent. Configure separately.''\<rparr>] else [])
     @ (if bi_maxSize (cf_bodyInspection c) > 0 then [\<lparr>wn_field = ''body_inspection.*'',
        wn_message = ''Body inspection settings have no agentgateway equivalent. Review gateway defaults.''\<rparr>] else [])"

definition Convert :: "config option \<Rightarrow> string + (gateway_config \<times> migration_warning list)" where
  "Convert cfg = (case cfg of
      None \<Rightarrow> Inl ''config is nil''
    | Some c \<Rightarrow>
        (let se = cf_security c; sd = cf_shutdown c in
         Inr (\<lparr>gw_backends = map (\<lambda>a. \<lparr>gb_name = ag_name a, gb_address = ag_url a, gb_default = ag_default a\<rparr>) (cf_agents c),
            gw_authPolicy = Some (mapAuthMode (au_mode (se_auth se))),
            gw_rateLimit = (if rl_enabled (se_rateLimit se)
              then Some \<lparr>gr_perIP = ir_perIP (rl_ip (se_rateLimit se)), gr_perUser = ur_perUser (rl_user (se_rateLimit se))\<rparr>
              else None),
            gw_ssrfBlockPrivate = Some (pu_blockPrivateNetworks (se_push se)),
            gw_routingStrategy = Some (rt_mode (cf_routing c)),
            gw_server = Some \<lparr>gv_port = ln_port (cf_listen c),
              gv_graceful = (if sd_timeout sd > 0 \<or> sd_drainTimeout sd > 0
                then Some \<lparr>gg_timeout = durationString (sd_timeout sd), gg_drain = durationString (sd_drainTimeout sd)\<rparr>
                else None)\<rparr>,
            gw_observability = Some \<lparr>go_logLevel = lg_level (cf_logging c),
              go_audit = flt_less (Fin 0) (ac_samplingRate (lg_audit (cf_logging c)))\<rparr>,
            gw_tlsVerifyCards = (if cs_require (se_cardSignature se) then Some True else None)\<rparr>,
          migrationWarnings c)))"

definition eol :: string where "eol = [CHR 0x0A]"

definition migrationHeader :: "migration_warning list \<Rightarrow> string" where
  "migrationHeader ws = ''# Migrated from sentinel configuration'' @ eol @ ''# Generated by: sentinel migrate'' @ eol
     @ (if length ws > 0 then ''#'' @ eol @ ''# Warnings (manual adjustment needed):'' @ eol
          @ concat (map (\<lambda>w. ''#   - '' @ wn_field w @ '': '' @ wn_message w @ eol) ws) else [])
     @ eol"

text \<open>\<open>yaml\<close> is \<open>yaml.Marshal\<close>, \<open>None\<close> on an error.\<close>

definition Marshal :: "(gateway_config \<Rightarrow> string option) \<Rightarrow> gateway_config \<Rightarrow> migration_warning list \<Rightarrow> string option" where
  "Marshal yaml gw ws = map_option ((@) (migrationHeader ws)) (yaml gw)"

section \<open>The flag package\<close>

text \<open>
  \<open>flag.FlagSet.Parse\<close> with string and boolean flags, \<open>ContinueOnError\<close>: the flags set, in order, and the
  remaining arguments. \<open>kinds\<close> says which names are flags and whether they are boolean.
\<close>

datatype flag_result = FlagOK "(string \<times> string) list" "string list" | FlagHelp | FlagError

definition isParseBool :: "string \<Rightarrow> bool" where
  "isParseBool s \<longleftrightarrow> s \<in> {''1'', ''t'', ''T'', ''TRUE'', ''true'', ''True'', ''0'', ''f'', ''F'', ''FALSE'', ''false'', ''False''}"

definition boolValue :: "string \<Rightarrow> bool" where
  "boolValue s \<longleftrightarrow> s \<in> {''1'', ''t'', ''T'', ''TRUE'', ''true'', ''True''}"

definition flagName :: "string \<Rightarrow> string option" where
  "flagName a = (if length a < 2 \<or> \<not> hasPrefix a ''-'' then None
     else Some (if hasPrefix a ''--'' then drop 2 a else drop 1 a))"

fun flagParse :: "(string \<Rightarrow> bool option) \<Rightarrow> string list \<Rightarrow> (string \<times> string) list \<Rightarrow> flag_result" where
  "flagParse kinds [] acc = FlagOK acc []"
| "flagParse kinds (a # as) acc =
     (case flagName a of
        None \<Rightarrow> FlagOK acc (a # as)
      | Some n \<Rightarrow>
          if a = ''--'' then FlagOK acc as
          else if n = [] \<or> hasPrefix n ''-'' \<or> hasPrefix n ''='' then FlagError
          else (let nv = splitN2 n (CHR ''=''); name = hd nv in
            case kinds name of
              None \<Rightarrow> if name = ''help'' \<or> name = ''h'' then FlagHelp else FlagError
            | Some True \<Rightarrow>
                (let v = (if length nv = 2 then nv ! 1 else ''true'') in
                 if isParseBool v then flagParse kinds as (acc @ [(name, v)]) else FlagError)
            | Some False \<Rightarrow>
                if length nv = 2 then flagParse kinds as (acc @ [(name, nv ! 1)])
                else (case as of [] \<Rightarrow> FlagError | v # as' \<Rightarrow> flagParse kinds as' (acc @ [(name, v)]))))"

text \<open>The last setting of a flag counts.\<close>

definition flagValue :: "string \<Rightarrow> string \<Rightarrow> (string \<times> string) list \<Rightarrow> string" where
  "flagValue k d fs = (case map_of (rev fs) k of None \<Rightarrow> d | Some v \<Rightarrow> v)"

section \<open>Commands (main.go)\<close>

datatype cli_effect =
    Usage
  | PrintVersion
  | ErrorLine
  | ConfigValid
  | WroteProfile config
  | WroteFile string string
  | Stdout string
  | WarningLine migration_warning
  | Served config

record cli_env =
  cl_load :: "string \<Rightarrow> load_error + config"
  cl_new :: "config \<Rightarrow> bool"
  cl_start :: "config \<Rightarrow> bool"
  cl_write :: "string \<Rightarrow> bool"
  cl_yaml :: "gateway_config \<Rightarrow> string option"

definition generateProfile :: "string \<Rightarrow> config" where
  "generateProfile profile = (if profile = ''prod'' then ProdProfile else DevProfile)"

definition cmdServe :: "cli_env \<Rightarrow> string \<Rightarrow> int \<times> cli_effect list" where
  "cmdServe env path = (case cl_load env path of
      Inl e \<Rightarrow> (1, [ErrorLine])
    | Inr cfg \<Rightarrow>
        if \<not> cl_new env cfg then (1, [ErrorLine])
        else if \<not> cl_start env cfg then (1, [Served cfg, ErrorLine])
        else (0, [Served cfg]))"

definition cmdValidate :: "cli_env \<Rightarrow> string \<Rightarrow> int \<times> cli_effect list" where
  "cmdValidate env path = (case cl_load env path of Inl e \<Rightarrow> (1, [ErrorLine]) | Inr c \<Rightarrow> (0, [ConfigValid]))"

definition cmdInit :: "cli_env \<Rightarrow> string list \<Rightarrow> int \<times> cli_effect list" where
  "cmdInit env args = (case flagParse (\<lambda>n. if n = ''profile'' then Some False else None) args [] of
      FlagHelp \<Rightarrow> (0, [Usage])
    | FlagError \<Rightarrow> (1, [ErrorLine])
    | FlagOK fs rest \<Rightarrow>
        (let profile = flagValue ''profile'' ''dev'' fs in
         if profile \<noteq> ''dev'' \<and> profile \<noteq> ''prod'' then (1, [ErrorLine])
         else if \<not> cl_write env ''sentinel.yaml'' then (1, [ErrorLine])
         else (0, [WroteProfile (generateProfile profile)])))"

definition cmdMigrate :: "cli_env \<Rightarrow> string \<Rightarrow> string list \<Rightarrow> int \<times> cli_effect list" where
  "cmdMigrate env path args =
     (case flagParse (\<lambda>n. if n = ''output'' \<or> n = ''to'' then Some False else None) args [] of
        FlagHelp \<Rightarrow> (0, [Usage])
      | FlagError \<Rightarrow> (1, [ErrorLine])
      | FlagOK fs rest \<Rightarrow>
          (let output = flagValue ''output'' [] fs; to = flagValue ''to'' ''agentgateway'' fs in
           if to \<noteq> ''agentgateway'' then (1, [ErrorLine])
           else (case cl_load env path of
               Inl e \<Rightarrow> (1, [ErrorLine])
             | Inr cfg \<Rightarrow> (case Convert (Some cfg) of
                 Inl e \<Rightarrow> (1, [ErrorLine])
               | Inr (gw, ws) \<Rightarrow> (case Marshal (cl_yaml env) gw ws of
                   None \<Rightarrow> (1, [ErrorLine])
                 | Some data \<Rightarrow>
                     if output \<noteq> [] \<and> \<not> cl_write env output then (1, [ErrorLine])
                     else (0, (if output \<noteq> [] then WroteFile output data else Stdout data) # map WarningLine ws))))))"

definition run :: "cli_env \<Rightarrow> string list \<Rightarrow> int \<times> cli_effect list" where
  "run env args =
     (case flagParse (\<lambda>n. if n = ''config'' then Some False else if n = ''version'' then Some True else None) args [] of
        FlagHelp \<Rightarrow> (0, [Usage])
      | FlagError \<Rightarrow> (1, [ErrorLine])
      | FlagOK fs rest \<Rightarrow>
          (let path = flagValue ''config'' ''sentinel.yaml'' fs;
               subcmd = (case rest of [] \<Rightarrow> ''serve'' | c # _ \<Rightarrow> c);
               remaining = (case rest of [] \<Rightarrow> [] | _ # r \<Rightarrow> r) in
           if boolValue (flagValue ''version'' ''false'' fs) then (0, [PrintVersion])
           else if subcmd = ''serve'' then cmdServe env path
           else if subcmd = ''validate'' then cmdValidate env path
           else if subcmd = ''init'' then cmdInit env remaining
           else if subcmd = ''migrate'' then cmdMigrate env path remaining
           else if subcmd = ''help'' then (0, [Usage])
           else (1, [ErrorLine, Usage])))"

section \<open>Properties\<close>

lemma run_served:
  assumes "Served c \<in> set (snd (run env args))"
  shows "\<exists>path. cl_load env path = Inr c"
proof -
  have serve: "Served c \<in> set (snd (cmdServe env path)) \<Longrightarrow> cl_load env path = Inr c" for path
    by (auto simp: cmdServe_def split: sum.splits if_splits)
  have other: "Served c \<notin> set (snd (cmdValidate env path))" "Served c \<notin> set (snd (cmdInit env r))"
    "Served c \<notin> set (snd (cmdMigrate env path r))" for path r
    by (auto simp: cmdValidate_def cmdInit_def cmdMigrate_def Let_def
        split: sum.splits flag_result.splits if_splits option.splits prod.splits)
  show ?thesis
    using assms serve other by (auto simp: run_def Let_def split: flag_result.splits if_splits)
qed

definition exits :: "int \<times> cli_effect list \<Rightarrow> bool" where
  "exits x \<longleftrightarrow> fst x = (if ErrorLine \<in> set (snd x) then 1 else 0)"

lemma exits_simps [simp]:
  "exits (1, [ErrorLine])" "exits (0, [Usage])" "exits (0, [PrintVersion])" "exits (1, [ErrorLine, Usage])"
  by (simp_all add: exits_def)

lemma exits_commands [simp]:
  "exits (cmdServe env path)" "exits (cmdValidate env path)" "exits (cmdInit env r)" "exits (cmdMigrate env path r)"
proof -
  show "exits (cmdServe env path)" by (auto simp: exits_def cmdServe_def split: sum.splits)
  show "exits (cmdValidate env path)" by (auto simp: exits_def cmdValidate_def split: sum.splits)
  show "exits (cmdInit env r)" by (auto simp: exits_def cmdInit_def Let_def split: flag_result.splits)
  show "exits (cmdMigrate env path r)"
    by (auto simp: exits_def cmdMigrate_def Let_def split: sum.splits flag_result.splits option.splits)
qed

lemma run_exit: "exits (run env args)"
  by (simp add: run_def Let_def split: flag_result.split)

text \<open>C27: Whatever the arguments, the program exits with 1 when it has reported an error and with 0 when it has not,
  and it starts the server only with a configuration that \<open>Load\<close> returned: one that is well formed and has its
  defaults filled in.\<close>

theorem served_config_wf:
  assumes "cl_load env = Load readFile unmarshal statOK"
  shows "fst (run env args) = (if ErrorLine \<in> set (snd (run env args)) then 1 else 0)
    \<and> (\<forall>c. Served c \<in> set (snd (run env args)) \<longrightarrow> config_wf statOK c \<and> ApplyDefaults c = c)"
proof (intro conjI allI impI)
  show "fst (run env args) = (if ErrorLine \<in> set (snd (run env args)) then 1 else 0)"
    using run_exit by (simp add: exits_def)
next
  fix c
  assume "Served c \<in> set (snd (run env args))"
  from run_served[OF this] obtain path where "Load readFile unmarshal statOK path = Inr c" unfolding assms by blast
  then obtain c0 where c: "c = ApplyDefaults c0" and "config_wf statOK c" by (rule Load_ok)
  then show "config_wf statOK c" by simp
  show "ApplyDefaults c = c" unfolding c by (rule ApplyDefaults_fix)
qed

text \<open>The profiles of \<open>init\<close>: both pass the checks. The development profile turns the push checks off, and
  gets them on by the defaults. In the production profile the card of the example agent can never be
  fetched, required signatures are checked against no key, and replays are only warned about.\<close>

theorem init_profiles:
  "Validate statOK (ApplyDefaults DevProfile) = [] \<and> Validate statOK (ApplyDefaults ProdProfile) = []
   \<and> \<not> pu_blockPrivateNetworks (se_push (cf_security DevProfile))
   \<and> pu_blockPrivateNetworks (se_push (cf_security (ApplyDefaults DevProfile)))
   \<and> pu_requireHTTPS (se_push (cf_security (ApplyDefaults DevProfile)))
   \<and> (\<exists>a. cf_agents (ApplyDefaults ProdProfile) = [a] \<and> fetchCard env v (newAgentState a) = Inl InsecureURL)
   \<and> RequireSignature (NewJWSVerifier (se_cardSignature (cf_security (ApplyDefaults ProdProfile))))
   \<and> \<not> IsConfigured (NewJWSVerifier (se_cardSignature (cf_security (ApplyDefaults ProdProfile))))
   \<and> rp_noncePolicy (se_replay (cf_security (ApplyDefaults ProdProfile))) = ''warn''"
proof -
  have dev: "Validate statOK (ApplyDefaults DevProfile) = []"
    and prod: "Validate statOK (ApplyDefaults ProdProfile) = []"
    unfolding Validate_Nil_iff
    by (simp_all add: config_wf_def agent_wf_def DevProfile_def ProdProfile_def exampleAgent_def ApplyDefaults_def
        applyAgentDefaults_def applyListenDefaults_def applyReplayDefaults_def profileReplay_def profileAuth_def
        profilePush_def applyPushDefaults_def applyAuditDefaults_def dfltRate_def rate_wf_def dflt_def nanos_def Let_def)
  have agents: "cf_agents (ApplyDefaults ProdProfile) = [exampleAgent False]" by code_simp
  have "hasPrefix (buildCardURL ''http://localhost:9000'' ''/.well-known/agent.json'') ''http://''" by code_simp
  then have "fetchCard env v (newAgentState (exampleAgent False)) = Inl InsecureURL"
    by (simp add: fetchCard_def newAgentState_def exampleAgent_def Let_def)
  with agents have "\<exists>a. cf_agents (ApplyDefaults ProdProfile) = [a] \<and> fetchCard env v (newAgentState a) = Inl InsecureURL"
    by simp
  moreover have "\<not> pu_blockPrivateNetworks (se_push (cf_security DevProfile))"
    "pu_blockPrivateNetworks (se_push (cf_security (ApplyDefaults DevProfile)))"
    "pu_requireHTTPS (se_push (cf_security (ApplyDefaults DevProfile)))"
    "RequireSignature (NewJWSVerifier (se_cardSignature (cf_security (ApplyDefaults ProdProfile))))"
    "\<not> IsConfigured (NewJWSVerifier (se_cardSignature (cf_security (ApplyDefaults ProdProfile))))"
    "rp_noncePolicy (se_replay (cf_security (ApplyDefaults ProdProfile))) = ''warn''" by code_simp+
  ultimately show ?thesis using dev prod by blast
qed

text \<open>The migration: every warning names a section that is switched on and has no counterpart, but the
  policies, the JWT scheme, the push domains, the agents' change policies and the difference between the two
  passthrough modes are lost without one.\<close>

theorem migration_losses:
  "(\<forall>w\<in>set (migrationWarnings c). wn_field w = ''mcp.*'' \<and> mc_enabled (cf_mcp c)
      \<or> wn_field w = ''security.replay.*'' \<and> rp_enabled (se_replay (cf_security c))
      \<or> wn_field w = ''body_inspection.*'' \<and> bi_maxSize (cf_bodyInspection c) > 0)
   \<and> Convert (Some (c\<lparr>cf_security := (cf_security c)\<lparr>se_policies := ps,
        se_auth := (se_auth (cf_security c))\<lparr>au_schemes := schemes\<rparr>,
        se_push := (se_push (cf_security c))\<lparr>pu_allowedDomains := ds\<rparr>\<rparr>,
        cf_agents := map (\<lambda>a. a\<lparr>ag_cardChangePolicy := pol\<rparr>) (cf_agents c)\<rparr>)) = Convert (Some c)
   \<and> Convert (Some (c\<lparr>cf_security := (cf_security c)\<lparr>se_auth := (se_auth (cf_security c))\<lparr>au_mode := ''passthrough-strict''\<rparr>\<rparr>\<rparr>))
     = Convert (Some (c\<lparr>cf_security := (cf_security c)\<lparr>se_auth := (se_auth (cf_security c))\<lparr>au_mode := ''passthrough''\<rparr>\<rparr>\<rparr>))"
  by (auto simp: migrationWarnings_def Convert_def Let_def mapAuthMode_def comp_def split: if_splits)

section \<open>Witnesses\<close>

definition sampleCli :: cli_env where
  "sampleCli = \<lparr>cl_load = Load (\<lambda>_. Some []) (\<lambda>_. Some smallConfig) (\<lambda>_. False), cl_new = (\<lambda>_. True), cl_start = (\<lambda>_. True),
     cl_write = (\<lambda>_. True), cl_yaml = (\<lambda>_. Some ''backends: []'')\<rparr>"

lemma sampleCli_serves: "run sampleCli [''-config=x.yaml'', ''serve''] = (0, [Served (ApplyDefaults smallConfig)])"
  by code_simp

theorem served_config_wf_witness:
  "config_wf (\<lambda>_. False) (ApplyDefaults smallConfig) \<and> ErrorLine \<in> set (snd (run sampleCli [''server'']))"
proof -
  have load: "cl_load sampleCli = Load (\<lambda>_. Some []) (\<lambda>_. Some smallConfig) (\<lambda>_. False)" by (simp add: sampleCli_def)
  have "fst (run sampleCli [''server'']) = 1" by code_simp
  with served_config_wf[OF load, of "[''server'']", THEN conjunct1]
  have "ErrorLine \<in> set (snd (run sampleCli [''server'']))" by (simp split: if_splits)
  moreover have "Served (ApplyDefaults smallConfig) \<in> set (snd (run sampleCli [''-config=x.yaml'', ''serve'']))"
    unfolding sampleCli_serves by simp
  ultimately show ?thesis
    using served_config_wf[OF load, of "[''-config=x.yaml'', ''serve'']", THEN conjunct2] by blast
qed

theorem migration_losses_witness:
  "Convert (Some (ProdProfile\<lparr>cf_security := (cf_security ProdProfile)\<lparr>se_auth :=
      (se_auth (cf_security ProdProfile))\<lparr>au_mode := ''passthrough''\<rparr>\<rparr>\<rparr>)) = Convert (Some ProdProfile)"
proof -
  have "ProdProfile\<lparr>cf_security := (cf_security ProdProfile)\<lparr>se_auth :=
      (se_auth (cf_security ProdProfile))\<lparr>au_mode := ''passthrough-strict''\<rparr>\<rparr>\<rparr> = ProdProfile"
    by (simp add: ProdProfile_def profileAuth_def)
  with migration_losses[of ProdProfile] show ?thesis by simp
qed

text \<open>The usual commands.\<close>

lemma cli_examples:
  "run sampleCli [''--version''] = (0, [PrintVersion])"
  "run sampleCli [''init'', ''--profile'', ''prod''] = (0, [WroteProfile ProdProfile])"
  "run sampleCli [''init'', ''--profile'', ''test''] = (1, [ErrorLine])"
  "run sampleCli [''migrate'', ''--to'', ''x''] = (1, [ErrorLine])"
  "run sampleCli [''-h''] = (0, [Usage])"
  by code_simp+

end
