(* ===== verification/Spec2Isabelle.thy ===== *)
theory Spec2Isabelle
  imports Config_Reload Lifecycle Grpc_Server Cli
begin

text \<open>
  A verification library for a2a-sentinel, a security gateway for the A2A protocol: the program is modelled by
  functions and step relations translated from its Go sources, and the properties that make it correct, or
  show where it is not, are theorems about them.

  \<^bold>\<open>The program.\<close> A request to the gateway (\<open>internal/server\<close>) gets a localizer, passes the mux, which answers
  health and metrics itself (and refuses or redirects what it has no clean path or pattern for), and runs through the security pipeline (\<open>internal/security\<close>): global and per
  address limits, authentication, per user limits, policies, replay detection and the check of push URLs. What
  passes is classified (\<open>internal/protocol\<close>), routed to a healthy agent (\<open>internal/router\<close>) and forwarded
  (\<open>internal/proxy\<close>), as a plain request or as a stream that holds a slot; the outcome is logged
  (\<open>internal/audit\<close>). The manager of agent cards (\<open>internal/agentcard\<close>) polls the agents and decides which are
  healthy and which cards are served. Two more doors lead in: the gRPC binding (\<open>internal/grpc\<close>) with a
  pipeline of its own, and the MCP endpoint (\<open>internal/mcpserver\<close>, \<open>internal/server/mcpbridge.go\<close>) for
  management. The configuration (\<open>internal/config\<close>) is loaded once and may be reloaded; \<open>cmd/sentinel\<close> is the
  command line.

  \<^bold>\<open>Theories and sources.\<close>
  \<^item> \<open>Prelude\<close>: bytes, the strings package, Go maps as association lists, time; collections of hints.
  \<^item> \<open>Go_Net\<close>, \<open>Go_Url\<close>, \<open>Go_Time\<close>, \<open>Go_Json\<close>: addresses and networks on words, URLs, RFC 3339 times, and JSON
    with the decoding rules of structs. \<open>Http_Model\<close>: headers, requests, contexts (\<open>ctxkeys\<close>), responses.
  \<^item> \<open>I18n\<close>, \<open>Sentinel_Errors\<close>: \<open>internal/i18n\<close>, \<open>internal/errors\<close>.
  \<^item> \<open>Protocol\<close>: \<open>bodyinspect.go\<close>, \<open>jsonrpc.go\<close>, \<open>rest.go\<close>, \<open>detector.go\<close>.
  \<^item> \<open>Config\<close>, \<open>Config_Check\<close>, \<open>Config_Reload\<close>: the structures, defaults and checks with \<open>Load\<close>, and \<open>diff.go\<close>
    with \<open>reload.go\<close>, whose event loop is a step relation with a clock.
  \<^item> \<open>Middleware\<close>: what a middleware is and its contract. \<open>Client_IP\<close>, \<open>Rate_Limit\<close>, \<open>Auth\<close>, \<open>Policy\<close>, \<open>Replay\<close>,
    \<open>Ssrf\<close>: one file of \<open>internal/security\<close> each, with the decision of its middleware as a function of the
    request and its state. \<open>Pipeline\<close>: \<open>BuildPipeline\<close>, \<open>ApplyPipeline\<close> and the stages over one record of states.
  \<^item> \<open>Agent_Card\<close>, \<open>Card_Manager\<close>: the card, its changes and signatures, and the manager with runs of polls,
    approvals and rejections in any order. \<open>Router\<close>, \<open>Health\<close>: routing and readiness over the manager.
  \<^item> \<open>Streams\<close>, \<open>Sse\<close>, \<open>Proxy\<close>: the slots, the relay of a stream, and forwarding. The slots and the relay are step
    relations in which every access to shared state is a step.
  \<^item> \<open>Serve_Mux\<close>: the patterns of \<open>http.ServeMux\<close>, their registration and the dispatch, with what a match means.
  \<^item> \<open>Audit_Log\<close>, \<open>Server\<close>: \<open>internal/audit\<close>, and \<open>server.go\<close> with the composition of everything above.
  \<^item> \<open>Mcp_Tools\<close>, \<open>Mcp_Server\<close>, \<open>Mcp_Bridge\<close>: the tools over an abstract bridge, the endpoint, and the bridge.
  \<^item> \<open>Lifecycle\<close>: starting and stopping the gateway and the MCP server, with the draining of the streams, as traces
    of timed actions.
  \<^item> \<open>Grpc_Messages\<close>, \<open>Grpc_Server\<close>: \<open>translate.go\<close> with the message types of \<open>types.go\<close>; interceptors and server.
  \<^item> \<open>Cli\<close>: \<open>main.go\<close>, \<open>profiles.go\<close> and \<open>internal/migrate\<close>.

  \<^bold>\<open>How the model reads.\<close> A struct is a record, a pointer that may be nil an option, an error a value of a sum or
  an option. A Go map is an association list with distinct keys whose order is the order a range visits it, so
  that theorems hold for every order. Strings are lists of bytes. Integers whose width matters are words; the
  others are unbounded. A handler takes the request, the headers set so far and the state, and gives the
  response and the new state. Concurrency is a step relation whose steps are the atomic accesses of the code.
  The clock, the network, random numbers and library code outside the repository (JWT, JWS, YAML, Prometheus,
  structpb, the token buckets) are arguments, with what the code relies on as named hypotheses. The contexts of
  requests are cancelled by steps of the relay, which the reading of the backend may notice first.

  \<^bold>\<open>Interfaces.\<close> The locales are the contracts between components, each interpreted on the model:
  \<open>middleware\<close> (a decision keeps the request and blocks with a 4xx or 5xx), interpreted for every stage;
  \<open>cleaned_limiter\<close>, for the address and the user limiter; \<open>nonce_store\<close>, for the store in memory;
  \<open>agent_lookup\<close> and \<open>agent_health\<close>, for the adapters of the server over the card manager; \<open>stream_slots\<close>, for the
  slots; \<open>bridge_contract\<close>, for the bridge of the gateway.

  \<^bold>\<open>What the theorems show.\<close> For the pipeline: the handlers refine the sequence of decisions, nothing passes
  unauthenticated, and the gateway as a whole is guarded by it, up to what the mux answers or hands to the health
  and metrics handlers; for each stage what it lets through. For the
  cards: only verified ones are served, changes wait for approval, and over MCP only a request with the token
  decides on them. For routing and proxying: requests go to healthy configured agents, slots are bounded, the
  relay is transparent and ends, the shutdown keeps its deadlines but for gRPC calls, and after a clean end nothing
  runs but what could not be stopped. For gRPC: the events of a stream are delivered in
  order up to the first that cannot be sent, and messages are kept where structpb keeps them. For the
  configuration: the checks report exactly the defects, loading and serving give only
  well formed ones, reloads are bounded by their triggers. Several theorems state what the code does where it
  does not do what it means to: nonces accepted twice by concurrent requests, policies on methods that never
  match, push registrations not checked under a path prefix or over gRPC, streams started while draining. Where
  the documents under \<open>docs\<close> say something else (the order of policies, allowed push domains, the client
  address, single mode, the details of gRPC errors), the theorems are about the code and their texts say so.

  \<^bold>\<open>Bounds and fuel.\<close> The JSON parser recurses on fuel of twice the length of the text plus two; every second call
  consumes a byte, so it is enough, and deeper nesting than 10000 is refused as by \<open>encoding/json\<close>. The parser of
  IPv6 addresses runs the eight rounds an address can have. No other definition has fuel.

  \<^bold>\<open>Not modelled.\<close> Accepting and serving connections (\<open>net/http\<close>, \<open>grpc\<close>), the slog handlers, the
  transports of \<open>internal/proxy/transport.go\<close>, the rendering of metrics, YAML and usage texts, and generated code.
  Of the standard library, the bytes of encoded JSON are values of a datatype rather than text, Unicode case
  folding is exact for ASCII, and the decoding of cards and tasks is an argument.
\<close>

end
